(* ===== verification/Prelude.thy ===== *)
theory Prelude
  imports Main "HOL-Library.Monad_Syntax"
begin

text \<open>
  What every component of the ProbData model shares.

  \<^item> Effects. A C++ function becomes a HOL function that takes the state it reads and
    returns the state it writes. Its result is an \<open>option\<close>: \<open>None\<close> stands for
    undefined behaviour of the C++ program (an access outside an array, a read of an
    indeterminate value, a signed overflow, a conversion that does not fit), so that a
    theorem \<open>f x = Some y\<close> also says that the call is free of it. Return codes are the
    integers the code returns.
  \<^item> Machine integers. \<open>int\<close> of C++ is the type \<open>int\<close> with \<open>c_int\<close> around every
    operation that may leave the 32-bit range.
  \<^item> Control flow. \<open>ctl\<close> is how a part of a loop body ends.
  \<^item> Contracts. The locales \<open>decreasing_loop\<close>, \<open>terminating_loop\<close> and \<open>simulation\<close>.
\<close>

subsection \<open>Collections of facts\<close>

named_theorems dbl_simps \<open>values of double operations on finite arguments\<close>
named_theorems c_simps \<open>evaluation of the C library functions of the model\<close>

subsection \<open>The 32-bit \<open>int\<close>\<close>

definition INT_MAX :: int where
  "INT_MAX = 2147483647"

definition INT_MIN :: int where
  "INT_MIN = - 2147483648"

definition in_int :: "int \<Rightarrow> bool" where
  "in_int n \<longleftrightarrow> INT_MIN \<le> n \<and> n \<le> INT_MAX"

definition c_int :: "int \<Rightarrow> int option" where
  "c_int n = (if in_int n then Some n else None)"

lemma c_int_Some_iff [simp]: "c_int n = Some m \<longleftrightarrow> in_int n \<and> m = n"
  by (auto simp: c_int_def)

lemma c_int_in: "in_int n \<Longrightarrow> c_int n = Some n"
  by simp

lemma in_intI: "- 2147483648 \<le> n \<Longrightarrow> n \<le> 2147483647 \<Longrightarrow> in_int n"
  by (simp add: in_int_def INT_MAX_def INT_MIN_def)

lemma in_int_numeral [simp]:
  "in_int 0" "in_int 1" "in_int (numeral k) \<longleftrightarrow> numeral k \<le> (2147483647 :: int)"
  "in_int (- numeral k) \<longleftrightarrow> numeral k \<le> (2147483648 :: int)" "in_int (- 1)"
  by (simp_all add: in_int_def INT_MAX_def INT_MIN_def)

subsection \<open>Control flow inside a loop body\<close>

text \<open>
  A part of a loop body either falls through (\<open>Next\<close>), leaves the loop (\<open>Break\<close>) or
  returns from the function with a code (\<open>Return\<close>); the state comes along.
\<close>

datatype 's ctl = Next 's | Break 's | Return int 's

fun ctl_state :: "'s ctl \<Rightarrow> 's" where
  "ctl_state (Next s) = s"
| "ctl_state (Break s) = s"
| "ctl_state (Return _ s) = s"

text \<open>Sequencing: the rest of the body runs only when the part before it falls through.\<close>

fun ctl_then :: "'s ctl \<Rightarrow> ('s \<Rightarrow> 's ctl option) \<Rightarrow> 's ctl option" where
  "ctl_then (Next s) f = f s"
| "ctl_then (Break s) f = Some (Break s)"
| "ctl_then (Return r s) f = Some (Return r s)"

lemma ctl_then_Next:
  "ctl_then c f = Some (Next t) \<longleftrightarrow> (\<exists>s. c = Next s \<and> f s = Some (Next t))"
  by (cases c) auto

lemma ctl_then_cases:
  assumes "ctl_then c f = Some d"
  obtains s where "c = Next s" "f s = Some d"
  | s where "c = Break s" "d = Break s"
  | r s where "c = Return r s" "d = Return r s"
  using assms by (cases c) auto

subsection \<open>Loops\<close>

text \<open>
  A loop of the program: run the body until it leaves the loop or returns. The result is
  \<open>None\<close> when an iteration is undefined and also when the loop never ends, so a theorem
  \<open>run_loop body s = Some c\<close> includes termination.
\<close>

partial_function (option) run_loop :: "('s \<Rightarrow> 's ctl option) \<Rightarrow> 's \<Rightarrow> 's ctl option" where
  "run_loop body s =
     (case body s of
        None \<Rightarrow> None
      | Some c \<Rightarrow>
          (case c of Next t \<Rightarrow> run_loop body t | Break t \<Rightarrow> Some (Break t)
           | Return r t \<Rightarrow> Some (Return r t)))"

lemma run_loop_unfold:
  "run_loop body s =
     (case body s of None \<Rightarrow> None | Some (Next t) \<Rightarrow> run_loop body t | Some c \<Rightarrow> Some c)"
  by (subst run_loop.simps) (auto split: option.splits ctl.splits)

text \<open>What holds initially, is kept by every iteration and is passed on by the last one.\<close>

lemma run_loop_invariant:
  assumes result: "run_loop body s = Some c"
    and init: "I s"
    and step: "\<And>s t. I s \<Longrightarrow> body s = Some (Next t) \<Longrightarrow> I t"
    and last: "\<And>s d. I s \<Longrightarrow> body s = Some d \<Longrightarrow> (\<forall>t. d \<noteq> Next t) \<Longrightarrow> Q d"
  shows "Q c"
proof -
  have "I s \<longrightarrow> Q c"
  proof (rule run_loop.raw_induct [where P = "\<lambda>b s c. b = body \<longrightarrow> I s \<longrightarrow> Q c",
        OF _ result, THEN mp, OF _ refl])
    fix run b s c
    assume IH: "\<And>b s c. run b s = Some c \<Longrightarrow> b = body \<longrightarrow> I s \<longrightarrow> Q c"
      and eq: "(case b s of None \<Rightarrow> None
        | Some c \<Rightarrow> (case c of Next t \<Rightarrow> run b t | Break t \<Rightarrow> Some (Break t)
            | Return r t \<Rightarrow> Some (Return r t))) = Some c"
    show "b = body \<longrightarrow> I s \<longrightarrow> Q c"
    proof (intro impI)
      assume b: "b = body" and I: "I s"
      then obtain d where d: "body s = Some d" using eq by (cases "body s") auto
      show "Q c"
      proof (cases d)
        case (Next t)
        then show ?thesis using IH [of b t c] eq b d step [OF I] I by simp
      qed (use last [OF I d] eq b d in auto)
    qed
  qed
  with init show ?thesis by blast
qed

text \<open>The states at which an iteration of the loop begins.\<close>

inductive loop_reaches :: "('s \<Rightarrow> 's ctl option) \<Rightarrow> 's \<Rightarrow> 's \<Rightarrow> bool" for body where
  start: "loop_reaches body s s"
| again: "loop_reaches body s t \<Longrightarrow> body t = Some (Next u) \<Longrightarrow> loop_reaches body s u"

lemma loop_reaches_step:
  "loop_reaches body t u \<Longrightarrow> body s = Some (Next t) \<Longrightarrow> loop_reaches body s u"
  by (induction rule: loop_reaches.induct) (auto intro: loop_reaches.intros)

lemma loop_reaches_invariant:
  assumes "loop_reaches body s t" "I s" "\<And>s t. I s \<Longrightarrow> body s = Some (Next t) \<Longrightarrow> I t"
  shows "I t"
  using assms by (induction rule: loop_reaches.induct) auto

lemma run_loop_last:
  assumes "run_loop body s = Some c"
  shows "\<exists>t. loop_reaches body s t \<and> body t = Some c \<and> (\<forall>u. c \<noteq> Next u)"
  by (rule run_loop_invariant [OF assms, of "loop_reaches body s"])
     (auto intro: loop_reaches.intros)

text \<open>
  The contract of a loop that cannot go on forever: a variant that every further iteration
  decreases, under an invariant. The only way for such a loop not to return is an undefined
  iteration.
\<close>

locale decreasing_loop =
  fixes body :: "'s \<Rightarrow> 's ctl option"
    and good :: "'s \<Rightarrow> bool"
    and variant :: "'s \<Rightarrow> nat"
  assumes good_step: "good s \<Longrightarrow> body s = Some (Next t) \<Longrightarrow> good t"
    and decreases: "good s \<Longrightarrow> body s = Some (Next t) \<Longrightarrow> variant t < variant s"
begin

lemma good_reaches: "loop_reaches body s t \<Longrightarrow> good s \<Longrightarrow> good t"
  by (rule loop_reaches_invariant) (auto intro: good_step)

lemma ends:
  assumes "good s"
  shows "(\<exists>c. run_loop body s = Some c) \<or> (\<exists>t. loop_reaches body s t \<and> body t = None)"
  using assms
proof (induction "variant s" arbitrary: s rule: less_induct)
  case less
  show ?case
  proof (cases "body s")
    case None
    then show ?thesis by (auto intro: loop_reaches.start)
  next
    case (Some c)
    show ?thesis
    proof (cases c)
      case (Next t)
      with Some less have "(\<exists>c. run_loop body t = Some c) \<or> (\<exists>u. loop_reaches body t u \<and> body u = None)"
        by (simp add: decreases good_step)
      with Some Next show ?thesis
        by (subst run_loop_unfold) (auto intro: loop_reaches_step)
    qed (use Some in \<open>subst run_loop_unfold, simp\<close>)+
  qed
qed

end

text \<open>When the invariant also makes every iteration defined, the loop returns.\<close>

locale terminating_loop = decreasing_loop body good variant
  for body :: "'s \<Rightarrow> 's ctl option" and good :: "'s \<Rightarrow> bool" and variant :: "'s \<Rightarrow> nat" +
  assumes defined: "good s \<Longrightarrow> body s \<noteq> None"
begin

lemma returns: "good s \<Longrightarrow> \<exists>c. run_loop body s = Some c"
  using ends defined good_reaches by blast

end

subsection \<open>Refinement\<close>

text \<open>
  The contract of a system that implements an abstract one: in the good states every step is,
  seen through the abstraction, a step of the abstract system or none at all.
\<close>

locale simulation =
  fixes step :: "'s \<Rightarrow> 's \<Rightarrow> bool"
    and abstract_step :: "'a \<Rightarrow> 'a \<Rightarrow> bool"
    and abstraction :: "'s \<Rightarrow> 'a"
    and good :: "'s \<Rightarrow> bool"
  assumes good_kept: "good s \<Longrightarrow> step s t \<Longrightarrow> good t"
    and simulates: "good s \<Longrightarrow> step s t \<Longrightarrow> abstract_step\<^sup>=\<^sup>= (abstraction s) (abstraction t)"
begin

lemma reaches:
  assumes "step\<^sup>*\<^sup>* s t" "good s"
  shows "abstract_step\<^sup>*\<^sup>* (abstraction s) (abstraction t) \<and> good t"
  using assms
proof (induction rule: rtranclp_induct)
  case (step t u)
  then have "abstract_step\<^sup>=\<^sup>= (abstraction t) (abstraction u)" "good u"
    using simulates good_kept by blast+
  with step show ?case by (auto intro: rtranclp.rtrancl_into_rtrancl)
qed simp

text \<open>What the abstract system keeps holds of the abstraction of every state that is reached.\<close>

lemma invariant:
  assumes "step\<^sup>*\<^sup>* s t" "good s" "P (abstraction s)" "\<And>a b. P a \<Longrightarrow> abstract_step a b \<Longrightarrow> P b"
  shows "P (abstraction t)"
proof -
  have "abstract_step\<^sup>*\<^sup>* (abstraction s) (abstraction t)" using reaches [OF assms(1,2)] ..
  then show ?thesis by (induction rule: rtranclp_induct) (auto intro: assms(3,4))
qed

end

end
