(* ===== verification/Double.thy ===== *)
theory Double
  imports Prelude "HOL-Library.Log_Nat"
begin

text \<open>
  Binary64 arithmetic of C's \<open>double\<close> (round to nearest, ties to even).
\<close>

abbreviation pow2 :: "int \<Rightarrow> rat" where
  "pow2 e \<equiv> 2 powi e"

lemma pow2_pos [simp]: "0 < pow2 e"
  by (simp add: zero_less_power_int)

lemma pow2_mono: "i \<le> j \<Longrightarrow> pow2 i \<le> pow2 j"
  by (rule power_int_increasing) auto

lemma pow2_less_iff: "pow2 i < pow2 j \<longleftrightarrow> i < j"
  by (metis linorder_not_less one_less_numeral_iff order_less_le pow2_mono power_int_strict_increasing semiring_norm(76))

lemma pow2_add: "pow2 (i + j) = pow2 i * pow2 j"
  by (simp add: power_int_add)

lemma pow2_diff: "pow2 (i - j) = pow2 i / pow2 j"
  by (simp add: power_int_diff)

lemma pow2_nat: "0 \<le> e \<Longrightarrow> pow2 e = of_int (2 ^ nat e)"
  by (simp add: power_int_def)

subsection \<open>The exponent of a positive rational\<close>

definition ilog2 :: "rat \<Rightarrow> int" where
  "ilog2 x = (let (n, d) = quotient_of x; e = bitlen n - bitlen d
              in if pow2 e \<le> x then e else e - 1)"

lemma ilog2_bounds:
  assumes "0 < x"
  shows "pow2 (ilog2 x) \<le> x" and "x < pow2 (ilog2 x + 1)"
proof -
  obtain n d where q: "quotient_of x = (n, d)" by force
  have d: "0 < d" using quotient_of_denom_pos [OF q] .
  have x: "x = of_int n / of_int d" using quotient_of_div [OF q] .
  have n: "0 < n" using assms d by (simp add: x zero_less_divide_iff)
  let ?bn = "bitlen n" and ?bd = "bitlen d"
  have bpos: "0 < ?bn" "0 < ?bd"
    using n d bitlen_eq_zero_iff [of n] bitlen_eq_zero_iff [of d] bitlen_nonneg [of n] bitlen_nonneg [of d]
    by linarith+
  have bn: "pow2 (?bn - 1) \<le> of_int n" "of_int n < pow2 ?bn"
    using bitlen_bounds [OF n] bpos
    by (simp_all add: pow2_nat del: of_int_power)
  have bd: "pow2 (?bd - 1) \<le> of_int d" "of_int d < pow2 ?bd"
    using bitlen_bounds [OF d] bpos
    by (simp_all add: pow2_nat del: of_int_power)
  have dr: "0 < (of_int d :: rat)" using d by simp
  have lo: "pow2 (?bn - ?bd - 1) \<le> x"
  proof -
    have "pow2 (?bn - ?bd - 1) * of_int d \<le> pow2 (?bn - ?bd - 1) * pow2 ?bd"
      using bd(2) by (intro mult_left_mono) auto
    also have "\<dots> = pow2 (?bn - 1)" by (simp flip: pow2_add)
    also have "\<dots> \<le> of_int n" by (rule bn)
    finally show ?thesis using dr by (simp add: x le_divide_eq)
  qed
  have hi: "x < pow2 (?bn - ?bd + 1)"
  proof -
    have "of_int n < pow2 ?bn" by (rule bn)
    also have "\<dots> = pow2 (?bn - ?bd + 1) * pow2 (?bd - 1)" by (simp flip: pow2_add)
    also have "\<dots> \<le> pow2 (?bn - ?bd + 1) * of_int d"
      using bd(1) by (intro mult_left_mono) auto
    finally show ?thesis using dr by (simp add: x divide_less_eq)
  qed
  show "pow2 (ilog2 x) \<le> x" "x < pow2 (ilog2 x + 1)"
    using lo hi by (auto simp: ilog2_def q Let_def)
qed

lemma ilog2_ge: "0 < x \<Longrightarrow> pow2 k \<le> x \<Longrightarrow> k \<le> ilog2 x"
  using ilog2_bounds(2) [of x] by (metis le_less_trans pow2_less_iff zless_add1_eq linorder_not_less order_less_le)

lemma ilog2_less: "0 < x \<Longrightarrow> x < pow2 k \<Longrightarrow> ilog2 x < k"
  using ilog2_bounds(1) [of x] by (metis le_less_trans pow2_less_iff)

lemma ilog2_mono: "0 < x \<Longrightarrow> x \<le> y \<Longrightarrow> ilog2 x \<le> ilog2 y"
  by (meson ilog2_bounds(1) ilog2_ge less_le_trans order_trans)

subsection \<open>Rounding to the nearest representable value\<close>

definition rne :: "rat \<Rightarrow> int" where
  "rne y = (let f = \<lfloor>y\<rfloor>; d = y - of_int f
            in if d < 1 / 2 then f else if 1 / 2 < d then f + 1
               else if even f then f else f + 1)"

lemma rne_of_int [simp]: "rne (of_int n) = n"
  by (simp add: rne_def)

lemma rne_mono: "x \<le> y \<Longrightarrow> rne x \<le> rne y"
proof -
  assume xy: "x \<le> y"
  then have f: "\<lfloor>x\<rfloor> \<le> \<lfloor>y\<rfloor>" by (rule floor_mono)
  have up: "rne x \<le> \<lfloor>x\<rfloor> + 1" and dn: "\<lfloor>y\<rfloor> \<le> rne y"
    by (simp_all add: rne_def Let_def)
  show ?thesis
  proof (cases "\<lfloor>x\<rfloor> = \<lfloor>y\<rfloor>")
    case True
    with xy show ?thesis by (auto simp: rne_def Let_def)
  next
    case False
    with f up dn show ?thesis by linarith
  qed
qed

lemma rne_uminus: "rne (- y) = - rne y"
proof (cases "y = of_int \<lfloor>y\<rfloor>")
  case True
  then have "rne (- y) = rne (of_int (- \<lfloor>y\<rfloor>))" by simp
  also have "\<dots> = - rne (of_int \<lfloor>y\<rfloor>)" by (simp only: rne_of_int)
  finally show ?thesis using True by simp
next
  case False
  then have "\<lfloor>- y\<rfloor> = - \<lfloor>y\<rfloor> - 1"
    by (metis ceiling_altdef ceiling_def floor_minus diff_conv_add_uminus minus_add_distrib)
  then show ?thesis
    by (auto simp: rne_def Let_def)
qed

definition rexp :: "rat \<Rightarrow> int" where
  "rexp x = max (ilog2 \<bar>x\<bar> - 52) (- 1074)"

definition rnd :: "rat \<Rightarrow> rat" where
  "rnd x = (if x = 0 then 0 else of_int (rne (x / pow2 (rexp x))) * pow2 (rexp x))"

lemma rnd_0 [simp]: "rnd 0 = 0"
  by (simp add: rnd_def)

lemma rnd_uminus [simp]: "rnd (- x) = - rnd x"
  by (simp add: rnd_def rexp_def rne_uminus)

text \<open>A multiple of the spacing at \<open>x\<close> is not crossed by rounding.\<close>

lemma rnd_le_multiple:
  assumes "0 < x" "x \<le> of_int m * pow2 (rexp x)"
  shows "rnd x \<le> of_int m * pow2 (rexp x)"
proof -
  have "rne (x / pow2 (rexp x)) \<le> rne (of_int m)"
    using assms by (intro rne_mono) (simp add: divide_le_eq)
  then show ?thesis using assms by (simp add: rnd_def)
qed

lemma rnd_ge_multiple:
  assumes "0 < x" "of_int m * pow2 (rexp x) \<le> x"
  shows "of_int m * pow2 (rexp x) \<le> rnd x"
proof -
  have "rne (of_int m) \<le> rne (x / pow2 (rexp x))"
    using assms by (intro rne_mono) (simp add: le_divide_eq)
  then show ?thesis using assms by (simp add: rnd_def)
qed

lemma pow2_multiple: "k \<le> e \<Longrightarrow> pow2 e = of_int (2 ^ nat (e - k)) * pow2 k"
  by (simp add: pow2_nat [of "e - k", symmetric] flip: pow2_add del: of_int_power)

lemma rnd_mono_pos:
  assumes "0 < x" "x \<le> y"
  shows "rnd x \<le> rnd y"
proof -
  have y: "0 < y" using assms by simp
  have e: "ilog2 x \<le> ilog2 y" using assms by (rule ilog2_mono)
  show ?thesis
  proof (cases "rexp x = rexp y")
    case True
    have "rne (x / pow2 (rexp x)) \<le> rne (y / pow2 (rexp x))"
      using assms by (intro rne_mono divide_right_mono) (auto intro: less_imp_le)
    with True assms y show ?thesis by (simp add: rnd_def)
  next
    case False
    with e assms y have lt: "ilog2 x < ilog2 y" and ry: "rexp y = ilog2 y - 52"
      and rx: "rexp x \<le> ilog2 y" by (auto simp: rexp_def)
    have "x < pow2 (ilog2 x + 1)" using assms(1) by (rule ilog2_bounds)
    also have "\<dots> \<le> pow2 (ilog2 y)" using lt by (intro pow2_mono) simp
    finally have "x \<le> of_int (2 ^ nat (ilog2 y - rexp x)) * pow2 (rexp x)"
      using pow2_multiple [OF rx] by simp
    from rnd_le_multiple [OF assms(1) this] have "rnd x \<le> pow2 (ilog2 y)"
      using pow2_multiple [OF rx] by simp
    also have "\<dots> \<le> rnd y"
      using rnd_ge_multiple [OF y, of "2 ^ nat (ilog2 y - rexp y)"] ilog2_bounds(1) [OF y]
        pow2_multiple [of "rexp y" "ilog2 y"] ry by simp
    finally show ?thesis .
  qed
qed

lemma rnd_nonneg: "0 \<le> x \<Longrightarrow> 0 \<le> rnd x"
  using rnd_ge_multiple [of x 0] by (cases "x = 0") auto

lemma rnd_mono: "x \<le> y \<Longrightarrow> rnd x \<le> rnd y"
proof -
  assume xy: "x \<le> y"
  consider "0 < x" | "x \<le> 0" "0 \<le> y" | "y < 0" by linarith
  then show ?thesis
  proof cases
    case 1 then show ?thesis using xy by (rule rnd_mono_pos)
  next
    case 2
    then have "0 \<le> rnd (- x)" "0 \<le> rnd y" by (simp_all add: rnd_nonneg del: rnd_uminus)
    then show ?thesis by simp
  next
    case 3
    then have "rnd (- y) \<le> rnd (- x)" using xy by (intro rnd_mono_pos) auto
    then show ?thesis by simp
  qed
qed

definition representable :: "rat \<Rightarrow> bool" where
  "representable x \<longleftrightarrow> (\<exists>m p. x = of_int m * pow2 p \<and> \<bar>m\<bar> \<le> 2 ^ 53 \<and> - 1074 \<le> p)"

lemma representableI: "\<bar>m\<bar> \<le> 2 ^ 53 \<Longrightarrow> - 1074 \<le> p \<Longrightarrow> representable (of_int m * pow2 p)"
  by (auto simp: representable_def)

lemma rnd_representable:
  assumes "representable x"
  shows "rnd x = x"
proof (cases "x = 0")
  case False
  obtain m p where x: "x = of_int m * pow2 p" and m: "\<bar>m\<bar> \<le> 2 ^ 53" and p: "- 1074 \<le> p"
    using assms by (auto simp: representable_def)
  have ax: "\<bar>x\<bar> = of_int \<bar>m\<bar> * pow2 p" by (simp add: x abs_mult)
  have "of_int \<bar>m\<bar> \<le> (of_int (2 ^ 53) :: rat)" using m by (simp only: of_int_le_iff)
  also have "\<dots> = pow2 53" by (simp add: pow2_nat)
  finally have "\<bar>x\<bar> \<le> pow2 (53 + p)"
    unfolding ax pow2_add by (intro mult_right_mono) auto
  with False have e: "ilog2 \<bar>x\<bar> \<le> 53 + p"
    by (metis ilog2_bounds(1) order.trans zero_less_abs_iff pow2_less_iff linorder_not_less)
  have "\<exists>n. x = of_int n * pow2 (rexp x)"
  proof (cases "rexp x \<le> p")
    case True
    show ?thesis
      by (rule exI [of _ "m * 2 ^ nat (p - rexp x)"]) (use pow2_multiple [OF True] in \<open>simp add: x\<close>)
  next
    case gt: False
    with e p have r: "rexp x = p + 1" and e': "ilog2 \<bar>x\<bar> = 53 + p" by (auto simp: rexp_def)
    have "pow2 (ilog2 \<bar>x\<bar>) \<le> \<bar>x\<bar>" using False by (intro ilog2_bounds(1)) simp
    then have "pow2 53 * pow2 p \<le> of_int \<bar>m\<bar> * pow2 p"
      by (simp only: e' ax [symmetric] pow2_add [symmetric])
    then have "pow2 53 \<le> of_int \<bar>m\<bar>"
      using mult_le_cancel_right_pos [OF pow2_pos] by blast
    then have "of_int (2 ^ 53) \<le> (of_int \<bar>m\<bar> :: rat)" by (simp add: pow2_nat)
    with m have "m = 2 ^ 53 \<or> m = - (2 ^ 53)" by (simp only: of_int_le_iff) linarith
    then have "x = of_int (sgn m * 2 ^ 52) * pow2 (p + 1)"
      by (auto simp: x pow2_add)
    with r have "x = of_int (sgn m * 2 ^ 52) * pow2 (rexp x)" by (simp only:)
    then show ?thesis ..
  qed
  then obtain n where n: "x = of_int n * pow2 (rexp x)" ..
  then have "x / pow2 (rexp x) = of_int n" using pow2_pos [of "rexp x"] by (simp add: field_simps)
  with n False show ?thesis by (simp add: rnd_def)
qed simp

lemma representable_of_int: "\<bar>n\<bar> \<le> 2 ^ 53 \<Longrightarrow> representable (of_int n)"
  using representableI [of n 0] by simp

lemma representable_rnd: "representable (rnd x)"
proof (cases "x = 0")
  case True
  then show ?thesis using representable_of_int [of 0] by simp
next
  case False
  let ?y = "x / pow2 (rexp x)"
  have "\<bar>x\<bar> < pow2 (ilog2 \<bar>x\<bar> + 1)" using False by (intro ilog2_bounds(2)) simp
  also have "\<dots> \<le> pow2 (53 + rexp x)" by (intro pow2_mono) (simp add: rexp_def)
  finally have "\<bar>x\<bar> \<le> of_int (2 ^ 53) * pow2 (rexp x)" by (simp add: pow2_add pow2_nat)
  then have "?y \<le> of_int (2 ^ 53)" "- of_int (2 ^ 53) \<le> ?y"
    by (auto simp: divide_le_eq le_divide_eq)
  then have "rne ?y \<le> rne (of_int (2 ^ 53))" "rne (of_int (- (2 ^ 53))) \<le> rne ?y"
    by (auto intro: rne_mono simp del: rne_of_int)
  then have "\<bar>rne ?y\<bar> \<le> 2 ^ 53" unfolding rne_of_int by linarith
  then have "representable (of_int (rne ?y) * pow2 (rexp x))"
    by (rule representableI) (simp add: rexp_def)
  with False show ?thesis by (simp add: rnd_def)
qed

lemma rnd_idem [simp]: "rnd (rnd x) = rnd x"
  by (simp add: rnd_representable representable_rnd)

lemma rnd_of_int: "\<bar>n\<bar> \<le> 2 ^ 53 \<Longrightarrow> rnd (of_int n) = of_int n"
  by (simp add: rnd_representable representable_of_int)

lemma rnd_le_rep: "representable y \<Longrightarrow> x \<le> y \<Longrightarrow> rnd x \<le> y"
  using rnd_mono [of x y] by (simp add: rnd_representable)

lemma rnd_ge_rep: "representable y \<Longrightarrow> y \<le> x \<Longrightarrow> y \<le> rnd x"
  using rnd_mono [of y x] by (simp add: rnd_representable)

subsection \<open>Values and operations\<close>

text \<open>
  \<open>Fin 0\<close> is \<open>+0.0\<close> and \<open>NegZero\<close> is \<open>-0.0\<close>; a non-zero finite value is
  \<open>Fin r\<close> with \<open>r\<close> representable.
\<close>

datatype dbl = NaN | PInf | MInf | NegZero | Fin rat

fun dval :: "dbl \<Rightarrow> rat" where
  "dval (Fin r) = r"
| "dval _ = 0"

fun dfin :: "dbl \<Rightarrow> bool" where
  "dfin (Fin r) = True"
| "dfin NegZero = True"
| "dfin _ = False"

fun dsign :: "dbl \<Rightarrow> bool" where
  "dsign (Fin r) = (r < 0)"
| "dsign NegZero = True"
| "dsign MInf = True"
| "dsign _ = False"

definition round64 :: "rat \<Rightarrow> dbl" where
  "round64 x =
     (let r = rnd x
      in if 2 ^ 1024 \<le> r then PInf
         else if r \<le> - (2 ^ 1024) then MInf
         else if r = 0 \<and> x < 0 then NegZero
         else Fin r)"

definition dinf :: "bool \<Rightarrow> dbl" where
  "dinf s = (if s then MInf else PInf)"

definition dzero :: "bool \<Rightarrow> dbl" where
  "dzero s = (if s then NegZero else Fin 0)"

definition d_of_int :: "int \<Rightarrow> dbl" where
  "d_of_int n = round64 (of_int n)"

fun dneg :: "dbl \<Rightarrow> dbl" where
  "dneg NaN = NaN"
| "dneg PInf = MInf"
| "dneg MInf = PInf"
| "dneg NegZero = Fin 0"
| "dneg (Fin r) = (if r = 0 then NegZero else Fin (- r))"

fun dabs :: "dbl \<Rightarrow> dbl" where
  "dabs NaN = NaN"
| "dabs PInf = PInf"
| "dabs MInf = PInf"
| "dabs NegZero = Fin 0"
| "dabs (Fin r) = Fin \<bar>r\<bar>"

definition dadd :: "dbl \<Rightarrow> dbl \<Rightarrow> dbl" where
  "dadd a b =
     (if a = NaN \<or> b = NaN then NaN
      else if \<not> dfin a then (if \<not> dfin b \<and> a \<noteq> b then NaN else a)
      else if \<not> dfin b then b
      else if a = NegZero \<and> b = NegZero then NegZero
      else round64 (dval a + dval b))"

definition dsub :: "dbl \<Rightarrow> dbl \<Rightarrow> dbl" where
  "dsub a b = dadd a (dneg b)"

definition dmul :: "dbl \<Rightarrow> dbl \<Rightarrow> dbl" where
  "dmul a b =
     (let s = (dsign a \<noteq> dsign b)
      in if a = NaN \<or> b = NaN then NaN
         else if dfin a \<and> dfin b
           then (if dval a * dval b = 0 then dzero s else round64 (dval a * dval b))
         else if (dfin a \<and> dval a = 0) \<or> (dfin b \<and> dval b = 0) then NaN
         else dinf s)"

definition ddiv :: "dbl \<Rightarrow> dbl \<Rightarrow> dbl" where
  "ddiv a b =
     (let s = (dsign a \<noteq> dsign b)
      in if a = NaN \<or> b = NaN then NaN
         else if \<not> dfin a then (if \<not> dfin b then NaN else dinf s)
         else if \<not> dfin b then dzero s
         else if dval b = 0 then (if dval a = 0 then NaN else dinf s)
         else if dval a = 0 then dzero s
         else round64 (dval a / dval b))"

text \<open>Comparisons: every comparison with a NaN is false.\<close>

fun dlt :: "dbl \<Rightarrow> dbl \<Rightarrow> bool" where
  "dlt NaN _ = False"
| "dlt _ NaN = False"
| "dlt PInf _ = False"
| "dlt _ MInf = False"
| "dlt MInf _ = True"
| "dlt _ PInf = True"
| "dlt a b = (dval a < dval b)"

definition dle :: "dbl \<Rightarrow> dbl \<Rightarrow> bool" where
  "dle a b \<longleftrightarrow> a \<noteq> NaN \<and> b \<noteq> NaN \<and> \<not> dlt b a"

fun dfloor :: "dbl \<Rightarrow> dbl" where
  "dfloor (Fin r) = Fin (of_int \<lfloor>r\<rfloor>)"
| "dfloor x = x"

subsection \<open>Evaluation of rounding at concrete values\<close>

lemma ilog2_eqI: "pow2 e \<le> x \<Longrightarrow> x < pow2 (e + 1) \<Longrightarrow> ilog2 x = e"
  using ilog2_ge [of x e] ilog2_less [of x "e + 1"] less_le_trans [OF pow2_pos, of e x] by force

lemma rnd_eqI:
  assumes "pow2 e \<le> x" "x < pow2 (e + 1)" "- 1022 \<le> e" "rne (x * pow2 (52 - e)) = m"
  shows "rnd x = of_int m * pow2 (e - 52)"
proof -
  have x: "0 < x" using assms(1) pow2_pos [of e] by linarith
  have "rexp x = e - 52" using assms x by (simp add: rexp_def ilog2_eqI)
  moreover have "x / pow2 (e - 52) = x * pow2 (52 - e)"
    by (simp add: pow2_diff)
  ultimately show ?thesis using x assms(4) by (simp add: rnd_def)
qed

lemma rnd_half_int: "\<bar>n\<bar> \<le> 2 ^ 53 \<Longrightarrow> rnd (of_int n / 2 ^ k) = of_int n / 2 ^ k" if "k \<le> 1074"
proof -
  assume n: "\<bar>n\<bar> \<le> 2 ^ 53"
  have "of_int n / 2 ^ k = of_int n * pow2 (- int k)"
    by (simp add: power_int_minus divide_inverse)
  moreover have "representable (of_int n * pow2 (- int k))"
    using n that by (intro representableI) auto
  ultimately show ?thesis by (simp add: rnd_representable)
qed

lemma rne_eqI: "of_int m - 1 / 2 < y \<Longrightarrow> y < of_int m + 1 / 2 \<Longrightarrow> rne y = m"
proof -
  assume y: "of_int m - 1 / 2 < y" "y < of_int m + 1 / 2"
  then have "\<lfloor>y\<rfloor> = m \<or> \<lfloor>y\<rfloor> = m - 1" by (simp add: floor_eq_iff) linarith
  with y show ?thesis by (auto simp: rne_def Let_def)
qed

subsection \<open>The operators of C++\<close>

text \<open>
  The arithmetic and comparison signs at type \<open>dbl\<close> are the C++ operators on
  \<open>double\<close>, so that the model's formulas read like the code's. The type classes here
  carry no laws: addition is not associative, and \<open><\<close> is false on a NaN.
\<close>

instantiation dbl :: "{zero, one, plus, minus, uminus, times, inverse, abs, ord}"
begin

definition zero_dbl :: dbl where "zero_dbl = Fin 0"
definition one_dbl :: dbl where "one_dbl = Fin 1"
definition plus_dbl :: "dbl \<Rightarrow> dbl \<Rightarrow> dbl" where "plus_dbl = dadd"
definition minus_dbl :: "dbl \<Rightarrow> dbl \<Rightarrow> dbl" where "minus_dbl = dsub"
definition uminus_dbl :: "dbl \<Rightarrow> dbl" where "uminus_dbl = dneg"
definition times_dbl :: "dbl \<Rightarrow> dbl \<Rightarrow> dbl" where "times_dbl = dmul"
definition divide_dbl :: "dbl \<Rightarrow> dbl \<Rightarrow> dbl" where "divide_dbl = ddiv"
definition inverse_dbl :: "dbl \<Rightarrow> dbl" where "inverse_dbl = ddiv (Fin 1)"
definition abs_dbl :: "dbl \<Rightarrow> dbl" where "abs_dbl = dabs"
definition less_dbl :: "dbl \<Rightarrow> dbl \<Rightarrow> bool" where "less_dbl = dlt"
definition less_eq_dbl :: "dbl \<Rightarrow> dbl \<Rightarrow> bool" where "less_eq_dbl = dle"

instance ..

end

lemma Fin_0_zero [simp]: "Fin 0 = 0" and Fin_1_one [simp]: "Fin 1 = 1"
  by (simp_all only: zero_dbl_def one_dbl_def)

lemma dval_zero_one [simp]: "dval 0 = 0" "dval 1 = 1" "dfin 0" "dfin 1" "(0::dbl) \<noteq> NaN" "NaN \<noteq> (0::dbl)"
  "(1::dbl) \<noteq> NaN" "NaN \<noteq> (1::dbl)"
  by (simp_all add: zero_dbl_def one_dbl_def del: Fin_0_zero Fin_1_one)

subsection \<open>Operations on finite values away from overflow\<close>

definition dsafe :: "rat \<Rightarrow> bool" where
  "dsafe x \<longleftrightarrow> \<bar>x\<bar> \<le> 2 ^ 1023"

lemma dsafeI: "\<bar>x\<bar> \<le> 2 ^ 100 \<Longrightarrow> dsafe x"
  unfolding dsafe_def by (erule order_trans) (rule power_increasing; simp)

lemma rnd_dsafe: "dsafe x \<Longrightarrow> \<bar>rnd x\<bar> \<le> 2 ^ 1023"
proof -
  assume x: "dsafe x"
  have rep: "representable (2 ^ 1023)"
    using representableI [of 1 1023] by (simp add: pow2_nat)
  have "rnd x \<le> 2 ^ 1023" using x by (intro rnd_le_rep [OF rep]) (simp add: dsafe_def)
  moreover have "rnd (- x) \<le> 2 ^ 1023" using x by (intro rnd_le_rep [OF rep]) (simp add: dsafe_def)
  ultimately show ?thesis by simp
qed

lemma round64_dsafe:
  assumes "dsafe x"
  shows "dfin (round64 x)" and "dval (round64 x) = rnd x"
proof -
  have "(2::rat) ^ 1023 < 2 ^ 1024" by (rule power_strict_increasing) auto
  with rnd_dsafe [OF assms] have "\<bar>rnd x\<bar> < 2 ^ 1024" by (rule le_less_trans)
  then show "dfin (round64 x)" "dval (round64 x) = rnd x"
    by (auto simp: round64_def Let_def abs_less_iff)
qed

lemma uminus_fin [simp]: "dfin (- a) = dfin a" "dval (- a) = - dval a" for a :: dbl
  by (cases a; simp add: uminus_dbl_def del: Fin_0_zero)+

lemma abs_fin [simp]: "dfin \<bar>a\<bar> = dfin a" "dval \<bar>a\<bar> = \<bar>dval a\<bar>" for a :: dbl
  by (cases a; simp add: abs_dbl_def del: Fin_0_zero)+

lemma dfin_not_NaN: "dfin a \<Longrightarrow> a \<noteq> NaN"
  by auto

lemma plus_fin [dbl_simps]:
  assumes "dfin a" "dfin b" "dsafe (dval a + dval b)"
  shows "dfin (a + b)" and "dval (a + b) = rnd (dval a + dval b)"
  using assms round64_dsafe [OF assms(3)] by (auto simp: plus_dbl_def dadd_def)

lemma minus_fin [dbl_simps]:
  assumes "dfin a" "dfin b" "dsafe (dval a - dval b)"
  shows "dfin (a - b)" and "dval (a - b) = rnd (dval a - dval b)"
proof -
  have "a - b = a + (- b)" by (simp add: minus_dbl_def dsub_def plus_dbl_def uminus_dbl_def)
  then show "dfin (a - b)" "dval (a - b) = rnd (dval a - dval b)"
    using plus_fin [of a "- b"] assms by simp_all
qed

lemma times_fin [dbl_simps]:
  assumes "dfin a" "dfin b" "dsafe (dval a * dval b)"
  shows "dfin (a * b)" and "dval (a * b) = rnd (dval a * dval b)"
  using assms round64_dsafe [OF assms(3)]
  by (auto simp: times_dbl_def dmul_def Let_def dzero_def)

lemma divide_fin [dbl_simps]:
  assumes "dfin a" "dfin b" "dval b \<noteq> 0" "dsafe (dval a / dval b)"
  shows "dfin (a / b)" and "dval (a / b) = rnd (dval a / dval b)"
  using assms round64_dsafe [OF assms(4)]
  by (auto simp: divide_dbl_def ddiv_def Let_def dzero_def)

lemma d_of_int_fin [simp]:
  assumes "\<bar>n\<bar> \<le> 2 ^ 53"
  shows "d_of_int n = Fin (of_int n)"
proof -
  have "\<bar>of_int n\<bar> \<le> (of_int (2 ^ 53) :: rat)" using assms by (simp only: of_int_abs [symmetric] of_int_le_iff)
  also have "\<dots> = 2 ^ 53" by simp
  also have "\<dots> < 2 ^ 1024" by (rule power_strict_increasing) auto
  finally have "\<bar>of_int n :: rat\<bar> < 2 ^ 1024" .
  then show ?thesis using assms
    by (auto simp: d_of_int_def round64_def rnd_of_int abs_less_iff Let_def)
qed

lemma less_fin [simp]: "dfin a \<Longrightarrow> dfin b \<Longrightarrow> a < b \<longleftrightarrow> dval a < dval b"
  by (cases a; cases b; simp add: less_dbl_def del: Fin_0_zero)

lemma le_fin [simp]: "dfin a \<Longrightarrow> dfin b \<Longrightarrow> a \<le> b \<longleftrightarrow> dval a \<le> dval b"
  by (cases a; cases b; simp add: less_eq_dbl_def dle_def not_less del: Fin_0_zero)

lemma less_NaN [simp]: "\<not> a < NaN" "\<not> NaN < a" "\<not> a \<le> NaN" "\<not> NaN \<le> a"
  by (cases a; simp add: less_dbl_def less_eq_dbl_def dle_def)+

lemma dbl_less_irrefl [simp]: "\<not> a < a" for a :: dbl
  by (cases a; simp add: less_dbl_def del: Fin_0_zero)

lemma dbl_le_refl [simp]: "a \<noteq> NaN \<Longrightarrow> a \<le> a"
  by (cases a; simp add: less_eq_dbl_def dle_def del: Fin_0_zero)

lemma dbl_less_trans: "a < b \<Longrightarrow> b < c \<Longrightarrow> a < c" for a :: dbl
  by (cases a; cases b; cases c; simp add: less_dbl_def del: Fin_0_zero)

lemma dbl_le_trans: "a \<le> b \<Longrightarrow> b \<le> c \<Longrightarrow> a \<le> c" for a :: dbl
  by (cases a; cases b; cases c; simp add: less_eq_dbl_def dle_def del: Fin_0_zero)

lemma dbl_less_imp_le: "a < b \<Longrightarrow> a \<le> b" for a :: dbl
  by (cases a; cases b; simp add: less_dbl_def less_eq_dbl_def dle_def del: Fin_0_zero)

lemma dbl_not_less_le: "a \<noteq> NaN \<Longrightarrow> b \<noteq> NaN \<Longrightarrow> \<not> a < b \<Longrightarrow> b \<le> a"
  by (simp add: less_dbl_def less_eq_dbl_def dle_def)

lemma dbl_not_less_trans: "m \<noteq> NaN \<Longrightarrow> \<not> m < x \<Longrightarrow> \<not> c < m \<Longrightarrow> \<not> c < x" for x :: dbl
  by (cases x; cases m; cases c; simp add: less_dbl_def del: Fin_0_zero)

lemma dbl_less_not_NaN: "a < b \<Longrightarrow> a \<noteq> NaN \<and> b \<noteq> NaN"
  by auto

lemma NaN_ops [simp]:
  "NaN + a = NaN" "a + NaN = NaN" "NaN - a = NaN" "a - NaN = NaN" "NaN * a = NaN" "a * NaN = NaN"
  "NaN / a = NaN" "a / NaN = NaN" "- NaN = NaN" "\<bar>NaN\<bar> = NaN"
  by (simp_all add: plus_dbl_def dadd_def minus_dbl_def dsub_def times_dbl_def dmul_def
      divide_dbl_def ddiv_def uminus_dbl_def abs_dbl_def Let_def)

lemma round64_mono: "x \<le> y \<Longrightarrow> \<not> round64 y < round64 x"
  using rnd_mono [of x y]
  by (auto simp: round64_def Let_def less_dbl_def simp del: Fin_0_zero)

lemma less_NegZero [simp]: "NegZero < y \<longleftrightarrow> 0 < y" "y < NegZero \<longleftrightarrow> y < 0"
  by (cases y; simp add: less_dbl_def zero_dbl_def del: Fin_0_zero)+

lemma round64_0 [simp]: "round64 0 = 0"
  by (simp add: round64_def Let_def)

lemma times_Fin_less:
  assumes "dfin a" "0 < k"
  shows "y < a * Fin k \<longleftrightarrow> y < round64 (dval a * k)"
    and "a * Fin k < y \<longleftrightarrow> round64 (dval a * k) < y"
proof -
  have "a * Fin k = (if a = NegZero then NegZero else round64 (dval a * k))"
    using assms by (cases a) (auto simp: times_dbl_def dmul_def Let_def dzero_def)
  then show "y < a * Fin k \<longleftrightarrow> y < round64 (dval a * k)"
    "a * Fin k < y \<longleftrightarrow> round64 (dval a * k) < y" by auto
qed

lemma times_Fin_inf:
  "0 < k \<Longrightarrow> PInf * Fin k = PInf" "0 < k \<Longrightarrow> MInf * Fin k = MInf"
  by (auto simp: times_dbl_def dmul_def Let_def dinf_def)

lemma times_Fin_NaN: "0 < k \<Longrightarrow> a * Fin k = NaN \<longleftrightarrow> a = NaN"
  by (cases a) (auto simp: times_dbl_def dmul_def Let_def dinf_def dzero_def round64_def)

lemma less_inf [simp]: "\<not> PInf < y" "\<not> y < MInf"
  by (cases y; simp add: less_dbl_def)+

lemma dbl_times_less_cancel:
  assumes less: "a * Fin k < b * Fin k" and k: "0 < k"
  shows "a < b"
proof -
  consider "dfin a" "dfin b" | "a = MInf" "b \<noteq> MInf" "b \<noteq> NaN" | "b = PInf" "a \<noteq> PInf" "a \<noteq> NaN"
    using less k by (cases a; cases b) (auto simp: times_Fin_inf)
  then show ?thesis
  proof cases
    case 1
    then have "round64 (dval a * k) < round64 (dval b * k)"
      using less k by (simp only: times_Fin_less)
    then have "\<not> dval b * k \<le> dval a * k" using round64_mono by blast
    then show ?thesis using 1 k by (simp add: not_le mult_less_cancel_right_pos)
  next
    case 2 then show ?thesis by (cases b) (auto simp: less_dbl_def)
  next
    case 3 then show ?thesis by (cases a) (auto simp: less_dbl_def)
  qed
qed

subsection \<open>Exact results\<close>

lemma of_int_abs_le: "\<bar>n\<bar> \<le> k \<Longrightarrow> \<bar>of_int n :: rat\<bar> \<le> of_int k"
  by (metis of_int_abs of_int_le_iff)

lemma round64_exact:
  assumes "\<bar>n\<bar> \<le> 2 ^ 53" "k \<le> 1074"
  shows "round64 (of_int n / 2 ^ k) = Fin (of_int n / 2 ^ k)"
proof -
  let ?x = "of_int n / 2 ^ k :: rat"
  have "\<bar>?x\<bar> \<le> \<bar>of_int n\<bar>"
    using mult_left_mono [of 1 "2 ^ k" "\<bar>of_int n :: rat\<bar>"] by (simp add: divide_le_eq)
  also have "\<dots> \<le> of_int (2 ^ 53)" using assms(1) by (rule of_int_abs_le)
  also have "\<dots> < 2 ^ 1024" by simp
  finally have "\<not> 2 ^ 1024 \<le> ?x" "\<not> ?x \<le> - (2 ^ 1024)" unfolding abs_less_iff by linarith+
  moreover have "rnd ?x = ?x" by (rule rnd_half_int [OF assms(2,1)])
  ultimately show ?thesis by (auto simp: round64_def Let_def simp del: Fin_0_zero Fin_1_one)
qed

subsection \<open>Truncation to \<open>int\<close>\<close>

text \<open>\<open>(int) x\<close>: undefined (\<open>None\<close>) unless the truncated value fits.\<close>

definition d_to_int :: "dbl \<Rightarrow> int option" where
  "d_to_int x =
     (if dfin x
      then (let n = (if 0 \<le> dval x then \<lfloor>dval x\<rfloor> else \<lceil>dval x\<rceil>)
            in c_int n)
      else None)"

subsection \<open>Large values\<close>

text \<open>At least \<open>r\<close>, possibly infinite: kept by the operations that lead to a conversion.\<close>

definition d_ge :: "rat \<Rightarrow> dbl \<Rightarrow> bool" where
  "d_ge r x \<longleftrightarrow> x = PInf \<or> (\<exists>q. x = Fin q \<and> r \<le> q)"

lemma round64_ge:
  assumes "representable r" "0 < r" "r \<le> q"
  shows "d_ge r (round64 q)"
proof -
  have r: "r \<le> rnd q" using assms by (intro rnd_ge_rep)
  then have "\<not> rnd q \<le> - (2 ^ 1024)" "rnd q \<noteq> 0"
    using assms(2) by (auto intro: order.strict_trans1 [of _ 0] simp: not_le)
  then show ?thesis using r by (auto simp: round64_def Let_def d_ge_def simp del: Fin_0_zero)
qed

lemma d_ge_cases:
  assumes "d_ge r x"
  obtains "x = PInf" | q where "x = Fin q" "r \<le> q"
  using assms by (auto simp: d_ge_def)

lemma d_ge_PInf [simp]: "d_ge r PInf"
  by (simp add: d_ge_def)

lemma d_ge_div_one:
  assumes "representable r" "0 < r" "d_ge r x"
  shows "d_ge r (x / 1)"
  using assms(3)
proof (cases rule: d_ge_cases)
  case 1
  then show ?thesis
    by (simp add: divide_dbl_def ddiv_def Let_def dinf_def one_dbl_def del: Fin_1_one Fin_0_zero)
next
  case (2 q)
  then have "x / 1 = round64 q" using assms(2)
    by (simp add: divide_dbl_def ddiv_def Let_def one_dbl_def del: Fin_1_one Fin_0_zero)
  then show ?thesis using round64_ge [OF assms(1,2) 2(2)] by simp
qed

lemma d_ge_plus:
  assumes "representable r" "0 < r" "0 \<le> k" "d_ge r x"
  shows "d_ge r (x + Fin k)"
  using assms(4)
proof (cases rule: d_ge_cases)
  case 1
  then show ?thesis by (simp add: plus_dbl_def dadd_def del: Fin_1_one Fin_0_zero)
next
  case (2 q)
  then have "x + Fin k = round64 (q + k)"
    by (simp add: plus_dbl_def dadd_def del: Fin_1_one Fin_0_zero)
  then show ?thesis using round64_ge [OF assms(1,2), of "q + k"] 2 assms(3) by simp
qed

lemma d_ge_floor: "d_ge (of_int n) x \<Longrightarrow> d_ge (of_int n) (dfloor x)"
  by (auto simp: d_ge_def le_floor_iff simp del: Fin_1_one Fin_0_zero)

lemma d_ge_times:
  "representable r \<Longrightarrow> 0 < r \<Longrightarrow> r \<le> a * b \<Longrightarrow> d_ge r (Fin a * Fin b)"
  using round64_ge [of r "a * b"]
  by (auto simp: times_dbl_def dmul_def Let_def simp del: Fin_1_one Fin_0_zero)

lemma d_to_int_large: "d_ge 2147483648 x \<Longrightarrow> d_to_int x = None"
proof -
  assume "d_ge 2147483648 x"
  then consider "x = PInf" | q where "x = Fin q" "2147483648 \<le> q" by (auto simp: d_ge_def)
  then show ?thesis
  proof cases
    case 2
    then have "2147483648 \<le> \<lfloor>q\<rfloor>" by (simp add: le_floor_iff)
    then have "\<not> in_int \<lfloor>q\<rfloor>" by (simp add: in_int_def INT_MAX_def)
    then show ?thesis using 2 by (simp add: d_to_int_def c_int_def del: Fin_0_zero Fin_1_one)
  qed (simp add: d_to_int_def)
qed

end
