(* ===== verification/CString.thy ===== *)
theory CString
  imports Double
begin

text \<open>
  The part of the C library that the program uses on character arrays: \<open>strlen\<close>,
  \<open>memcpy\<close>, \<open>memset\<close>, the conversions of \<open>sprintf\<close> and of \<open>sscanf\<close>.

  A \<open>char[n]\<close> is a list of \<open>n\<close> characters; the string it holds ends at the first NUL.
  Every write is checked against the array: \<open>None\<close> is a write past its end (or a read
  of a string that is not terminated), which is undefined behaviour in C.
\<close>

subsection \<open>Character arrays\<close>

type_synonym cbuf = "char list"

definition NUL :: char where
  "NUL = CHR 0x00"

definition c_str :: "cbuf \<Rightarrow> string" where
  "c_str b = takeWhile (\<lambda>c. c \<noteq> NUL) b"

definition c_strlen :: "cbuf \<Rightarrow> nat option" where
  "c_strlen b = (if NUL \<in> set b then Some (length (c_str b)) else None)"

text \<open>Reading the string that an array holds, as \<open>%s\<close> of \<open>printf\<close> or a library that copies it does.\<close>

definition c_text :: "cbuf \<Rightarrow> string option" where
  "c_text b = (if NUL \<in> set b then Some (c_str b) else None)"

text \<open>An argument string or literal as the array it occupies.\<close>

definition c_lit :: "string \<Rightarrow> cbuf" where
  "c_lit s = s @ [NUL]"

definition c_memcpy :: "cbuf \<Rightarrow> cbuf \<Rightarrow> nat \<Rightarrow> cbuf option" where
  "c_memcpy dst src n =
     (if n \<le> length src \<and> n \<le> length dst then Some (take n src @ drop n dst) else None)"

definition c_store :: "cbuf \<Rightarrow> nat \<Rightarrow> char \<Rightarrow> cbuf option" where
  "c_store dst i c = (if i < length dst then Some (dst[i := c]) else None)"

definition c_memset :: "cbuf \<Rightarrow> char \<Rightarrow> nat \<Rightarrow> cbuf option" where
  "c_memset dst c n = (if n \<le> length dst then Some (replicate n c @ drop n dst) else None)"

text \<open>What \<open>sprintf\<close> and \<open>sscanf\<close>'s \<open>%s\<close> do with their result: text and terminator.\<close>

definition c_puts :: "cbuf \<Rightarrow> string \<Rightarrow> cbuf option" where
  "c_puts dst s =
     (if length s < length dst then Some (s @ NUL # drop (Suc (length s)) dst) else None)"

text \<open>
  The idiom \<open>memcpy(dst, src, strlen(src)); dst[strlen(src)] = '\0';\<close> with which the
  program copies strings.
\<close>

definition c_copy_str :: "cbuf \<Rightarrow> cbuf \<Rightarrow> cbuf option" where
  "c_copy_str dst src = do {
     n \<leftarrow> c_strlen src;
     dst' \<leftarrow> c_memcpy dst src n;
     c_store dst' n NUL
   }"

text \<open>A terminated array.\<close>

definition terminated :: "cbuf \<Rightarrow> bool" where
  "terminated b \<longleftrightarrow> NUL \<in> set b"

lemma c_strlen_terminated [c_simps]: "terminated b \<Longrightarrow> c_strlen b = Some (length (c_str b))"
  by (simp add: c_strlen_def terminated_def)

lemma c_text_terminated [c_simps]: "terminated b \<Longrightarrow> c_text b = Some (c_str b)"
  by (simp add: c_text_def terminated_def)

lemma c_text_None_iff [simp]: "c_text b = None \<longleftrightarrow> \<not> terminated b"
  by (simp add: c_text_def terminated_def)

lemma c_str_less: "terminated b \<Longrightarrow> length (c_str b) < length b"
  unfolding terminated_def c_str_def by (induction b) auto

lemma c_str_no_NUL [simp]: "NUL \<notin> set (c_str b)"
  by (auto simp: c_str_def dest: set_takeWhileD)

lemma take_c_str: "take (length (c_str b)) b = c_str b"
  by (metis c_str_def takeWhile_eq_take)

lemma c_str_append_NUL [simp]: "NUL \<notin> set s \<Longrightarrow> c_str (s @ NUL # r) = s"
  unfolding c_str_def by (subst takeWhile_append2) auto

lemma c_str_lit [simp]: "NUL \<notin> set s \<Longrightarrow> c_str (c_lit s) = s"
  by (simp add: c_lit_def)

lemma terminated_lit [simp]: "terminated (c_lit s)"
  by (simp add: c_lit_def terminated_def)

lemma c_copy_str_eq [c_simps]:
  assumes "terminated src"
  shows "c_copy_str dst src =
    (if length (c_str src) < length dst
     then Some (c_str src @ NUL # drop (Suc (length (c_str src))) dst) else None)"
  using assms c_str_less [OF assms] take_c_str [of src]
  by (auto simp: c_copy_str_def c_strlen_terminated c_memcpy_def c_store_def list_update_append
      Cons_nth_drop_Suc [symmetric] split: bind_splits)

lemma c_puts_eq [c_simps]:
  "length s < length dst \<Longrightarrow> c_puts dst s = Some (s @ NUL # drop (Suc (length s)) dst)"
  by (simp add: c_puts_def)

subsection \<open>Decimal numbers\<close>

definition c_isdigit :: "char \<Rightarrow> bool" where
  "c_isdigit c \<longleftrightarrow> 48 \<le> (of_char c :: nat) \<and> (of_char c :: nat) \<le> 57"

definition digit_val :: "char \<Rightarrow> nat" where
  "digit_val c = of_char c - 48"

definition digit_char :: "nat \<Rightarrow> char" where
  "digit_char d = char_of (48 + d)"

definition digits_val :: "string \<Rightarrow> nat" where
  "digits_val = foldl (\<lambda>n c. 10 * n + digit_val c) 0"

fun show_nat :: "nat \<Rightarrow> string" where
  "show_nat n = (if n < 10 then [digit_char n] else show_nat (n div 10) @ [digit_char (n mod 10)])"

declare show_nat.simps [simp del]

text \<open>\<open>%d\<close> and \<open>%lld\<close>.\<close>

definition show_int :: "int \<Rightarrow> string" where
  "show_int n = (if n < 0 then CHR ''-'' # show_nat (nat (- n)) else show_nat (nat n))"

text \<open>\<open>%0wd\<close> for a number that is not negative: padded with zeros to the width.\<close>

definition pad0 :: "nat \<Rightarrow> string \<Rightarrow> string" where
  "pad0 w s = replicate (w - length s) (CHR ''0'') @ s"

definition show_0d :: "nat \<Rightarrow> int \<Rightarrow> string" where
  "show_0d w n =
     (if n < 0 then CHR ''-'' # pad0 (w - 1) (show_nat (nat (- n))) else pad0 w (show_nat (nat n)))"

text \<open>\<open>%lf\<close>: six decimals, rounded half to even on the exact value.\<close>

definition show_lf_fin :: "bool \<Rightarrow> rat \<Rightarrow> string" where
  "show_lf_fin neg r =
     (let m = nat (rne (\<bar>r\<bar> * 1000000))
      in (if neg then ''-'' else '''') @ show_nat (m div 1000000) @ ''.'' @
         pad0 6 (show_nat (m mod 1000000)))"

definition show_lf :: "dbl \<Rightarrow> string" where
  "show_lf x =
     (case x of NaN \<Rightarrow> ''nan'' | PInf \<Rightarrow> ''inf'' | MInf \<Rightarrow> ''-inf''
      | NegZero \<Rightarrow> show_lf_fin True 0 | Fin r \<Rightarrow> show_lf_fin (r < 0) r)"

lemma digit_char_digit: "d < 10 \<Longrightarrow> c_isdigit (digit_char d) \<and> digit_val (digit_char d) = d"
  by (simp add: c_isdigit_def digit_char_def digit_val_def of_char_of take_bit_nat_def)

lemma digits_val_snoc [simp]: "digits_val (s @ [c]) = 10 * digits_val s + digit_val c"
  by (simp add: digits_val_def)

lemma show_nat_digits: "\<forall>c \<in> set (show_nat n). c_isdigit c"
proof (induction n rule: show_nat.induct)
  case (1 n)
  then show ?case
    by (subst show_nat.simps) (auto simp: digit_char_digit)
qed

lemma show_nat_nonempty [simp]: "show_nat n \<noteq> []"
  by (subst show_nat.simps) simp

lemma digits_val_show_nat [simp]: "digits_val (show_nat n) = n"
proof (induction n rule: show_nat.induct)
  case (1 n)
  show ?case
  proof (cases "n < 10")
    case True
    then show ?thesis
      by (subst show_nat.simps) (simp add: digits_val_def digit_char_digit)
  next
    case False
    with 1 show ?thesis
      by (subst show_nat.simps) (simp add: digit_char_digit)
  qed
qed

text \<open>\<open>%.3lf\<close>.\<close>

definition show_3lf_fin :: "bool \<Rightarrow> rat \<Rightarrow> string" where
  "show_3lf_fin neg r =
     (let m = nat (rne (\<bar>r\<bar> * 1000))
      in (if neg then ''-'' else '''') @ show_nat (m div 1000) @ ''.'' @
         pad0 3 (show_nat (m mod 1000)))"

definition show_3lf :: "dbl \<Rightarrow> string" where
  "show_3lf x =
     (case x of NaN \<Rightarrow> ''nan'' | PInf \<Rightarrow> ''inf'' | MInf \<Rightarrow> ''-inf''
      | NegZero \<Rightarrow> show_3lf_fin True 0 | Fin r \<Rightarrow> show_3lf_fin (r < 0) r)"

end
