(* ===== verification/Env.thy ===== *)
theory Env
  imports CString "HOL-Library.Word"
begin

text \<open>
  The data of FastProf (\<open>fastprof.h\<close>) and the interface of everything the program calls
  that is not part of the repository's source: the operating system, \<open>libm\<close>'s
  \<open>pow\<close>, \<open>libiperf\<close> and \<open>libtpg\<close>. That interface is the record \<open>'w env\<close>; every
  definition that uses it takes it as an argument, and \<open>'w\<close> is the state of the outside
  world, threaded through the calls.

  A field of a C++ object that its constructor does not set is indeterminate: such fields
  have an \<open>option\<close> type here, with \<open>None\<close> for indeterminate.
\<close>

subsection \<open>Enumerations and structures of fastprof.h\<close>

datatype f_program_role = F_UNKNOWN | F_SERVER | F_CLIENT

record fastprof_ctrl =
  fc_role :: f_program_role
  fc_local_ip :: cbuf
  fc_remote_ip :: cbuf
  fc_tcp_port :: int
  fc_udt_port :: int
  fc_host_max_buf :: int
  fc_bw_bps :: dbl
  fc_rtt_ms :: dbl
  fc_mss :: int
  fc_A_val :: dbl
  fc_a_val :: dbl
  fc_a_scale :: dbl
  fc_c_val :: dbl
  fc_c_scale :: dbl
  fc_alpha :: dbl
  fc_gamma :: dbl
  fc_pgr :: dbl
  fc_impeded_limit :: int
  fc_max_limit :: int
  fc_duration :: int

text \<open>Addresses of library objects; \<open>0\<close> is the null pointer.\<close>

type_synonym addr = nat

record fastprof_tcp_prof =
  tcp_prof :: addr
  total_sent :: int
  tp_perf_Mbps :: dbl

record fastprof_udt_prof =
  udt_prof :: addr
  up_perf_Mbps :: "dbl option"

record fastprof_tcp_trace =
  tt_buf_size :: dbl
  tt_stream_num :: dbl
  tt_marker :: char
  tt_perf_Mbps :: dbl
  tt_run_or_not :: int

record fastprof_udt_trace =
  ut_blk_size :: dbl
  ut_buf_size :: dbl
  ut_marker :: char
  ut_perf_Mbps :: dbl
  ut_run_or_not :: int

record mem_record =
  src_ip :: cbuf
  dst_ip :: cbuf
  curr_time :: cbuf
  protocol_name :: cbuf
  toolkit_name :: cbuf
  num_streams :: int
  mss_size :: int
  buffer_size :: int
  buffer_size_unit :: cbuf
  block_size :: int
  block_size_unit :: cbuf
  duration :: int
  duration_unit :: cbuf
  trans_size :: int
  trans_size_unit :: cbuf
  average_perf :: "dbl option"
  average_perf_unit :: cbuf

text \<open>The zeroed record that \<open>memset(record, 0, sizeof(struct mem_record))\<close> leaves.\<close>

definition mem_record_zero :: mem_record where
  "mem_record_zero = \<lparr>
     src_ip = replicate 32 NUL, dst_ip = replicate 32 NUL, curr_time = replicate 32 NUL,
     protocol_name = replicate 32 NUL, toolkit_name = replicate 32 NUL,
     num_streams = 0, mss_size = 0, buffer_size = 0, buffer_size_unit = replicate 8 NUL,
     block_size = 0, block_size_unit = replicate 8 NUL,
     duration = 0, duration_unit = replicate 8 NUL,
     trans_size = 0, trans_size_unit = replicate 8 NUL,
     average_perf = Some 0, average_perf_unit = replicate 8 NUL\<rparr>"

subsection \<open>Objects of the libraries\<close>

text \<open>
  Of \<open>struct iperf_test\<close> (\<open>iperf.h\<close>) the members that FastProf itself reads or writes;
  the rest of the object belongs to the library and lives in the world. A stream carries
  its two time stamps (seconds, microseconds) and its byte counters (\<open>uint64_t\<close>).
\<close>

record iperf_stream =
  st_start_time :: "int \<times> int"
  st_end_time :: "int \<times> int"
  st_bytes_sent :: "64 word"
  st_bytes_sent_omit :: "64 word"

record iperf_test =
  it_num_streams :: int
  it_duration :: int
  it_mss :: int
  it_blksize :: int
  it_socket_bufsize :: int
  it_outfile :: "addr"
  it_streams :: "iperf_stream list"

datatype iperf_option =
    SetVerbose int
  | SetRole char
  | SetServerHostname string
  | SetServerPort int
  | SetReverse int
  | SetOmit int
  | SetDuration int
  | SetReporterInterval dbl
  | SetStatsInterval dbl
  | SetJsonOutput int

datatype tpg_role = T_UNKNOWN | T_SERVER | T_CLIENT

datatype tpg_int_option =
    ProtocolId | CtrlListenPort | Blocksize | UdtMss | UdtSendBufsize | UdtRecvBufsize
  | UdpSendBufsize | UdpRecvBufsize | ProfTimeDuration

datatype worker = TcpWorker | UdtWorker

type_synonym thread = nat

record tm =
  tm_year :: int
  tm_mon :: int
  tm_mday :: int
  tm_hour :: int
  tm_min :: int
  tm_sec :: int

subsection \<open>The interface\<close>

record 'w env =
  \<comment> \<open>C library and operating system\<close>
  e_srand :: "'w \<Rightarrow> 'w"
  e_rand :: "'w \<Rightarrow> int \<times> 'w"
  e_pow :: "dbl \<Rightarrow> dbl \<Rightarrow> dbl"
  e_localtime :: "'w \<Rightarrow> tm \<times> 'w"
  e_getpid :: "'w \<Rightarrow> int"
  e_mutex_init :: "'w \<Rightarrow> int \<times> 'w"
  e_popen_output :: "string \<Rightarrow> 'w \<Rightarrow> string option \<times> 'w"
  e_dir_exists :: "string \<Rightarrow> 'w \<Rightarrow> bool"
  e_mkdir :: "string \<Rightarrow> 'w \<Rightarrow> 'w"
  e_system :: "string \<Rightarrow> 'w \<Rightarrow> int \<times> 'w"
  e_fopen :: "string \<Rightarrow> 'w \<Rightarrow> addr \<times> 'w"
  e_fread_all :: "addr \<Rightarrow> 'w \<Rightarrow> string"
  e_fprintf :: "addr \<Rightarrow> string \<Rightarrow> 'w \<Rightarrow> 'w"
  e_fclose :: "addr \<Rightarrow> 'w \<Rightarrow> 'w"
  e_strdup :: "string \<Rightarrow> 'w \<Rightarrow> addr \<times> 'w"
  e_stdout :: "addr"
  e_scan_char :: "'w \<Rightarrow> char option \<times> 'w"
  e_gethostname :: "'w \<Rightarrow> string"
  \<comment> \<open>sockets: \<open>e_read\<close> returns \<open>None\<close> on an error and no bytes at the end of the stream\<close>
  e_getaddrinfo :: "string option \<Rightarrow> string \<Rightarrow> 'w \<Rightarrow> addr option \<times> 'w"
  e_socket :: "addr \<Rightarrow> 'w \<Rightarrow> int \<times> 'w"
  e_reuseaddr :: "int \<Rightarrow> 'w \<Rightarrow> int \<times> 'w"
  e_bind :: "int \<Rightarrow> addr \<Rightarrow> 'w \<Rightarrow> int \<times> 'w"
  e_listen :: "int \<Rightarrow> int \<Rightarrow> 'w \<Rightarrow> int \<times> 'w"
  e_connect :: "int \<Rightarrow> addr \<Rightarrow> 'w \<Rightarrow> int \<times> 'w"
  e_accept :: "int \<Rightarrow> 'w \<Rightarrow> int \<times> string \<times> 'w"
  e_close :: "int \<Rightarrow> 'w \<Rightarrow> int \<times> 'w"
  e_read :: "int \<Rightarrow> int \<Rightarrow> 'w \<Rightarrow> string option \<times> 'w"
  e_write :: "int \<Rightarrow> string \<Rightarrow> 'w \<Rightarrow> int \<times> 'w"
  e_select :: "int \<Rightarrow> 'w \<Rightarrow> int \<times> bool \<times> 'w"
  \<comment> \<open>threads; a join that never returns is \<open>None\<close>\<close>
  e_thread_create :: "worker \<Rightarrow> 'w \<Rightarrow> int \<times> thread \<times> 'w"
  e_thread_cancel :: "thread \<Rightarrow> 'w \<Rightarrow> int \<times> 'w"
  e_thread_join :: "thread \<Rightarrow> 'w \<Rightarrow> (int \<times> 'w) option"
  \<comment> \<open>libiperf\<close>
  e_iperf_new_test :: "'w \<Rightarrow> addr \<times> iperf_test \<times> 'w"
  e_iperf_defaults :: "addr \<Rightarrow> iperf_test \<Rightarrow> 'w \<Rightarrow> int \<times> iperf_test \<times> 'w"
  e_iperf_test_reset :: "addr \<Rightarrow> iperf_test \<Rightarrow> 'w \<Rightarrow> iperf_test \<times> 'w"
  e_iperf_free_test :: "addr \<Rightarrow> 'w \<Rightarrow> 'w"
  e_iperf_set :: "addr \<Rightarrow> iperf_option \<Rightarrow> iperf_test \<Rightarrow> 'w \<Rightarrow> iperf_test \<times> 'w"
  e_iperf_run_client :: "addr \<Rightarrow> iperf_test \<Rightarrow> 'w \<Rightarrow> int \<times> iperf_test \<times> 'w"
  e_iperf_run_server :: "addr \<Rightarrow> iperf_test \<Rightarrow> 'w \<Rightarrow> int \<times> iperf_test \<times> 'w"
  \<comment> \<open>libtpg\<close>
  e_tpg_new_profile :: "'w \<Rightarrow> addr \<times> 'w"
  e_tpg_delete_profile :: "addr \<Rightarrow> 'w \<Rightarrow> addr \<times> 'w"
  e_tpg_prof_default :: "addr \<Rightarrow> 'w \<Rightarrow> int \<times> 'w"
  e_tpg_set_role :: "addr \<Rightarrow> tpg_role \<Rightarrow> 'w \<Rightarrow> 'w"
  e_tpg_set_hostname :: "addr \<Rightarrow> string \<Rightarrow> 'w \<Rightarrow> 'w"
  e_tpg_set :: "addr \<Rightarrow> tpg_int_option \<Rightarrow> int \<Rightarrow> 'w \<Rightarrow> 'w"
  e_tpg_get :: "addr \<Rightarrow> tpg_int_option \<Rightarrow> 'w \<Rightarrow> int"
  e_tpg_get_total_stream_num :: "addr \<Rightarrow> 'w \<Rightarrow> int"
  e_tpg_get_total_sent_bytes :: "addr \<Rightarrow> 'w \<Rightarrow> int"
  e_tpg_set_perf :: "addr \<Rightarrow> bool \<Rightarrow> dbl \<Rightarrow> 'w \<Rightarrow> 'w"
  e_tpg_get_client_perf :: "addr \<Rightarrow> 'w \<Rightarrow> dbl"
  e_tpg_client_run :: "addr \<Rightarrow> 'w \<Rightarrow> int \<times> 'w"
  e_tpg_client_clean_up :: "addr \<Rightarrow> 'w \<Rightarrow> int \<times> 'w"
  e_tpg_client_reset :: "addr \<Rightarrow> 'w \<Rightarrow> int \<times> 'w"
  e_tpg_server_run :: "addr \<Rightarrow> int \<Rightarrow> int \<Rightarrow> 'w \<Rightarrow> int \<times> 'w"
  e_tpg_server_clean_up :: "addr \<Rightarrow> 'w \<Rightarrow> int \<times> 'w"
  e_tpg_server_reset :: "addr \<Rightarrow> 'w \<Rightarrow> int \<times> 'w"

end
