(* ===== verification/CScan.thy ===== *)
theory CScan
  imports CString
begin

text \<open>
  \<open>sscanf\<close> for the formats the program uses: white space, literal characters, \<open>%s\<close>,
  \<open>%d\<close>, \<open>%lld\<close>, \<open>%lf\<close> and \<open>%c\<close>. The result is the list of values that were
  converted and stored before the first failure, so its length is the number \<open>sscanf\<close>
  returns (which returns \<open>-1\<close> instead of \<open>0\<close> at the end of the input).
  \<open>None\<close> stands for undefined behaviour: a \<open>%s\<close> that overruns its array or a number
  that does not fit. Two corners of \<open>%lf\<close> are left outside the model and are also
  \<open>None\<close>: hexadecimal floating point and an exponent without digits.
\<close>

subsection \<open>Characters\<close>

definition c_isspace :: "char \<Rightarrow> bool" where
  "c_isspace c \<longleftrightarrow> (let n = (of_char c :: nat) in n = 32 \<or> (9 \<le> n \<and> n \<le> 13))"

definition c_lower :: "char \<Rightarrow> char" where
  "c_lower c = (let n = (of_char c :: nat) in if 65 \<le> n \<and> n \<le> 90 then char_of (n + 32) else c)"

definition skip_ws :: "string \<Rightarrow> string" where
  "skip_ws = dropWhile c_isspace"

subsection \<open>Numbers\<close>

definition split_sign :: "string \<Rightarrow> bool \<times> string" where
  "split_sign s =
     (case s of [] \<Rightarrow> (False, [])
      | c # r \<Rightarrow> if c = CHR ''-'' then (True, r) else if c = CHR ''+'' then (False, r)
                else (False, s))"

definition scan_int :: "string \<Rightarrow> (int \<times> string) option" where
  "scan_int s0 =
     (let (neg, s) = split_sign s0; ds = takeWhile c_isdigit s
      in if ds = [] then None
         else Some (if neg then - int (digits_val ds) else int (digits_val ds),
                    dropWhile c_isdigit s))"

definition scan_fraction :: "string \<Rightarrow> string \<times> string" where
  "scan_fraction s =
     (case s of [] \<Rightarrow> ([], [])
      | c # r \<Rightarrow> if c = CHR ''.'' then (takeWhile c_isdigit r, dropWhile c_isdigit r)
                else ([], s))"

definition scan_exponent :: "string \<Rightarrow> (int \<times> string) option" where
  "scan_exponent s =
     (case s of [] \<Rightarrow> Some (0, [])
      | c # r \<Rightarrow> if c = CHR ''e'' \<or> c = CHR ''E'' then scan_int r else Some (0, s))"

definition signed_dbl :: "bool \<Rightarrow> rat \<Rightarrow> dbl" where
  "signed_dbl neg r = (if r = 0 then dzero neg else round64 (if neg then - r else r))"

definition scan_lf :: "string \<Rightarrow> (dbl \<times> string) option option" where
  "scan_lf s0 =
     (let (neg, s) = split_sign s0; word = map c_lower (take 3 s)
      in if word = ''nan'' then Some (Some (NaN, drop 3 s))
         else if word = ''inf''
           then (if map c_lower (take 8 s) = ''infinity'' then Some (Some (dinf neg, drop 8 s))
                 else if map c_lower (take 4 s) = ''infi'' then Some None
                 else Some (Some (dinf neg, drop 3 s)))
         else if map c_lower (take 2 s) = ''0x'' then None
         else (let ip = takeWhile c_isdigit s; (fp, s2) = scan_fraction (dropWhile c_isdigit s)
               in if ip = [] \<and> fp = [] then Some None
                  else case scan_exponent s2 of
                         None \<Rightarrow> None
                       | Some (e, r) \<Rightarrow>
                           Some (Some (signed_dbl neg
                             (of_nat (digits_val (ip @ fp)) * 10 powi (e - int (length fp))), r))))"

subsection \<open>The formats\<close>

datatype conv = CWs | CLit char | CStr nat | CInt | CLong | CDbl | CChar

datatype sval = SStr string | SInt int | SDbl dbl | SChar char

fun sscanf :: "conv list \<Rightarrow> string \<Rightarrow> sval list option" where
  "sscanf [] s = Some []"
| "sscanf (CWs # f) s = sscanf f (skip_ws s)"
| "sscanf (CLit c # f) s =
     (case s of [] \<Rightarrow> Some [] | x # xs \<Rightarrow> if x = c then sscanf f xs else Some [])"
| "sscanf (CStr n # f) s =
     (let s1 = skip_ws s; t = takeWhile (\<lambda>c. \<not> c_isspace c) s1
      in if t = [] then Some []
         else if length t < n
           then map_option ((#) (SStr t)) (sscanf f (dropWhile (\<lambda>c. \<not> c_isspace c) s1))
         else None)"
| "sscanf (CInt # f) s =
     (case scan_int (skip_ws s) of None \<Rightarrow> Some []
      | Some (n, r) \<Rightarrow>
          if in_int n then map_option ((#) (SInt n)) (sscanf f r) else None)"
| "sscanf (CLong # f) s =
     (case scan_int (skip_ws s) of None \<Rightarrow> Some []
      | Some (n, r) \<Rightarrow>
          if - (2 ^ 63) \<le> n \<and> n < 2 ^ 63 then map_option ((#) (SInt n)) (sscanf f r) else None)"
| "sscanf (CDbl # f) s =
     (case scan_lf (skip_ws s) of None \<Rightarrow> None | Some None \<Rightarrow> Some []
      | Some (Some (x, r)) \<Rightarrow> map_option ((#) (SDbl x)) (sscanf f r))"
| "sscanf (CChar # f) s =
     (case s of [] \<Rightarrow> Some [] | x # xs \<Rightarrow> map_option ((#) (SChar x)) (sscanf f xs))"

subsection \<open>Reading back what the conversions of \<open>printf\<close> write\<close>

text \<open>The text that follows a number and cannot be taken for a part of it.\<close>

definition stops :: "string \<Rightarrow> bool" where
  "stops r \<longleftrightarrow> r = [] \<or> c_isspace (hd r)"

lemma isspace_not_digit: "c_isspace c \<Longrightarrow> \<not> c_isdigit c"
  by (auto simp: c_isspace_def c_isdigit_def Let_def)

lemma takeWhile_stop:
  "\<forall>c \<in> set t. P c \<Longrightarrow> r = [] \<or> \<not> P (hd r) \<Longrightarrow> takeWhile P (t @ r) = t"
  "\<forall>c \<in> set t. P c \<Longrightarrow> r = [] \<or> \<not> P (hd r) \<Longrightarrow> dropWhile P (t @ r) = r"
  by (cases r; simp add: takeWhile_append dropWhile_append)+

lemma stops_digits:
  assumes "stops r" "\<forall>c \<in> set t. c_isdigit c"
  shows "takeWhile c_isdigit (t @ r) = t" "dropWhile c_isdigit (t @ r) = r"
  using assms takeWhile_stop [of t c_isdigit r] by (auto simp: stops_def isspace_not_digit)

lemma show_nat_hd: "\<exists>c t. show_nat n = c # t \<and> c_isdigit c"
  using show_nat_digits [of n] show_nat_nonempty [of n]
  by (cases "show_nat n") auto

lemma digit_not_sign: "c_isdigit c \<Longrightarrow> c \<noteq> CHR ''-'' \<and> c \<noteq> CHR ''+'' \<and> \<not> c_isspace c"
  by (auto simp: c_isdigit_def c_isspace_def Let_def)

lemma scan_int_show_int:
  assumes "stops r"
  shows "scan_int (show_int n @ r) = Some (n, r)"
proof -
  have pos: "scan_int (show_nat m @ r) = Some (int m, r)" for m
  proof -
    obtain c t where ct: "show_nat m = c # t" "c_isdigit c" using show_nat_hd by blast
    have "split_sign (show_nat m @ r) = (False, show_nat m @ r)"
      using ct digit_not_sign [OF ct(2)] by (simp add: split_sign_def)
    then show ?thesis
      using stops_digits [OF assms show_nat_digits [of m]] by (simp add: scan_int_def)
  qed
  have neg: "scan_int (CHR ''-'' # show_nat m @ r) = Some (- int m, r)" for m
    using stops_digits [OF assms show_nat_digits [of m]]
    by (simp add: scan_int_def split_sign_def)
  show ?thesis
    using pos [of "nat n"] neg [of "nat (- n)"] by (simp add: show_int_def)
qed

lemma digits_val_append: "digits_val (s @ t) = digits_val s * 10 ^ length t + digits_val t"
proof (induction t rule: rev_induct)
  case (snoc c t)
  have "digits_val (s @ t @ [c]) = 10 * digits_val (s @ t) + digit_val c"
    using digits_val_snoc [of "s @ t" c] by simp
  then show ?case using snoc by (simp add: algebra_simps)
qed (simp add: digits_val_def)

lemma digits_val_zeros [simp]: "digits_val (replicate n (CHR ''0'')) = 0"
proof (induction n)
  case (Suc n)
  have "digits_val (replicate (Suc n) (CHR ''0'')) = digits_val (replicate n (CHR ''0'') @ [CHR ''0''])"
    by (simp add: replicate_append_same)
  then show ?case using Suc by (simp del: replicate_Suc) (simp add: digit_val_def)
qed (simp add: digits_val_def)

lemma digits_val_pad0 [simp]: "digits_val (pad0 w s) = digits_val s"
  by (simp add: pad0_def digits_val_append)

lemma length_show_nat: "n < 10 ^ k \<Longrightarrow> 0 < k \<Longrightarrow> length (show_nat n) \<le> k"
proof (induction n arbitrary: k rule: show_nat.induct)
  case (1 n)
  show ?case
  proof (cases "n < 10")
    case True
    then show ?thesis using "1.prems" by (subst show_nat.simps) simp
  next
    case False
    then obtain k' where k: "k = Suc k'" "0 < k'"
      using "1.prems" by (cases k; cases "k - 1") auto
    then have "n div 10 < 10 ^ k'" using "1.prems"(1) by (simp add: less_mult_imp_div_less mult.commute)
    then have "length (show_nat (n div 10)) \<le> k'" using "1.IH" False k by simp
    then show ?thesis using False k by (subst show_nat.simps) simp
  qed
qed

lemma length_pad0: "length s \<le> w \<Longrightarrow> length (pad0 w s) = w"
  by (simp add: pad0_def)

lemma pad0_digits: "\<forall>c \<in> set (pad0 w (show_nat n)). c_isdigit c"
  using show_nat_digits [of n] by (auto simp: pad0_def c_isdigit_def)

lemma lower_digit: "c_isdigit c \<Longrightarrow> c_lower c = c"
  by (simp add: c_isdigit_def c_lower_def Let_def)

text \<open>The value that is read back: the value rounded to six decimals, then to a double.\<close>

definition lf6 :: "dbl \<Rightarrow> dbl" where
  "lf6 x = (case x of Fin r \<Rightarrow> signed_dbl (r < 0) (of_int (rne (\<bar>r\<bar> * 1000000)) / 1000000) | _ \<Rightarrow> x)"

lemma scan_lf_decimal:
  assumes "stops r"
  shows "scan_lf ((if neg then ''-'' else '''') @ show_nat (m div 1000000) @ ''.'' @
           pad0 6 (show_nat (m mod 1000000)) @ r)
         = Some (Some (signed_dbl neg (of_nat m / 1000000), r))"
proof -
  let ?i = "show_nat (m div 1000000)" and ?f = "pad0 6 (show_nat (m mod 1000000))"
  let ?s = "?i @ ''.'' @ ?f @ r"
  obtain c t where ct: "?i = c # t" "c_isdigit c" using show_nat_hd by blast
  have sign: "split_sign ((if neg then ''-'' else '''') @ ?s) = (neg, ?s)"
    using digit_not_sign [OF ct(2)] ct(1) by (simp add: split_sign_def)
  have dot: "\<not> c_isdigit (CHR ''.'')" by (simp add: c_isdigit_def)
  have ip: "takeWhile c_isdigit ?s = ?i" "dropWhile c_isdigit ?s = ''.'' @ ?f @ r"
    using takeWhile_stop [OF show_nat_digits, of "''.'' @ ?f @ r"] dot by simp_all
  have fp: "scan_fraction (''.'' @ ?f @ r) = (?f, r)"
    using stops_digits [OF assms pad0_digits] by (simp add: scan_fraction_def)
  have ex: "scan_exponent r = Some (0, r)"
    using assms by (cases r) (auto simp: scan_exponent_def stops_def c_isspace_def Let_def)
  have w: "map c_lower (take 3 ?s) \<noteq> ''nan''" "map c_lower (take 3 ?s) \<noteq> ''inf''"
    using ct lower_digit [OF ct(2)] by (auto simp: c_isdigit_def numeral_3_eq_3)
  have x: "map c_lower (take 2 ?s) \<noteq> ''0x''"
  proof (cases t)
    case Nil
    then show ?thesis using ct by (auto simp: c_lower_def Let_def numeral_2_eq_2)
  next
    case (Cons d u)
    then have "c_isdigit d" using show_nat_digits [of "m div 1000000"] ct by simp
    then show ?thesis
      using ct Cons lower_digit [of d] by (auto simp: c_isdigit_def numeral_2_eq_2)
  qed
  have len: "length ?f = 6"
    by (rule length_pad0) (rule length_show_nat; simp)
  have val: "digits_val (?i @ ?f) = m"
    by (simp add: digits_val_append len)
  have pw: "(10::rat) powi (0 - int (length ?f)) = 1 / 1000000"
    unfolding len by (simp add: power_int_def power_divide)
  have ne: "?i \<noteq> []" by simp
  show ?thesis
    unfolding scan_lf_def sign Let_def prod.case ip fp ex option.case
    by (simp only: w x ne val pw if_False if_True simp_thms times_divide_eq_right mult_1_right)
qed

lemma scan_lf_show_lf:
  assumes "stops r"
  shows "scan_lf (show_lf x @ r) = Some (Some (lf6 x, r))"
proof -
  have fin: "scan_lf (show_lf_fin neg q @ r)
      = Some (Some (signed_dbl neg (of_int (rne (\<bar>q\<bar> * 1000000)) / 1000000), r))" for neg q
  proof -
    have "rne 0 \<le> rne (\<bar>q\<bar> * 1000000)" by (rule rne_mono) simp
    moreover have "rne 0 = 0" using rne_of_int [of 0] by simp
    ultimately have "(of_nat (nat (rne (\<bar>q\<bar> * 1000000))) :: rat) = of_int (rne (\<bar>q\<bar> * 1000000))"
      by simp
    then show ?thesis
      using scan_lf_decimal [OF assms, of neg "nat (rne (\<bar>q\<bar> * 1000000))"]
      by (simp add: show_lf_fin_def Let_def)
  qed
  have tail: "map c_lower (take 8 (''inf'' @ r)) \<noteq> ''infinity''"
    "map c_lower (take 4 (''inf'' @ r)) \<noteq> ''infi''"
    using assms by (cases r; auto simp: stops_def c_isspace_def c_lower_def Let_def numeral_eq_Suc split: if_splits)+
  show ?thesis
  proof (cases x)
    case (Fin q)
    then show ?thesis using fin [of "q < 0" q] by (simp add: show_lf_def lf6_def)
  next
    case NegZero
    then show ?thesis using fin [of True 0] rne_of_int [of 0]
      by (simp add: show_lf_def lf6_def signed_dbl_def dzero_def)
  next
    case NaN
    then show ?thesis
      by (simp add: show_lf_def lf6_def scan_lf_def split_sign_def c_lower_def Let_def)
  next
    case PInf
    then show ?thesis using tail
      by (simp add: show_lf_def lf6_def scan_lf_def split_sign_def c_lower_def Let_def dinf_def)
  next
    case MInf
    then show ?thesis using tail
      by (simp add: show_lf_def lf6_def scan_lf_def split_sign_def c_lower_def Let_def dinf_def)
  qed
qed

end
