(* ===== verification/Status.thy ===== *)
theory Status
  imports Prelude
begin

text \<open>
  Status codes and error codes (\<open>probdata.h\<close>, \<open>probdata_error.h\<close>,
  \<open>fastprof_error.h\<close>) and the functions that turn them into text:
  \<open>probdata_status_to_str\<close>, \<open>probdata_errstr\<close> and \<open>f_errstr\<close>.
\<close>

subsection \<open>Control packets: the status codes of probdata.h\<close>

definition P_PROGRAM_START :: int where "P_PROGRAM_START = 1"
definition P_CTRL_CHAN_EST :: int where "P_CTRL_CHAN_EST = 2"
definition P_TWOWAY_HANDSHAKE :: int where "P_TWOWAY_HANDSHAKE = 3"
definition P_RUN_M2M_DB :: int where "P_RUN_M2M_DB = 4"
definition P_RUN_M2M_TCP :: int where "P_RUN_M2M_TCP = 5"
definition P_RUN_M2M_UDT :: int where "P_RUN_M2M_UDT = 6"
definition P_RUN_D2D_DB :: int where "P_RUN_D2D_DB = 7"
definition P_RUN_D2D_TCP :: int where "P_RUN_D2D_TCP = 8"
definition P_RUN_D2D_UDT :: int where "P_RUN_D2D_UDT = 9"
definition P_PROGRAM_DONE :: int where "P_PROGRAM_DONE = 10"
definition P_SERVER_ERROR :: int where "P_SERVER_ERROR = - 20"
definition P_CLIENT_TERMINATE :: int where "P_CLIENT_TERMINATE = - 21"
definition P_ACCESS_DENIED :: int where "P_ACCESS_DENIED = - 22"

lemmas status_defs =
  P_PROGRAM_START_def P_CTRL_CHAN_EST_def P_TWOWAY_HANDSHAKE_def P_RUN_M2M_DB_def
  P_RUN_M2M_TCP_def P_RUN_M2M_UDT_def P_RUN_D2D_DB_def P_RUN_D2D_TCP_def
  P_RUN_D2D_UDT_def P_PROGRAM_DONE_def P_SERVER_ERROR_def P_CLIENT_TERMINATE_def
  P_ACCESS_DENIED_def

definition status_codes :: "int list" where
  "status_codes =
     [P_PROGRAM_START, P_CTRL_CHAN_EST, P_TWOWAY_HANDSHAKE, P_RUN_M2M_DB, P_RUN_M2M_TCP,
      P_RUN_M2M_UDT, P_RUN_D2D_DB, P_RUN_D2D_TCP, P_RUN_D2D_UDT, P_PROGRAM_DONE,
      P_SERVER_ERROR, P_CLIENT_TERMINATE, P_ACCESS_DENIED]"

text \<open>\<open>probdata_status_to_str\<close>: the \<open>switch\<close> of the code, case by case.\<close>

definition probdata_status_to_str :: "int \<Rightarrow> string" where
  "probdata_status_to_str s =
     (if s = P_CTRL_CHAN_EST then ''P_CTRL_CHAN_EST''
      else if s = P_PROGRAM_START then ''P_PROGRAM_START''
      else if s = P_TWOWAY_HANDSHAKE then ''P_TWOWAY_HANDSHAKE''
      else if s = P_RUN_M2M_DB then ''P_RUN_M2M_DB''
      else if s = P_RUN_M2M_TCP then ''P_RUN_M2M_TCP''
      else if s = P_RUN_M2M_UDT then ''P_RUN_M2M_UDT''
      else if s = P_RUN_D2D_DB then ''P_RUN_D2D_DB''
      else if s = P_RUN_D2D_TCP then ''P_RUN_D2D_TCP''
      else if s = P_RUN_D2D_UDT then ''P_RUN_D2D_UDT''
      else if s = P_PROGRAM_DONE then ''P_PROGRAM_DONE''
      else if s = P_SERVER_ERROR then ''P_SERVER_ERROR''
      else if s = P_CLIENT_TERMINATE then ''P_CLIENT_TERMINATE''
      else if s = P_ACCESS_DENIED then ''P_ACCESS_DENIED''
      else ''BAD_STATE'')"

subsection \<open>Error codes\<close>

definition P_ERR_NONE :: int where "P_ERR_NONE = 0"
definition P_ERR_UNKNOWN :: int where "P_ERR_UNKNOWN = 1024"
definition P_ERR_DSTFILE_ONLY :: int where "P_ERR_DSTFILE_ONLY = 101"
definition P_ERR_DISABLED_PROBDATA :: int where "P_ERR_DISABLED_PROBDATA = 102"
definition P_ERR_FILE :: int where "P_ERR_FILE = 103"
definition P_ERR_SERV_CLIENT :: int where "P_ERR_SERV_CLIENT = 104"
definition P_ERR_SEND_MESSAGE :: int where "P_ERR_SEND_MESSAGE = 105"
definition P_ERR_THREAD :: int where "P_ERR_THREAD = 106"
definition P_ERR_IPERF3 :: int where "P_ERR_IPERF3 = 107"
definition P_ERR_FASTPROF :: int where "P_ERR_FASTPROF = 108"
definition P_ERR_SELECT :: int where "P_ERR_SELECT = 190"
definition P_ERR_TPG :: int where "P_ERR_TPG = 120"
definition P_ERR_CTRL_CHAN :: int where "P_ERR_CTRL_CHAN = 121"

lemmas p_err_defs =
  P_ERR_NONE_def P_ERR_UNKNOWN_def P_ERR_DSTFILE_ONLY_def P_ERR_DISABLED_PROBDATA_def
  P_ERR_FILE_def P_ERR_SERV_CLIENT_def P_ERR_SEND_MESSAGE_def P_ERR_THREAD_def
  P_ERR_IPERF3_def P_ERR_FASTPROF_def P_ERR_SELECT_def P_ERR_TPG_def P_ERR_CTRL_CHAN_def

definition F_ERR_NONE :: int where "F_ERR_NONE = 0"
definition F_ERR_UNKNOWN :: int where "F_ERR_UNKNOWN = 1024"
definition F_ERR_ERROR :: int where "F_ERR_ERROR = 108"
definition F_ERR_LOCK :: int where "F_ERR_LOCK = 109"
definition F_ERR_FILE :: int where "F_ERR_FILE = 110"
definition F_ERR_IPERF3 :: int where "F_ERR_IPERF3 = 111"
definition F_ERR_TPG :: int where "F_ERR_TPG = 112"

lemmas f_err_defs =
  F_ERR_NONE_def F_ERR_UNKNOWN_def F_ERR_ERROR_def F_ERR_LOCK_def F_ERR_FILE_def
  F_ERR_IPERF3_def F_ERR_TPG_def

text \<open>
  \<open>f_errstr\<close> and \<open>probdata_errstr\<close> build their result in a \<open>static std::string\<close>.
  The static is an argument and the new value is the result, which is also the text
  returned. \<open>t_errstr\<close> and \<open>iperf_strerror\<close> are functions of the two libraries;
  \<open>t_errno\<close>, \<open>i_errno\<close> their error variables.
\<close>

definition f_errstr_case :: "int \<Rightarrow> string option" where
  "f_errstr_case err_no =
     (if err_no = F_ERR_NONE then Some ''No error''
      else if err_no = F_ERR_UNKNOWN then Some ''Unknown error''
      else if err_no = F_ERR_ERROR then Some ''FastProf error''
      else if err_no = F_ERR_LOCK then Some ''mutex lock error''
      else if err_no = F_ERR_FILE then Some ''cannot open log file''
      else None)"

definition f_errstr ::
    "(int \<Rightarrow> string) \<Rightarrow> (int \<Rightarrow> string) \<Rightarrow> int \<Rightarrow> int \<Rightarrow> int \<Rightarrow> string \<Rightarrow> string" where
  "f_errstr t_errstr iperf_strerror t_errno i_errno err_no static =
     (let errstr = (case f_errstr_case err_no of Some m \<Rightarrow> m | None \<Rightarrow> static);
          errstr = errstr @ '': '';
          errstr = (if t_errno \<noteq> 0 then errstr @ t_errstr t_errno else errstr)
      in if i_errno \<noteq> 0 then errstr @ iperf_strerror i_errno else errstr)"

definition probdata_errstr_case :: "int \<Rightarrow> string option" where
  "probdata_errstr_case err_no =
     (if err_no = P_ERR_NONE then Some ''No error''
      else if err_no = P_ERR_DSTFILE_ONLY then Some ''A source file is required''
      else if err_no = P_ERR_DISABLED_PROBDATA then Some ''Do not specify any file names''
      else if err_no = P_ERR_FILE then Some ''file-related error (most likely cannot create)''
      else if err_no = P_ERR_SERV_CLIENT
        then Some ''cannot be both client and server or none of them''
      else if err_no = P_ERR_SEND_MESSAGE then Some ''control channel cannot send message''
      else if err_no = P_ERR_THREAD then Some ''thread-related errors''
      else if err_no = P_ERR_IPERF3 then Some ''iperf3-related errors''
      else if err_no = P_ERR_FASTPROF then Some ''fastprof-related errors''
      else if err_no = P_ERR_SELECT then Some ''control channel select() error''
      else if err_no = P_ERR_TPG then Some ''tpg-related errors''
      else if err_no = P_ERR_CTRL_CHAN then Some ''control channel-related error''
      else None)"

text \<open>\<open>probdata_errstr\<close> also runs \<open>f_errstr\<close>, so it updates both statics.\<close>

definition probdata_errstr ::
    "(int \<Rightarrow> string) \<Rightarrow> (int \<Rightarrow> string) \<Rightarrow> int \<Rightarrow> int \<Rightarrow> int \<Rightarrow> int \<Rightarrow>
     string \<times> string \<Rightarrow> string \<times> string" where
  "probdata_errstr t_errstr iperf_strerror t_errno i_errno f_errno err_no statics =
     (let (static, f_static) = statics;
          errstr = (case probdata_errstr_case err_no of Some m \<Rightarrow> m | None \<Rightarrow> static);
          errstr = errstr @ '': '';
          errstr = (if t_errno \<noteq> 0 then errstr @ t_errstr t_errno else errstr)
      in if f_errno \<noteq> 0
         then (let f_static' = f_errstr t_errstr iperf_strerror t_errno i_errno f_errno f_static
               in (errstr @ f_static', f_static'))
         else (errstr, f_static))"

end
