(* ===== verification/Fastprof.thy ===== *)
theory Fastprof
  imports Env CScan Status
begin

text \<open>
  The helpers of \<open>fastprof.cpp\<close>: defaults of the control block, random perturbations,
  rounding, time strings and the RTT estimate.
\<close>

subsection \<open>Control block\<close>

definition F_HOSTADDR_LEN :: nat where "F_HOSTADDR_LEN = 64"
definition F_DEFAULT_DURATION :: int where "F_DEFAULT_DURATION = 10"

definition f_ctrl_default :: "fastprof_ctrl \<Rightarrow> (int \<times> fastprof_ctrl) option" where
  "f_ctrl_default ctrl = do {
     local_ip \<leftarrow> c_memset (fc_local_ip ctrl) NUL F_HOSTADDR_LEN;
     remote_ip \<leftarrow> c_memset (fc_remote_ip ctrl) NUL F_HOSTADDR_LEN;
     Some (0, ctrl\<lparr>
       fc_role := F_UNKNOWN, fc_local_ip := local_ip, fc_remote_ip := remote_ip,
       fc_tcp_port := - 1, fc_udt_port := - 1, fc_bw_bps := - 1, fc_rtt_ms := - 1,
       fc_mss := - 1, fc_A_val := - 1, fc_a_val := - 1, fc_a_scale := 1, fc_c_val := - 1,
       fc_c_scale := 1, fc_alpha := - 1, fc_gamma := - 1, fc_pgr := - 1,
       fc_impeded_limit := - 1, fc_max_limit := - 1, fc_duration := F_DEFAULT_DURATION\<rparr>)
   }"

definition f_ctrl_set_addr :: "fastprof_ctrl \<Rightarrow> cbuf \<Rightarrow> (int \<times> fastprof_ctrl) option" where
  "f_ctrl_set_addr ctrl a = do {
     remote_ip \<leftarrow> c_copy_str (fc_remote_ip ctrl) a;
     Some (0, ctrl\<lparr>fc_remote_ip := remote_ip\<rparr>)
   }"

subsection \<open>Random numbers and rounding\<close>

definition RAND_MAX :: int where "RAND_MAX = 2147483647"

text \<open>C's \<open>%\<close>: the remainder of the division that truncates towards zero.\<close>

definition c_rem :: "int \<Rightarrow> int \<Rightarrow> int" where
  "c_rem a b = sgn a * (\<bar>a\<bar> mod \<bar>b\<bar>)"

definition f_perturb :: "'w env \<Rightarrow> 'w \<Rightarrow> dbl \<times> 'w" where
  "f_perturb E w =
     (let (r, w) = e_rand E w
      in (if d_of_int r / d_of_int RAND_MAX > Fin (1 / 2) then 1 else - 1, w))"

definition f_round :: "dbl \<Rightarrow> dbl" where
  "f_round x = dfloor (x + Fin (1 / 2))"

definition f_rand :: "'w env \<Rightarrow> int \<Rightarrow> int \<Rightarrow> 'w \<Rightarrow> dbl \<times> 'w" where
  "f_rand E x y w =
     (let (r, w) = e_rand E w in (d_of_int (c_rem r (y - x + 1) + x), w))"

lemma f_perturb_values: "fst (f_perturb E w) = 1 \<or> fst (f_perturb E w) = - 1"
  by (simp add: f_perturb_def Let_def case_prod_beta)

lemma f_rand_range:
  assumes "0 \<le> fst (e_rand E w)" "x \<le> y" "\<bar>x\<bar> \<le> 1000" "\<bar>y\<bar> \<le> 1000"
  shows "\<exists>n. fst (f_rand E x y w) = d_of_int n \<and> x \<le> n \<and> n \<le> y"
proof -
  let ?n = "c_rem (fst (e_rand E w)) (y - x + 1) + x"
  have "0 \<le> c_rem (fst (e_rand E w)) (y - x + 1)" "c_rem (fst (e_rand E w)) (y - x + 1) < y - x + 1"
    using assms pos_mod_bound [of "y - x + 1" "fst (e_rand E w)"] by (auto simp: c_rem_def sgn_if)
  then have "x \<le> ?n \<and> ?n \<le> y" by simp
  moreover have "fst (f_rand E x y w) = d_of_int ?n"
    by (simp add: f_rand_def Let_def case_prod_beta)
  ultimately show ?thesis by blast
qed

subsection \<open>Time strings\<close>

definition tm_text :: "tm \<Rightarrow> string" where
  "tm_text t =
     show_0d 2 (tm_mon t + 1) @ '':'' @ show_0d 2 (tm_mday t) @ '':'' @ show_int (tm_year t + 1900) @
     '':'' @ show_0d 2 (tm_hour t) @ '':'' @ show_0d 2 (tm_min t) @ '':'' @ show_0d 2 (tm_sec t)"

definition f_get_currtime_str :: "'w env \<Rightarrow> cbuf \<Rightarrow> 'w \<Rightarrow> (int \<times> cbuf \<times> 'w) option" where
  "f_get_currtime_str E tm_str w = do {
     let (currtime, w) = e_localtime E w;
     tm_str \<leftarrow> c_puts tm_str (tm_text currtime);
     Some (0, tm_str, w)
   }"

subsection \<open>The RTT estimate\<close>

text \<open>
  \<open>std::string::find\<close>: the first position of a word, \<open>npos = 2^64 - 1\<close> when there is
  none. The code keeps the position in an \<open>unsigned int\<close> and then compares it with the
  64-bit \<open>npos\<close>.
\<close>

fun find_word :: "string \<Rightarrow> string \<Rightarrow> nat option" where
  "find_word p [] = (if p = [] then Some 0 else None)"
| "find_word p (c # s) =
     (if take (length p) (c # s) = p then Some 0 else map_option Suc (find_word p s))"

definition npos :: int where "npos = 2 ^ 64 - 1"

definition mdev_format :: "conv list" where
  "mdev_format =
     map CLit ''mdev'' @ [CWs, CLit (CHR ''=''), CWs, CDbl, CLit (CHR ''/''), CDbl,
       CLit (CHR ''/''), CDbl, CLit (CHR ''/''), CDbl, CWs, CLit (CHR ''m''), CLit (CHR ''s'')]"

text \<open>
  \<open>f_estimate_rtt\<close>: run \<open>ping\<close> and read the average out of its last line. A \<open>substr\<close>
  that starts past the end throws \<open>std::out_of_range\<close>, which nothing catches: that is
  \<open>None\<close>, as undefined behaviour is.
\<close>

definition f_estimate_rtt :: "'w env \<Rightarrow> cbuf \<Rightarrow> 'w \<Rightarrow> (dbl \<times> 'w) option" where
  "f_estimate_rtt E hostaddr w = do {
     _ \<leftarrow> c_strlen hostaddr;
     format_cmd \<leftarrow> c_puts (replicate 128 NUL) (''/bin/ping -w 6 -c 5 '' @ c_str hostaddr);
     let cmd = c_str format_cmd @ '' 2>&1'';
     let (out, w) = e_popen_output E cmd w;
     (case out of
        None \<Rightarrow> Some (- 1, w)
      | Some output_str \<Rightarrow>
          (let pos = (case find_word ''mdev'' output_str of None \<Rightarrow> npos | Some i \<Rightarrow> int i);
               ret = pos mod 2 ^ 32
           in if ret = npos then Some (- 1, w)
              else if int (length output_str) < ret then None
              else do {
                vals \<leftarrow> sscanf mdev_format (drop (nat ret) output_str);
                (case vals of
                   _ # SDbl avg_rtt_ms # _ \<Rightarrow> Some (avg_rtt_ms, w)
                 | _ \<Rightarrow> Some (- 1, w))
              }))
   }"

end
