(* ===== verification/ProfileDb.thy ===== *)
theory ProfileDb
  imports Fastprof
begin

text \<open>
  The profile data base: one text file per pair of hosts, one \<open>mem_record\<close> per line. The
  record format and the file name that the profilers write (\<open>fastprof.h\<close>), and the
  search for the best record (\<open>f_m2m_db_search\<close> in \<open>fastprof.cpp\<close>).
\<close>

subsection \<open>The format of a record\<close>

definition F_DEFAULT_M2M_FOLDER :: string where
  "F_DEFAULT_M2M_FOLDER = ''../../profile/mem''"

definition MEM_RECORD_NUM_ELEMENTS :: nat where "MEM_RECORD_NUM_ELEMENTS = 17"

text \<open>
  The text that \<open>fprintf(f, MEM_RECORD_FORMAT_LABEL, ...)\<close> writes; the strings of the
  record must be terminated and its performance set.
\<close>

definition mem_record_text :: "mem_record \<Rightarrow> string option" where
  "mem_record_text r = do {
     _ \<leftarrow> c_strlen (src_ip r); _ \<leftarrow> c_strlen (dst_ip r); _ \<leftarrow> c_strlen (curr_time r);
     _ \<leftarrow> c_strlen (protocol_name r); _ \<leftarrow> c_strlen (toolkit_name r);
     _ \<leftarrow> c_strlen (buffer_size_unit r); _ \<leftarrow> c_strlen (block_size_unit r);
     _ \<leftarrow> c_strlen (duration_unit r); _ \<leftarrow> c_strlen (trans_size_unit r);
     _ \<leftarrow> c_strlen (average_perf_unit r);
     perf \<leftarrow> average_perf r;
     Some (c_str (src_ip r) @ '' '' @ c_str (dst_ip r) @ '' '' @ c_str (curr_time r) @ '' '' @
       c_str (protocol_name r) @ '' '' @ c_str (toolkit_name r) @ '' '' @
       show_int (num_streams r) @ '' '' @ show_int (mss_size r) @ '' '' @
       show_int (buffer_size r) @ '' '' @ c_str (buffer_size_unit r) @ '' '' @
       show_int (block_size r) @ '' '' @ c_str (block_size_unit r) @ '' '' @
       show_int (duration r) @ '' '' @ c_str (duration_unit r) @ '' '' @
       show_int (trans_size r) @ '' '' @ c_str (trans_size_unit r) @ '' '' @
       show_lf perf @ '' '' @ c_str (average_perf_unit r))
   }"

definition m2m_filename :: "fastprof_ctrl \<Rightarrow> string option" where
  "m2m_filename ctrl = do {
     _ \<leftarrow> c_strlen (fc_local_ip ctrl); _ \<leftarrow> c_strlen (fc_remote_ip ctrl);
     filename \<leftarrow> c_puts (replicate 256 NUL) (F_DEFAULT_M2M_FOLDER @ ''/'' @
       c_str (fc_local_ip ctrl) @ ''_'' @ c_str (fc_remote_ip ctrl) @ ''.PROF'');
     Some (c_str filename)
   }"

text \<open>The same label as a \<open>sscanf\<close> format; the arrays of the record have 32 and 8 bytes.\<close>

definition mem_record_format :: "conv list" where
  "mem_record_format =
     [CStr 32, CWs, CStr 32, CWs, CStr 32, CWs, CStr 32, CWs, CStr 32, CWs, CInt, CWs, CInt,
      CWs, CInt, CWs, CStr 8, CWs, CInt, CWs, CStr 8, CWs, CInt, CWs, CStr 8, CWs, CLong,
      CWs, CStr 8, CWs, CDbl, CWs, CStr 8]"

text \<open>
  Storing the converted values in a record: a string replaces the front of its array, the
  bytes behind its terminator stay.
\<close>

definition put_str :: "cbuf \<Rightarrow> string \<Rightarrow> cbuf" where
  "put_str dst s = s @ NUL # drop (Suc (length s)) dst"

fun as_str :: "sval \<Rightarrow> string" where
  "as_str (SStr s) = s"
| "as_str _ = []"

fun as_int :: "sval \<Rightarrow> int" where
  "as_int (SInt n) = n"
| "as_int _ = 0"

fun as_dbl :: "sval \<Rightarrow> dbl" where
  "as_dbl (SDbl x) = x"
| "as_dbl _ = NaN"

definition mem_record_store :: "mem_record \<Rightarrow> sval list \<Rightarrow> mem_record" where
  "mem_record_store r v =
     \<lparr>src_ip = put_str (src_ip r) (as_str (v ! 0)), dst_ip = put_str (dst_ip r) (as_str (v ! 1)),
      curr_time = put_str (curr_time r) (as_str (v ! 2)),
      protocol_name = put_str (protocol_name r) (as_str (v ! 3)),
      toolkit_name = put_str (toolkit_name r) (as_str (v ! 4)),
      num_streams = as_int (v ! 5), mss_size = as_int (v ! 6), buffer_size = as_int (v ! 7),
      buffer_size_unit = put_str (buffer_size_unit r) (as_str (v ! 8)),
      block_size = as_int (v ! 9),
      block_size_unit = put_str (block_size_unit r) (as_str (v ! 10)),
      duration = as_int (v ! 11), duration_unit = put_str (duration_unit r) (as_str (v ! 12)),
      trans_size = as_int (v ! 13),
      trans_size_unit = put_str (trans_size_unit r) (as_str (v ! 14)),
      average_perf = Some (as_dbl (v ! 15)),
      average_perf_unit = put_str (average_perf_unit r) (as_str (v ! 16))\<rparr>"

subsection \<open>Reading a file line by line\<close>

text \<open>
  \<open>fgets\<close> with room for \<open>n\<close> characters: the characters read, the rest of the file, and
  whether the end of the file was hit (what \<open>feof\<close> reports from then on).
\<close>

fun fgets :: "nat \<Rightarrow> string \<Rightarrow> string \<times> string \<times> bool" where
  "fgets 0 s = ([], s, False)"
| "fgets (Suc n) [] = ([], [], True)"
| "fgets (Suc n) (c # s) =
     (if c = CHR 0x0A then ([c], s, False)
      else let (l, r, eof) = fgets n s in (c # l, r, eof))"

text \<open>The first characters on which the search skips a line; NUL is an empty one.\<close>

definition skipped_line :: "string \<Rightarrow> bool" where
  "skipped_line readline \<longleftrightarrow>
     hd (readline @ [NUL]) \<in> {CHR 0x0A, CHR 0x09, CHR '' '', NUL, CHR ''#''}"

subsection \<open>The search\<close>

text \<open>
  The variables of the loop. \<open>d_tmp\<close> is \<open>record_tmp\<close>, whose arrays keep the bytes of the
  lines before.
\<close>

record db_scan =
  d_rest :: string
  d_eof :: bool
  d_tmp :: mem_record
  d_max :: mem_record

text \<open>\<open>if (record_tmp.average_perf > record_max->average_perf) memcpy(...)\<close>\<close>

definition db_keep_best :: "db_scan \<Rightarrow> db_scan option" where
  "db_keep_best s = do {
     new \<leftarrow> average_perf (d_tmp s);
     best \<leftarrow> average_perf (d_max s);
     Some (if new > best then s\<lparr>d_max := d_tmp s\<rparr> else s)
   }"

definition db_search_body :: "db_scan \<Rightarrow> db_scan ctl option" where
  "db_search_body s =
     (if d_eof s then Some (Break s)
      else
        (let (readline, rest, eof) = fgets 511 (d_rest s);
             s = s\<lparr>d_rest := rest, d_eof := eof\<rparr>
         in if skipped_line readline then Some (Next s)
            else do {
              vals \<leftarrow> sscanf mem_record_format (c_str (readline @ [NUL]));
              if length vals \<noteq> MEM_RECORD_NUM_ELEMENTS then Some (Return (- 1) s)
              else do {
                s \<leftarrow> db_keep_best (s\<lparr>d_tmp := mem_record_store (d_tmp s) vals\<rparr>);
                Some (Next s)
              }
            }))"

text \<open>
  The search in the text of an open file: the return code and \<open>record_max\<close>. \<open>tmp\<close> is
  what the uninitialised \<open>record_tmp\<close> happens to hold.
\<close>

definition db_search_text :: "mem_record \<Rightarrow> string \<Rightarrow> mem_record \<Rightarrow> (int \<times> mem_record) option" where
  "db_search_text tmp contents record_max = do {
     c \<leftarrow> run_loop db_search_body \<lparr>d_rest = contents, d_eof = False, d_tmp = tmp,
           d_max = record_max\<lparr>average_perf := Some (- 1)\<rparr>\<rparr>;
     let record_max = d_max (ctl_state c);
     (case c of
        Return r _ \<Rightarrow> Some (r, record_max)
      | _ \<Rightarrow> do {
          best \<leftarrow> average_perf record_max;
          Some (if best < 0 then (- 1, record_max) else (0, record_max))
        })
   }"

definition f_m2m_db_search ::
    "'w env \<Rightarrow> mem_record \<Rightarrow> addr \<Rightarrow> mem_record \<Rightarrow> fastprof_ctrl \<Rightarrow> 'w \<Rightarrow>
     (int \<times> mem_record \<times> 'w) option" where
  "f_m2m_db_search E tmp f record_max ctrl w =
     (if \<not> e_dir_exists E F_DEFAULT_M2M_FOLDER w
      then Some (- 1, record_max, e_mkdir E F_DEFAULT_M2M_FOLDER w)
      else do {
        (f, w) \<leftarrow> (if f \<noteq> 0 then Some (f, w)
                   else do { filename \<leftarrow> m2m_filename ctrl; Some (e_fopen E filename w) });
        if f = 0 then Some (- 1, record_max, w)
        else do {
          (r, record_max) \<leftarrow> db_search_text tmp (e_fread_all E f w) record_max;
          Some (r, record_max, if r < 0 then w else e_fclose E f w)
        }
      })"

text \<open>What \<open>f_print_m2m_record\<close> prints.\<close>

definition f_print_m2m_record :: "mem_record \<Rightarrow> string option" where
  "f_print_m2m_record r = do {
     _ \<leftarrow> c_strlen (src_ip r); _ \<leftarrow> c_strlen (dst_ip r); _ \<leftarrow> c_strlen (curr_time r);
     _ \<leftarrow> c_strlen (protocol_name r); _ \<leftarrow> c_strlen (toolkit_name r);
     _ \<leftarrow> c_strlen (buffer_size_unit r); _ \<leftarrow> c_strlen (block_size_unit r);
     _ \<leftarrow> c_strlen (duration_unit r); _ \<leftarrow> c_strlen (trans_size_unit r);
     _ \<leftarrow> c_strlen (average_perf_unit r);
     perf \<leftarrow> average_perf r;
     let nl = [CHR 0x0A];
     Some (''    SrcIP:        '' @ c_str (src_ip r) @ nl @
       ''    DstIP:        '' @ c_str (dst_ip r) @ nl @
       ''    Time:         '' @ c_str (curr_time r) @ nl @
       ''    Protocol:     '' @ c_str (protocol_name r) @ nl @
       ''    Toolkit:      '' @ c_str (toolkit_name r) @ nl @
       ''    Stream#:      '' @ show_int (num_streams r) @ nl @
       ''    MSS(PktSize): '' @ show_int (mss_size r) @ nl @
       ''    BufferSize:   '' @ show_int (buffer_size r) @ c_str (buffer_size_unit r) @ nl @
       ''    BlockSize:    '' @ show_int (block_size r) @ c_str (block_size_unit r) @ nl @
       ''    Duration:     '' @ show_int (duration r) @ c_str (duration_unit r) @ nl @
       ''    TransferSize: '' @ show_int (trans_size r) @ c_str (trans_size_unit r) @ nl @
       ''    AvgPerf:      '' @ show_lf perf @ c_str (average_perf_unit r) @ nl)
   }"

subsection \<open>Reading back a record that was written\<close>

text \<open>A string that \<open>%s\<close> reads back from an array of \<open>n\<close> bytes.\<close>

definition word_of :: "nat \<Rightarrow> cbuf \<Rightarrow> bool" where
  "word_of n b \<longleftrightarrow> terminated b \<and> c_str b \<noteq> [] \<and> length (c_str b) < n \<and>
     (\<forall>c \<in> set (c_str b). \<not> c_isspace c)"

definition wf_record :: "mem_record \<Rightarrow> bool" where
  "wf_record r \<longleftrightarrow>
     word_of 32 (src_ip r) \<and> word_of 32 (dst_ip r) \<and> word_of 32 (curr_time r) \<and>
     word_of 32 (protocol_name r) \<and> word_of 32 (toolkit_name r) \<and>
     word_of 8 (buffer_size_unit r) \<and> word_of 8 (block_size_unit r) \<and>
     word_of 8 (duration_unit r) \<and> word_of 8 (trans_size_unit r) \<and>
     word_of 8 (average_perf_unit r) \<and>
     in_int (num_streams r) \<and> in_int (mss_size r) \<and> in_int (buffer_size r) \<and>
     in_int (block_size r) \<and> in_int (duration r) \<and>
     - (2 ^ 63) \<le> trans_size r \<and> trans_size r < 2 ^ 63 \<and> average_perf r \<noteq> None"

text \<open>What \<open>sscanf\<close> stores; the performance has been through \<open>%lf\<close>.\<close>

definition read_perf :: "mem_record \<Rightarrow> dbl" where
  "read_perf r = lf6 (the (average_perf r))"

definition record_vals :: "mem_record \<Rightarrow> sval list" where
  "record_vals r =
     [SStr (c_str (src_ip r)), SStr (c_str (dst_ip r)), SStr (c_str (curr_time r)),
      SStr (c_str (protocol_name r)), SStr (c_str (toolkit_name r)),
      SInt (num_streams r), SInt (mss_size r), SInt (buffer_size r),
      SStr (c_str (buffer_size_unit r)), SInt (block_size r), SStr (c_str (block_size_unit r)),
      SInt (duration r), SStr (c_str (duration_unit r)), SInt (trans_size r),
      SStr (c_str (trans_size_unit r)), SDbl (read_perf r), SStr (c_str (average_perf_unit r))]"

text \<open>Two records that print alike, the second one with the performance as read.\<close>

definition reads_as :: "mem_record \<Rightarrow> mem_record \<Rightarrow> bool" where
  "reads_as r m \<longleftrightarrow>
     c_str (src_ip m) = c_str (src_ip r) \<and> c_str (dst_ip m) = c_str (dst_ip r) \<and>
     c_str (curr_time m) = c_str (curr_time r) \<and>
     c_str (protocol_name m) = c_str (protocol_name r) \<and>
     c_str (toolkit_name m) = c_str (toolkit_name r) \<and>
     num_streams m = num_streams r \<and> mss_size m = mss_size r \<and>
     buffer_size m = buffer_size r \<and>
     c_str (buffer_size_unit m) = c_str (buffer_size_unit r) \<and>
     block_size m = block_size r \<and> c_str (block_size_unit m) = c_str (block_size_unit r) \<and>
     duration m = duration r \<and> c_str (duration_unit m) = c_str (duration_unit r) \<and>
     trans_size m = trans_size r \<and> c_str (trans_size_unit m) = c_str (trans_size_unit r) \<and>
     average_perf m = Some (read_perf r) \<and>
     c_str (average_perf_unit m) = c_str (average_perf_unit r)"

lemma c_str_put_str [simp]: "c_str (put_str dst (c_str b)) = c_str b"
  by (simp add: put_str_def)

lemma mem_record_store_reads_as: "reads_as r (mem_record_store m (record_vals r))"
  by (simp add: reads_as_def mem_record_store_def record_vals_def eval_nat_numeral)

lemma skip_ws_word: "r \<noteq> [] \<Longrightarrow> \<not> c_isspace (hd r) \<Longrightarrow> skip_ws r = r"
  by (cases r) (auto simp: skip_ws_def)

lemma sscanf_sep:
  assumes "r \<noteq> []" "\<not> c_isspace (hd r)"
  shows "sscanf (CWs # f) (CHR '' '' # r) = sscanf f r"
proof -
  have "skip_ws (CHR '' '' # r) = skip_ws r" by (simp add: skip_ws_def c_isspace_def)
  then show ?thesis using skip_ws_word [OF assms] by simp
qed

lemma sscanf_word:
  assumes "word_of n b" "stops r"
  shows "sscanf (CStr n # f) (c_str b @ r) = map_option ((#) (SStr (c_str b))) (sscanf f r)"
proof -
  let ?s = "c_str b"
  have s: "?s \<noteq> []" "\<forall>c \<in> set ?s. \<not> c_isspace c" "length ?s < n"
    using assms by (auto simp: word_of_def)
  then have "skip_ws (?s @ r) = ?s @ r" by (intro skip_ws_word) auto
  moreover have "takeWhile (\<lambda>c. \<not> c_isspace c) (?s @ r) = ?s"
    "dropWhile (\<lambda>c. \<not> c_isspace c) (?s @ r) = r"
    using takeWhile_stop [of ?s "\<lambda>c. \<not> c_isspace c" r] s assms(2) by (auto simp: stops_def)
  ultimately show ?thesis using s by simp
qed

lemma show_int_hd: "show_int n \<noteq> [] \<and> \<not> c_isspace (hd (show_int n))"
proof -
  have "\<not> c_isspace (hd (show_nat m))" for m
    using show_nat_hd [of m] digit_not_sign by fastforce
  then show ?thesis by (simp add: show_int_def c_isspace_def)
qed

lemma show_lf_hd: "show_lf x \<noteq> [] \<and> \<not> c_isspace (hd (show_lf x))"
proof -
  have "\<not> c_isspace (hd (show_nat m))" for m
    using show_nat_hd [of m] digit_not_sign by fastforce
  then show ?thesis
    by (cases x) (simp_all add: show_lf_def show_lf_fin_def Let_def c_isspace_def)
qed

lemma sscanf_int:
  assumes "in_int n" "stops r"
  shows "sscanf (CInt # f) (show_int n @ r) = map_option ((#) (SInt n)) (sscanf f r)"
  using show_int_hd [of n] scan_int_show_int [OF assms(2), of n] assms(1)
  by (simp add: skip_ws_word)

lemma sscanf_long:
  assumes "- (2 ^ 63) \<le> n" "n < 2 ^ 63" "stops r"
  shows "sscanf (CLong # f) (show_int n @ r) = map_option ((#) (SInt n)) (sscanf f r)"
  using show_int_hd [of n] scan_int_show_int [OF assms(3), of n] assms(1,2)
  by (simp add: skip_ws_word)

lemma sscanf_lf:
  assumes "stops r"
  shows "sscanf (CDbl # f) (show_lf x @ r) = map_option ((#) (SDbl (lf6 x))) (sscanf f r)"
  using show_lf_hd [of x] scan_lf_show_lf [OF assms, of x] by (simp add: skip_ws_word)

lemma stops_space [simp]: "stops (CHR '' '' # r)" "stops (CHR 0x0A # r)" "stops []"
  by (simp_all add: stops_def c_isspace_def)

lemma word_of_hd: "word_of n b \<Longrightarrow> c_str b \<noteq> [] \<and> \<not> c_isspace (hd (c_str b))"
  by (auto simp: word_of_def)

lemma sscanf_record:
  assumes wf: "wf_record r" and text_r: "mem_record_text r = Some t" and rest: "stops rest"
  shows "sscanf mem_record_format (t @ rest) = Some (record_vals r)"
proof -
  note w = wf [unfolded wf_record_def]
  note hds = word_of_hd [of 32 "src_ip r"] word_of_hd [of 32 "dst_ip r"]
    word_of_hd [of 32 "curr_time r"] word_of_hd [of 32 "protocol_name r"]
    word_of_hd [of 32 "toolkit_name r"] word_of_hd [of 8 "buffer_size_unit r"]
    word_of_hd [of 8 "block_size_unit r"] word_of_hd [of 8 "duration_unit r"]
    word_of_hd [of 8 "trans_size_unit r"] word_of_hd [of 8 "average_perf_unit r"]
  have t: "t = c_str (src_ip r) @ '' '' @ c_str (dst_ip r) @ '' '' @ c_str (curr_time r) @ '' '' @
       c_str (protocol_name r) @ '' '' @ c_str (toolkit_name r) @ '' '' @
       show_int (num_streams r) @ '' '' @ show_int (mss_size r) @ '' '' @
       show_int (buffer_size r) @ '' '' @ c_str (buffer_size_unit r) @ '' '' @
       show_int (block_size r) @ '' '' @ c_str (block_size_unit r) @ '' '' @
       show_int (duration r) @ '' '' @ c_str (duration_unit r) @ '' '' @
       show_int (trans_size r) @ '' '' @ c_str (trans_size_unit r) @ '' '' @
       show_lf (the (average_perf r)) @ '' '' @ c_str (average_perf_unit r)"
    using text_r by (auto simp: mem_record_text_def bind_eq_Some_conv)
  show ?thesis
    unfolding t mem_record_format_def record_vals_def read_perf_def append_assoc append_Cons append_Nil
    using w hds show_int_hd show_lf_hd rest
    by (simp add: sscanf_word sscanf_int sscanf_long sscanf_lf sscanf_sep
        del: sscanf.simps(2-))
qed

subsection \<open>Lines\<close>

abbreviation newline :: char where "newline \<equiv> CHR 0x0A"

lemma fgets_line:
  "newline \<notin> set l \<Longrightarrow> length l < n \<Longrightarrow> fgets n (l @ newline # rest) = (l @ [newline], rest, False)"
proof (induction l arbitrary: n)
  case Nil
  then show ?case by (cases n) auto
next
  case (Cons c l)
  then show ?case by (cases n) (auto simp: Let_def)
qed

lemma fgets_rest: "fgets n s = (l, r, eof) \<Longrightarrow> 0 < n \<Longrightarrow> eof \<or> length r < length s"
  by (induction n s arbitrary: l r rule: fgets.induct) (fastforce split: if_splits prod.splits)+

lemma isdigit_ne: "c_isdigit c \<Longrightarrow> c \<noteq> newline \<and> c \<noteq> NUL"
  by (auto simp: c_isdigit_def NUL_def)

lemma show_nat_clean: "newline \<notin> set (show_nat n) \<and> NUL \<notin> set (show_nat n)"
  using show_nat_digits isdigit_ne by blast

lemma pad0_clean:
  "newline \<notin> set (pad0 w (show_nat n)) \<and> NUL \<notin> set (pad0 w (show_nat n))"
  using pad0_digits isdigit_ne by blast

lemma show_int_clean: "newline \<notin> set (show_int n) \<and> NUL \<notin> set (show_int n)"
  using show_nat_clean by (auto simp: show_int_def NUL_def)

lemma show_lf_clean: "newline \<notin> set (show_lf x) \<and> NUL \<notin> set (show_lf x)"
  using show_nat_clean pad0_clean
  by (cases x) (auto simp: show_lf_def show_lf_fin_def Let_def NUL_def)

lemma word_of_clean: "word_of n b \<Longrightarrow> newline \<notin> set (c_str b) \<and> NUL \<notin> set (c_str b)"
  by (auto simp: word_of_def c_isspace_def)

lemma record_text_clean:
  assumes wf: "wf_record r" and text_r: "mem_record_text r = Some t"
  shows "newline \<notin> set t" "NUL \<notin> set t" "t \<noteq> []" "hd t = hd (c_str (src_ip r))"
proof -
  note w = wf [unfolded wf_record_def]
  have t: "t = c_str (src_ip r) @ '' '' @ c_str (dst_ip r) @ '' '' @ c_str (curr_time r) @ '' '' @
       c_str (protocol_name r) @ '' '' @ c_str (toolkit_name r) @ '' '' @
       show_int (num_streams r) @ '' '' @ show_int (mss_size r) @ '' '' @
       show_int (buffer_size r) @ '' '' @ c_str (buffer_size_unit r) @ '' '' @
       show_int (block_size r) @ '' '' @ c_str (block_size_unit r) @ '' '' @
       show_int (duration r) @ '' '' @ c_str (duration_unit r) @ '' '' @
       show_int (trans_size r) @ '' '' @ c_str (trans_size_unit r) @ '' '' @
       show_lf (the (average_perf r)) @ '' '' @ c_str (average_perf_unit r)"
    using text_r by (auto simp: mem_record_text_def bind_eq_Some_conv)
  have "newline \<notin> set (c_str (src_ip r))" "newline \<notin> set (c_str (dst_ip r))"
    "newline \<notin> set (c_str (curr_time r))" "newline \<notin> set (c_str (protocol_name r))"
    "newline \<notin> set (c_str (toolkit_name r))" "newline \<notin> set (c_str (buffer_size_unit r))"
    "newline \<notin> set (c_str (block_size_unit r))" "newline \<notin> set (c_str (duration_unit r))"
    "newline \<notin> set (c_str (trans_size_unit r))" "newline \<notin> set (c_str (average_perf_unit r))"
    using w word_of_clean by blast+
  then show "newline \<notin> set t" unfolding t by (simp add: show_int_clean show_lf_clean)
  show "NUL \<notin> set t"
    unfolding t by (simp add: show_int_clean show_lf_clean) (simp add: NUL_def)
  have "c_str (src_ip r) \<noteq> []" using w by (simp add: word_of_def)
  then show "t \<noteq> []" "hd t = hd (c_str (src_ip r))" unfolding t by simp_all
qed

text \<open>
  A record that its line shows as it is: it fits the buffer of \<open>fgets\<close> and is not taken
  for a comment.
\<close>

definition storable :: "mem_record \<Rightarrow> bool" where
  "storable r \<longleftrightarrow> wf_record r \<and> hd (c_str (src_ip r)) \<noteq> CHR ''#'' \<and>
     (case mem_record_text r of None \<Rightarrow> False | Some t \<Rightarrow> length t < 511)"

definition db_line :: "mem_record \<Rightarrow> string" where
  "db_line r = (case mem_record_text r of None \<Rightarrow> [] | Some t \<Rightarrow> t @ [newline])"

lemma db_search_body_line:
  assumes "storable r" "\<not> d_eof s" "d_rest s = db_line r @ rest"
  shows "db_search_body s = do {
    s \<leftarrow> db_keep_best (s\<lparr>d_rest := rest, d_eof := False,
            d_tmp := mem_record_store (d_tmp s) (record_vals r)\<rparr>);
    Some (Next s) }"
proof -
  obtain t where t: "mem_record_text r = Some t" "length t < 511"
    using assms(1) by (auto simp: storable_def split: option.splits)
  have wf: "wf_record r" using assms(1) by (simp add: storable_def)
  note clean = record_text_clean [OF wf t(1)]
  have g: "fgets 511 (d_rest s) = (t @ [newline], rest, False)"
    using fgets_line [OF clean(1) t(2)] assms(3) t(1) by (simp add: db_line_def)
  have "word_of 32 (src_ip r)" using wf by (simp add: wf_record_def)
  then have "hd (t @ [newline]) \<notin> {newline, CHR 0x09, CHR '' '', NUL, CHR ''#''}"
    using assms(1) clean(2-4) hd_in_set [OF clean(3)] word_of_hd [of 32 "src_ip r"]
    by (auto simp: storable_def c_isspace_def)
  then have k: "\<not> skipped_line (t @ [newline])"
    using clean(3) by (simp add: skipped_line_def)
  have "NUL \<notin> set (t @ [newline])" using clean(2) by (simp add: NUL_def)
  then have c: "c_str ((t @ [newline]) @ [NUL]) = t @ [newline]" by (rule c_str_append_NUL)
  have p: "sscanf mem_record_format (t @ [newline]) = Some (record_vals r)"
    by (rule sscanf_record [OF wf t(1)]) simp
  have n: "length (record_vals r) = MEM_RECORD_NUM_ELEMENTS"
    by (simp add: record_vals_def MEM_RECORD_NUM_ELEMENTS_def)
  show ?thesis
    unfolding db_search_body_def g Let_def prod.case using assms(2) k
    by (simp add: c [simplified] p n)
qed

lemma db_search_body_blank:
  assumes "\<not> d_eof s" "fgets 511 (d_rest s) = (l, rest, eof)" "skipped_line l"
  shows "db_search_body s = Some (Next (s\<lparr>d_rest := rest, d_eof := eof\<rparr>))"
  using assms by (simp add: db_search_body_def)

text \<open>Every iteration reads a line or meets the end of the file, so the search ends.\<close>

definition db_todo :: "db_scan \<Rightarrow> nat" where
  "db_todo s = 2 * length (d_rest s) + (if d_eof s then 0 else 1)"

lemma db_search_body_progress:
  assumes "db_search_body s = Some (Next t)"
  shows "db_todo t < db_todo s"
proof -
  obtain l r eof where g: "fgets 511 (d_rest s) = (l, r, eof)" by (cases "fgets 511 (d_rest s)")
  have frame: "d_rest u = d_rest v \<and> d_eof u = d_eof v" if "db_keep_best v = Some u" for u v
    using that by (auto simp: db_keep_best_def bind_eq_Some_conv split: if_splits)
  have "\<not> d_eof s" "d_rest t = r" "d_eof t = eof"
    using assms g by (auto simp: db_search_body_def Let_def bind_eq_Some_conv dest!: frame split: if_splits)
  moreover have "length r \<le> length (d_rest s)"
  proof -
    have "length r \<le> length s0" if "fgets n s0 = (l0, r, e0)" for n s0 l0 e0
      using that by (induction n s0 arbitrary: l0 rule: fgets.induct)
        (fastforce split: if_splits prod.splits)+
    then show ?thesis using g .
  qed
  ultimately show ?thesis using fgets_rest [OF g] by (auto simp: db_todo_def)
qed

interpretation db_scan_loop: decreasing_loop db_search_body "\<lambda>_. True" db_todo
  by unfold_locales (auto intro: db_search_body_progress)

subsection \<open>What the search finds\<close>

text \<open>
  The specification: of the records of the file, the first whose performance no other one
  exceeds; the search starts from a performance of \<open>-1\<close>.
\<close>

fun db_best :: "mem_record option \<Rightarrow> mem_record list \<Rightarrow> mem_record option" where
  "db_best best [] = best"
| "db_best best (r # rs) =
     db_best (if read_perf r > (case best of None \<Rightarrow> - 1 | Some b \<Rightarrow> read_perf b)
              then Some r else best) rs"

abbreviation best_perf :: "mem_record option \<Rightarrow> dbl" where
  "best_perf best \<equiv> (case best of None \<Rightarrow> - 1 | Some b \<Rightarrow> read_perf b)"

lemma db_best_cases:
  "db_best best rs = best \<or> (\<exists>r \<in> set rs. db_best best rs = Some r)"
  by (induction best rs rule: db_best.induct) (auto split: if_splits)

lemma db_best_max:
  assumes "best_perf best \<noteq> NaN"
  shows "(\<forall>r \<in> set rs. \<not> read_perf r > best_perf (db_best best rs)) \<and>
    \<not> best_perf best > best_perf (db_best best rs) \<and> best_perf (db_best best rs) \<noteq> NaN"
  using assms
proof (induction best rs rule: db_best.induct)
  case (2 best r rs)
  let ?b = "if read_perf r > best_perf best then Some r else best"
  have nan: "best_perf ?b \<noteq> NaN" using 2(2) dbl_less_not_NaN by auto
  have up: "\<not> best_perf best > best_perf ?b" "\<not> read_perf r > best_perf ?b"
    using dbl_less_trans [of "best_perf best" "read_perf r" "best_perf best"] by auto
  note IH = 2(1) [OF nan]
  have "\<not> x > best_perf (db_best ?b rs)" if "\<not> x > best_perf ?b" for x
    using dbl_not_less_trans [OF nan that] IH by blast
  then show ?case using IH up by auto
qed simp

text \<open>
  The lines of a data base file: a record, or a line that the search skips (blank or a
  comment).
\<close>

type_synonym db_lines = "(string + mem_record) list"

definition ok_line :: "string + mem_record \<Rightarrow> bool" where
  "ok_line l \<longleftrightarrow>
     (case l of Inr r \<Rightarrow> storable r
      | Inl c \<Rightarrow> newline \<notin> set c \<and> length c < 511 \<and> skipped_line (c @ [newline]))"

definition line_text :: "string + mem_record \<Rightarrow> string" where
  "line_text l = (case l of Inr r \<Rightarrow> db_line r | Inl c \<Rightarrow> c @ [newline])"

definition db_file :: "db_lines \<Rightarrow> string" where
  "db_file ls = concat (map line_text ls)"

definition db_records :: "db_lines \<Rightarrow> mem_record list" where
  "db_records ls = concat (map (case_sum (\<lambda>_. []) (\<lambda>r. [r])) ls)"

lemma db_records_simps [simp]:
  "db_records [] = []" "db_records (Inl c # ls) = db_records ls"
  "db_records (Inr r # ls) = r # db_records ls"
  by (simp_all add: db_records_def)

definition holds_best :: "mem_record option \<Rightarrow> mem_record \<Rightarrow> bool" where
  "holds_best best m \<longleftrightarrow>
     average_perf m = Some (best_perf best) \<and> (\<forall>b. best = Some b \<longrightarrow> reads_as b m)"

lemma db_keep_best_record:
  assumes "holds_best best (d_max s)" "reads_as r (d_tmp s)"
  shows "\<exists>t. db_keep_best s = Some t \<and> d_rest t = d_rest s \<and> d_eof t = d_eof s \<and>
    holds_best (if read_perf r > best_perf best then Some r else best) (d_max t)"
  using assms by (auto simp: db_keep_best_def holds_best_def reads_as_def)

text \<open>Reading the lines \<open>ls\<close> in front of \<open>rest\<close>.\<close>

lemma run_loop_prefix:
  assumes "\<forall>l \<in> set ls. ok_line l" "\<not> d_eof s" "d_rest s = db_file ls @ rest" "holds_best best (d_max s)"
  shows "\<exists>t. run_loop db_search_body s = run_loop db_search_body t \<and> \<not> d_eof t \<and> d_rest t = rest \<and>
    holds_best (db_best best (db_records ls)) (d_max t)"
  using assms
proof (induction ls arbitrary: s best)
  case Nil
  then show ?case by (intro exI [of _ s]) (simp add: db_file_def)
next
  case (Cons l ls)
  show ?case
  proof (cases l)
    case (Inl c)
    then have "fgets 511 (d_rest s) = (c @ [newline], db_file ls @ rest, False)"
      using Cons.prems fgets_line [of c 511 "db_file ls @ rest"]
      by (simp add: ok_line_def db_file_def line_text_def)
    then have "db_search_body s = Some (Next (s\<lparr>d_rest := db_file ls @ rest, d_eof := False\<rparr>))"
      using Cons.prems Inl by (intro db_search_body_blank) (auto simp: ok_line_def)
    then show ?thesis
      using Cons.IH [of "s\<lparr>d_rest := db_file ls @ rest, d_eof := False\<rparr>" best] Cons.prems Inl
      by (subst run_loop_unfold) simp
  next
    case (Inr r)
    let ?s = "s\<lparr>d_rest := db_file ls @ rest, d_eof := False,
                d_tmp := mem_record_store (d_tmp s) (record_vals r)\<rparr>"
    have "db_search_body s = do { s \<leftarrow> db_keep_best ?s; Some (Next s) }"
      using Cons.prems Inr
      by (intro db_search_body_line) (auto simp: ok_line_def db_file_def line_text_def)
    moreover obtain t where t: "db_keep_best ?s = Some t" "d_rest t = db_file ls @ rest" "\<not> d_eof t"
      "holds_best (if read_perf r > best_perf best then Some r else best) (d_max t)"
      using db_keep_best_record [of best ?s r] Cons.prems(4) mem_record_store_reads_as by auto
    ultimately show ?thesis
      using Cons.IH [OF _ t(3,2,4)] Cons.prems Inr by (subst run_loop_unfold) simp
  qed
qed

lemma run_loop_lines:
  assumes "\<forall>l \<in> set ls. ok_line l" "\<not> d_eof s" "d_rest s = db_file ls" "holds_best best (d_max s)"
  shows "\<exists>t. run_loop db_search_body s = Some (Break t) \<and>
    holds_best (db_best best (db_records ls)) (d_max t)"
proof -
  obtain t where t: "run_loop db_search_body s = run_loop db_search_body t" "\<not> d_eof t" "d_rest t = []"
    "holds_best (db_best best (db_records ls)) (d_max t)"
    using run_loop_prefix [of ls s "[]" best] assms by auto
  have "fgets 511 [] = ([], [], True)" "skipped_line []"
    using fgets.simps(2) [of 510] by (simp_all add: skipped_line_def)
  then have "db_search_body t = Some (Next (t\<lparr>d_rest := [], d_eof := True\<rparr>))"
    using t(2,3) by (intro db_search_body_blank) simp_all
  moreover have "db_search_body (t\<lparr>d_rest := [], d_eof := True\<rparr>)
    = Some (Break (t\<lparr>d_rest := [], d_eof := True\<rparr>))"
    by (simp add: db_search_body_def)
  ultimately have "run_loop db_search_body t = Some (Break (t\<lparr>d_rest := [], d_eof := True\<rparr>))"
    by (subst run_loop_unfold, simp, subst run_loop_unfold, simp)
  then show ?thesis using t(1,4) by simp
qed

lemma db_search_text_file:
  assumes "\<forall>l \<in> set ls. ok_line l"
  shows "\<exists>m. db_search_text tmp (db_file ls) m0 =
      Some (if best_perf (db_best None (db_records ls)) < 0 then - 1 else 0, m) \<and>
    holds_best (db_best None (db_records ls)) m"
proof -
  let ?s = "\<lparr>d_rest = db_file ls, d_eof = False, d_tmp = tmp,
             d_max = m0\<lparr>average_perf := Some (- 1)\<rparr>\<rparr>"
  obtain t where t: "run_loop db_search_body ?s = Some (Break t)"
    "holds_best (db_best None (db_records ls)) (d_max t)"
    using run_loop_lines [OF assms, of ?s None] by (auto simp: holds_best_def)
  then show ?thesis
    by (auto simp: db_search_text_def holds_best_def)
qed

end
