(* ===== verification/Spsa.thy ===== *)
theory Spsa
  imports Fastprof
begin

text \<open>
  The search that \<open>f_tcp_client_run\<close> (\<open>fastprof_tcp.cpp\<close>) and \<open>f_udt_client_run\<close>
  (\<open>fastprof_udt.cpp\<close>) share: a simultaneous-perturbation stochastic approximation (SPSA)
  over two control variables, theta. The two functions have the same text for it up to the
  names of the variables; what differs is the probe, the measurement of the throughput at a
  point, which is a parameter here. The contract of a probe is the locale \<open>spsa_probe\<close>,
  and what follows from it for a whole search is proved once, in the locale.
\<close>

subsection \<open>The search: parameters and state\<close>

definition F_GB :: int where "F_GB = 1000 * 1000 * 1000"
definition F_BUF_MAX :: int where "F_BUF_MAX = 2 * F_GB"
definition F_BUF_MIN :: int where "F_BUF_MIN = 16 * 1000"
definition F_ITERATIVE_MIN :: dbl where "F_ITERATIVE_MIN = Fin 1"
definition F_ITERATIVE_MAX :: dbl where "F_ITERATIVE_MAX = Fin 25"
definition F_STREAM_NUM_MIN :: int where "F_STREAM_NUM_MIN = 1"
definition F_STREAM_NUM_MAX :: int where "F_STREAM_NUM_MAX = 25"
definition F_IMPEDED_LIMIT :: int where "F_IMPEDED_LIMIT = 30"
definition F_DEFAULT_PGR :: dbl where "F_DEFAULT_PGR = Fin (3 / 4)"

text \<open>What the run computes from the control block before the loop and never changes.\<close>

record limits =
  l_no_imp_limit :: int
  l_max_prof_limit :: int
  l_perf_gain_ratio :: dbl
  l_BW_Gbps :: dbl
  l_buf_size_min_safeguard :: int
  l_buf_size_max_safeguard :: int

definition spsa_limits :: "fastprof_ctrl \<Rightarrow> limits option" where
  "spsa_limits ctrl = do {
     let no_imp_limit =
       (if fc_impeded_limit ctrl < 0 then F_IMPEDED_LIMIT else fc_impeded_limit ctrl);
     max_prof_limit \<leftarrow>
       (if fc_max_limit ctrl < 0 then c_int (2 * no_imp_limit) else Some (fc_max_limit ctrl));
     Some \<lparr>
       l_no_imp_limit = no_imp_limit,
       l_max_prof_limit = max_prof_limit,
       l_perf_gain_ratio = (if fc_pgr ctrl < 0 then F_DEFAULT_PGR else fc_pgr ctrl),
       l_BW_Gbps = fc_bw_bps ctrl / d_of_int F_GB,
       l_buf_size_min_safeguard = F_BUF_MIN,
       l_buf_size_max_safeguard =
         (if fc_host_max_buf ctrl < F_BUF_MAX then fc_host_max_buf ctrl else F_BUF_MAX)\<rparr>
   }"

text \<open>
  The variables that both runs have; a pair is an array of two. Each run adds its own
  profiler objects and its list of visited points.
\<close>

record 'w search =
  r_world :: 'w
  r_f_errno :: int
  r_ctrl :: fastprof_ctrl
  r_a :: dbl
  r_c :: dbl
  r_buf_size_min :: int
  r_buf_size_max :: int
  r_theta :: "dbl \<times> dbl"
  r_max_theta :: "dbl \<times> dbl"
  r_max_perf_Gbps :: dbl
  r_k :: int
  r_profile_num :: int
  r_no_imp_counter :: int
  r_flag :: int

subsection \<open>One iteration of the search, part by part\<close>

text \<open>
  The checks at the top of the loop: the profiling limit, the scaling of the gains when the
  search is impeded, the limit on iterations without improvement, the performance goal.
\<close>

definition spsa_scale_gains ::
    "limits \<Rightarrow> ('w, 'x) search_scheme \<Rightarrow> ('w, 'x) search_scheme" where
  "spsa_scale_gains L s =
     (if l_no_imp_limit L div 2 \<le> r_no_imp_counter s
      then s\<lparr>r_a := r_a s * fc_a_scale (r_ctrl s), r_c := r_c s * fc_c_scale (r_ctrl s)\<rparr>
      else s)"

definition spsa_checks ::
    "limits \<Rightarrow> ('w, 'x) search_scheme \<Rightarrow> ('w, 'x) search_scheme ctl" where
  "spsa_checks L s =
     (let s = s\<lparr>r_flag := - 1\<rparr>
      in if l_max_prof_limit L \<le> r_profile_num s then Break (s\<lparr>r_flag := 1\<rparr>)
         else
           (let s = spsa_scale_gains L s
            in if l_no_imp_limit L \<le> r_no_imp_counter s then Break (s\<lparr>r_flag := 2\<rparr>)
               else if r_max_perf_Gbps s / l_BW_Gbps L \<ge> l_perf_gain_ratio L
                 then Break (s\<lparr>r_flag := 3\<rparr>)
               else Next s))"

definition spsa_safeguard :: "limits \<Rightarrow> int \<Rightarrow> int" where
  "spsa_safeguard L x =
     (let x = (if x < l_buf_size_min_safeguard L then l_buf_size_min_safeguard L else x)
      in if l_buf_size_max_safeguard L < x then l_buf_size_max_safeguard L else x)"

text \<open>
  The bandwidth-delay product: a fresh RTT estimate is smoothed into \<open>ctrl->rtt_ms\<close>, and
  the buffer range becomes 0.75 to 4 times the product, within the safeguards.
\<close>

definition spsa_update_rtt ::
    "'w env \<Rightarrow> ('w, 'x) search_scheme \<Rightarrow> ('w, 'x) search_scheme option" where
  "spsa_update_rtt E s = do {
     (SRTT_ms, w) \<leftarrow> f_estimate_rtt E (fc_remote_ip (r_ctrl s)) (r_world s);
     let rtt_ms = fc_rtt_ms (r_ctrl s);
     let rtt_ms =
       (if SRTT_ms < 0 then rtt_ms
        else if rtt_ms < 0 then SRTT_ms
        else rtt_ms * Fin (1 / 8) + SRTT_ms * Fin (7 / 8));
     Some (s\<lparr>r_world := w, r_ctrl := (r_ctrl s)\<lparr>fc_rtt_ms := rtt_ms\<rparr>\<rparr>)
   }"

definition spsa_BDP_B :: "fastprof_ctrl \<Rightarrow> dbl" where
  "spsa_BDP_B ctrl =
     (if fc_rtt_ms ctrl < 0 then - 1
      else fc_rtt_ms ctrl * round64 (1 / 1000) * (fc_bw_bps ctrl / Fin 8))"

definition spsa_update_bdp ::
    "'w env \<Rightarrow> limits \<Rightarrow> ('w, 'x) search_scheme \<Rightarrow> ('w, 'x) search_scheme option" where
  "spsa_update_bdp E L s =
     (if fc_bw_bps (r_ctrl s) < 0 then Some s
      else do {
        s \<leftarrow> spsa_update_rtt E s;
        let BDP_B = spsa_BDP_B (r_ctrl s);
        if BDP_B < 0 then Some s
        else do {
          buf_min \<leftarrow> d_to_int (f_round (Fin (3 / 4) * BDP_B / 1));
          buf_max \<leftarrow> d_to_int (f_round (Fin 4 * BDP_B / 1));
          Some (s\<lparr>r_buf_size_min := spsa_safeguard L buf_min,
                  r_buf_size_max := spsa_safeguard L buf_max\<rparr>)
        }
      })"

definition spsa_clip :: "dbl \<Rightarrow> dbl" where
  "spsa_clip theta =
     (let theta = (if theta > F_ITERATIVE_MAX then F_ITERATIVE_MAX else theta)
      in if theta < F_ITERATIVE_MIN then F_ITERATIVE_MIN else theta)"

definition spsa_gains ::
    "'w env \<Rightarrow> ('w, 'x) search_scheme \<Rightarrow> (dbl \<times> dbl \<times> ('w, 'x) search_scheme) option" where
  "spsa_gains E s = do {
     k \<leftarrow> c_int (r_k s + 1);
     let ak = r_a s / e_pow E (fc_A_val (r_ctrl s) + d_of_int k + 1) (fc_alpha (r_ctrl s));
     k1 \<leftarrow> c_int (k + 1);
     let ck = r_c s / e_pow E (d_of_int k1) (fc_gamma (r_ctrl s));
     Some (ak, ck, s\<lparr>r_k := k\<rparr>)
   }"

definition spsa_delta ::
    "'w env \<Rightarrow> ('w, 'x) search_scheme \<Rightarrow> (dbl \<times> dbl) \<times> ('w, 'x) search_scheme" where
  "spsa_delta E s =
     (let (d0, w) = f_perturb E (r_world s);
          (d1, w) = f_perturb E w
      in ((d0, d1), s\<lparr>r_world := w\<rparr>))"

text \<open>
  One coordinate of a probe point: clipped to the range of theta, with the part of \<open>ck\<close>
  that was really used.
\<close>

definition spsa_adjust ::
    "dbl \<Rightarrow> dbl \<Rightarrow> dbl \<Rightarrow> dbl \<times> dbl" where
  "spsa_adjust ck theta theta_pm =
     (if theta_pm > F_ITERATIVE_MAX
        then (ck * \<bar>(F_ITERATIVE_MAX - theta) / (theta_pm - theta)\<bar>, F_ITERATIVE_MAX)
      else if theta_pm < F_ITERATIVE_MIN
        then (ck * \<bar>(F_ITERATIVE_MIN - theta) / (theta_pm - theta)\<bar>, F_ITERATIVE_MIN)
      else (ck, theta_pm))"

record points =
  p_theta_plus :: "dbl \<times> dbl"
  p_theta_minus :: "dbl \<times> dbl"
  p_ck_adjust_plus :: "dbl \<times> dbl"
  p_ck_adjust_minus :: "dbl \<times> dbl"

definition spsa_points ::
    "dbl \<Rightarrow> dbl \<times> dbl \<Rightarrow> dbl \<times> dbl \<Rightarrow> points" where
  "spsa_points ck theta delta =
     (let (cp0, tp0) = spsa_adjust ck (fst theta) (fst theta + ck * fst delta);
          (cp1, tp1) = spsa_adjust ck (snd theta) (snd theta + ck * snd delta);
          (cm0, tm0) = spsa_adjust ck (fst theta) (fst theta - ck * fst delta);
          (cm1, tm1) = spsa_adjust ck (snd theta) (snd theta - ck * snd delta)
      in \<lparr>p_theta_plus = (tp0, tp1), p_theta_minus = (tm0, tm1),
          p_ck_adjust_plus = (cp0, cp1), p_ck_adjust_minus = (cm0, cm1)\<rparr>)"

definition spsa_clip_step :: "dbl \<Rightarrow> dbl" where
  "spsa_clip_step theta =
     (let theta = (if theta \<ge> F_ITERATIVE_MAX then F_ITERATIVE_MAX else theta)
      in if theta \<le> F_ITERATIVE_MIN then F_ITERATIVE_MIN else theta)"

text \<open>The gradient estimate of one coordinate and the step along it.\<close>

definition spsa_ghat :: "dbl \<Rightarrow> dbl \<Rightarrow> dbl \<Rightarrow> dbl \<Rightarrow> dbl \<Rightarrow> dbl" where
  "spsa_ghat y_plus y_minus ck_plus ck_minus delta =
     (y_plus - y_minus) / ((ck_plus + ck_minus) * delta)"

definition spsa_step ::
    "dbl \<Rightarrow> dbl \<Rightarrow> dbl \<Rightarrow> points \<Rightarrow> dbl \<times> dbl \<Rightarrow> dbl \<times> dbl \<Rightarrow> dbl \<times> dbl" where
  "spsa_step ak y_plus y_minus P delta theta =
     (let ghat0 = spsa_ghat y_plus y_minus
            (fst (p_ck_adjust_plus P)) (fst (p_ck_adjust_minus P)) (fst delta);
          ghat1 = spsa_ghat y_plus y_minus
            (snd (p_ck_adjust_plus P)) (snd (p_ck_adjust_minus P)) (snd delta)
      in (spsa_clip_step (fst theta + ak * ghat0), spsa_clip_step (snd theta + ak * ghat1)))"

definition spsa_theta_to_val :: "dbl \<Rightarrow> dbl \<Rightarrow> dbl \<Rightarrow> dbl \<Rightarrow> dbl \<Rightarrow> dbl" where
  "spsa_theta_to_val theta_min theta_max val_min val_max theta =
     (theta - theta_min) * (val_max - val_min) / (theta_max - theta_min) + val_min"

text \<open>
  What a probe does with its result: keep the best point, and leave the search when the
  performance goal is met. \<open>save\<close> is the \<open>memcpy\<close> of the current profile over
  \<open>prof_max\<close>.
\<close>

definition spsa_keep_best ::
    "(('w, 'x) search_scheme \<Rightarrow> ('w, 'x) search_scheme) \<Rightarrow> limits \<Rightarrow> dbl \<Rightarrow> dbl \<times> dbl \<Rightarrow>
     ('w, 'x) search_scheme \<Rightarrow> ('w, 'x) search_scheme ctl option" where
  "spsa_keep_best save L y_Gbps theta s =
     (if y_Gbps > r_max_perf_Gbps s
      then (let s = (save (s\<lparr>r_max_perf_Gbps := y_Gbps, r_max_theta := theta\<rparr>))
                      \<lparr>r_no_imp_counter := 0\<rparr>
            in if r_max_perf_Gbps s / l_BW_Gbps L \<ge> l_perf_gain_ratio L
               then Some (Break (s\<lparr>r_flag := 3\<rparr>)) else Some (Next s))
      else do {
        n \<leftarrow> c_int (r_no_imp_counter s + 1);
        Some (Next (s\<lparr>r_no_imp_counter := n\<rparr>))
      })"

subsection \<open>The iteration and the loop\<close>

text \<open>
  A probe takes the switch that tells the first call of an iteration from the others (it
  does not set \<open>f_errno\<close> when the run fails), the marker of the point and the point; it
  returns the measured performance in Gb/s.
\<close>

type_synonym ('w, 'x) spsa_probe =
  "bool \<Rightarrow> char \<Rightarrow> dbl \<times> dbl \<Rightarrow> ('w, 'x) search_scheme \<Rightarrow>
   (dbl \<times> ('w, 'x) search_scheme ctl) option"

text \<open>From the top of the loop to the probe points.\<close>

definition spsa_prepare ::
    "'w env \<Rightarrow> limits \<Rightarrow> ('w, 'x) search_scheme \<Rightarrow>
     (dbl \<times> (dbl \<times> dbl) \<times> points \<times> ('w, 'x) search_scheme) option" where
  "spsa_prepare E L s = do {
     s \<leftarrow> spsa_update_bdp E L s;
     let s = s\<lparr>r_theta := (spsa_clip (fst (r_theta s)), spsa_clip (snd (r_theta s)))\<rparr>;
     (ak, ck, s) \<leftarrow> spsa_gains E s;
     let (delta, s) = spsa_delta E s;
     Some (ak, delta, spsa_points ck (r_theta s) delta, s)
   }"

text \<open>The three probes of an iteration, each followed by what comes after it.\<close>

definition spsa_star ::
    "('w, 'x) spsa_probe \<Rightarrow> ('w, 'x) search_scheme \<Rightarrow> ('w, 'x) search_scheme ctl option" where
  "spsa_star probe s = do {
     (_, c) \<leftarrow> probe True (CHR ''*'') (r_theta s) s;
     ctl_then c (\<lambda>s. Some (Next (s\<lparr>r_theta := r_max_theta s\<rparr>)))
   }"

definition spsa_minus ::
    "('w, 'x) spsa_probe \<Rightarrow> dbl \<Rightarrow> dbl \<times> dbl \<Rightarrow> points \<Rightarrow> dbl \<Rightarrow> ('w, 'x) search_scheme \<Rightarrow>
     ('w, 'x) search_scheme ctl option" where
  "spsa_minus probe ak delta P y_plus s = do {
     (y_minus, c) \<leftarrow> probe True (CHR ''-'') (p_theta_minus P) s;
     ctl_then c (\<lambda>s.
       spsa_star probe (s\<lparr>r_theta := spsa_step ak y_plus y_minus P delta (r_theta s)\<rparr>))
   }"

definition spsa_plus ::
    "('w, 'x) spsa_probe \<Rightarrow> dbl \<Rightarrow> dbl \<times> dbl \<Rightarrow> points \<Rightarrow> ('w, 'x) search_scheme \<Rightarrow>
     ('w, 'x) search_scheme ctl option" where
  "spsa_plus probe ak delta P s = do {
     (y_plus, c) \<leftarrow> probe False (CHR ''+'') (p_theta_plus P) s;
     ctl_then c (spsa_minus probe ak delta P y_plus)
   }"

definition spsa_iter ::
    "('w, 'x) spsa_probe \<Rightarrow> 'w env \<Rightarrow> limits \<Rightarrow> ('w, 'x) search_scheme \<Rightarrow>
     ('w, 'x) search_scheme ctl option" where
  "spsa_iter probe E L s = ctl_then (spsa_checks L s) (\<lambda>s. do {
     (ak, delta, P, s) \<leftarrow> spsa_prepare E L s;
     spsa_plus probe ak delta P s
   })"

text \<open>
  The run before the loop. The variables get the values of their declarations
  (\<open>max_theta\<close> those that \<open>theta\<close> has there); then the log is opened (with
  \<open>F_KEEP_LOG\<close> 0 that only initialises the lock), the random numbers are seeded, the
  limits computed and theta drawn.
\<close>

definition spsa_declare :: "fastprof_ctrl \<Rightarrow> int \<Rightarrow> 'w \<Rightarrow> 'w search" where
  "spsa_declare ctrl f_errno w =
     \<lparr>r_world = w, r_f_errno = f_errno, r_ctrl = ctrl,
      r_a = fc_a_val ctrl, r_c = fc_c_val ctrl,
      r_buf_size_min = F_BUF_MIN,
      r_buf_size_max = (if fc_host_max_buf ctrl < F_BUF_MAX then fc_host_max_buf ctrl else F_BUF_MAX),
      r_theta = (0, 0), r_max_theta = (0, 0), r_max_perf_Gbps = 0, r_k = 0,
      r_profile_num = 0, r_no_imp_counter = 0, r_flag = - 1\<rparr>"

definition f_open_log :: "'w env \<Rightarrow> ('w, 'x) search_scheme \<Rightarrow> int \<times> ('w, 'x) search_scheme" where
  "f_open_log E s =
     (let (r, w) = e_mutex_init E (r_world s)
      in if r \<noteq> 0 then (- 1, s\<lparr>r_world := w, r_f_errno := F_ERR_LOCK\<rparr>)
         else (0, s\<lparr>r_world := w\<rparr>))"

definition spsa_draw :: "'w env \<Rightarrow> ('w, 'x) search_scheme \<Rightarrow> ('w, 'x) search_scheme" where
  "spsa_draw E s =
     (let w = e_srand E (r_world s);
          (theta0, w) = f_rand E 2 24 w;
          (theta1, w) = f_rand E 2 24 w
      in s\<lparr>r_world := w, r_theta := (theta0, theta1)\<rparr>)"

subsection \<open>The end of a run\<close>

text \<open>
  The name of the file that lists the visited points (\<open>f_tcp_get_prof_name\<close>,
  \<open>f_udt_get_prof_name\<close>; the caller's array has 128 bytes).
\<close>

definition spsa_get_prof_name ::
    "'w env \<Rightarrow> string \<Rightarrow> int \<Rightarrow> int \<Rightarrow> int \<Rightarrow> string \<Rightarrow> 'w \<Rightarrow> (string \<times> 'w) option" where
  "spsa_get_prof_name E folder no_imp_limit max_prof_limit perf_gain_ratio_int enable_disable w = do {
     let w = (if e_dir_exists E folder w then w else e_mkdir E folder w);
     let (t, w) = e_localtime E w;
     filename \<leftarrow> c_puts (replicate 128 NUL) (folder @ ''/'' @
       show_int (tm_year t + 1900) @ show_0d 2 (tm_mon t + 1) @ show_0d 2 (tm_mday t) @ ''_'' @
       show_0d 2 (tm_hour t) @ show_0d 2 (tm_min t) @ show_0d 2 (tm_sec t) @ ''_'' @
       show_int (e_getpid E w) @ ''_'' @ show_int no_imp_limit @ ''-'' @
       show_int max_prof_limit @ ''-'' @ show_int perf_gain_ratio_int @ ''-'' @
       enable_disable @ ''.fpp'');
     Some (c_str filename, w)
   }"

text \<open>Its contents: a head with the result, then one line for each visited point.\<close>

definition visited_line :: "dbl \<Rightarrow> dbl \<Rightarrow> char \<Rightarrow> dbl \<Rightarrow> int \<Rightarrow> string" where
  "visited_line x y marker perf run_or_not =
     show_3lf x @ '' '' @ [CHR 0x09] @ show_3lf y @ '' '' @ [CHR 0x09] @ [marker] @ '' '' @
     [CHR 0x09] @ show_3lf perf @ '' '' @ [CHR 0x09] @ show_int run_or_not @ [CHR 0x0A]"

definition spsa_write_list ::
    "'w env \<Rightarrow> string \<Rightarrow> string \<Rightarrow> string list \<Rightarrow> 'w \<Rightarrow> 'w" where
  "spsa_write_list E filename head lines w =
     (let (f, w) = e_fopen E filename w
      in if f = 0 then w
         else e_fclose E f (fold (e_fprintf E f) lines (e_fprintf E f head w)))"

definition spsa_list_head :: "dbl \<Rightarrow> int \<Rightarrow> int \<Rightarrow> string \<Rightarrow> string" where
  "spsa_list_head max_perf_Gbps profile_num flag labels =
     (let nl = [CHR 0x0A]
      in ''max perf: '' @ show_3lf max_perf_Gbps @ '' Gb/s'' @ nl @
         ''profile#: '' @ show_int profile_num @ nl @ ''terminated: '' @ show_int flag @ nl @
         labels)"

subsection \<open>Ranges of the control variables\<close>

definition in_range :: "dbl \<Rightarrow> bool" where
  "in_range x \<longleftrightarrow> dfin x \<and> 1 \<le> dval x \<and> dval x \<le> 25"

abbreviation in_box :: "dbl \<times> dbl \<Rightarrow> bool" where
  "in_box theta \<equiv> in_range (fst theta) \<and> in_range (snd theta)"

lemma in_range_not_NaN: "in_range x \<Longrightarrow> x \<noteq> NaN"
  by (auto simp: in_range_def)

lemma in_rangeI:
  assumes "x \<noteq> NaN" "\<not> Fin 25 < x" "\<not> x < Fin 1"
  shows "in_range x"
  using assms by (cases x) (simp_all add: in_range_def less_dbl_def del: Fin_1_one)

lemma spsa_clip_range: "spsa_clip x \<noteq> NaN \<Longrightarrow> in_range (spsa_clip x)"
  by (rule in_rangeI)
    (auto simp: spsa_clip_def Let_def F_ITERATIVE_MAX_def F_ITERATIVE_MIN_def simp del: Fin_1_one)

lemma spsa_clip_NaN: "spsa_clip x = NaN \<longleftrightarrow> x = NaN"
  by (auto simp: spsa_clip_def Let_def F_ITERATIVE_MAX_def F_ITERATIVE_MIN_def)

lemma spsa_adjust_range: "snd (spsa_adjust ck th x) \<noteq> NaN \<Longrightarrow> in_range (snd (spsa_adjust ck th x))"
  by (rule in_rangeI)
    (auto simp: spsa_adjust_def F_ITERATIVE_MAX_def F_ITERATIVE_MIN_def simp del: Fin_1_one)

lemma spsa_clip_step_range: "spsa_clip_step x \<noteq> NaN \<Longrightarrow> in_range (spsa_clip_step x)"
proof (rule in_rangeI)
  assume n: "spsa_clip_step x \<noteq> NaN"
  then show "\<not> Fin 25 < spsa_clip_step x" "\<not> spsa_clip_step x < Fin 1"
    using dbl_less_imp_le [of "Fin 25" x] dbl_less_imp_le [of x "Fin 1"]
    by (auto simp: spsa_clip_step_def Let_def F_ITERATIVE_MAX_def F_ITERATIVE_MIN_def
        simp del: Fin_1_one)
qed

text \<open>
  The map from theta to a setting stays between the two ends of the setting's range,
  whichever end is larger; the rounding of the four operations does not lead out of it.
\<close>

lemma rnd_between:
  assumes "representable lo" "representable hi" "lo \<le> x" "x \<le> hi"
  shows "lo \<le> rnd x" "rnd x \<le> hi"
  using assms rnd_le_rep rnd_ge_rep by blast+

lemma spsa_theta_to_val_range:
  assumes th: "in_range theta" and lo: "\<bar>m\<bar> \<le> 2 ^ 31" and hi: "\<bar>n\<bar> \<le> 2 ^ 31"
  defines "v \<equiv> spsa_theta_to_val F_ITERATIVE_MIN F_ITERATIVE_MAX (d_of_int m) (d_of_int n) theta"
  shows "dfin v \<and> min (of_int m) (of_int n) \<le> dval v \<and> dval v \<le> max (of_int m) (of_int n)"
proof -
  let ?d = "of_int (n - m) :: rat"
  have rep: "representable (of_int i)" if "\<bar>i\<bar> \<le> 2 ^ 40" for i
    using that by (intro representable_of_int) simp
  have abs: "\<bar>?d\<bar> \<le> 4294967296" "\<bar>of_int m :: rat\<bar> \<le> 2147483648" "\<bar>of_int n :: rat\<bar> \<le> 2147483648"
    using of_int_abs_le [of "n - m" 4294967296] of_int_abs_le [of m 2147483648]
      of_int_abs_le [of n 2147483648] lo hi by simp_all
  have mn: "d_of_int m = Fin (of_int m)" "d_of_int n = Fin (of_int n)"
    using lo hi by simp_all
  have s: "dsafe x" if "\<bar>x\<bar> \<le> 1000000000000" for x
    using that by (intro dsafeI) simp
  define t1 where "t1 = theta - F_ITERATIVE_MIN"
  have t1: "dfin t1" "0 \<le> dval t1" "dval t1 \<le> 24"
    using minus_fin [of theta "Fin 1"] rnd_between [of 0 24 "dval theta - 1"] th
      rep [of 0] rep [of 24] s [of "dval theta - 1"]
    by (simp_all add: t1_def F_ITERATIVE_MIN_def in_range_def)
  define t2 where "t2 = d_of_int n - d_of_int m"
  have t2: "dfin t2" "dval t2 = ?d"
    using minus_fin [of "Fin (of_int n)" "Fin (of_int m)"] s [of ?d] abs rnd_representable [OF rep [of "n - m"]]
      lo hi by (simp_all add: t2_def mn)
  define t3 where "t3 = t1 * t2"
  have b: "min 0 (24 * ?d) \<le> dval t1 * ?d \<and> dval t1 * ?d \<le> max 0 (24 * ?d)"
  proof (cases "0 \<le> ?d")
    case True
    then show ?thesis using t1 mult_right_mono [of "dval t1" 24 ?d] by auto
  next
    case False
    then show ?thesis using t1 mult_right_mono_neg [of "dval t1" 24 ?d]
      by (auto simp: mult_le_0_iff min_def max_def)
  qed
  then have "\<bar>dval t1 * ?d\<bar> \<le> 24 * 4294967296" using abs(1) by (auto simp: min_def max_def split: if_splits)
  then have t3: "dfin t3" "dval t3 = rnd (dval t1 * ?d)"
    using times_fin [of t1 t2] s [of "dval t1 * ?d"] t1 t2 by (simp_all add: t3_def)
  have "representable (min 0 (24 * ?d))" "representable (max 0 (24 * ?d))"
    using rep [of "min 0 (24 * (n - m))"] rep [of "max 0 (24 * (n - m))"] lo hi
    by (auto simp: min_def max_def split: if_splits)
  then have t3_range: "min 0 (24 * ?d) \<le> dval t3" "dval t3 \<le> max 0 (24 * ?d)"
    using rnd_between b by (auto simp: t3)
  define t5 where "t5 = t3 / (F_ITERATIVE_MAX - F_ITERATIVE_MIN)"
  have t4: "dfin (F_ITERATIVE_MAX - F_ITERATIVE_MIN)" "dval (F_ITERATIVE_MAX - F_ITERATIVE_MIN) = 24"
    using minus_fin [of "Fin 25" "Fin 1"] s [of 24] rnd_representable [OF rep [of 24]]
    by (simp_all add: F_ITERATIVE_MAX_def F_ITERATIVE_MIN_def)
  have b5: "min 0 ?d \<le> dval t3 / 24" "dval t3 / 24 \<le> max 0 ?d"
    using t3_range by (auto simp: min_def max_def field_simps split: if_splits)
  then have "\<bar>dval t3 / 24\<bar> \<le> 4294967296" using abs(1) by (auto simp: min_def max_def split: if_splits)
  then have t5: "dfin t5" "dval t5 = rnd (dval t3 / 24)"
    using divide_fin [of t3 "F_ITERATIVE_MAX - F_ITERATIVE_MIN"] s [of "dval t3 / 24"] t3 t4
    by (simp_all add: t5_def)
  have "representable (min 0 ?d)" "representable (max 0 ?d)"
    using rep [of "min 0 (n - m)"] rep [of "max 0 (n - m)"] lo hi
    by (auto simp: min_def max_def split: if_splits)
  then have t5_range: "min 0 ?d \<le> dval t5" "dval t5 \<le> max 0 ?d"
    using rnd_between b5 by (auto simp: t5)
  have v: "v = t5 + d_of_int m"
    by (simp add: v_def spsa_theta_to_val_def t5_def t3_def t1_def t2_def)
  have b6: "min (of_int m) (of_int n) \<le> dval t5 + of_int m" "dval t5 + of_int m \<le> max (of_int m) (of_int n)"
    using t5_range by (auto simp: min_def max_def split: if_splits)
  then have "\<bar>dval t5 + of_int m\<bar> \<le> 2147483648"
    using abs(2,3) by (auto simp: min_def max_def split: if_splits)
  then have v2: "dfin v" "dval v = rnd (dval t5 + of_int m)"
    using plus_fin [of t5 "Fin (of_int m)"] s [of "dval t5 + of_int m"] t5
    by (simp_all add: v mn)
  have "representable (min (of_int m) (of_int n))" "representable (max (of_int m) (of_int n))"
    using rep [of m] rep [of n] lo hi by (auto simp: min_def max_def)
  then show ?thesis using v2 b6 rnd_between by auto
qed

subsection \<open>The contract of a probe\<close>

definition spsa_goal :: "limits \<Rightarrow> dbl \<Rightarrow> bool" where
  "spsa_goal L y \<longleftrightarrow> y / l_BW_Gbps L \<ge> l_perf_gain_ratio L"

text \<open>The variables of the search itself, without world, error number and profiles.\<close>

definition spsa_same :: "('w, 'x) search_scheme \<Rightarrow> ('w, 'x) search_scheme \<Rightarrow> bool" where
  "spsa_same s t \<longleftrightarrow>
     r_ctrl t = r_ctrl s \<and> r_a t = r_a s \<and> r_c t = r_c s \<and>
     r_buf_size_min t = r_buf_size_min s \<and> r_buf_size_max t = r_buf_size_max s \<and>
     r_theta t = r_theta s \<and> r_max_theta t = r_max_theta s \<and>
     r_max_perf_Gbps t = r_max_perf_Gbps s \<and> r_k t = r_k s \<and>
     r_profile_num t = r_profile_num s \<and> r_no_imp_counter t = r_no_imp_counter s \<and>
     r_flag t = r_flag s"

lemma spsa_same_refl [simp]: "spsa_same s s"
  by (simp add: spsa_same_def)

lemma spsa_same_trans: "spsa_same s t \<Longrightarrow> spsa_same t u \<Longrightarrow> spsa_same s u"
  by (simp add: spsa_same_def)

text \<open>What a completed measurement of \<open>y\<close> at \<open>theta\<close> does to those variables.\<close>

definition spsa_counted :: "dbl \<Rightarrow> dbl \<times> dbl \<Rightarrow> ('w, 'x) search_scheme \<Rightarrow> ('w, 'x) search_scheme" where
  "spsa_counted y theta s =
     (let s' = s\<lparr>r_profile_num := r_profile_num s + 1\<rparr>
      in if y > r_max_perf_Gbps s
         then s'\<lparr>r_max_perf_Gbps := y, r_max_theta := theta, r_no_imp_counter := 0\<rparr>
         else s'\<lparr>r_no_imp_counter := r_no_imp_counter s + 1\<rparr>)"

fun probe_effect ::
    "limits \<Rightarrow> (('w, 'x) search_scheme \<Rightarrow> dbl list) \<Rightarrow> dbl \<times> dbl \<Rightarrow> ('w, 'x) search_scheme \<Rightarrow>
     dbl \<Rightarrow> ('w, 'x) search_scheme ctl \<Rightarrow> bool" where
  "probe_effect L perfs theta s y (Next t) \<longleftrightarrow>
     spsa_same (spsa_counted y theta s) t \<and> perfs t = perfs s @ [y * Fin 1000] \<and>
     (y > r_max_perf_Gbps s \<longrightarrow> \<not> spsa_goal L y)"
| "probe_effect L perfs theta s y (Break t) \<longleftrightarrow>
     spsa_same ((spsa_counted y theta s)\<lparr>r_flag := 3\<rparr>) t \<and> perfs t = perfs s @ [y * Fin 1000] \<and>
     y > r_max_perf_Gbps s \<and> spsa_goal L y"
| "probe_effect L perfs theta s y (Return r t) \<longleftrightarrow>
     (r = - 1 \<or> r = 0) \<and> spsa_same s t \<and> perfs t = perfs s"

text \<open>
  \<open>spsa_keep_best\<close> has the effect, whatever \<open>save\<close> stores outside the search's variables.
\<close>

lemma spsa_keep_best_effect:
  assumes "spsa_keep_best save L y theta s = Some c"
    and save: "\<And>s. spsa_same s (save s)" "\<And>s. perfs (save s) = perfs s"
    and more: "\<And>s t. search.more s = search.more t \<Longrightarrow> perfs s = perfs t"
    and s: "spsa_same (s0\<lparr>r_profile_num := r_profile_num s0 + 1\<rparr>) s"
      "perfs s = perfs s0 @ [y * Fin 1000]"
  shows "probe_effect L perfs theta s0 y c"
proof -
  let ?s = "s\<lparr>r_max_perf_Gbps := y, r_max_theta := theta\<rparr>"
  have same: "spsa_same (s0\<lparr>r_profile_num := r_profile_num s0 + 1, r_max_perf_Gbps := y,
      r_max_theta := theta\<rparr>) (save ?s)"
    using save(1) [of ?s] s(1) by (simp add: spsa_same_def)
  have "perfs (save ?s) = perfs s0 @ [y * Fin 1000]"
    using save(2) [of ?s] more [of ?s s] s(2) by simp
  moreover have "perfs ((save ?s)\<lparr>r_no_imp_counter := n\<rparr>) = perfs (save ?s)"
    "perfs ((save ?s)\<lparr>r_no_imp_counter := n, r_flag := f\<rparr>) = perfs (save ?s)"
    "perfs (s\<lparr>r_no_imp_counter := n\<rparr>) = perfs s" for n f
    by (rule more, simp)+
  ultimately show ?thesis
    using assms(1) s same
    by (auto simp: spsa_keep_best_def Let_def bind_eq_Some_conv spsa_counted_def spsa_goal_def
        spsa_same_def split: if_splits)
qed

text \<open>
  The buffer range stays within the safeguards. When the host's limit is below the least
  buffer size, the two ends of the range are in the wrong order.
\<close>

definition buf_ok :: "limits \<Rightarrow> ('w, 'x) search_scheme \<Rightarrow> bool" where
  "buf_ok L s \<longleftrightarrow>
     (let lo = min (l_buf_size_min_safeguard L) (l_buf_size_max_safeguard L);
          hi = max (l_buf_size_min_safeguard L) (l_buf_size_max_safeguard L)
      in lo \<le> r_buf_size_min s \<and> r_buf_size_min s \<le> hi \<and>
         lo \<le> r_buf_size_max s \<and> r_buf_size_max s \<le> hi)"

lemma spsa_safeguard_range:
  "min (l_buf_size_min_safeguard L) (l_buf_size_max_safeguard L) \<le> spsa_safeguard L x"
  "spsa_safeguard L x \<le> max (l_buf_size_min_safeguard L) (l_buf_size_max_safeguard L)"
  by (auto simp: spsa_safeguard_def Let_def)

text \<open>
  The interface: \<open>perfs\<close> are the performances (in Mb/s) of the points visited so far. A
  probe has the effect above and is undefined at a point that is not a number. \<open>extra\<close>
  is what a profiler adds to the invariant about its own objects.
\<close>

locale spsa_probe =
  fixes E :: "'w env"
    and L :: limits
    and probe :: "('w, 'x) spsa_probe"
    and perfs :: "('w, 'x) search_scheme \<Rightarrow> dbl list"
    and extra :: "('w, 'x) search_scheme \<Rightarrow> bool"
  assumes effect: "probe b m theta s = Some (y, c) \<Longrightarrow> probe_effect L perfs theta s y c"
    and number: "probe b m theta s = Some (y, c) \<Longrightarrow> fst theta \<noteq> NaN \<and> snd theta \<noteq> NaN"
    and perfs_more: "search.more s = search.more t \<Longrightarrow> perfs s = perfs t"
    and extra_probe: "probe b m theta s = Some (y, c) \<Longrightarrow> in_box theta \<Longrightarrow> buf_ok L s \<Longrightarrow>
      extra s \<Longrightarrow> extra (ctl_state c)"
    and extra_more: "extra s \<Longrightarrow> search.more t = search.more s \<Longrightarrow>
      r_max_perf_Gbps t = r_max_perf_Gbps s \<Longrightarrow> extra t"

text \<open>
  The invariant of the search: the profiles are counted, no visited point beats the best
  one, and the best one was visited.
\<close>

definition spsa_inv :: "(('w, 'x) search_scheme \<Rightarrow> dbl list) \<Rightarrow> ('w, 'x) search_scheme \<Rightarrow> bool" where
  "spsa_inv perfs s \<longleftrightarrow>
     r_profile_num s = int (length (perfs s)) \<and>
     0 \<le> r_no_imp_counter s \<and> r_no_imp_counter s \<le> r_profile_num s \<and>
     r_max_perf_Gbps s \<noteq> NaN \<and>
     (\<forall>p \<in> set (perfs s). \<not> p > r_max_perf_Gbps s * Fin 1000) \<and>
     (r_max_perf_Gbps s = 0 \<and> r_max_theta s = (0, 0) \<and> r_no_imp_counter s = r_profile_num s \<or>
      0 < r_max_perf_Gbps s \<and> in_box (r_max_theta s) \<and>
      r_max_perf_Gbps s * Fin 1000 \<in> set (perfs s))"

lemma spsa_inv_same:
  "spsa_same s t \<Longrightarrow> perfs t = perfs s \<Longrightarrow> spsa_inv perfs s \<Longrightarrow> spsa_inv perfs t"
  unfolding spsa_inv_def spsa_same_def by auto

lemma spsa_inv_counted:
  assumes inv: "spsa_inv perfs s" and box: "in_box theta"
    and same: "spsa_same ((spsa_counted y theta s)\<lparr>r_flag := f\<rparr>) t"
    and perfs: "perfs t = perfs s @ [y * Fin 1000]"
  shows "spsa_inv perfs t"
proof (cases "y > r_max_perf_Gbps s")
  case True
  have "\<not> p > y * Fin 1000" if "p \<in> set (perfs s)" for p
  proof
    assume "y * Fin 1000 < p"
    moreover have "\<not> r_max_perf_Gbps s * Fin 1000 < p" "r_max_perf_Gbps s * Fin 1000 \<noteq> NaN"
      using inv that by (simp_all add: spsa_inv_def times_Fin_NaN)
    ultimately have "y * Fin 1000 < r_max_perf_Gbps s * Fin 1000"
      using dbl_not_less_trans [of "r_max_perf_Gbps s * Fin 1000" p "y * Fin 1000"] by blast
    then have "y < r_max_perf_Gbps s" using dbl_times_less_cancel [of y 1000] by auto
    with True show False using dbl_less_trans dbl_less_irrefl by blast
  qed
  moreover have "0 < y"
    using True inv dbl_less_trans by (auto simp: spsa_inv_def)
  ultimately show ?thesis
    using True inv same perfs box dbl_less_not_NaN [OF True]
    by (auto simp: spsa_inv_def spsa_same_def spsa_counted_def Let_def)
next
  case False
  then have "\<not> y * Fin 1000 > r_max_perf_Gbps s * Fin 1000"
    using dbl_times_less_cancel [of "r_max_perf_Gbps s" 1000 y] by auto
  then show ?thesis
    using False inv same perfs
    by (auto simp: spsa_inv_def spsa_same_def spsa_counted_def Let_def)
qed

subsection \<open>What the contract gives for an iteration\<close>

lemma spsa_update_rtt_frame:
  "spsa_update_rtt E s = Some t \<Longrightarrow> \<exists>w c. t = s\<lparr>r_world := w, r_ctrl := c\<rparr>"
  by (auto simp: spsa_update_rtt_def Let_def bind_eq_Some_conv)

lemma spsa_update_bdp_frame:
  assumes "spsa_update_bdp E L s = Some t"
  shows "\<exists>w c m n. t = s\<lparr>r_world := w, r_ctrl := c, r_buf_size_min := m, r_buf_size_max := n\<rparr>"
proof (cases "fc_bw_bps (r_ctrl s) < 0")
  case True
  then have "t = s\<lparr>r_world := r_world s, r_ctrl := r_ctrl s,
      r_buf_size_min := r_buf_size_min s, r_buf_size_max := r_buf_size_max s\<rparr>"
    using assms by (simp add: spsa_update_bdp_def)
  then show ?thesis by (intro exI)
next
  case False
  then obtain u where u: "spsa_update_rtt E s = Some u"
    using assms by (cases "spsa_update_rtt E s") (simp_all add: spsa_update_bdp_def)
  obtain w c where u': "u = s\<lparr>r_world := w, r_ctrl := c\<rparr>" using spsa_update_rtt_frame [OF u] by blast
  show ?thesis
  proof (cases "spsa_BDP_B (r_ctrl u) < 0")
    case True
    then have "t = u" using assms False u by (simp add: spsa_update_bdp_def)
    then have "t = s\<lparr>r_world := w, r_ctrl := c, r_buf_size_min := r_buf_size_min s,
        r_buf_size_max := r_buf_size_max s\<rparr>"
      unfolding u' by simp
    then show ?thesis by (intro exI)
  next
    case nonneg: False
    then obtain m n where "t = u\<lparr>r_buf_size_min := m, r_buf_size_max := n\<rparr>"
      using assms False u by (auto simp: spsa_update_bdp_def bind_eq_Some_conv Let_def)
    then show ?thesis unfolding u' by (intro exI)
  qed
qed

lemma spsa_update_bdp_buf_ok:
  assumes "spsa_update_bdp E L s = Some t" "buf_ok L s"
  shows "buf_ok L t"
proof (cases "fc_bw_bps (r_ctrl s) < 0")
  case True
  then show ?thesis using assms by (simp add: spsa_update_bdp_def)
next
  case False
  then obtain u where u: "spsa_update_rtt E s = Some u"
    using assms by (cases "spsa_update_rtt E s") (simp_all add: spsa_update_bdp_def)
  have "buf_ok L u" using spsa_update_rtt_frame [OF u] assms(2) by (auto simp: buf_ok_def)
  then show ?thesis
    using assms(1) False u spsa_safeguard_range [of L]
    by (auto simp: spsa_update_bdp_def bind_eq_Some_conv buf_ok_def Let_def split: if_splits)
qed

lemma spsa_gains_frame: "spsa_gains E s = Some (ak, ck, t) \<Longrightarrow> \<exists>k. t = s\<lparr>r_k := k\<rparr>"
  by (auto simp: spsa_gains_def Let_def bind_eq_Some_conv)

lemma spsa_delta_frame: "\<exists>w. snd (spsa_delta E s) = s\<lparr>r_world := w\<rparr>"
  by (auto simp: spsa_delta_def Let_def case_prod_beta)

definition near_range :: "dbl \<Rightarrow> bool" where
  "near_range x \<longleftrightarrow> x = NaN \<or> in_range x"

lemma spsa_points_near:
  "near_range (fst (p_theta_plus (spsa_points ck th delta)))"
  "near_range (snd (p_theta_plus (spsa_points ck th delta)))"
  "near_range (fst (p_theta_minus (spsa_points ck th delta)))"
  "near_range (snd (p_theta_minus (spsa_points ck th delta)))"
  using spsa_adjust_range by (simp_all add: spsa_points_def near_range_def case_prod_beta) blast+

lemma spsa_prepare_cases:
  assumes "spsa_prepare E L s = Some (ak, delta, P, t)"
  obtains w c m n th k ck where "P = spsa_points ck (r_theta t) delta"
    "t = s\<lparr>r_world := w, r_ctrl := c, r_buf_size_min := m, r_buf_size_max := n,
           r_theta := th, r_k := k\<rparr>"
proof -
  obtain u ck v where u: "spsa_update_bdp E L s = Some u"
    and v: "spsa_gains E (u\<lparr>r_theta := (spsa_clip (fst (r_theta u)), spsa_clip (snd (r_theta u)))\<rparr>)
      = Some (ak, ck, v)"
    and t: "t = snd (spsa_delta E v)" and P: "P = spsa_points ck (r_theta t) delta"
    using assms by (auto simp: spsa_prepare_def Let_def bind_eq_Some_conv case_prod_beta)
  obtain w c m n where u': "u = s\<lparr>r_world := w, r_ctrl := c, r_buf_size_min := m, r_buf_size_max := n\<rparr>"
    using spsa_update_bdp_frame [OF u] by blast
  define th where "th = (spsa_clip (fst (r_theta u)), spsa_clip (snd (r_theta u)))"
  obtain k where v': "v = u\<lparr>r_theta := th, r_k := k\<rparr>"
    using spsa_gains_frame [OF v] by (auto simp: th_def)
  obtain w' where t': "t = v\<lparr>r_world := w'\<rparr>" using spsa_delta_frame [of E v] t by auto
  have "t = s\<lparr>r_world := w', r_ctrl := c, r_buf_size_min := m, r_buf_size_max := n,
           r_theta := th, r_k := k\<rparr>"
    by (simp add: t' v' u')
  then show thesis by (rule that [OF P])
qed

lemma spsa_prepare_buf_ok:
  assumes "spsa_prepare E L s = Some (ak, delta, P, t)" "buf_ok L s"
  shows "buf_ok L t"
proof -
  obtain u ck v where u: "spsa_update_bdp E L s = Some u"
    and v: "spsa_gains E (u\<lparr>r_theta := (spsa_clip (fst (r_theta u)), spsa_clip (snd (r_theta u)))\<rparr>)
      = Some (ak, ck, v)"
    and t: "t = snd (spsa_delta E v)"
    using assms by (auto simp: spsa_prepare_def Let_def bind_eq_Some_conv case_prod_beta)
  show ?thesis
    using spsa_update_bdp_buf_ok [OF u assms(2)] spsa_gains_frame [OF v] spsa_delta_frame [of E v] t
    by (auto simp: buf_ok_def)
qed

lemma spsa_step_near:
  "near_range (fst (spsa_step ak y z P delta th)) \<and> near_range (snd (spsa_step ak y z P delta th))"
  using spsa_clip_step_range by (auto simp: spsa_step_def Let_def near_range_def)

lemma spsa_scale_gains_frame [simp]:
  "r_profile_num (spsa_scale_gains L s) = r_profile_num s"
  "r_no_imp_counter (spsa_scale_gains L s) = r_no_imp_counter s"
  "r_max_perf_Gbps (spsa_scale_gains L s) = r_max_perf_Gbps s"
  "r_max_theta (spsa_scale_gains L s) = r_max_theta s"
  "search.more (spsa_scale_gains L s) = search.more s"
  "r_flag (spsa_scale_gains L s) = r_flag s"
  "r_buf_size_min (spsa_scale_gains L s) = r_buf_size_min s"
  "r_buf_size_max (spsa_scale_gains L s) = r_buf_size_max s"
  by (simp_all add: spsa_scale_gains_def)

lemma spsa_checks_frame:
  "r_profile_num (ctl_state (spsa_checks L s)) = r_profile_num s"
  "r_no_imp_counter (ctl_state (spsa_checks L s)) = r_no_imp_counter s"
  "r_max_perf_Gbps (ctl_state (spsa_checks L s)) = r_max_perf_Gbps s"
  "r_max_theta (ctl_state (spsa_checks L s)) = r_max_theta s"
  "search.more (ctl_state (spsa_checks L s)) = search.more s"
  "r_buf_size_min (ctl_state (spsa_checks L s)) = r_buf_size_min s"
  "r_buf_size_max (ctl_state (spsa_checks L s)) = r_buf_size_max s"
  by (simp_all add: spsa_checks_def Let_def)

text \<open>The reasons for which the loop ends, as the flag tells them.\<close>

definition spsa_stopped :: "limits \<Rightarrow> ('w, 'x) search_scheme \<Rightarrow> bool" where
  "spsa_stopped L s \<longleftrightarrow>
     r_flag s = 1 \<and> l_max_prof_limit L \<le> r_profile_num s \<or>
     r_flag s = 2 \<and> l_no_imp_limit L \<le> r_no_imp_counter s \<or>
     r_flag s = 3 \<and> spsa_goal L (r_max_perf_Gbps s)"

lemma spsa_checks_cases:
  shows "spsa_checks L s = Next t \<Longrightarrow>
      r_profile_num s < l_max_prof_limit L \<and> r_no_imp_counter s < l_no_imp_limit L \<and>
      \<not> spsa_goal L (r_max_perf_Gbps s)"
    and "spsa_checks L s = Break t \<Longrightarrow> spsa_stopped L t"
    and "spsa_checks L s \<noteq> Return r t"
  by (auto simp: spsa_checks_def Let_def spsa_stopped_def spsa_goal_def not_le split: if_splits)

text \<open>
  How many profiles a part of the iteration adds and how it ends: \<open>n\<close> probes when it
  falls through, no more otherwise.
\<close>

fun part_effect ::
    "limits \<Rightarrow> int \<Rightarrow> ('w, 'x) search_scheme \<Rightarrow> ('w, 'x) search_scheme ctl \<Rightarrow> bool" where
  "part_effect L n s (Next t) \<longleftrightarrow> r_profile_num t = r_profile_num s + n \<and> r_theta t = r_max_theta t"
| "part_effect L n s (Break t) \<longleftrightarrow> r_profile_num t \<le> r_profile_num s + n \<and> spsa_stopped L t"
| "part_effect L n s (Return r t) \<longleftrightarrow> r_profile_num t < r_profile_num s + n \<and> (r = - 1 \<or> r = 0)"

context spsa_probe
begin

definition good :: "('w, 'x) search_scheme \<Rightarrow> bool" where
  "good s \<longleftrightarrow> spsa_inv perfs s \<and> buf_ok L s \<and> extra s"

lemma inv_more:
  assumes "spsa_inv perfs s" "search.more t = search.more s" "r_profile_num t = r_profile_num s"
    "r_no_imp_counter t = r_no_imp_counter s" "r_max_perf_Gbps t = r_max_perf_Gbps s"
    "r_max_theta t = r_max_theta s"
  shows "spsa_inv perfs t"
  using assms perfs_more [OF assms(2)] unfolding spsa_inv_def by auto

lemma good_more:
  assumes "good s" "search.more t = search.more s" "r_profile_num t = r_profile_num s"
    "r_no_imp_counter t = r_no_imp_counter s" "r_max_perf_Gbps t = r_max_perf_Gbps s"
    "r_max_theta t = r_max_theta s" "buf_ok L s \<longrightarrow> buf_ok L t"
  shows "good t"
  using assms inv_more extra_more unfolding good_def by blast

lemma probe_good:
  assumes "probe b m theta s = Some (y, c)" "good s"
    and "near_range (fst theta)" "near_range (snd theta)"
  shows "good (ctl_state c)"
proof -
  have box: "in_box theta" using number [OF assms(1)] assms(3,4) by (simp add: near_range_def)
  have inv: "spsa_inv perfs s" "buf_ok L s" "extra s" using assms(2) by (simp_all add: good_def)
  note eff = effect [OF assms(1)]
  have "spsa_inv perfs (ctl_state c) \<and> buf_ok L (ctl_state c)"
  proof (cases c)
    case (Next t)
    let ?s = "spsa_counted y theta s"
    have "?s\<lparr>r_flag := r_flag ?s\<rparr> = ?s" by simp
    then show ?thesis
      using eff Next inv(2)
        spsa_inv_counted [OF inv(1) box, where y = y and f = "r_flag ?s" and t = t]
      by (simp add: buf_ok_def spsa_same_def spsa_counted_def Let_def)
  next
    case (Break t)
    then show ?thesis
      using eff inv(2) spsa_inv_counted [OF inv(1) box, where y = y and f = 3 and t = t]
      by (simp add: buf_ok_def spsa_same_def spsa_counted_def Let_def)
  next
    case (Return r t)
    then show ?thesis using eff spsa_inv_same inv(1,2) by (auto simp: buf_ok_def spsa_same_def)
  qed
  then show ?thesis using extra_probe [OF assms(1) box inv(2,3)] by (simp add: good_def)
qed

lemma probe_count:
  assumes "probe b m theta s = Some (y, c)"
  shows "c = Next t \<Longrightarrow> r_profile_num t = r_profile_num s + 1"
    and "c = Break t \<Longrightarrow> r_profile_num t = r_profile_num s + 1 \<and> spsa_stopped L t"
    and "c = Return r t \<Longrightarrow> r_profile_num t = r_profile_num s \<and> (r = - 1 \<or> r = 0)"
  using effect [OF assms]
  by (auto simp: spsa_same_def spsa_counted_def spsa_stopped_def Let_def split: if_splits)

lemma star_effect:
  assumes "spsa_star probe s = Some c" "good s"
    and "near_range (fst (r_theta s))" "near_range (snd (r_theta s))"
  shows "good (ctl_state c) \<and> part_effect L 1 s c"
proof -
  obtain y d where p: "probe True (CHR ''*'') (r_theta s) s = Some (y, d)"
    and rest: "ctl_then d (\<lambda>s. Some (Next (s\<lparr>r_theta := r_max_theta s\<rparr>))) = Some c"
    using assms(1) by (auto simp: spsa_star_def bind_eq_Some_conv)
  note inv = probe_good [OF p assms(2-4)] and num = probe_count [OF p]
  have keep: "good (u\<lparr>r_theta := r_max_theta u\<rparr>)" if "good u" for u
    by (rule good_more [OF that]) (simp_all add: buf_ok_def)
  show ?thesis
  proof (cases d)
    case (Next t)
    then show ?thesis using rest inv num(1) [OF Next] keep [of t] by auto
  next
    case (Break t)
    then show ?thesis using rest inv num(2) [OF Break] by auto
  next
    case (Return r t)
    then show ?thesis using rest inv num(3) [OF Return] by auto
  qed
qed

lemma minus_effect:
  assumes "spsa_minus probe ak delta P y_plus s = Some c" "good s"
    and "near_range (fst (p_theta_minus P))" "near_range (snd (p_theta_minus P))"
  shows "good (ctl_state c) \<and> part_effect L 2 s c"
proof -
  obtain y d where p: "probe True (CHR ''-'') (p_theta_minus P) s = Some (y, d)"
    and rest: "ctl_then d (\<lambda>s. spsa_star probe
        (s\<lparr>r_theta := spsa_step ak y_plus y P delta (r_theta s)\<rparr>)) = Some c"
    using assms(1) by (auto simp: spsa_minus_def bind_eq_Some_conv)
  note inv = probe_good [OF p assms(2-4)] and num = probe_count [OF p]
  have star: "good (ctl_state c) \<and> part_effect L 1 u c"
    if "spsa_star probe (u\<lparr>r_theta := spsa_step ak y_plus y P delta (r_theta u)\<rparr>) = Some c"
      "good u" for u
  proof -
    let ?u = "u\<lparr>r_theta := spsa_step ak y_plus y P delta (r_theta u)\<rparr>"
    have "good ?u" by (rule good_more [OF that(2)]) (simp_all add: buf_ok_def)
    then have "good (ctl_state c) \<and> part_effect L 1 ?u c"
      using star_effect [OF that(1)] spsa_step_near by simp
    then show ?thesis by (cases c) auto
  qed
  show ?thesis
  proof (cases d)
    case (Next t)
    then have "good (ctl_state c) \<and> part_effect L 1 t c" using rest star inv by simp
    then show ?thesis using num(1) [OF Next] by (cases c) auto
  next
    case (Break t)
    then show ?thesis using rest inv num(2) [OF Break] by auto
  next
    case (Return r t)
    then show ?thesis using rest inv num(3) [OF Return] by auto
  qed
qed

lemma plus_effect:
  assumes "spsa_plus probe ak delta P s = Some c" "good s"
    and "near_range (fst (p_theta_plus P))" "near_range (snd (p_theta_plus P))"
    and "near_range (fst (p_theta_minus P))" "near_range (snd (p_theta_minus P))"
  shows "good (ctl_state c) \<and> part_effect L 3 s c"
proof -
  obtain y d where p: "probe False (CHR ''+'') (p_theta_plus P) s = Some (y, d)"
    and rest: "ctl_then d (spsa_minus probe ak delta P y) = Some c"
    using assms(1) by (auto simp: spsa_plus_def bind_eq_Some_conv)
  note inv = probe_good [OF p assms(2-4)] and num = probe_count [OF p]
  show ?thesis
  proof (cases d)
    case (Next t)
    then have "good (ctl_state c) \<and> part_effect L 2 t c"
      using rest minus_effect inv assms(5,6) by simp
    then show ?thesis using num(1) [OF Next] by (cases c) auto
  next
    case (Break t)
    then show ?thesis using rest inv num(2) [OF Break] by auto
  next
    case (Return r t)
    then show ?thesis using rest inv num(3) [OF Return] by auto
  qed
qed

text \<open>A whole iteration.\<close>

fun iter_effect ::
    "('w, 'x) search_scheme \<Rightarrow> ('w, 'x) search_scheme ctl \<Rightarrow> bool" where
  "iter_effect s (Next t) \<longleftrightarrow> r_profile_num s < l_max_prof_limit L \<and>
     r_profile_num t = r_profile_num s + 3 \<and> r_theta t = r_max_theta t"
| "iter_effect s (Break t) \<longleftrightarrow> spsa_stopped L t \<and> (r_profile_num t = r_profile_num s \<or>
     r_profile_num s < l_max_prof_limit L \<and> r_profile_num t \<le> r_profile_num s + 3)"
| "iter_effect s (Return r t) \<longleftrightarrow> (r = - 1 \<or> r = 0) \<and>
     r_profile_num s < l_max_prof_limit L \<and> r_profile_num t < r_profile_num s + 3"

lemma iter_inv_effect:
  assumes it: "spsa_iter probe E L s = Some c" and inv: "good s"
  shows "good (ctl_state c) \<and> iter_effect s c"
proof -
  have inv0: "good (ctl_state (spsa_checks L s))"
    by (rule good_more [OF inv]) (simp_all add: spsa_checks_frame buf_ok_def)
  have num0: "r_profile_num (ctl_state (spsa_checks L s)) = r_profile_num s"
    by (rule spsa_checks_frame)
  show ?thesis
  proof (cases "spsa_checks L s")
    case (Next s1)
    then have "(spsa_prepare E L s1 \<bind> (\<lambda>(ak, delta, P, s). spsa_plus probe ak delta P s)) = Some c"
      using it by (simp add: spsa_iter_def)
    then obtain ak delta P s2 where prep: "spsa_prepare E L s1 = Some (ak, delta, P, s2)"
      and plus: "spsa_plus probe ak delta P s2 = Some c"
      unfolding bind_eq_Some_conv by (auto simp only: prod.case split_paired_Ex)
    obtain ck w cc m n th k where P: "P = spsa_points ck (r_theta s2) delta"
      and s2: "s2 = s1\<lparr>r_world := w, r_ctrl := cc, r_buf_size_min := m, r_buf_size_max := n,
           r_theta := th, r_k := k\<rparr>"
      using prep by (rule spsa_prepare_cases)
    have "good s1" using inv0 Next by simp
    moreover have "buf_ok L s1 \<longrightarrow> buf_ok L s2" using spsa_prepare_buf_ok [OF prep] ..
    ultimately have "good s2" by (intro good_more [of s1 s2]) (simp_all add: s2)
    then have "good (ctl_state c) \<and> part_effect L 3 s2 c"
      using plus_effect [OF plus] P spsa_points_near by simp
    moreover have "r_profile_num s2 = r_profile_num s" using num0 Next by (simp add: s2)
    moreover have "r_profile_num s < l_max_prof_limit L" using spsa_checks_cases(1) [OF Next] by simp
    ultimately show ?thesis by (cases c) simp_all
  next
    case (Break t)
    then have c: "c = Break t" using it by (simp add: spsa_iter_def)
    show ?thesis
      using inv0 num0 spsa_checks_cases(2) [OF Break] unfolding c Break by simp
  next
    case (Return r t)
    then show ?thesis using spsa_checks_cases(3) by blast
  qed
qed

end

subsection \<open>What the contract gives for the loop\<close>

text \<open>Every iteration that goes through adds profiles, so the limit on them ends the loop.\<close>

sublocale spsa_probe \<subseteq> search_loop: decreasing_loop "spsa_iter probe E L" "good"
  "\<lambda>s. nat (l_max_prof_limit L - r_profile_num s)"
proof unfold_locales
  fix s t assume "good s" "spsa_iter probe E L s = Some (Next t)"
  from iter_inv_effect [OF this(2,1)] show "good t" by simp
next
  fix s t assume "good s" "spsa_iter probe E L s = Some (Next t)"
  from iter_inv_effect [OF this(2,1)]
  show "nat (l_max_prof_limit L - r_profile_num t) < nat (l_max_prof_limit L - r_profile_num s)"
    by simp
qed

context spsa_probe
begin

lemma search_result:
  assumes run: "run_loop (spsa_iter probe E L) s = Some c"
    and inv: "good s"
  shows "good (ctl_state c) \<and>
    r_profile_num (ctl_state c) \<le> max (r_profile_num s) (l_max_prof_limit L + 2) \<and>
    (case c of Next t \<Rightarrow> False | Break t \<Rightarrow> spsa_stopped L t | Return r t \<Rightarrow> r = - 1 \<or> r = 0)"
proof (rule run_loop_invariant [OF run, where I = "\<lambda>t. good t \<and>
      r_profile_num t \<le> max (r_profile_num s) (l_max_prof_limit L + 2)"])
  fix t u assume "good t \<and> r_profile_num t \<le> max (r_profile_num s) (l_max_prof_limit L + 2)"
    "spsa_iter probe E L t = Some (Next u)"
  then show "good u \<and> r_profile_num u \<le> max (r_profile_num s) (l_max_prof_limit L + 2)"
    using iter_inv_effect [of t "Next u"] by auto
next
  fix t d assume "good t \<and> r_profile_num t \<le> max (r_profile_num s) (l_max_prof_limit L + 2)"
    and it: "spsa_iter probe E L t = Some d" and last: "\<forall>u. d \<noteq> Next u"
  then have "good (ctl_state d) \<and> iter_effect t d"
    "r_profile_num t \<le> max (r_profile_num s) (l_max_prof_limit L + 2)"
    using iter_inv_effect [OF it] by auto
  then show "good (ctl_state d) \<and>
    r_profile_num (ctl_state d) \<le> max (r_profile_num s) (l_max_prof_limit L + 2) \<and>
    (case d of Next t \<Rightarrow> False | Break t \<Rightarrow> spsa_stopped L t | Return r t \<Rightarrow> r = - 1 \<or> r = 0)"
    using last by (cases d) auto
qed (use inv in auto)

text \<open>Every point at which the loop may stand is one of the best point's coordinates.\<close>

lemma search_reaches:
  assumes "loop_reaches (spsa_iter probe E L) s t" "good s" "t \<noteq> s"
  shows "good t \<and> r_theta t = r_max_theta t"
  using assms
proof (induction rule: loop_reaches.induct)
  case (again s t u)
  have "good t" using search_loop.good_reaches [OF again.hyps(1) again.prems(1)] .
  then show ?case using iter_inv_effect [OF again.hyps(2)] by simp
qed simp

end

subsection \<open>The beginning of a run\<close>

text \<open>The host's buffer limit is an \<open>int\<close>, so the safeguards fit one.\<close>

definition limits_ok :: "limits \<Rightarrow> bool" where
  "limits_ok L \<longleftrightarrow> \<bar>l_buf_size_min_safeguard L\<bar> \<le> 2 ^ 31 \<and> \<bar>l_buf_size_max_safeguard L\<bar> \<le> 2 ^ 31"

definition host_buf_ok :: "fastprof_ctrl \<Rightarrow> bool" where
  "host_buf_ok ctrl \<longleftrightarrow> in_int (fc_host_max_buf ctrl)"

lemma spsa_buffer_setting_range:
  assumes "limits_ok L" "buf_ok L s" "in_range x"
  defines "v \<equiv> spsa_theta_to_val F_ITERATIVE_MIN F_ITERATIVE_MAX
      (d_of_int (r_buf_size_min s)) (d_of_int (r_buf_size_max s)) x"
  shows "dfin v \<and>
    of_int (min (l_buf_size_min_safeguard L) (l_buf_size_max_safeguard L)) \<le> dval v \<and>
    dval v \<le> of_int (max (l_buf_size_min_safeguard L) (l_buf_size_max_safeguard L))"
proof -
  let ?lo = "min (l_buf_size_min_safeguard L) (l_buf_size_max_safeguard L)"
  let ?hi = "max (l_buf_size_min_safeguard L) (l_buf_size_max_safeguard L)"
  have buf: "?lo \<le> r_buf_size_min s" "r_buf_size_min s \<le> ?hi"
    "?lo \<le> r_buf_size_max s" "r_buf_size_max s \<le> ?hi"
    using assms(2) by (simp_all add: buf_ok_def Let_def)
  then have b: "\<bar>r_buf_size_min s\<bar> \<le> 2 ^ 31" "\<bar>r_buf_size_max s\<bar> \<le> 2 ^ 31"
    using assms(1) by (auto simp: limits_ok_def)
  have r: "(of_int ?lo :: rat) \<le> min (of_int (r_buf_size_min s)) (of_int (r_buf_size_max s))"
    "max (of_int (r_buf_size_min s)) (of_int (r_buf_size_max s)) \<le> (of_int ?hi :: rat)"
    using buf by (simp_all only: of_int_le_iff min.bounded_iff max.bounded_iff)
  show ?thesis
    using spsa_theta_to_val_range [OF assms(3) b] order.trans [OF r(1)] order.trans [OF _ r(2)]
    by (simp add: v_def)
qed

lemma spsa_limits_ok: "spsa_limits ctrl = Some L \<Longrightarrow> host_buf_ok ctrl \<Longrightarrow> limits_ok L"
  by (auto simp: spsa_limits_def Let_def bind_eq_Some_conv limits_ok_def host_buf_ok_def in_int_def
      INT_MAX_def INT_MIN_def F_BUF_MIN_def F_BUF_MAX_def F_GB_def split: if_splits)

lemma f_open_log_cases: "\<exists>w e. snd (f_open_log E s) = s\<lparr>r_world := w, r_f_errno := e\<rparr>"
proof (cases "fst (e_mutex_init E (r_world s)) = 0")
  case True
  then have "snd (f_open_log E s)
      = s\<lparr>r_world := snd (e_mutex_init E (r_world s)), r_f_errno := r_f_errno s\<rparr>"
    by (simp add: f_open_log_def case_prod_beta)
  then show ?thesis by (intro exI)
next
  case False
  then show ?thesis by (auto simp: f_open_log_def case_prod_beta)
qed

lemma spsa_draw_cases: "\<exists>w th. spsa_draw E s = s\<lparr>r_world := w, r_theta := th\<rparr>"
  by (auto simp: spsa_draw_def Let_def case_prod_beta)

lemma NaN_undefined [simp]: "d_to_int (f_round NaN) = None"
  by (simp_all add: f_round_def d_to_int_def)

subsection \<open>Properties of the search\<close>

text \<open>
  When the bandwidth-delay product reaches \<open>2 ^ 29\<close> bytes (a path of 10 Gb/s and
  430 ms, or 100 Gb/s and 43 ms), four times it does not fit an \<open>int\<close> and the conversion
  that comes before the safeguard is undefined, although the safeguarded value would fit.
\<close>

theorem spsa_bdp_overflow:
  assumes "\<not> fc_bw_bps (r_ctrl s) < 0" "spsa_update_rtt E s = Some t"
    and "spsa_BDP_B (r_ctrl t) = Fin b" "2 ^ 29 \<le> b"
  shows "spsa_update_bdp E L s = None"
proof -
  have rep: "representable (of_int 2147483648)" by (rule representable_of_int) simp
  have "d_ge (of_int 2147483648) (Fin 4 * Fin b)"
    using assms(4) by (intro d_ge_times [OF rep]) simp_all
  then have "d_ge (of_int 2147483648) (f_round (Fin 4 * Fin b / 1))"
    unfolding f_round_def by (intro d_ge_floor d_ge_plus [OF rep] d_ge_div_one [OF rep]) simp_all
  then have "d_to_int (f_round (Fin 4 * Fin b / 1)) = None" by (intro d_to_int_large) simp
  then have no: "d_to_int (f_round (Fin 4 * spsa_BDP_B (r_ctrl t) / 1)) = None" by (simp add: assms(3))
  have "\<not> spsa_BDP_B (r_ctrl t) < 0" using assms(3,4) by simp
  then show ?thesis
    using assms(1,2) by (cases "d_to_int (f_round (Fin (3 / 4) * spsa_BDP_B (r_ctrl t) / 1))")
      (simp_all add: spsa_update_bdp_def Let_def no)
qed


end
