(* ===== verification/FastprofTcp.thy ===== *)
theory FastprofTcp
  imports Spsa ProfileDb
begin

text \<open>
  \<open>fastprof_tcp.cpp\<close>: the TCP profiler. It drives \<open>libiperf\<close> through a stochastic
  approximation (SPSA) search over the socket buffer size and the number of streams.

  The \<open>iperf_test\<close> objects live in a heap from addresses to their visible members, so
  that the pointer copies the code makes (\<open>memcpy(prof_max, prof, ...)\<close>) alias as they
  do there.
\<close>

subsection \<open>Profiler objects\<close>

type_synonym iperf_heap = "addr \<rightharpoonup> iperf_test"

definition f_tcp_prof_new ::
    "'w env \<Rightarrow> iperf_heap \<Rightarrow> 'w \<Rightarrow> fastprof_tcp_prof \<times> iperf_heap \<times> 'w" where
  "f_tcp_prof_new E h w =
     (let (p, t, w) = e_iperf_new_test E w
      in (\<lparr>tcp_prof = p, total_sent = 0, tp_perf_Mbps = - 1\<rparr>,
          (if p = 0 then h else h(p \<mapsto> t)), w))"

text \<open>A setter of \<open>libiperf\<close>, and a member that FastProf assigns itself.\<close>

definition iperf_set ::
    "'w env \<Rightarrow> addr \<Rightarrow> iperf_option \<Rightarrow> iperf_heap \<times> 'w \<Rightarrow> (iperf_heap \<times> 'w) option" where
  "iperf_set E p opt hw = do {
     let (h, w) = hw;
     t \<leftarrow> h p;
     let (t, w) = e_iperf_set E p opt t w;
     Some (h(p \<mapsto> t), w)
   }"

definition iperf_member ::
    "addr \<Rightarrow> (iperf_test \<Rightarrow> iperf_test) \<Rightarrow> iperf_heap \<times> 'w \<Rightarrow> (iperf_heap \<times> 'w) option" where
  "iperf_member p f hw = do {
     let (h, w) = hw;
     t \<leftarrow> h p;
     Some (h(p \<mapsto> f t), w)
   }"

definition f_tcp_prof_init ::
    "'w env \<Rightarrow> fastprof_tcp_prof \<Rightarrow> fastprof_ctrl \<Rightarrow> iperf_heap \<times> 'w \<Rightarrow>
     (int \<times> iperf_heap \<times> 'w) option" where
  "f_tcp_prof_init E prof ctrl hw = do {
     let p = tcp_prof prof;
     hw \<leftarrow> iperf_set E p (SetVerbose 0) hw;
     hw \<leftarrow> iperf_set E p
            (SetRole (if fc_role ctrl = F_CLIENT then CHR ''c'' else CHR ''s'')) hw;
     hostname \<leftarrow> c_text (fc_remote_ip ctrl);
     hw \<leftarrow> iperf_set E p (SetServerHostname hostname) hw;
     hw \<leftarrow> iperf_set E p (SetServerPort (fc_tcp_port ctrl)) hw;
     mss \<leftarrow> c_int (fc_mss ctrl - 40);
     hw \<leftarrow> iperf_member p (\<lambda>t. t\<lparr>it_mss := mss\<rparr>) hw;
     hw \<leftarrow> iperf_set E p (SetReverse 0) hw;
     hw \<leftarrow> iperf_set E p (SetOmit 1) hw;
     hw \<leftarrow> iperf_set E p (SetDuration (fc_duration ctrl)) hw;
     hw \<leftarrow> iperf_set E p (SetReporterInterval (Fin 5)) hw;
     hw \<leftarrow> iperf_set E p (SetStatsInterval (Fin 5)) hw;
     hw \<leftarrow> iperf_set E p (SetJsonOutput 0) hw;
     let (h, w) = hw;
     let (logfile, w) = e_strdup E ''/dev/null'' w;
     if logfile = 0 then Some (0, h, w)
     else do {
       let (f, w) = e_fopen E ''/dev/null'' w;
       (h, w) \<leftarrow> iperf_member p (\<lambda>t. t\<lparr>it_outfile := (if f = 0 then e_stdout E else f)\<rparr>) (h, w);
       Some (0, h, w)
     }
   }"

text \<open>The functions below also write the global \<open>f_errno\<close>, which they take and return.\<close>

definition f_tcp_prof_reset ::
    "'w env \<Rightarrow> fastprof_tcp_prof \<Rightarrow> fastprof_ctrl \<Rightarrow> iperf_heap \<times> 'w \<Rightarrow> int \<Rightarrow>
     (int \<times> iperf_heap \<times> 'w \<times> int) option" where
  "f_tcp_prof_reset E prof ctrl hw f_errno = do {
     let p = tcp_prof prof;
     let (h, w) = hw;
     t \<leftarrow> h p;
     let (t, w) = e_iperf_test_reset E p t w;
     let (r, t, w) = e_iperf_defaults E p t w;
     let h = h(p \<mapsto> t);
     if r \<noteq> 0 then Some (- 1, h, w, F_ERR_IPERF3)
     else do {
       (r, h, w) \<leftarrow> f_tcp_prof_init E prof ctrl (h, w);
       Some (if r < 0 then (- 1, h, w, f_errno) else (0, h, w, f_errno))
     }
   }"

definition f_tcp_prof_delete ::
    "'w env \<Rightarrow> fastprof_tcp_prof \<Rightarrow> iperf_heap \<times> 'w \<Rightarrow> int \<times> iperf_heap \<times> 'w" where
  "f_tcp_prof_delete E prof hw =
     (0, (fst hw)(tcp_prof prof := None), e_iperf_free_test E (tcp_prof prof) (snd hw))"

definition f_tcp_prof_default ::
    "'w env \<Rightarrow> fastprof_tcp_prof \<Rightarrow> iperf_heap \<times> 'w \<Rightarrow> int \<Rightarrow>
     (int \<times> iperf_heap \<times> 'w \<times> int) option" where
  "f_tcp_prof_default E prof hw f_errno = do {
     let p = tcp_prof prof;
     let (h, w) = hw;
     t \<leftarrow> h p;
     let (r, t, w) = e_iperf_defaults E p t w;
     let h = h(p \<mapsto> t);
     Some (if r < 0 then (- 1, h, w, F_ERR_IPERF3) else (0, h, w, f_errno))
   }"

subsection \<open>Measured performance\<close>

definition f_timeval_diff :: "int \<times> int \<Rightarrow> int \<times> int \<Rightarrow> dbl" where
  "f_timeval_diff tv0 tv1 =
     (let time1 = d_of_int (fst tv0) + d_of_int (snd tv0) / Fin 1000000;
          time2 = d_of_int (fst tv1) + d_of_int (snd tv1) / Fin 1000000;
          time1 = time1 - time2
      in if time1 < 0 then - time1 else time1)"

definition bytes_total :: "iperf_stream list \<Rightarrow> 64 word" where
  "bytes_total sps = foldl (\<lambda>total sp. total + (st_bytes_sent sp - st_bytes_sent_omit sp)) 0 sps"

definition f_get_perf_from_iperf ::
    "fastprof_tcp_prof \<Rightarrow> iperf_heap \<Rightarrow> int \<Rightarrow> (dbl \<times> fastprof_tcp_prof \<times> int) option" where
  "f_get_perf_from_iperf prof h f_errno = do {
     t \<leftarrow> h (tcp_prof prof);
     (case it_streams t of
        [] \<Rightarrow> Some (- 1, prof, F_ERR_ERROR)
      | sp # _ \<Rightarrow>
          (let start_time = 0;
               end_time = f_timeval_diff (st_start_time sp) (st_end_time sp);
               total = bytes_total (it_streams t);
               prof = prof\<lparr>total_sent := sint total\<rparr>
           in Some (Fin 8 * d_of_int (uint total)
                    / ((end_time - start_time) * Fin 1000 * Fin 1000), prof, f_errno)))
   }"

subsection \<open>Records for the profile data base\<close>

definition f_tcp_m2m_record_compose ::
    "'w env \<Rightarrow> fastprof_tcp_prof \<Rightarrow> fastprof_ctrl \<Rightarrow> iperf_heap \<Rightarrow> 'w \<Rightarrow>
     (int \<times> mem_record \<times> 'w) option" where
  "f_tcp_m2m_record_compose E prof ctrl h w = do {
     let (currtime, w) = e_localtime E w;
     let record = mem_record_zero;
     n \<leftarrow> c_strlen (fc_local_ip ctrl);
     src \<leftarrow> c_memcpy (src_ip record) (fc_local_ip ctrl) n;
     src \<leftarrow> c_store src n NUL;
     m \<leftarrow> c_strlen (fc_remote_ip ctrl);
     dst \<leftarrow> c_memcpy (dst_ip record) (fc_remote_ip ctrl) m;
     src \<leftarrow> c_store src m NUL;
     time \<leftarrow> c_puts (curr_time record) (tm_text currtime);
     protocol \<leftarrow> c_copy_str (protocol_name record) (c_lit ''TCP'');
     toolkit \<leftarrow> c_copy_str (toolkit_name record) (c_lit ''iperf3'');
     t \<leftarrow> h (tcp_prof prof);
     bufunit \<leftarrow> c_copy_str (buffer_size_unit record) (c_lit ''B'');
     blkunit \<leftarrow> c_copy_str (block_size_unit record) (c_lit ''B'');
     durunit \<leftarrow> c_copy_str (duration_unit record) (c_lit ''sec'');
     traunit \<leftarrow> c_copy_str (trans_size_unit record) (c_lit ''B'');
     perunit \<leftarrow> c_copy_str (average_perf_unit record) (c_lit ''Mbps'');
     Some (0, record\<lparr>
       src_ip := src, dst_ip := dst, curr_time := time, protocol_name := protocol,
       toolkit_name := toolkit, num_streams := it_num_streams t, mss_size := it_mss t,
       buffer_size := it_socket_bufsize t, buffer_size_unit := bufunit,
       block_size := it_blksize t, block_size_unit := blkunit,
       duration := it_duration t, duration_unit := durunit,
       trans_size := total_sent prof, trans_size_unit := traunit,
       average_perf := Some (tp_perf_Mbps prof), average_perf_unit := perunit\<rparr>, w)
   }"

definition f_tcp_m2m_record_add ::
    "'w env \<Rightarrow> mem_record \<Rightarrow> fastprof_ctrl \<Rightarrow> 'w \<Rightarrow> (int \<times> 'w) option" where
  "f_tcp_m2m_record_add E record ctrl w = do {
     let w = (if e_dir_exists E F_DEFAULT_M2M_FOLDER w then w
              else snd (e_system E (''mkdir -p '' @ F_DEFAULT_M2M_FOLDER) w));
     filename \<leftarrow> m2m_filename ctrl;
     let (f, w) = e_fopen E filename w;
     if f = 0 then Some (- 1, w)
     else do {
       line \<leftarrow> mem_record_text record;
       let w = e_fprintf E f line w;
       let w = e_fprintf E f [CHR 0x0A] w;
       Some (0, e_fclose E f w)
     }
   }"

subsection \<open>The variables of the run\<close>

text \<open>
  To those of the search come the test objects, the current profile, the best one
  (\<open>None\<close> while \<open>*prof_max\<close> is indeterminate) and the visited points.
\<close>

record 'w tcp_run = "'w search" +
  r_heap :: iperf_heap
  r_prof :: fastprof_tcp_prof
  r_prof_max :: "fastprof_tcp_prof option"
  r_visited_list :: "fastprof_tcp_trace list"

subsection \<open>The probe\<close>

text \<open>The settings that a probe point stands for.\<close>

definition f_tcp_settings :: "'w tcp_run \<Rightarrow> dbl \<times> dbl \<Rightarrow> dbl \<times> dbl" where
  "f_tcp_settings s theta =
     (spsa_theta_to_val F_ITERATIVE_MIN F_ITERATIVE_MAX
        (d_of_int (r_buf_size_min s)) (d_of_int (r_buf_size_max s)) (fst theta),
      spsa_theta_to_val F_ITERATIVE_MIN F_ITERATIVE_MAX
        (d_of_int F_STREAM_NUM_MIN) (d_of_int F_STREAM_NUM_MAX) (snd theta))"

text \<open>
  Running \<open>iperf\<close> at a point: reset the test object, set buffer size and stream number,
  run, measure. \<open>sets_errno\<close> tells the three copies of this code apart: the first probe of
  an iteration leaves \<open>f_errno\<close> alone when the run fails.
\<close>

definition f_tcp_measure ::
    "'w env \<Rightarrow> bool \<Rightarrow> dbl \<times> dbl \<Rightarrow> 'w tcp_run \<Rightarrow> (int \<times> 'w tcp_run) option" where
  "f_tcp_measure E sets_errno vals s = do {
     let p = tcp_prof (r_prof s);
     (_, h, w, err) \<leftarrow> f_tcp_prof_reset E (r_prof s) (r_ctrl s) (r_heap s, r_world s) (r_f_errno s);
     bufsize \<leftarrow> d_to_int (f_round (fst vals * 1 * Fin (1 / 2)));
     streams \<leftarrow> d_to_int (f_round (snd vals * 1));
     t \<leftarrow> h p;
     let t = t\<lparr>it_socket_bufsize := bufsize, it_num_streams := streams\<rparr>;
     let (r, t, w) = e_iperf_run_client E p t w;
     let h = h(p \<mapsto> t);
     if r < 0
     then Some (r, s\<lparr>r_heap := h, r_world := w,
                     r_f_errno := (if sets_errno then F_ERR_ERROR else err)\<rparr>)
     else do {
       (perf, prof, err) \<leftarrow> f_get_perf_from_iperf (r_prof s) h err;
       Some (r, s\<lparr>r_heap := h, r_world := w, r_f_errno := err,
                  r_prof := prof\<lparr>tp_perf_Mbps := perf\<rparr>\<rparr>)
     }
   }"

text \<open>Recording a measurement in the data base.\<close>

definition f_tcp_record :: "'w env \<Rightarrow> 'w tcp_run \<Rightarrow> (int \<times> 'w tcp_run) option" where
  "f_tcp_record E s = do {
     (r, record, w) \<leftarrow> f_tcp_m2m_record_compose E (r_prof s) (r_ctrl s) (r_heap s) (r_world s);
     if r < 0 then Some (r, s\<lparr>r_world := w\<rparr>)
     else do {
       (r, w) \<leftarrow> f_tcp_m2m_record_add E record (r_ctrl s) w;
       Some (r, s\<lparr>r_world := w\<rparr>)
     }
   }"

text \<open>
  A whole probe: measure, record, count, remember the point, keep the best. A failed run
  returns \<open>-1\<close> from the search, a failed record returns \<open>0\<close>.
\<close>

definition f_tcp_save :: "'w tcp_run \<Rightarrow> 'w tcp_run" where
  "f_tcp_save s = s\<lparr>r_prof_max := Some (r_prof s)\<rparr>"

definition f_tcp_visited :: "dbl \<times> dbl \<Rightarrow> char \<Rightarrow> dbl \<Rightarrow> fastprof_tcp_trace" where
  "f_tcp_visited vals marker y_Gbps =
     \<lparr>tt_buf_size = fst vals, tt_stream_num = snd vals, tt_marker = marker,
      tt_perf_Mbps = y_Gbps * Fin 1000, tt_run_or_not = 1\<rparr>"

definition f_tcp_probe ::
    "'w env \<Rightarrow> limits \<Rightarrow> bool \<Rightarrow> char \<Rightarrow> dbl \<times> dbl \<Rightarrow> 'w tcp_run \<Rightarrow>
     (dbl \<times> 'w tcp_run ctl) option" where
  "f_tcp_probe E L sets_errno marker theta s = do {
     let vals = f_tcp_settings s theta;
     (r, s) \<leftarrow> f_tcp_measure E sets_errno vals s;
     if r < 0 then Some (0, Return (- 1) s)
     else do {
       let y_Gbps = tp_perf_Mbps (r_prof s) / Fin 1000;
       (r, s) \<leftarrow> f_tcp_record E s;
       if r < 0 then Some (y_Gbps, Return 0 s)
       else do {
         profile_num \<leftarrow> c_int (r_profile_num s + 1);
         let s = s\<lparr>r_profile_num := profile_num,
                   r_visited_list := r_visited_list s @ [f_tcp_visited vals marker y_Gbps]\<rparr>;
         c \<leftarrow> spsa_keep_best f_tcp_save L y_Gbps theta s;
         Some (y_Gbps, c)
       }
     }
   }"

subsection \<open>The run\<close>

text \<open>
  The report that the end of the run prints reads the two addresses of the control block and
  the test object through \<open>prof_max->tcp_prof\<close>; an address without a terminator, an
  indeterminate \<open>*prof_max\<close> or an object that has been freed makes it undefined.
\<close>

record tcp_report =
  tr_src_ip :: string
  tr_dst_ip :: string
  tr_mss :: int
  tr_blksize :: int
  tr_bufsize :: int
  tr_streams :: int
  tr_perf_Mbps :: dbl
  tr_impeded :: int
  tr_maximal :: int
  tr_pgr :: dbl
  tr_profile_num :: int
  tr_flag :: int

definition f_tcp_report :: "'w tcp_run \<Rightarrow> tcp_report option" where
  "f_tcp_report s = do {
     src \<leftarrow> c_text (fc_local_ip (r_ctrl s));
     dst \<leftarrow> c_text (fc_remote_ip (r_ctrl s));
     prof_max \<leftarrow> r_prof_max s;
     t \<leftarrow> r_heap s (tcp_prof prof_max);
     Some \<lparr>tr_src_ip = src, tr_dst_ip = dst, tr_mss = it_mss t, tr_blksize = it_blksize t, tr_bufsize = it_socket_bufsize t,
       tr_streams = it_num_streams t, tr_perf_Mbps = tp_perf_Mbps prof_max,
       tr_impeded = fc_impeded_limit (r_ctrl s), tr_maximal = fc_max_limit (r_ctrl s),
       tr_pgr = fc_pgr (r_ctrl s),
       tr_profile_num = r_profile_num s, tr_flag = r_flag s\<rparr>
   }"

definition f_tcp_list_labels :: string where
  "f_tcp_list_labels = (let nl = [CHR 0x0A]; tab = [CHR 0x09]
     in ''1: max profile number'' @ nl @ ''  2: no improvement'' @ nl @
        ''  3: desired performance'' @ nl @
        ''buf '' @ tab @ ''stream# '' @ tab @ ''type '' @ tab @ ''perf '' @ tab @
        ''new_or_old'' @ nl)"

definition f_tcp_finish ::
    "'w env \<Rightarrow> limits \<Rightarrow> 'w tcp_run \<Rightarrow> (int \<times> 'w tcp_run \<times> tcp_report option) option" where
  "f_tcp_finish E L s = do {
     (_, _, w) \<leftarrow> f_get_currtime_str E (replicate 32 NUL) (r_world s);
     report \<leftarrow> f_tcp_report s;
     pgr \<leftarrow> d_to_int (l_perf_gain_ratio L * Fin 100);
     let enabled = (if fc_bw_bps (r_ctrl s) > 0 \<and> fc_rtt_ms (r_ctrl s) > 0
                    then ''enabled'' else ''disabled'');
     (filename, w) \<leftarrow> spsa_get_prof_name E ''./tcp_profile''
       (l_no_imp_limit L) (l_max_prof_limit L) pgr enabled w;
     let head = spsa_list_head (r_max_perf_Gbps s) (r_profile_num s) (r_flag s) f_tcp_list_labels;
     let lines = map (\<lambda>v. visited_line (tt_buf_size v) (tt_stream_num v) (tt_marker v)
                        (tt_perf_Mbps v) (tt_run_or_not v)) (r_visited_list s);
     let w = spsa_write_list E filename head lines w;
     Some (0, s\<lparr>r_world := w\<rparr>, Some report)
   }"

text \<open>
  \<open>f_tcp_client_run\<close>: the return code, the variables at the end and the report, when it
  came to one. \<open>prof_max\<close> is the object the caller passes, \<open>None\<close> when indeterminate.
\<close>

definition f_tcp_start ::
    "'w search \<Rightarrow> iperf_heap \<Rightarrow> fastprof_tcp_prof \<Rightarrow> fastprof_tcp_prof option \<Rightarrow> 'w tcp_run" where
  "f_tcp_start s h prof prof_max =
     search.extend s (tcp_run.fields h prof prof_max [])"

definition f_tcp_client_run ::
    "'w env \<Rightarrow> fastprof_tcp_prof \<Rightarrow> fastprof_tcp_prof option \<Rightarrow> fastprof_ctrl \<Rightarrow>
     iperf_heap \<times> 'w \<Rightarrow> int \<Rightarrow> (int \<times> 'w tcp_run \<times> tcp_report option) option" where
  "f_tcp_client_run E prof prof_max ctrl hw f_errno = do {
     let s = f_tcp_start (spsa_declare ctrl f_errno (snd hw)) (fst hw) prof prof_max;
     let (opened, s) = f_open_log E s;
     if opened < 0 then Some (- 1, s, None)
     else do {
       L \<leftarrow> spsa_limits ctrl;
       c \<leftarrow> run_loop (spsa_iter (f_tcp_probe E L) E L) (spsa_draw E s);
       (case c of Return r s \<Rightarrow> Some (r, s, None) | _ \<Rightarrow> f_tcp_finish E L (ctl_state c))
     }
   }"

subsection \<open>The probe satisfies its contract\<close>

definition tcp_perfs :: "'w tcp_run \<Rightarrow> dbl list" where
  "tcp_perfs s = map tt_perf_Mbps (r_visited_list s)"

lemma tcp_perfs_more: "search.more s = search.more t \<Longrightarrow> tcp_perfs s = tcp_perfs t"
  by (cases s; cases t) (simp add: tcp_perfs_def)

definition tcp_same :: "'w tcp_run \<Rightarrow> 'w tcp_run \<Rightarrow> bool" where
  "tcp_same s t \<longleftrightarrow> spsa_same s t \<and> r_visited_list t = r_visited_list s \<and>
     r_prof_max t = r_prof_max s \<and> tcp_prof (r_prof t) = tcp_prof (r_prof s)"

lemma f_get_perf_prof:
  "f_get_perf_from_iperf prof h e = Some (y, prof', e') \<Longrightarrow> tcp_prof prof' = tcp_prof prof"
  by (cases "h (tcp_prof prof)"; cases "it_streams (the (h (tcp_prof prof)))")
    (auto simp: f_get_perf_from_iperf_def Let_def)

text \<open>What a measurement went through: the settings were set and the test was run.\<close>

lemma f_tcp_measure_cases:
  assumes "f_tcp_measure E b v s = Some (r, t)"
  obtains x h w err bufsize streams it it' w' where
    "f_tcp_prof_reset E (r_prof s) (r_ctrl s) (r_heap s, r_world s) (r_f_errno s) = Some (x, h, w, err)"
    "d_to_int (f_round (fst v * 1 * Fin (1 / 2))) = Some bufsize"
    "d_to_int (f_round (snd v * 1)) = Some streams"
    "h (tcp_prof (r_prof s)) = Some it"
    "e_iperf_run_client E (tcp_prof (r_prof s))
      (it\<lparr>it_socket_bufsize := bufsize, it_num_streams := streams\<rparr>) w = (r, it', w')"
    "r < 0 \<and> t = s\<lparr>r_heap := h(tcp_prof (r_prof s) \<mapsto> it'), r_world := w',
          r_f_errno := (if b then F_ERR_ERROR else err)\<rparr> \<or>
     0 \<le> r \<and> (\<exists>perf prof err'. f_get_perf_from_iperf (r_prof s)
          (h(tcp_prof (r_prof s) \<mapsto> it')) err = Some (perf, prof, err') \<and>
       t = s\<lparr>r_heap := h(tcp_prof (r_prof s) \<mapsto> it'), r_world := w', r_f_errno := err',
              r_prof := prof\<lparr>tp_perf_Mbps := perf\<rparr>\<rparr>)"
proof -
  obtain x h w err where reset: "f_tcp_prof_reset E (r_prof s) (r_ctrl s) (r_heap s, r_world s)
      (r_f_errno s) = Some (x, h, w, err)"
    using assms by (auto simp: f_tcp_measure_def Let_def bind_eq_Some_conv)
  obtain bufsize streams it where vals: "d_to_int (f_round (fst v * 1 * Fin (1 / 2))) = Some bufsize"
    "d_to_int (f_round (snd v * 1)) = Some streams" "h (tcp_prof (r_prof s)) = Some it"
    using assms reset by (auto simp: f_tcp_measure_def Let_def bind_eq_Some_conv)
  obtain r' it' w' where run: "e_iperf_run_client E (tcp_prof (r_prof s))
      (it\<lparr>it_socket_bufsize := bufsize, it_num_streams := streams\<rparr>) w = (r', it', w')"
    by (cases "e_iperf_run_client E (tcp_prof (r_prof s))
      (it\<lparr>it_socket_bufsize := bufsize, it_num_streams := streams\<rparr>) w")
  have "r' = r" using assms reset vals run
    by (auto simp: f_tcp_measure_def Let_def bind_eq_Some_conv split: if_splits)
  show thesis
    by (rule that [OF reset vals run [unfolded \<open>r' = r\<close>]])
      (use assms reset vals run in \<open>auto simp: f_tcp_measure_def Let_def bind_eq_Some_conv
        split: if_splits\<close>)
qed

lemma f_tcp_measure_same:
  assumes "f_tcp_measure E b v s = Some (r, t)"
  shows "tcp_same s t"
  using assms
proof (rule f_tcp_measure_cases)
  fix h it' w' err x bufsize streams it w
  assume "r < 0 \<and> t = s\<lparr>r_heap := h(tcp_prof (r_prof s) \<mapsto> it'), r_world := w',
          r_f_errno := (if b then F_ERR_ERROR else err)\<rparr> \<or>
     0 \<le> r \<and> (\<exists>perf prof err'. f_get_perf_from_iperf (r_prof s)
          (h(tcp_prof (r_prof s) \<mapsto> it')) err = Some (perf, prof, err') \<and>
       t = s\<lparr>r_heap := h(tcp_prof (r_prof s) \<mapsto> it'), r_world := w', r_f_errno := err',
              r_prof := prof\<lparr>tp_perf_Mbps := perf\<rparr>\<rparr>)"
  then show ?thesis
  proof (elim disjE conjE exE)
    fix perf prof err'
    assume "f_get_perf_from_iperf (r_prof s) (h(tcp_prof (r_prof s) \<mapsto> it')) err = Some (perf, prof, err')"
      and "t = s\<lparr>r_heap := h(tcp_prof (r_prof s) \<mapsto> it'), r_world := w', r_f_errno := err',
              r_prof := prof\<lparr>tp_perf_Mbps := perf\<rparr>\<rparr>"
    then show ?thesis using f_get_perf_prof by (simp add: tcp_same_def spsa_same_def)
  qed (simp add: tcp_same_def spsa_same_def)
qed

lemma f_tcp_record_same:
  "f_tcp_record E s = Some (r, t) \<Longrightarrow> \<exists>w. t = s\<lparr>r_world := w\<rparr>"
  by (auto simp: f_tcp_record_def Let_def bind_eq_Some_conv case_prod_beta split: if_splits)

lemma f_tcp_measure_number:
  assumes "f_tcp_measure E b (f_tcp_settings s theta) s = Some rt"
  shows "fst theta \<noteq> NaN \<and> snd theta \<noteq> NaN"
proof -
  obtain r t where rt: "rt = (r, t)" by (cases rt)
  show ?thesis
    using assms unfolding rt
    by (rule f_tcp_measure_cases) (auto simp: f_tcp_settings_def spsa_theta_to_val_def)
qed

text \<open>The stages of a probe: a failed run, a failed record, or a measurement.\<close>

lemma f_tcp_probe_cases:
  assumes "f_tcp_probe E L b m theta s = Some (y, c)"
  obtains (failed) r t where "f_tcp_measure E b (f_tcp_settings s theta) s = Some (r, t)" "r < 0"
      "c = Return (- 1) t"
  | (unrecorded) r t r' u where "f_tcp_measure E b (f_tcp_settings s theta) s = Some (r, t)" "0 \<le> r"
      "f_tcp_record E t = Some (r', u)" "r' < 0" "c = Return 0 u"
  | (measured) r t r' u where "f_tcp_measure E b (f_tcp_settings s theta) s = Some (r, t)" "0 \<le> r"
      "f_tcp_record E t = Some (r', u)" "0 \<le> r'" "y = tp_perf_Mbps (r_prof t) / Fin 1000"
      "spsa_keep_best f_tcp_save L y theta (u\<lparr>r_profile_num := r_profile_num u + 1,
         r_visited_list := r_visited_list u @ [f_tcp_visited (f_tcp_settings s theta) m y]\<rparr>) = Some c"
proof -
  obtain r t where mt: "f_tcp_measure E b (f_tcp_settings s theta) s = Some (r, t)"
    using assms by (auto simp: f_tcp_probe_def Let_def bind_eq_Some_conv)
  show thesis
  proof (cases "r < 0")
    case True
    then show thesis using assms mt by (intro failed [OF mt]) (auto simp: f_tcp_probe_def Let_def)
  next
    case False
    then obtain r' u where ru: "f_tcp_record E t = Some (r', u)"
      using assms mt by (auto simp: f_tcp_probe_def Let_def bind_eq_Some_conv)
    show thesis
    proof (cases "r' < 0")
      case True
      then show thesis using assms mt False ru
        by (intro unrecorded [OF mt _ ru]) (auto simp: f_tcp_probe_def Let_def)
    next
      case ok: False
      then show thesis using assms mt False ru
        by (intro measured [OF mt _ ru]) (auto simp: f_tcp_probe_def Let_def bind_eq_Some_conv)
    qed
  qed
qed

text \<open>
  What the profiler adds to the invariant: the current profile keeps its test object, the
  best profile is a copy of a current one and carries the best performance, and every
  visited point lies within the ranges of its settings.
\<close>

definition tcp_point_ok :: "limits \<Rightarrow> fastprof_tcp_trace \<Rightarrow> bool" where
  "tcp_point_ok L v \<longleftrightarrow>
     dfin (tt_buf_size v) \<and> dfin (tt_stream_num v) \<and>
     of_int (min (l_buf_size_min_safeguard L) (l_buf_size_max_safeguard L)) \<le> dval (tt_buf_size v) \<and>
     dval (tt_buf_size v) \<le> of_int (max (l_buf_size_min_safeguard L) (l_buf_size_max_safeguard L)) \<and>
     1 \<le> dval (tt_stream_num v) \<and> dval (tt_stream_num v) \<le> 25"

definition tcp_best_ok :: "addr \<Rightarrow> fastprof_tcp_prof option \<Rightarrow> 'w tcp_run \<Rightarrow> bool" where
  "tcp_best_ok a prof_max0 s \<longleftrightarrow>
     tcp_prof (r_prof s) = a \<and>
     (r_max_perf_Gbps s = 0 \<and> r_prof_max s = prof_max0 \<or>
      (\<exists>p. r_prof_max s = Some p \<and> tcp_prof p = a \<and>
           r_max_perf_Gbps s = tp_perf_Mbps p / Fin 1000))"

definition tcp_extra :: "limits \<Rightarrow> addr \<Rightarrow> fastprof_tcp_prof option \<Rightarrow> 'w tcp_run \<Rightarrow> bool" where
  "tcp_extra L a prof_max0 s \<longleftrightarrow>
     limits_ok L \<and> tcp_best_ok a prof_max0 s \<and> (\<forall>v \<in> set (r_visited_list s). tcp_point_ok L v)"

lemma f_tcp_settings_ok:
  assumes "limits_ok L" "buf_ok L s" "in_box theta"
  shows "tcp_point_ok L (f_tcp_visited (f_tcp_settings s theta) m y)"
proof -
  have th: "in_range (fst theta)" "in_range (snd theta)" using assms(3) by simp_all
  show ?thesis
    using spsa_buffer_setting_range [OF assms(1,2) th(1)]
      spsa_theta_to_val_range [OF th(2), of F_STREAM_NUM_MIN F_STREAM_NUM_MAX]
    by (simp only: tcp_point_ok_def f_tcp_visited_def f_tcp_settings_def
        fastprof_tcp_trace.simps fst_conv snd_conv)
      (simp add: F_STREAM_NUM_MIN_def F_STREAM_NUM_MAX_def)
qed

lemma tcp_extra_keep_best:
  assumes "spsa_keep_best f_tcp_save L y theta s = Some c"
    and "tcp_extra L a pm s" "y = tp_perf_Mbps (r_prof s) / Fin 1000"
  shows "tcp_extra L a pm (ctl_state c)"
  using assms
  by (auto simp: spsa_keep_best_def f_tcp_save_def Let_def bind_eq_Some_conv tcp_extra_def
      tcp_best_ok_def split: if_splits)

lemma tcp_extra_same:
  "tcp_same s t \<Longrightarrow> tcp_extra L a pm s \<Longrightarrow> tcp_extra L a pm t"
  by (simp add: tcp_same_def spsa_same_def tcp_extra_def tcp_best_ok_def)

interpretation tcp_search: spsa_probe E L "f_tcp_probe E L" tcp_perfs "tcp_extra L a pm" for E L a pm
proof unfold_locales
  fix b m theta s y c
  assume probe: "f_tcp_probe E L b m theta s = Some (y, c)"
  show "fst theta \<noteq> NaN \<and> snd theta \<noteq> NaN"
    using probe by (rule f_tcp_probe_cases) (auto dest: f_tcp_measure_number)
  show "probe_effect L tcp_perfs theta s y c"
    using probe
  proof (cases rule: f_tcp_probe_cases)
    case (failed r t)
    then show ?thesis using f_tcp_measure_same [OF failed(1)]
      by (simp add: tcp_same_def tcp_perfs_def)
  next
    case (unrecorded r t r' u)
    then show ?thesis
      using f_tcp_measure_same [OF unrecorded(1)] f_tcp_record_same [OF unrecorded(3)]
      by (auto simp: tcp_same_def tcp_perfs_def spsa_same_def)
  next
    case (measured r t r' u)
    then have u: "spsa_same s u" "r_visited_list u = r_visited_list s"
      using f_tcp_measure_same [OF measured(1)] f_tcp_record_same [OF measured(3)]
      by (auto simp: tcp_same_def spsa_same_def)
    show ?thesis
      by (rule spsa_keep_best_effect [OF measured(6)])
        (use u in \<open>auto simp: f_tcp_save_def spsa_same_def tcp_perfs_def f_tcp_visited_def
          intro: tcp_perfs_more [unfolded tcp_perfs_def]\<close>)
  qed
  assume box: "in_box theta" and buf: "buf_ok L s" and extra: "tcp_extra L a pm s"
  show "tcp_extra L a pm (ctl_state c)"
    using probe
  proof (cases rule: f_tcp_probe_cases)
    case (failed r t)
    then show ?thesis using tcp_extra_same [OF f_tcp_measure_same extra] by simp
  next
    case (unrecorded r t r' u)
    then have "tcp_extra L a pm t" using tcp_extra_same [OF f_tcp_measure_same extra] by blast
    then show ?thesis
      using unrecorded f_tcp_record_same [OF unrecorded(3)]
      by (auto simp: tcp_extra_def tcp_best_ok_def)
  next
    case (measured r t r' u)
    let ?v = "f_tcp_visited (f_tcp_settings s theta) m y"
    have "limits_ok L" using extra by (simp add: tcp_extra_def)
    then have v: "tcp_point_ok L ?v" using buf box by (rule f_tcp_settings_ok)
    have t: "tcp_extra L a pm t" using measured tcp_extra_same [OF f_tcp_measure_same extra] by blast
    obtain w where u: "u = t\<lparr>r_world := w\<rparr>" using f_tcp_record_same [OF measured(3)] by blast
    show ?thesis
      by (rule tcp_extra_keep_best [OF measured(6)])
        (use t u v measured(5) in \<open>auto simp: tcp_extra_def tcp_best_ok_def\<close>)
  qed
next
  fix s t :: "'a tcp_run"
  assume "tcp_extra L a pm s" "search.more t = search.more s" "r_max_perf_Gbps t = r_max_perf_Gbps s"
  then show "tcp_extra L a pm t"
    by (cases s; cases t) (simp add: tcp_extra_def tcp_best_ok_def)
qed (rule tcp_perfs_more)

subsection \<open>The run\<close>

abbreviation tcp_good :: "limits \<Rightarrow> addr \<Rightarrow> fastprof_tcp_prof option \<Rightarrow> 'w tcp_run \<Rightarrow> bool" where
  "tcp_good L a pm \<equiv> spsa_probe.good L tcp_perfs (tcp_extra L a pm)"

lemmas tcp_good_def = tcp_search.good_def

lemma f_tcp_start_simps [simp]:
  "r_visited_list (f_tcp_start s h prof pm) = []" "r_prof (f_tcp_start s h prof pm) = prof"
  "r_prof_max (f_tcp_start s h prof pm) = pm" "r_heap (f_tcp_start s h prof pm) = h"
  "r_profile_num (f_tcp_start s h prof pm) = r_profile_num s"
  "r_no_imp_counter (f_tcp_start s h prof pm) = r_no_imp_counter s"
  "r_max_perf_Gbps (f_tcp_start s h prof pm) = r_max_perf_Gbps s"
  "r_max_theta (f_tcp_start s h prof pm) = r_max_theta s"
  "r_buf_size_min (f_tcp_start s h prof pm) = r_buf_size_min s"
  "r_buf_size_max (f_tcp_start s h prof pm) = r_buf_size_max s"
  by (simp_all add: f_tcp_start_def search.defs tcp_run.defs)

lemma f_tcp_start_good:
  assumes "spsa_limits ctrl = Some L" "host_buf_ok ctrl"
  shows "tcp_good L (tcp_prof prof) pm (f_tcp_start (spsa_declare ctrl e w) h prof pm)"
  using assms(1) spsa_limits_ok [OF assms]
  by (auto simp: tcp_good_def spsa_inv_def tcp_perfs_def tcp_extra_def tcp_best_ok_def
      buf_ok_def spsa_declare_def spsa_limits_def Let_def bind_eq_Some_conv split: if_splits)

lemma f_tcp_finish_cases:
  assumes "f_tcp_finish E L s = Some (r, t, rep)"
  shows "r = 0 \<and> rep = f_tcp_report s \<and> rep \<noteq> None \<and> (\<exists>w. t = s\<lparr>r_world := w\<rparr>)"
  using assms by (auto simp: f_tcp_finish_def Let_def bind_eq_Some_conv case_prod_beta)

text \<open>What every run that returns satisfies; \<open>rep\<close> is there when it came to the report.\<close>

lemma f_tcp_client_run_cases:
  assumes run: "f_tcp_client_run E prof pm ctrl hw e = Some (r, s, rep)"
    and L: "spsa_limits ctrl = Some L" and host: "host_buf_ok ctrl"
  shows "tcp_good L (tcp_prof prof) pm s" "r_profile_num s \<le> max 0 (l_max_prof_limit L + 2)"
    "rep = None \<Longrightarrow> r = - 1 \<or> r = 0"
    "rep = Some x \<Longrightarrow> r = 0 \<and> f_tcp_report s = Some x \<and> spsa_stopped L s"
proof -
  let ?good = "tcp_good L (tcp_prof prof) pm"
  let ?s0 = "f_tcp_start (spsa_declare ctrl e (snd hw)) (fst hw) prof pm"
  obtain opened s1 where s1: "f_open_log E ?s0 = (opened, s1)" by (cases "f_open_log E ?s0")
  have keep: "?good (t\<lparr>r_world := w, r_f_errno := e\<rparr>)" "?good (t\<lparr>r_world := w, r_theta := th\<rparr>)"
    "?good (t\<lparr>r_world := w\<rparr>)" if "?good t" for t w e th
    by (rule tcp_search.good_more [OF that]; simp add: buf_ok_def)+
  have good1: "?good s1" "r_profile_num s1 = 0"
    using f_open_log_cases [of E ?s0] s1 keep(1) [OF f_tcp_start_good [OF L host]]
    by (auto simp: spsa_declare_def)
  let ?s2 = "spsa_draw E s1"
  have good2: "?good ?s2" "r_profile_num ?s2 = 0"
    using spsa_draw_cases [of E s1] keep(2) [OF good1(1)] good1(2) by auto
  have "?good s \<and> r_profile_num s \<le> max 0 (l_max_prof_limit L + 2) \<and> (rep = None \<longrightarrow> r = - 1 \<or> r = 0) \<and>
    (\<forall>x. rep = Some x \<longrightarrow> r = 0 \<and> f_tcp_report s = Some x \<and> spsa_stopped L s)"
  proof (cases "opened < 0")
    case True
    then show ?thesis using run good1 by (auto simp: f_tcp_client_run_def s1)
  next
    case False
    then obtain c where c: "run_loop (spsa_iter (f_tcp_probe E L) E L) ?s2 = Some c"
      and fin: "(case c of Return r s \<Rightarrow> Some (r, s, None) | _ \<Rightarrow> f_tcp_finish E L (ctl_state c))
        = Some (r, s, rep)"
      using run L by (auto simp: f_tcp_client_run_def s1 bind_eq_Some_conv)
    note res = tcp_search.search_result [OF c good2(1), unfolded good2(2)]
    show ?thesis
    proof (cases c)
      case (Return r' t)
      then show ?thesis using fin res by auto
    next
      case (Break t)
      then have f: "f_tcp_finish E L t = Some (r, s, rep)" using fin by simp
      from f_tcp_finish_cases [OF f] obtain w where w: "r = 0" "rep = f_tcp_report t" "rep \<noteq> None"
        "s = t\<lparr>r_world := w\<rparr>" by blast
      then show ?thesis
        using res Break keep(3) by (auto simp: spsa_stopped_def f_tcp_report_def)
    next
      case (Next t)
      then show ?thesis using res by simp
    qed
  qed
  then show "?good s" "r_profile_num s \<le> max 0 (l_max_prof_limit L + 2)"
    "rep = None \<Longrightarrow> r = - 1 \<or> r = 0"
    "rep = Some x \<Longrightarrow> r = 0 \<and> f_tcp_report s = Some x \<and> spsa_stopped L s" by blast+
qed

subsection \<open>Properties of the TCP profiler\<close>

text \<open>
  C5. A run that returns has counted every point it visited, has visited at most two points
  more than the limit on profiles, and, when it reports a result, returns 0 with a flag
  that tells why it stopped: the limit on profiles, the limit on measurements without
  improvement, or the performance goal.
\<close>

theorem f_tcp_client_run_bounds:
  assumes "f_tcp_client_run E prof pm ctrl hw e = Some (r, s, rep)"
    and "spsa_limits ctrl = Some L" "host_buf_ok ctrl"
  shows "r_profile_num s = int (length (r_visited_list s)) \<and>
    r_profile_num s \<le> max 0 (l_max_prof_limit L + 2) \<and>
    (case rep of
       None \<Rightarrow> r = - 1 \<or> r = 0
     | Some x \<Rightarrow> r = 0 \<and> tr_profile_num x = r_profile_num s \<and>
         (tr_flag x = 1 \<and> l_max_prof_limit L \<le> r_profile_num s \<or>
          tr_flag x = 2 \<and> l_no_imp_limit L \<le> r_no_imp_counter s \<or>
          tr_flag x = 3 \<and> spsa_goal L (r_max_perf_Gbps s)))"
proof -
  note run = f_tcp_client_run_cases [OF assms]
  have "r_profile_num s = int (length (r_visited_list s))"
    using run(1) by (simp add: tcp_good_def spsa_inv_def tcp_perfs_def)
  moreover have "tr_profile_num x = r_profile_num s \<and> tr_flag x = r_flag s"
    if "f_tcp_report s = Some x" for x
    using that by (auto simp: f_tcp_report_def bind_eq_Some_conv)
  ultimately show ?thesis
    using run(2-4) by (cases rep) (auto simp: spsa_stopped_def)
qed

text \<open>
  C2. No point the run visited has a higher performance than the best one it keeps. When a
  measurement improved on the initial 0, the best performance is that of a visited point
  and is the one the report prints, and the best theta lies in the box of the search.
\<close>

theorem f_tcp_client_run_best:
  assumes "f_tcp_client_run E prof pm ctrl hw e = Some (r, s, rep)"
    and "spsa_limits ctrl = Some L" "host_buf_ok ctrl"
  shows "(\<forall>v \<in> set (r_visited_list s). \<not> tt_perf_Mbps v > r_max_perf_Gbps s * Fin 1000) \<and>
    (0 < r_max_perf_Gbps s \<longrightarrow>
       in_box (r_max_theta s) \<and>
       (\<exists>v \<in> set (r_visited_list s). tt_perf_Mbps v = r_max_perf_Gbps s * Fin 1000) \<and>
       (\<forall>x. rep = Some x \<longrightarrow> r_max_perf_Gbps s = tr_perf_Mbps x / Fin 1000))"
proof -
  note run = f_tcp_client_run_cases [OF assms]
  have inv: "spsa_inv tcp_perfs s" "tcp_best_ok (tcp_prof prof) pm s"
    using run(1) by (simp_all add: tcp_good_def tcp_extra_def)
  have "r_max_perf_Gbps s = tr_perf_Mbps x / Fin 1000"
    if "rep = Some x" "0 < r_max_perf_Gbps s" for x
    using run(4) [OF that(1)] inv(2) that(2)
    by (auto simp: tcp_best_ok_def f_tcp_report_def bind_eq_Some_conv)
  moreover have "\<not> 0 < r_max_perf_Gbps s" if "r_max_perf_Gbps s = 0" using that by simp
  ultimately show ?thesis
    using inv(1) by (auto simp: spsa_inv_def tcp_perfs_def)
qed

text \<open>
  C6. Every visited point has settings inside the ranges of the search: a buffer size
  between the safeguards and 1 to 25 streams, although they come out of binary64
  arithmetic on perturbed and clipped values; no NaN is ever visited.
\<close>

theorem f_tcp_client_run_ranges:
  assumes "f_tcp_client_run E prof pm ctrl hw e = Some (r, s, rep)"
    and "spsa_limits ctrl = Some L" "host_buf_ok ctrl"
  shows "\<forall>v \<in> set (r_visited_list s).
    dfin (tt_buf_size v) \<and> dfin (tt_stream_num v) \<and>
    of_int (min F_BUF_MIN (l_buf_size_max_safeguard L)) \<le> dval (tt_buf_size v) \<and>
    dval (tt_buf_size v) \<le> of_int (max F_BUF_MIN (l_buf_size_max_safeguard L)) \<and>
    1 \<le> dval (tt_stream_num v) \<and> dval (tt_stream_num v) \<le> 25"
proof -
  have "l_buf_size_min_safeguard L = F_BUF_MIN"
    using assms(2) by (auto simp: spsa_limits_def Let_def bind_eq_Some_conv)
  then show ?thesis
    using f_tcp_client_run_cases(1) [OF assms] by (simp add: tcp_good_def tcp_extra_def tcp_point_ok_def)
qed

text \<open>
  C7. The loop of the search cannot go on for ever: it returns, unless an iteration that it
  reaches is undefined.
\<close>

theorem f_tcp_loop_ends:
  assumes "spsa_limits ctrl = Some L" "host_buf_ok ctrl"
    and "s = spsa_draw E (f_tcp_start (spsa_declare ctrl e w) h prof pm)"
  shows "(\<exists>c. run_loop (spsa_iter (f_tcp_probe E L) E L) s = Some c) \<or>
    (\<exists>t. loop_reaches (spsa_iter (f_tcp_probe E L) E L) s t \<and>
         spsa_iter (f_tcp_probe E L) E L t = None)"
proof (rule tcp_search.search_loop.ends)
  obtain w' th where "s = (f_tcp_start (spsa_declare ctrl e w) h prof pm)\<lparr>r_world := w', r_theta := th\<rparr>"
    using spsa_draw_cases [of E "f_tcp_start (spsa_declare ctrl e w) h prof pm"]
    unfolding assms(3) by blast
  then show "tcp_good L (tcp_prof prof) pm s"
    by (intro tcp_search.good_more [OF f_tcp_start_good [OF assms(1,2)], of s e w h])
      (simp_all add: buf_ok_def)
qed

text \<open>
  C34. What the report prints as the best settings are those of the current test object:
  \<open>memcpy(prof_max, prof, ...)\<close> copies the pointer to it, so the later measurements
  overwrite the settings of the best one, while the performance printed is the best one's.
\<close>

theorem f_tcp_report_aliases:
  assumes "f_tcp_client_run E prof pm ctrl hw e = Some (r, s, Some x)"
    and "spsa_limits ctrl = Some L" "host_buf_ok ctrl" "0 < r_max_perf_Gbps s"
  shows "\<exists>t. r_heap s (tcp_prof (r_prof s)) = Some t \<and>
    tr_bufsize x = it_socket_bufsize t \<and> tr_streams x = it_num_streams t \<and>
    r_max_perf_Gbps s = tr_perf_Mbps x / Fin 1000"
proof -
  note run = f_tcp_client_run_cases [OF assms(1-3)]
  have "tcp_best_ok (tcp_prof prof) pm s" using run(1) by (simp add: tcp_good_def tcp_extra_def)
  then show ?thesis
    using run(4) [OF refl] assms(4)
    by (auto simp: tcp_best_ok_def f_tcp_report_def bind_eq_Some_conv)
qed

text \<open>
  A measurement that does not improve on the best one leaves \<open>*prof_max\<close> alone, and
  the test object that \<open>*prof_max\<close> points to then has the settings of the new point.
\<close>

theorem f_tcp_probe_overwrites_best:
  assumes "f_tcp_probe E L b m theta s = Some (y, Next t)" "\<not> y > r_max_perf_Gbps s"
    and "r_prof_max s = Some p" "tcp_prof p = tcp_prof (r_prof s)"
    and keeps: "\<And>a it w. it_socket_bufsize (fst (snd (e_iperf_run_client E a it w))) = it_socket_bufsize it \<and>
      it_num_streams (fst (snd (e_iperf_run_client E a it w))) = it_num_streams it"
  shows "r_prof_max t = Some p \<and> (\<exists>it. r_heap t (tcp_prof p) = Some it \<and>
    d_to_int (f_round (fst (f_tcp_settings s theta) * 1 * Fin (1 / 2))) = Some (it_socket_bufsize it) \<and>
    d_to_int (f_round (snd (f_tcp_settings s theta) * 1)) = Some (it_num_streams it))"
  using assms(1)
proof (cases rule: f_tcp_probe_cases)
  case (measured r u r' v)
  have same: "tcp_same s u" by (rule f_tcp_measure_same [OF measured(1)])
  obtain w where v: "v = u\<lparr>r_world := w\<rparr>" using f_tcp_record_same [OF measured(3)] by blast
  have t: "r_prof_max t = Some p" "r_heap t = r_heap u"
    using measured(6) assms(2,3) same
    by (auto simp: spsa_keep_best_def v tcp_same_def spsa_same_def bind_eq_Some_conv)
  obtain it where "r_heap u (tcp_prof (r_prof s)) = Some it"
    "d_to_int (f_round (fst (f_tcp_settings s theta) * 1 * Fin (1 / 2))) = Some (it_socket_bufsize it)"
    "d_to_int (f_round (snd (f_tcp_settings s theta) * 1)) = Some (it_num_streams it)"
    using measured(1)
  proof (rule f_tcp_measure_cases, goal_cases)
    case (1 x h w' err bufsize streams it it' w'')
    have "it_socket_bufsize it' = bufsize \<and> it_num_streams it' = streams"
      using keeps [of "tcp_prof (r_prof s)" "it\<lparr>it_socket_bufsize := bufsize, it_num_streams := streams\<rparr>" w']
        1(6) by simp
    moreover have "r_heap u (tcp_prof (r_prof s)) = Some it'" using 1(7) by auto
    ultimately show ?case using 1(1,3,4) by simp
  qed
  then show ?thesis using t assms(4) by auto
qed simp_all

end
