(* ===== verification/FastprofUdt.thy ===== *)
theory FastprofUdt
  imports Spsa ProfileDb
begin

text \<open>
  \<open>fastprof_udt.cpp\<close>: the UDT profiler. It drives \<open>libtpg\<close> through the search of
  \<open>Spsa\<close> over the block size (in packets) and the buffer size. The profile objects belong
  to the library and live in the world, behind their addresses.
\<close>

subsection \<open>Profiler objects\<close>

definition f_udt_prof_new :: "'w env \<Rightarrow> 'w \<Rightarrow> fastprof_udt_prof \<times> 'w" where
  "f_udt_prof_new E w =
     (let (p, w) = e_tpg_new_profile E w in (\<lparr>udt_prof = p, up_perf_Mbps = None\<rparr>, w))"

text \<open>Functions that may set the global \<open>f_errno\<close> take and return it.\<close>

definition f_udt_prof_default :: "'w env \<Rightarrow> fastprof_udt_prof \<Rightarrow> 'w \<Rightarrow> int \<Rightarrow> int \<times> 'w \<times> int" where
  "f_udt_prof_default E prof w f_errno =
     (let (r, w) = e_tpg_prof_default E (udt_prof prof) w
      in if r < 0 then (- 1, w, F_ERR_TPG) else (0, w, f_errno))"

definition T_PUDT :: int where "T_PUDT = 12"

definition f_udt_prof_init ::
    "'w env \<Rightarrow> fastprof_udt_prof \<Rightarrow> fastprof_ctrl \<Rightarrow> 'w \<Rightarrow> (int \<times> 'w) option" where
  "f_udt_prof_init E prof ctrl w = do {
     let p = udt_prof prof;
     let w = e_tpg_set_role E p (if fc_role ctrl = F_CLIENT then T_CLIENT else T_SERVER) w;
     let w = e_tpg_set E p ProtocolId T_PUDT w;
     hostname \<leftarrow> c_text (fc_remote_ip ctrl);
     let w = e_tpg_set_hostname E p hostname w;
     let w = e_tpg_set E p CtrlListenPort (fc_udt_port ctrl) w;
     let w = e_tpg_set E p UdtMss (fc_mss ctrl) w;
     Some (0, e_tpg_set E p ProfTimeDuration (fc_duration ctrl) w)
   }"

text \<open>Cleaning up and resetting the library's side of one role.\<close>

definition f_udt_clean_reset ::
    "(addr \<Rightarrow> 'w \<Rightarrow> int \<times> 'w) \<Rightarrow> (addr \<Rightarrow> 'w \<Rightarrow> int \<times> 'w) \<Rightarrow> addr \<Rightarrow> 'w \<Rightarrow> int \<times> 'w" where
  "f_udt_clean_reset clean reset p w =
     (let (r, w) = clean p w
      in if r < 0 then (- 1, w)
         else (let (r, w) = reset p w in if r < 0 then (- 1, w) else (0, w)))"

definition f_udt_prof_reset ::
    "'w env \<Rightarrow> fastprof_udt_prof \<Rightarrow> fastprof_ctrl \<Rightarrow> 'w \<Rightarrow> int \<Rightarrow> (int \<times> 'w \<times> int) option" where
  "f_udt_prof_reset E prof ctrl w f_errno = do {
     let (r, w, f_errno) =
        (case fc_role ctrl of
           F_SERVER \<Rightarrow>
             (let (r, w) = f_udt_clean_reset (e_tpg_server_clean_up E) (e_tpg_server_reset E)
                             (udt_prof prof) w
              in if r < 0 then (r, w, F_ERR_TPG) else (r, w, f_errno))
         | F_CLIENT \<Rightarrow>
             (let (r, w) = f_udt_clean_reset (e_tpg_client_clean_up E) (e_tpg_client_reset E)
                             (udt_prof prof) w
              in if r < 0 then (r, w, F_ERR_TPG) else (r, w, f_errno))
         | F_UNKNOWN \<Rightarrow> (- 1, w, f_errno));
     if r < 0 then Some (- 1, w, f_errno)
     else do {
       let (r, w, f_errno) = f_udt_prof_default E prof w f_errno;
       if r < 0 then Some (- 1, w, f_errno)
       else do {
         (r, w) \<leftarrow> f_udt_prof_init E prof ctrl w;
         Some (if r < 0 then (- 1, w, f_errno) else (0, w, f_errno))
       }
     }
   }"

definition f_udt_prof_delete ::
    "'w env \<Rightarrow> fastprof_udt_prof \<Rightarrow> 'w \<Rightarrow> int \<times> fastprof_udt_prof \<times> 'w" where
  "f_udt_prof_delete E prof w =
     (let (r, w) = e_tpg_client_clean_up E (udt_prof prof) w
      in if r < 0 then (- 1, prof, w)
         else if udt_prof prof \<noteq> 0
           then (let (p, w) = e_tpg_delete_profile E (udt_prof prof) w
                 in (0, prof\<lparr>udt_prof := p\<rparr>, w))
         else (0, prof, w))"

subsection \<open>Records for the profile data base\<close>

definition f_udt_m2m_record_compose ::
    "'w env \<Rightarrow> fastprof_udt_prof \<Rightarrow> fastprof_ctrl \<Rightarrow> 'w \<Rightarrow> (int \<times> mem_record \<times> 'w) option" where
  "f_udt_m2m_record_compose E prof ctrl w = do {
     let (currtime, w) = e_localtime E w;
     let record = mem_record_zero;
     n \<leftarrow> c_strlen (fc_local_ip ctrl);
     src \<leftarrow> c_memcpy (src_ip record) (fc_local_ip ctrl) n;
     src \<leftarrow> c_store src n NUL;
     m \<leftarrow> c_strlen (fc_remote_ip ctrl);
     dst \<leftarrow> c_memcpy (dst_ip record) (fc_remote_ip ctrl) m;
     src \<leftarrow> c_store src m NUL;
     time \<leftarrow> c_puts (curr_time record) (tm_text currtime);
     protocol \<leftarrow> c_copy_str (protocol_name record) (c_lit ''UDT'');
     toolkit \<leftarrow> c_copy_str (toolkit_name record) (c_lit ''tpg'');
     let p = udt_prof prof;
     bufunit \<leftarrow> c_copy_str (buffer_size_unit record) (c_lit ''B'');
     blkunit \<leftarrow> c_copy_str (block_size_unit record) (c_lit ''B'');
     durunit \<leftarrow> c_copy_str (duration_unit record) (c_lit ''sec'');
     traunit \<leftarrow> c_copy_str (trans_size_unit record) (c_lit ''B'');
     perunit \<leftarrow> c_copy_str (average_perf_unit record) (c_lit ''Mbps'');
     Some (0, record\<lparr>
       src_ip := src, dst_ip := dst, curr_time := time, protocol_name := protocol,
       toolkit_name := toolkit, num_streams := e_tpg_get_total_stream_num E p w,
       mss_size := e_tpg_get E p UdtMss w, buffer_size := e_tpg_get E p UdtSendBufsize w,
       buffer_size_unit := bufunit, block_size := e_tpg_get E p Blocksize w,
       block_size_unit := blkunit, duration := e_tpg_get E p ProfTimeDuration w,
       duration_unit := durunit, trans_size := e_tpg_get_total_sent_bytes E p w,
       trans_size_unit := traunit, average_perf := Some (e_tpg_get_client_perf E p w),
       average_perf_unit := perunit\<rparr>, w)
   }"

definition f_udt_m2m_record_add ::
    "'w env \<Rightarrow> mem_record \<Rightarrow> fastprof_ctrl \<Rightarrow> 'w \<Rightarrow> (int \<times> 'w) option" where
  "f_udt_m2m_record_add E record ctrl w = do {
     let w = (if e_dir_exists E F_DEFAULT_M2M_FOLDER w then w
              else snd (e_system E (''mkdir -p '' @ F_DEFAULT_M2M_FOLDER) w));
     filename \<leftarrow> m2m_filename ctrl;
     let (f, w) = e_fopen E filename w;
     if f = 0 then Some (- 1, w)
     else do {
       line \<leftarrow> mem_record_text record;
       let w = e_fprintf E f line w;
       let w = e_fprintf E f [CHR 0x0A] w;
       Some (0, e_fclose E f w)
     }
   }"

subsection \<open>The probe\<close>

definition F_BLK_MIN :: int where "F_BLK_MIN = 1"
definition F_BLK_MAX :: int where "F_BLK_MAX = 25"

text \<open>
  To the variables of the search come the unit of the block size, the current profile, the
  best one (\<open>None\<close> while \<open>*prof_max\<close> is indeterminate) and the visited points.
\<close>

record 'w udt_run = "'w search" +
  u_block_unit :: int
  u_prof :: fastprof_udt_prof
  u_prof_max :: "fastprof_udt_prof option"
  u_visited_list :: "fastprof_udt_trace list"

definition f_udt_settings :: "'w udt_run \<Rightarrow> dbl \<times> dbl \<Rightarrow> dbl \<times> dbl" where
  "f_udt_settings s theta =
     (spsa_theta_to_val F_ITERATIVE_MIN F_ITERATIVE_MAX
        (d_of_int F_BLK_MIN) (d_of_int F_BLK_MAX) (fst theta),
      spsa_theta_to_val F_ITERATIVE_MIN F_ITERATIVE_MAX
        (d_of_int (r_buf_size_min s)) (d_of_int (r_buf_size_max s)) (snd theta))"

text \<open>Passing the settings to the library; the UDP buffers get half of the buffer size.\<close>

definition f_udt_apply ::
    "'w env \<Rightarrow> addr \<Rightarrow> int \<Rightarrow> dbl \<times> dbl \<Rightarrow> 'w \<Rightarrow> 'w option" where
  "f_udt_apply E p block_unit vals w = do {
     blk \<leftarrow> d_to_int (f_round (fst vals * d_of_int block_unit));
     let w = e_tpg_set E p Blocksize blk w;
     buf \<leftarrow> d_to_int (f_round (snd vals * 1));
     let w = e_tpg_set E p UdtSendBufsize buf w;
     let w = e_tpg_set E p UdtRecvBufsize buf w;
     half \<leftarrow> d_to_int (f_round (snd vals * 1 * Fin (1 / 2)));
     let w = e_tpg_set E p UdpSendBufsize half w;
     let w = e_tpg_set E p UdpRecvBufsize half w;
     let w = e_tpg_set_perf E p False 0 w;
     Some (e_tpg_set_perf E p True 0 w)
   }"

definition f_udt_measure ::
    "'w env \<Rightarrow> bool \<Rightarrow> dbl \<times> dbl \<Rightarrow> 'w udt_run \<Rightarrow> (int \<times> 'w udt_run) option" where
  "f_udt_measure E sets_errno vals s = do {
     let p = udt_prof (u_prof s);
     w \<leftarrow> f_udt_apply E p (u_block_unit s) vals (r_world s);
     let (r, w) = e_tpg_client_run E p w;
     Some (r, if r < 0
       then s\<lparr>r_world := w, r_f_errno := (if sets_errno then F_ERR_ERROR else r_f_errno s)\<rparr>
       else s\<lparr>r_world := w, u_prof := (u_prof s)\<lparr>up_perf_Mbps := Some (e_tpg_get_client_perf E p w)\<rparr>\<rparr>)
   }"

definition f_udt_record :: "'w env \<Rightarrow> 'w udt_run \<Rightarrow> (int \<times> 'w udt_run) option" where
  "f_udt_record E s = do {
     (r, record, w) \<leftarrow> f_udt_m2m_record_compose E (u_prof s) (r_ctrl s) (r_world s);
     if r < 0 then Some (r, s\<lparr>r_world := w\<rparr>)
     else do {
       (r, w) \<leftarrow> f_udt_m2m_record_add E record (r_ctrl s) w;
       Some (r, s\<lparr>r_world := w\<rparr>)
     }
   }"

definition f_udt_save :: "'w udt_run \<Rightarrow> 'w udt_run" where
  "f_udt_save s = s\<lparr>u_prof_max := Some (u_prof s)\<rparr>"

definition f_udt_visited :: "dbl \<times> dbl \<Rightarrow> char \<Rightarrow> dbl \<Rightarrow> fastprof_udt_trace" where
  "f_udt_visited vals marker y_Gbps =
     \<lparr>ut_blk_size = fst vals, ut_buf_size = snd vals, ut_marker = marker,
      ut_perf_Mbps = y_Gbps * Fin 1000, ut_run_or_not = 1\<rparr>"

definition f_udt_probe ::
    "'w env \<Rightarrow> limits \<Rightarrow> bool \<Rightarrow> char \<Rightarrow> dbl \<times> dbl \<Rightarrow> 'w udt_run \<Rightarrow>
     (dbl \<times> 'w udt_run ctl) option" where
  "f_udt_probe E L sets_errno marker theta s = do {
     let vals = f_udt_settings s theta;
     (r, s) \<leftarrow> f_udt_measure E sets_errno vals s;
     if r < 0 then Some (0, Return (- 1) s)
     else do {
       perf_Mbps \<leftarrow> up_perf_Mbps (u_prof s);
       let y_Gbps = perf_Mbps / Fin 1000;
       (r, s) \<leftarrow> f_udt_record E s;
       if r < 0 then Some (y_Gbps, Return 0 s)
       else do {
         profile_number \<leftarrow> c_int (r_profile_num s + 1);
         let s = s\<lparr>r_profile_num := profile_number,
                   u_visited_list := u_visited_list s @ [f_udt_visited vals marker y_Gbps]\<rparr>;
         c \<leftarrow> spsa_keep_best f_udt_save L y_Gbps theta s;
         Some (y_Gbps, c)
       }
     }
   }"

subsection \<open>The run\<close>

text \<open>
  The report reads the two addresses of the control block and the library's object through
  \<open>prof_max->udt_prof\<close>.
\<close>

record udt_report =
  ur_src_ip :: string
  ur_dst_ip :: string
  ur_mss :: int
  ur_blksize :: int
  ur_bufsize :: int
  ur_streams :: int
  ur_perf_Mbps :: dbl
  ur_impeded :: int
  ur_maximal :: int
  ur_pgr :: dbl
  ur_profile_number :: int
  ur_flag :: int

definition f_udt_report :: "'w env \<Rightarrow> 'w udt_run \<Rightarrow> 'w \<Rightarrow> udt_report option" where
  "f_udt_report E s w = do {
     src \<leftarrow> c_text (fc_local_ip (r_ctrl s));
     dst \<leftarrow> c_text (fc_remote_ip (r_ctrl s));
     prof_max \<leftarrow> u_prof_max s;
     let p = udt_prof prof_max;
     mss \<leftarrow> c_int (e_tpg_get E p UdtMss w - 44);
     perf \<leftarrow> up_perf_Mbps prof_max;
     Some \<lparr>ur_src_ip = src, ur_dst_ip = dst, ur_mss = mss, ur_blksize = e_tpg_get E p Blocksize w,
       ur_bufsize = e_tpg_get E p UdtSendBufsize w,
       ur_streams = e_tpg_get_total_stream_num E p w, ur_perf_Mbps = perf,
       ur_impeded = fc_impeded_limit (r_ctrl s), ur_maximal = fc_max_limit (r_ctrl s),
       ur_pgr = fc_pgr (r_ctrl s),
       ur_profile_number = r_profile_num s, ur_flag = r_flag s\<rparr>
   }"

definition f_udt_list_labels :: string where
  "f_udt_list_labels = (let nl = [CHR 0x0A]; tab = [CHR 0x09]
     in ''  1: max profile#'' @ nl @ ''  2: no improvement'' @ nl @
        ''  3: desired performance'' @ nl @
        ''blk '' @ tab @ ''buf '' @ tab @ ''type '' @ tab @ ''perf '' @ tab @
        ''new_or_old'' @ nl)"

definition f_udt_finish ::
    "'w env \<Rightarrow> limits \<Rightarrow> 'w udt_run \<Rightarrow> (int \<times> 'w udt_run \<times> udt_report option) option" where
  "f_udt_finish E L s = do {
     (_, _, w) \<leftarrow> f_get_currtime_str E (replicate 32 NUL) (r_world s);
     report \<leftarrow> f_udt_report E s w;
     pgr \<leftarrow> d_to_int (l_perf_gain_ratio L * Fin 100);
     let enabled = (if fc_bw_bps (r_ctrl s) > 0 \<and> fc_rtt_ms (r_ctrl s) > 0
                    then ''enabled'' else ''disabled'');
     (filename, w) \<leftarrow> spsa_get_prof_name E ''./udt_profile''
       (l_no_imp_limit L) (l_max_prof_limit L) pgr enabled w;
     let head = spsa_list_head (r_max_perf_Gbps s) (r_profile_num s) (r_flag s) f_udt_list_labels;
     let lines = map (\<lambda>v. visited_line (ut_blk_size v) (ut_buf_size v) (ut_marker v)
                        (ut_perf_Mbps v) (ut_run_or_not v)) (u_visited_list s);
     let w = spsa_write_list E filename head lines w;
     Some (0, s\<lparr>r_world := w\<rparr>, Some report)
   }"

definition f_udt_start ::
    "'w search \<Rightarrow> int \<Rightarrow> fastprof_udt_prof \<Rightarrow> fastprof_udt_prof option \<Rightarrow> 'w udt_run" where
  "f_udt_start s block_unit prof prof_max =
     search.extend s (udt_run.fields block_unit prof prof_max [])"

text \<open>The loop of the search, with the profiler's own probe.\<close>

definition f_udt_search ::
    "'w env \<Rightarrow> limits \<Rightarrow> 'w udt_run \<Rightarrow> 'w udt_run ctl option" where
  "f_udt_search E L s = run_loop (spsa_iter (f_udt_probe E L) E L) s"

definition f_udt_client_run ::
    "'w env \<Rightarrow> fastprof_udt_prof \<Rightarrow> fastprof_udt_prof option \<Rightarrow> fastprof_ctrl \<Rightarrow>
     'w \<Rightarrow> int \<Rightarrow> (int \<times> 'w udt_run \<times> udt_report option) option" where
  "f_udt_client_run E prof prof_max ctrl w f_errno = do {
     block_unit \<leftarrow> c_int (fc_mss ctrl - (20 + 8 + 16));
     let s = f_udt_start (spsa_declare ctrl f_errno w) block_unit prof prof_max;
     let (opened, s) = f_open_log E s;
     if opened < 0 then Some (- 1, s, None)
     else do {
       L \<leftarrow> spsa_limits ctrl;
       c \<leftarrow> f_udt_search E L (spsa_draw E s);
       (case c of Return r s \<Rightarrow> Some (r, s, None) | _ \<Rightarrow> f_udt_finish E L (ctl_state c))
     }
   }"

subsection \<open>The probe satisfies its contract\<close>

definition udt_perfs :: "'w udt_run \<Rightarrow> dbl list" where
  "udt_perfs s = map ut_perf_Mbps (u_visited_list s)"

lemma udt_perfs_more: "search.more s = search.more t \<Longrightarrow> udt_perfs s = udt_perfs t"
  by (cases s; cases t) (simp add: udt_perfs_def)

definition udt_same :: "'w udt_run \<Rightarrow> 'w udt_run \<Rightarrow> bool" where
  "udt_same s t \<longleftrightarrow> spsa_same s t \<and> u_visited_list t = u_visited_list s \<and>
     u_prof_max t = u_prof_max s \<and> udt_prof (u_prof t) = udt_prof (u_prof s)"

lemma f_udt_measure_cases:
  assumes "f_udt_measure E b v s = Some (r, t)"
  obtains w w' where "f_udt_apply E (udt_prof (u_prof s)) (u_block_unit s) v (r_world s) = Some w"
    "e_tpg_client_run E (udt_prof (u_prof s)) w = (r, w')"
    "r < 0 \<Longrightarrow> t = s\<lparr>r_world := w', r_f_errno := (if b then F_ERR_ERROR else r_f_errno s)\<rparr>"
    "0 \<le> r \<Longrightarrow> t = s\<lparr>r_world := w',
       u_prof := (u_prof s)\<lparr>up_perf_Mbps := Some (e_tpg_get_client_perf E (udt_prof (u_prof s)) w')\<rparr>\<rparr>"
proof -
  obtain w where w: "f_udt_apply E (udt_prof (u_prof s)) (u_block_unit s) v (r_world s) = Some w"
    using assms by (auto simp: f_udt_measure_def Let_def bind_eq_Some_conv)
  obtain r' w' where run: "e_tpg_client_run E (udt_prof (u_prof s)) w = (r', w')"
    by (cases "e_tpg_client_run E (udt_prof (u_prof s)) w")
  have r: "r' = r" using assms w run by (simp add: f_udt_measure_def Let_def)
  show thesis
    by (rule that [OF w run [unfolded r]]) (use assms w run r in \<open>simp_all add: f_udt_measure_def Let_def\<close>)
qed

lemma f_udt_measure_same:
  assumes "f_udt_measure E b v s = Some (r, t)"
  shows "udt_same s t"
  using assms
proof (rule f_udt_measure_cases)
  fix w'
  assume neg: "r < 0 \<Longrightarrow> t = s\<lparr>r_world := w', r_f_errno := (if b then F_ERR_ERROR else r_f_errno s)\<rparr>"
    and pos: "0 \<le> r \<Longrightarrow> t = s\<lparr>r_world := w',
       u_prof := (u_prof s)\<lparr>up_perf_Mbps := Some (e_tpg_get_client_perf E (udt_prof (u_prof s)) w')\<rparr>\<rparr>"
  show ?thesis
  proof (cases "r < 0")
    case True
    then show ?thesis unfolding neg [OF True] by (simp add: udt_same_def spsa_same_def)
  next
    case False
    then have "0 \<le> r" by simp
    then show ?thesis unfolding pos [OF \<open>0 \<le> r\<close>] by (simp add: udt_same_def spsa_same_def)
  qed
qed

lemma f_udt_record_same:
  "f_udt_record E s = Some (r, t) \<Longrightarrow> \<exists>w. t = s\<lparr>r_world := w\<rparr>"
  by (auto simp: f_udt_record_def Let_def bind_eq_Some_conv case_prod_beta split: if_splits)

lemma f_udt_measure_number:
  assumes "f_udt_measure E b (f_udt_settings s theta) s = Some rt"
  shows "fst theta \<noteq> NaN \<and> snd theta \<noteq> NaN"
proof -
  obtain r t where rt: "rt = (r, t)" by (cases rt)
  show ?thesis
    using assms unfolding rt
    by (rule f_udt_measure_cases)
      (auto simp: f_udt_apply_def f_udt_settings_def spsa_theta_to_val_def Let_def bind_eq_Some_conv)
qed

lemma f_udt_probe_cases:
  assumes "f_udt_probe E L b m theta s = Some (y, c)"
  obtains (failed) r t where "f_udt_measure E b (f_udt_settings s theta) s = Some (r, t)" "r < 0"
      "c = Return (- 1) t"
  | (unrecorded) r t r' u where "f_udt_measure E b (f_udt_settings s theta) s = Some (r, t)" "0 \<le> r"
      "f_udt_record E t = Some (r', u)" "r' < 0" "c = Return 0 u"
  | (measured) r t perf r' u where "f_udt_measure E b (f_udt_settings s theta) s = Some (r, t)" "0 \<le> r"
      "up_perf_Mbps (u_prof t) = Some perf"
      "f_udt_record E t = Some (r', u)" "0 \<le> r'" "y = perf / Fin 1000"
      "spsa_keep_best f_udt_save L y theta (u\<lparr>r_profile_num := r_profile_num u + 1,
         u_visited_list := u_visited_list u @ [f_udt_visited (f_udt_settings s theta) m y]\<rparr>) = Some c"
proof -
  obtain r t where mt: "f_udt_measure E b (f_udt_settings s theta) s = Some (r, t)"
    using assms by (auto simp: f_udt_probe_def Let_def bind_eq_Some_conv)
  show thesis
  proof (cases "r < 0")
    case True
    then show thesis using assms mt by (intro failed [OF mt]) (auto simp: f_udt_probe_def Let_def)
  next
    case False
    then obtain perf r' u where p: "up_perf_Mbps (u_prof t) = Some perf"
      and ru: "f_udt_record E t = Some (r', u)"
      using assms mt by (auto simp: f_udt_probe_def Let_def bind_eq_Some_conv)
    show thesis
    proof (cases "r' < 0")
      case True
      then show thesis using assms mt False p ru
        by (intro unrecorded [OF mt _ ru]) (auto simp: f_udt_probe_def Let_def)
    next
      case ok: False
      then show thesis using assms mt False p ru
        by (intro measured [OF mt _ p ru]) (auto simp: f_udt_probe_def Let_def bind_eq_Some_conv)
    qed
  qed
qed

definition udt_point_ok :: "limits \<Rightarrow> fastprof_udt_trace \<Rightarrow> bool" where
  "udt_point_ok L v \<longleftrightarrow>
     dfin (ut_blk_size v) \<and> dfin (ut_buf_size v) \<and>
     of_int (min (l_buf_size_min_safeguard L) (l_buf_size_max_safeguard L)) \<le> dval (ut_buf_size v) \<and>
     dval (ut_buf_size v) \<le> of_int (max (l_buf_size_min_safeguard L) (l_buf_size_max_safeguard L)) \<and>
     1 \<le> dval (ut_blk_size v) \<and> dval (ut_blk_size v) \<le> 25"

definition udt_best_ok :: "addr \<Rightarrow> fastprof_udt_prof option \<Rightarrow> 'w udt_run \<Rightarrow> bool" where
  "udt_best_ok a prof_max0 s \<longleftrightarrow>
     udt_prof (u_prof s) = a \<and>
     (r_max_perf_Gbps s = 0 \<and> u_prof_max s = prof_max0 \<or>
      0 < r_max_perf_Gbps s \<and>
      (\<exists>p perf. u_prof_max s = Some p \<and> udt_prof p = a \<and> up_perf_Mbps p = Some perf \<and>
           r_max_perf_Gbps s = perf / Fin 1000))"

definition udt_extra :: "limits \<Rightarrow> addr \<Rightarrow> fastprof_udt_prof option \<Rightarrow> 'w udt_run \<Rightarrow> bool" where
  "udt_extra L a prof_max0 s \<longleftrightarrow>
     limits_ok L \<and> udt_best_ok a prof_max0 s \<and> (\<forall>v \<in> set (u_visited_list s). udt_point_ok L v)"

lemma f_udt_settings_ok:
  assumes "limits_ok L" "buf_ok L s" "in_box theta"
  shows "udt_point_ok L (f_udt_visited (f_udt_settings s theta) m y)"
proof -
  have th: "in_range (fst theta)" "in_range (snd theta)" using assms(3) by simp_all
  show ?thesis
    using spsa_buffer_setting_range [OF assms(1,2) th(2)]
      spsa_theta_to_val_range [OF th(1), of F_BLK_MIN F_BLK_MAX]
    by (simp only: udt_point_ok_def f_udt_visited_def f_udt_settings_def
        fastprof_udt_trace.simps fst_conv snd_conv)
      (simp add: F_BLK_MIN_def F_BLK_MAX_def)
qed

lemma udt_extra_keep_best:
  assumes "spsa_keep_best f_udt_save L y theta s = Some c"
    and "udt_extra L a pm s" "up_perf_Mbps (u_prof s) = Some perf" "y = perf / Fin 1000"
  shows "udt_extra L a pm (ctl_state c)"
proof (cases "y > r_max_perf_Gbps s")
  case True
  then have "0 < y" using assms(2) dbl_less_trans by (auto simp: udt_extra_def udt_best_ok_def)
  then show ?thesis using assms True
    by (auto simp: spsa_keep_best_def f_udt_save_def Let_def bind_eq_Some_conv udt_extra_def
        udt_best_ok_def split: if_splits)
next
  case False
  then show ?thesis using assms
    by (auto simp: spsa_keep_best_def bind_eq_Some_conv udt_extra_def udt_best_ok_def)
qed

lemma udt_extra_same:
  "udt_same s t \<Longrightarrow> udt_extra L a pm s \<Longrightarrow> udt_extra L a pm t"
  by (simp add: udt_same_def spsa_same_def udt_extra_def udt_best_ok_def)

interpretation udt_search: spsa_probe E L "f_udt_probe E L" udt_perfs "udt_extra L a pm" for E L a pm
proof unfold_locales
  fix b m theta s y c
  assume probe: "f_udt_probe E L b m theta s = Some (y, c)"
  show "fst theta \<noteq> NaN \<and> snd theta \<noteq> NaN"
    using probe by (rule f_udt_probe_cases) (auto dest: f_udt_measure_number)
  show "probe_effect L udt_perfs theta s y c"
    using probe
  proof (cases rule: f_udt_probe_cases)
    case (failed r t)
    then show ?thesis using f_udt_measure_same [OF failed(1)]
      by (simp add: udt_same_def udt_perfs_def)
  next
    case (unrecorded r t r' u)
    then show ?thesis
      using f_udt_measure_same [OF unrecorded(1)] f_udt_record_same [OF unrecorded(3)]
      by (auto simp: udt_same_def udt_perfs_def spsa_same_def)
  next
    case (measured r t perf r' u)
    then have u: "spsa_same s u" "u_visited_list u = u_visited_list s"
      using f_udt_measure_same [OF measured(1)] f_udt_record_same [OF measured(4)]
      by (auto simp: udt_same_def spsa_same_def)
    show ?thesis
      by (rule spsa_keep_best_effect [OF measured(7)])
        (use u in \<open>auto simp: f_udt_save_def spsa_same_def udt_perfs_def f_udt_visited_def
          intro: udt_perfs_more [unfolded udt_perfs_def]\<close>)
  qed
  assume box: "in_box theta" and buf: "buf_ok L s" and extra: "udt_extra L a pm s"
  show "udt_extra L a pm (ctl_state c)"
    using probe
  proof (cases rule: f_udt_probe_cases)
    case (failed r t)
    then show ?thesis using udt_extra_same [OF f_udt_measure_same extra] by simp
  next
    case (unrecorded r t r' u)
    then have "udt_extra L a pm t" using udt_extra_same [OF f_udt_measure_same extra] by blast
    then show ?thesis
      using unrecorded f_udt_record_same [OF unrecorded(3)]
      by (auto simp: udt_extra_def udt_best_ok_def)
  next
    case (measured r t perf r' u)
    let ?v = "f_udt_visited (f_udt_settings s theta) m y"
    have "limits_ok L" using extra by (simp add: udt_extra_def)
    then have v: "udt_point_ok L ?v" using buf box by (rule f_udt_settings_ok)
    have t: "udt_extra L a pm t" using measured udt_extra_same [OF f_udt_measure_same extra] by blast
    obtain w where u: "u = t\<lparr>r_world := w\<rparr>" using f_udt_record_same [OF measured(4)] by blast
    show ?thesis
      by (rule udt_extra_keep_best [OF measured(7) _ _ measured(6)])
        (use t u v measured(3) in \<open>auto simp: udt_extra_def udt_best_ok_def\<close>)
  qed
next
  fix s t :: "'a udt_run"
  assume "udt_extra L a pm s" "search.more t = search.more s" "r_max_perf_Gbps t = r_max_perf_Gbps s"
  then show "udt_extra L a pm t"
    by (cases s; cases t) (simp add: udt_extra_def udt_best_ok_def)
qed (rule udt_perfs_more)

subsection \<open>The run\<close>

abbreviation udt_good :: "limits \<Rightarrow> addr \<Rightarrow> fastprof_udt_prof option \<Rightarrow> 'w udt_run \<Rightarrow> bool" where
  "udt_good L a pm \<equiv> spsa_probe.good L udt_perfs (udt_extra L a pm)"

lemmas udt_good_def = udt_search.good_def

lemma f_udt_start_simps [simp]:
  "u_visited_list (f_udt_start s b prof pm) = []" "u_prof (f_udt_start s b prof pm) = prof"
  "u_prof_max (f_udt_start s b prof pm) = pm"
  "r_profile_num (f_udt_start s b prof pm) = r_profile_num s"
  "r_no_imp_counter (f_udt_start s b prof pm) = r_no_imp_counter s"
  "r_max_perf_Gbps (f_udt_start s b prof pm) = r_max_perf_Gbps s"
  "r_max_theta (f_udt_start s b prof pm) = r_max_theta s"
  "r_buf_size_min (f_udt_start s b prof pm) = r_buf_size_min s"
  "r_buf_size_max (f_udt_start s b prof pm) = r_buf_size_max s"
  by (simp_all add: f_udt_start_def search.defs udt_run.defs)

lemma f_udt_start_good:
  assumes "spsa_limits ctrl = Some L" "host_buf_ok ctrl"
  shows "udt_good L (udt_prof prof) pm (f_udt_start (spsa_declare ctrl e w) b prof pm)"
  using assms(1) spsa_limits_ok [OF assms]
  by (auto simp: udt_good_def spsa_inv_def udt_perfs_def udt_extra_def udt_best_ok_def
      buf_ok_def spsa_declare_def spsa_limits_def Let_def bind_eq_Some_conv split: if_splits)

lemma f_udt_finish_cases:
  assumes "f_udt_finish E L s = Some (r, t, rep)"
  obtains w x w' where "r = 0" "rep = Some x" "f_udt_report E s w = Some x" "t = s\<lparr>r_world := w'\<rparr>"
  using assms by (auto simp: f_udt_finish_def Let_def bind_eq_Some_conv case_prod_beta)

lemma f_udt_client_run_cases:
  assumes run: "f_udt_client_run E prof pm ctrl w0 e = Some (r, s, rep)"
    and L: "spsa_limits ctrl = Some L" and host: "host_buf_ok ctrl"
  shows "udt_good L (udt_prof prof) pm s" "r_profile_num s \<le> max 0 (l_max_prof_limit L + 2)"
    "rep = None \<Longrightarrow> r = - 1 \<or> r = 0"
    "rep = Some x \<Longrightarrow> r = 0 \<and> (\<exists>w. f_udt_report E s w = Some x) \<and> spsa_stopped L s"
proof -
  let ?good = "udt_good L (udt_prof prof) pm"
  obtain b where b: "c_int (fc_mss ctrl - 44) = Some b"
    using run by (auto simp: f_udt_client_run_def f_udt_search_def bind_eq_Some_conv simp del: c_int_Some_iff)
  let ?s0 = "f_udt_start (spsa_declare ctrl e w0) b prof pm"
  obtain opened s1 where s1: "f_open_log E ?s0 = (opened, s1)" by (cases "f_open_log E ?s0")
  have keep: "?good (t\<lparr>r_world := w, r_f_errno := e\<rparr>)" "?good (t\<lparr>r_world := w, r_theta := th\<rparr>)"
    "?good (t\<lparr>r_world := w\<rparr>)" if "?good t" for t w e th
    by (rule udt_search.good_more [OF that]; simp add: buf_ok_def)+
  have good1: "?good s1" "r_profile_num s1 = 0"
    using f_open_log_cases [of E ?s0] s1 keep(1) [OF f_udt_start_good [OF L host]]
    by (auto simp: spsa_declare_def)
  let ?s2 = "spsa_draw E s1"
  have good2: "?good ?s2" "r_profile_num ?s2 = 0"
    using spsa_draw_cases [of E s1] keep(2) [OF good1(1)] good1(2) by auto
  have "?good s \<and> r_profile_num s \<le> max 0 (l_max_prof_limit L + 2) \<and> (rep = None \<longrightarrow> r = - 1 \<or> r = 0) \<and>
    (\<forall>x. rep = Some x \<longrightarrow> r = 0 \<and> (\<exists>w. f_udt_report E s w = Some x) \<and> spsa_stopped L s)"
  proof (cases "opened < 0")
    case True
    then show ?thesis using run good1
      by (auto simp: f_udt_client_run_def f_udt_search_def b s1 simp del: c_int_Some_iff)
  next
    case False
    then obtain c where c: "run_loop (spsa_iter (f_udt_probe E L) E L) ?s2 = Some c"
      and fin: "(case c of Return r s \<Rightarrow> Some (r, s, None) | _ \<Rightarrow> f_udt_finish E L (ctl_state c))
        = Some (r, s, rep)"
      using run L by (auto simp: f_udt_client_run_def f_udt_search_def b s1 bind_eq_Some_conv simp del: c_int_Some_iff)
    note res = udt_search.search_result [OF c good2(1), unfolded good2(2)]
    show ?thesis
    proof (cases c)
      case (Return r' t)
      then show ?thesis using fin res by auto
    next
      case (Break t)
      then have f: "f_udt_finish E L t = Some (r, s, rep)" using fin by simp
      then show ?thesis
      proof (rule f_udt_finish_cases)
        fix w x w' assume "r = 0" "rep = Some x" "f_udt_report E t w = Some x" "s = t\<lparr>r_world := w'\<rparr>"
        then show ?thesis
          using res Break keep(3) by (auto simp: spsa_stopped_def f_udt_report_def)
      qed
    next
      case (Next t)
      then show ?thesis using res by simp
    qed
  qed
  then show "?good s" "r_profile_num s \<le> max 0 (l_max_prof_limit L + 2)"
    "rep = None \<Longrightarrow> r = - 1 \<or> r = 0"
    "rep = Some x \<Longrightarrow> r = 0 \<and> (\<exists>w. f_udt_report E s w = Some x) \<and> spsa_stopped L s" by blast+
qed

subsection \<open>Properties of the UDT profiler\<close>

text \<open>
  C21. A UDT run that returns has counted every point it visited and is bounded by the limit
  on profiles. No visited point beats the best performance it keeps, which is that of a
  visited point as soon as a measurement improved on the initial 0. A reported result comes
  with the return code 0 and the reason for stopping; the performance it names is the best
  one, or, when nothing improved on 0, the one that \<open>*prof_max\<close> came with.
\<close>

theorem f_udt_client_run_result:
  assumes "f_udt_client_run E prof pm ctrl w0 e = Some (r, s, rep)"
    and "spsa_limits ctrl = Some L" "host_buf_ok ctrl"
  shows "r_profile_num s = int (length (u_visited_list s)) \<and>
    r_profile_num s \<le> max 0 (l_max_prof_limit L + 2) \<and>
    (\<forall>v \<in> set (u_visited_list s). \<not> ut_perf_Mbps v > r_max_perf_Gbps s * Fin 1000) \<and>
    (if 0 < r_max_perf_Gbps s
     then in_box (r_max_theta s) \<and>
       (\<exists>v \<in> set (u_visited_list s). ut_perf_Mbps v = r_max_perf_Gbps s * Fin 1000)
     else r_max_perf_Gbps s = 0 \<and> r_no_imp_counter s = r_profile_num s) \<and>
    (case rep of
       None \<Rightarrow> r = - 1 \<or> r = 0
     | Some x \<Rightarrow> r = 0 \<and> spsa_stopped L s \<and> ur_profile_number x = r_profile_num s \<and>
         ur_flag x = r_flag s \<and>
         (if 0 < r_max_perf_Gbps s then r_max_perf_Gbps s = ur_perf_Mbps x / Fin 1000
          else \<exists>p. pm = Some p \<and> up_perf_Mbps p = Some (ur_perf_Mbps x)))"
proof -
  note run = f_udt_client_run_cases [OF assms]
  have inv: "spsa_inv udt_perfs s" "udt_best_ok (udt_prof prof) pm s"
    using run(1) by (simp_all add: udt_good_def udt_extra_def)
  have "ur_profile_number x = r_profile_num s \<and> ur_flag x = r_flag s \<and>
      (if 0 < r_max_perf_Gbps s then r_max_perf_Gbps s = ur_perf_Mbps x / Fin 1000
       else \<exists>p. pm = Some p \<and> up_perf_Mbps p = Some (ur_perf_Mbps x))"
    if "f_udt_report E s w = Some x" for x w
    using that inv(2) by (auto simp: udt_best_ok_def f_udt_report_def Let_def bind_eq_Some_conv)
  moreover have "if 0 < r_max_perf_Gbps s
     then in_box (r_max_theta s) \<and>
       (\<exists>v \<in> set (u_visited_list s). ut_perf_Mbps v = r_max_perf_Gbps s * Fin 1000)
     else r_max_perf_Gbps s = 0 \<and> r_no_imp_counter s = r_profile_num s"
    using inv(1) by (auto simp: spsa_inv_def udt_perfs_def)
  ultimately show ?thesis
    using inv(1) run(2-4) by (cases rep) (auto simp: spsa_inv_def udt_perfs_def)
qed

text \<open>
  C22. Every point a UDT run visited has a block size of 1 to 25 packets and a buffer size
  between the safeguards.
\<close>

theorem f_udt_client_run_ranges:
  assumes "f_udt_client_run E prof pm ctrl w0 e = Some (r, s, rep)"
    and "spsa_limits ctrl = Some L" "host_buf_ok ctrl"
  shows "\<forall>v \<in> set (u_visited_list s).
    dfin (ut_blk_size v) \<and> dfin (ut_buf_size v) \<and>
    1 \<le> dval (ut_blk_size v) \<and> dval (ut_blk_size v) \<le> 25 \<and>
    of_int (min F_BUF_MIN (l_buf_size_max_safeguard L)) \<le> dval (ut_buf_size v) \<and>
    dval (ut_buf_size v) \<le> of_int (max F_BUF_MIN (l_buf_size_max_safeguard L))"
proof -
  have "l_buf_size_min_safeguard L = F_BUF_MIN"
    using assms(2) by (auto simp: spsa_limits_def Let_def bind_eq_Some_conv)
  then show ?thesis
    using f_udt_client_run_cases(1) [OF assms] by (simp add: udt_good_def udt_extra_def udt_point_ok_def)
qed

text \<open>
  A reset of a profile succeeds only in a known role, only when the library's clean-up,
  reset and defaults succeed, and reports a failure of the library as \<open>F_ERR_TPG\<close>.
\<close>

theorem f_udt_prof_reset_result:
  assumes "f_udt_prof_reset E prof ctrl w f_errno = Some (r, w', f_errno')"
  shows "(r = 0 \<or> r = - 1) \<and>
    (r = 0 \<longrightarrow> fc_role ctrl \<noteq> F_UNKNOWN \<and> f_errno' = f_errno \<and>
       (\<exists>w1 w2 w3 a b c. (a, w1) = (if fc_role ctrl = F_SERVER then e_tpg_server_clean_up E (udt_prof prof) w
             else e_tpg_client_clean_up E (udt_prof prof) w) \<and> 0 \<le> a \<and>
          (b, w2) = (if fc_role ctrl = F_SERVER then e_tpg_server_reset E (udt_prof prof) w1
             else e_tpg_client_reset E (udt_prof prof) w1) \<and> 0 \<le> b \<and>
          (c, w3) = e_tpg_prof_default E (udt_prof prof) w2 \<and> 0 \<le> c \<and>
          f_udt_prof_init E prof ctrl w3 = Some (0, w'))) \<and>
    (r = - 1 \<longrightarrow> (if fc_role ctrl = F_UNKNOWN then f_errno' = f_errno \<and> w' = w else f_errno' = F_ERR_TPG))"
  using assms
  by (cases "fc_role ctrl")
    (auto simp: f_udt_prof_reset_def f_udt_clean_reset_def f_udt_prof_default_def f_udt_prof_init_def
      Let_def not_less bind_eq_Some_conv split: prod.splits if_splits)

end
