(* ===== verification/Probdata.thy ===== *)
theory Probdata
  imports ProfileDb FastprofTcp FastprofUdt
begin

text \<open>
  The state of the program (\<open>struct probdata\<close> in \<open>probdata.h\<close>) and \<open>probdata.cpp\<close>:
  defaults, setters, the command line, the control block handed to FastProf. The
  conversions with unit suffixes of \<open>probdata_control.cpp\<close> are here too.
\<close>

subsection \<open>The state\<close>

datatype p_program_role = P_UNKNOWN | P_SERVER | P_CLIENT

datatype p_instance = ProbdataClient | ProbdataServer

text \<open>
  An object allocated with \<open>new\<close> and never set is \<open>None\<close>. The worker pointers are
  \<open>None\<close> for the null pointer.
\<close>

record probdata =
  pb_status :: int
  pb_role :: p_program_role
  pb_listen_sock :: int
  pb_accept_sock :: int
  pb_max_sock :: int
  pb_ctrl_port :: int
  pb_tcp_port :: int
  pb_udt_port :: int
  pb_local_ip :: cbuf
  pb_remote_ip :: cbuf
  pb_src_file :: cbuf
  pb_dst_file :: cbuf
  pb_id :: cbuf
  pb_instance :: "p_instance option"
  pb_max_perf_mbps :: dbl
  pb_start_time_us :: int
  pb_end_time_us :: int
  pb_mss :: int
  pb_rtt_ms :: dbl
  pb_prof_duration :: int
  pb_max_prof_limit :: int
  pb_impeded_limit :: int
  pb_pgr :: dbl
  pb_do_udt_only :: int
  pb_host_max_buf :: int
  pb_bandwidth :: dbl
  pb_spsa_A_val :: dbl
  pb_spsa_a_val :: dbl
  pb_spsa_a_scale :: dbl
  pb_spsa_c_val :: dbl
  pb_spsa_c_scale :: dbl
  pb_spsa_alpha_val :: dbl
  pb_spsa_gamma_val :: dbl
  pb_udt_prof :: "fastprof_udt_prof option"
  pb_udt_prof_max :: "fastprof_udt_prof option"
  pb_tcp_prof :: "fastprof_tcp_prof option"
  pb_tcp_prof_max :: "fastprof_tcp_prof option"
  pb_control :: fastprof_ctrl
  pb_udt_worker :: "thread option"
  pb_tcp_worker :: "thread option"
  pb_db_file_handler :: addr
  pb_m2m_record_max :: mem_record

text \<open>
  What the functions of the program work on: the \<open>probdata\<close> object, the test objects of
  \<open>libiperf\<close>, the globals \<open>p_errno\<close> and \<open>f_errno\<close>, and the world.
\<close>

record 'w pstate =
  ps_prob :: probdata
  ps_heap :: iperf_heap
  ps_p_errno :: int
  ps_f_errno :: int
  ps_world :: 'w

definition upd_prob :: "(probdata \<Rightarrow> probdata) \<Rightarrow> 'w pstate \<Rightarrow> 'w pstate" where
  "upd_prob f s = s\<lparr>ps_prob := f (ps_prob s)\<rparr>"

definition set_errno :: "int \<Rightarrow> 'w pstate \<Rightarrow> 'w pstate" where
  "set_errno e s = s\<lparr>ps_p_errno := e\<rparr>"

text \<open>The idiom \<open>if (f(prob) < 0) { fail; return -1; } rest\<close>.\<close>

definition check ::
    "(int \<times> 's) option \<Rightarrow> ('s \<Rightarrow> 's) \<Rightarrow> ('s \<Rightarrow> (int \<times> 's) option) \<Rightarrow> (int \<times> 's) option" where
  "check m fail rest = do { (r, s) \<leftarrow> m; if r < 0 then Some (- 1, fail s) else rest s }"

lemma check_simps [simp]:
  "check None fail rest = None"
  "check (Some (r, s)) fail rest = (if r < 0 then Some (- 1, fail s) else rest s)"
  by (simp_all add: check_def)

lemma check_cases:
  assumes "check m fail rest = Some (r, t)"
  obtains r' s where "m = Some (r', s)" "r' < 0" "r = - 1" "t = fail s"
  | r' s where "m = Some (r', s)" "0 \<le> r'" "rest s = Some (r, t)"
  using assms by (cases m) (auto simp: check_def split: if_splits)

lemma check_zero:
  assumes "check m fail rest = Some (r, t)" "0 \<le> r"
  obtains r' s where "m = Some (r', s)" "0 \<le> r'" "rest s = Some (r, t)"
  using assms by (auto elim: check_cases)

subsection \<open>Defaults\<close>

definition P_HOSTADDR_LEN :: nat where "P_HOSTADDR_LEN = 64"
definition P_FILENAME_LEN :: nat where "P_FILENAME_LEN = 128"
definition P_IDPKT_SIZE :: nat where "P_IDPKT_SIZE = 32"
definition P_MAX_BACKLOG :: int where "P_MAX_BACKLOG = 10"
definition P_MAX_ERROR_NUM :: int where "P_MAX_ERROR_NUM = 10"
definition P_DEFAULT_DURATION :: int where "P_DEFAULT_DURATION = 10"
definition P_DEFAULT_PACKET :: int where "P_DEFAULT_PACKET = 1500"
definition P_DEFAULT_BW :: dbl where "P_DEFAULT_BW = Fin 10"
definition P_DEFAULT_PORT :: int where "P_DEFAULT_PORT = 7001"
definition P_DEFAULT_TCP_PORT :: int where "P_DEFAULT_TCP_PORT = 5020"
definition P_DEFAULT_UDT_PORT :: int where "P_DEFAULT_UDT_PORT = 5005"
definition P_DEFAULT_SPSA_BIG_A_VAL :: dbl where "P_DEFAULT_SPSA_BIG_A_VAL = Fin 0"
definition P_DEFAULT_SPSA_SMALL_A_VAL :: dbl where "P_DEFAULT_SPSA_SMALL_A_VAL = Fin 15"
definition P_DEFAULT_SPSA_SMALL_C_VAL :: dbl where "P_DEFAULT_SPSA_SMALL_C_VAL = Fin (11 / 2)"
definition P_DEFAULT_SCALE_FACTOR_A_VAL :: dbl where "P_DEFAULT_SCALE_FACTOR_A_VAL = Fin (5 / 4)"
definition P_DEFAULT_SCALE_FACTOR_C_VAL :: dbl where
  "P_DEFAULT_SCALE_FACTOR_C_VAL = round64 (115 / 100)"
definition P_DEFAULT_SPSA_ALPHA :: dbl where "P_DEFAULT_SPSA_ALPHA = round64 (602 / 1000)"
definition P_DEFAULT_SPSA_GAMMA :: dbl where "P_DEFAULT_SPSA_GAMMA = round64 (101 / 1000)"
definition P_DEFAULT_PGR :: dbl where "P_DEFAULT_PGR = Fin (3 / 4)"
definition P_DEFAULT_MAX_PROF_LIMIT :: int where "P_DEFAULT_MAX_PROF_LIMIT = 60"
definition P_DEFAULT_IMPEDED_LIMIT :: int where "P_DEFAULT_IMPEDED_LIMIT = 30"
definition P_DEFAULT_DST_FILE :: string where "P_DEFAULT_DST_FILE = ''/tmp/probdata_tmp.dat''"
definition P_KB :: int where "P_KB = 1000"
definition P_MB :: int where "P_MB = 1000 * 1000"
definition P_GB :: int where "P_GB = 1000 * 1000 * 1000"

text \<open>
  \<open>probdata_new_and_default\<close>. The object has just been allocated: \<open>raw\<close> is what its
  memory holds. The members it does not set (\<open>status\<close>, \<open>db_file_handler\<close>, the contents
  of the control block and of the best record) keep those bytes.
\<close>

definition probdata_new_and_default :: "probdata \<Rightarrow> (int \<times> probdata) option" where
  "probdata_new_and_default raw = do {
     local_ip \<leftarrow> c_memset (pb_local_ip raw) NUL P_HOSTADDR_LEN;
     remote_ip \<leftarrow> c_memset (pb_remote_ip raw) NUL P_HOSTADDR_LEN;
     src_file \<leftarrow> c_memset (pb_src_file raw) NUL P_FILENAME_LEN;
     dst_file \<leftarrow> c_memset (pb_dst_file raw) NUL P_FILENAME_LEN;
     ident \<leftarrow> c_memset (pb_id raw) NUL P_IDPKT_SIZE;
     Some (0, raw\<lparr>
       pb_role := P_UNKNOWN, pb_listen_sock := - 1, pb_accept_sock := - 1, pb_max_sock := - 1,
       pb_ctrl_port := P_DEFAULT_PORT, pb_tcp_port := P_DEFAULT_TCP_PORT,
       pb_udt_port := P_DEFAULT_UDT_PORT,
       pb_local_ip := local_ip, pb_remote_ip := remote_ip, pb_src_file := src_file,
       pb_dst_file := dst_file, pb_id := ident, pb_instance := None,
       pb_max_perf_mbps := - 1, pb_start_time_us := - 1, pb_end_time_us := - 1,
       pb_mss := P_DEFAULT_PACKET, pb_rtt_ms := - 1, pb_prof_duration := P_DEFAULT_DURATION,
       pb_max_prof_limit := P_DEFAULT_MAX_PROF_LIMIT, pb_impeded_limit := P_DEFAULT_IMPEDED_LIMIT,
       pb_pgr := P_DEFAULT_PGR, pb_do_udt_only := - 1,
       pb_host_max_buf := 2 * P_GB, pb_bandwidth := - 1,
       pb_spsa_A_val := P_DEFAULT_SPSA_BIG_A_VAL, pb_spsa_a_val := P_DEFAULT_SPSA_SMALL_A_VAL,
       pb_spsa_a_scale := P_DEFAULT_SCALE_FACTOR_A_VAL, pb_spsa_c_val := P_DEFAULT_SPSA_SMALL_C_VAL,
       pb_spsa_c_scale := P_DEFAULT_SCALE_FACTOR_C_VAL, pb_spsa_alpha_val := P_DEFAULT_SPSA_ALPHA,
       pb_spsa_gamma_val := P_DEFAULT_SPSA_GAMMA,
       pb_tcp_prof := None, pb_tcp_prof_max := None, pb_udt_prof := None, pb_udt_prof_max := None,
       pb_udt_worker := None, pb_tcp_worker := None,
       pb_m2m_record_max := (pb_m2m_record_max raw)\<lparr>average_perf := None\<rparr>\<rparr>)
   }"

subsection \<open>Setters\<close>

definition probdata_set_role ::
    "p_program_role \<Rightarrow> 'w pstate \<Rightarrow> int \<times> 'w pstate" where
  "probdata_set_role role s =
     (let s = upd_prob (\<lambda>p. p\<lparr>pb_role := role\<rparr>) s
      in if role = P_CLIENT \<or> role = P_SERVER then (0, s)
         else (- 1, set_errno P_ERR_SERV_CLIENT s))"

definition probdata_set_local_addr :: "cbuf \<Rightarrow> probdata \<Rightarrow> (int \<times> probdata) option" where
  "probdata_set_local_addr a prob = do {
     ip \<leftarrow> c_copy_str (pb_local_ip prob) a;
     Some (0, prob\<lparr>pb_local_ip := ip\<rparr>)
   }"

definition probdata_set_peer_addr :: "cbuf \<Rightarrow> probdata \<Rightarrow> (int \<times> probdata) option" where
  "probdata_set_peer_addr a prob = do {
     ip \<leftarrow> c_copy_str (pb_remote_ip prob) a;
     Some (0, prob\<lparr>pb_remote_ip := ip\<rparr>)
   }"

definition probdata_set_src_file :: "cbuf \<Rightarrow> probdata \<Rightarrow> (int \<times> probdata) option" where
  "probdata_set_src_file filename prob = do {
     f \<leftarrow> c_copy_str (pb_src_file prob) filename;
     Some (0, prob\<lparr>pb_src_file := f\<rparr>)
   }"

definition probdata_set_dst_file :: "cbuf \<Rightarrow> probdata \<Rightarrow> (int \<times> probdata) option" where
  "probdata_set_dst_file filename prob = do {
     f \<leftarrow> c_copy_str (pb_dst_file prob) filename;
     Some (0, prob\<lparr>pb_dst_file := f\<rparr>)
   }"

subsection \<open>Numbers from strings\<close>

text \<open>\<open>atoi\<close> and \<open>atof\<close>: 0 when there is no number; an \<open>int\<close> that does not fit is undefined.\<close>

definition c_atoi :: "string \<Rightarrow> int option" where
  "c_atoi str = (case scan_int (skip_ws str) of None \<Rightarrow> Some 0 | Some (n, _) \<Rightarrow> c_int n)"

definition c_atof :: "string \<Rightarrow> dbl option" where
  "c_atof str =
     (case scan_lf (skip_ws str) of None \<Rightarrow> None | Some None \<Rightarrow> Some 0 | Some (Some (x, _)) \<Rightarrow> Some x)"

definition unit_factor :: "char \<Rightarrow> int" where
  "unit_factor unit =
     (if unit = CHR ''g'' \<or> unit = CHR ''G'' then P_GB
      else if unit = CHR ''m'' \<or> unit = CHR ''M'' then P_MB
      else if unit = CHR ''k'' \<or> unit = CHR ''K'' then P_KB
      else 1)"

text \<open>
  \<open>sscanf(str, "%lf%c", &var, &unit)\<close>: without a number \<open>var\<close> stays indeterminate. A
  unit multiplies, no unit leaves the number as it is.
\<close>

definition probdata_unit_atof :: "string \<Rightarrow> dbl option" where
  "probdata_unit_atof str = do {
     vals \<leftarrow> sscanf [CDbl, CChar] str;
     (case vals of
        [] \<Rightarrow> None
      | SDbl var # rest \<Rightarrow>
          (let unit = (case rest of SChar c # _ \<Rightarrow> c | _ \<Rightarrow> NUL)
           in Some (if unit_factor unit = 1 then var else var * d_of_int (unit_factor unit)))
      | _ \<Rightarrow> None)
   }"

definition probdata_unit_atoi :: "string \<Rightarrow> int option" where
  "probdata_unit_atoi str = do {
     var \<leftarrow> probdata_unit_atof str;
     d_to_int var
   }"

subsection \<open>The command line\<close>

text \<open>
  What \<open>getopt_long\<close> delivers, option by option: the option's letter and its argument.
  The run of the parser ends with a return code or by leaving the program.
\<close>

datatype 'w parse = Parsed int "'w pstate" | Exited int

text \<open>The state of the parser: the flags for the two files come with the program's state.\<close>

type_synonym 'w parser = "'w pstate \<times> bool \<times> bool"

definition set_opt ::
    "'a option \<Rightarrow> ('a \<Rightarrow> probdata \<Rightarrow> probdata) \<Rightarrow> 'w parser \<Rightarrow> ('w parser + 'w parse) option" where
  "set_opt v f st = do { x \<leftarrow> v; Some (Inl (upd_prob (f x) (fst st), snd st)) }"

definition cmd_option ::
    "char \<Rightarrow> string \<Rightarrow> 'w parser \<Rightarrow> ('w parser + 'w parse) option" where
  "cmd_option flag optarg st =
     (let (s, src, dst) = st; fail = Inr (Parsed (- 1) (set_errno P_ERR_SERV_CLIENT s))
      in if flag = CHR ''p'' then set_opt (c_atoi optarg) (\<lambda>n p. p\<lparr>pb_ctrl_port := n\<rparr>) st
         else if flag = CHR ''s'' then
           Some (if pb_role (ps_prob s) = P_CLIENT then fail
                 else Inl (snd (probdata_set_role P_SERVER s), src, dst))
         else if flag = CHR ''c'' then
           (if pb_role (ps_prob s) = P_SERVER then Some fail
            else do {
              let s = snd (probdata_set_role P_CLIENT s);
              (_, prob) \<leftarrow> probdata_set_peer_addr (c_lit optarg) (ps_prob s);
              Some (Inl (s\<lparr>ps_prob := prob\<rparr>, src, dst))
            })
         else if flag = CHR ''S'' then do {
           (_, prob) \<leftarrow> probdata_set_src_file (c_lit optarg) (ps_prob s);
           Some (Inl (s\<lparr>ps_prob := prob\<rparr>, True, dst))
         }
         else if flag = CHR ''V'' then do {
           (_, prob) \<leftarrow> probdata_set_dst_file (c_lit optarg) (ps_prob s);
           Some (Inl (s\<lparr>ps_prob := prob\<rparr>, src, True))
         }
         else if flag = CHR ''t'' then set_opt (Some 1) (\<lambda>n p. p\<lparr>pb_do_udt_only := n\<rparr>) st
         else if flag = CHR ''d'' then set_opt (c_atoi optarg) (\<lambda>n p. p\<lparr>pb_prof_duration := n\<rparr>) st
         else if flag = CHR ''M'' then set_opt (c_atoi optarg) (\<lambda>n p. p\<lparr>pb_mss := n\<rparr>) st
         else if flag = CHR ''y'' then
           set_opt (probdata_unit_atof optarg) (\<lambda>x p. p\<lparr>pb_bandwidth := x\<rparr>) st
         else if flag = CHR ''C'' then set_opt (c_atof optarg) (\<lambda>x p. p\<lparr>pb_pgr := x\<rparr>) st
         else if flag = CHR ''T'' then set_opt (c_atof optarg) (\<lambda>x p. p\<lparr>pb_rtt_ms := x\<rparr>) st
         else if flag = CHR ''L'' then set_opt (c_atoi optarg) (\<lambda>n p. p\<lparr>pb_impeded_limit := n\<rparr>) st
         else if flag = CHR ''N'' then set_opt (c_atoi optarg) (\<lambda>n p. p\<lparr>pb_max_prof_limit := n\<rparr>) st
         else if flag = CHR ''e'' then set_opt (c_atof optarg) (\<lambda>x p. p\<lparr>pb_spsa_a_val := x\<rparr>) st
         else if flag = CHR ''g'' then set_opt (c_atof optarg) (\<lambda>x p. p\<lparr>pb_spsa_c_val := x\<rparr>) st
         else if flag = CHR ''o'' then set_opt (c_atof optarg) (\<lambda>x p. p\<lparr>pb_spsa_a_scale := x\<rparr>) st
         else if flag = CHR ''x'' then set_opt (c_atof optarg) (\<lambda>x p. p\<lparr>pb_spsa_c_scale := x\<rparr>) st
         else if flag = CHR ''v'' then Some (Inr (Exited 0))
         else Some (Inr (Exited 1)))"

text \<open>After the options: a role is required, and a destination file only with a source file.\<close>

definition cmd_finish :: "'w parser \<Rightarrow> 'w parse" where
  "cmd_finish st =
     (let (s, src, dst) = st; role = pb_role (ps_prob s)
      in if role \<noteq> P_CLIENT \<and> role \<noteq> P_SERVER then Parsed (- 1) (set_errno P_ERR_SERV_CLIENT s)
         else if \<not> src \<and> dst then Parsed (- 1) (set_errno P_ERR_DSTFILE_ONLY s)
         else Parsed 0 (upd_prob (\<lambda>p. p\<lparr>pb_instance :=
           Some (if role = P_CLIENT then ProbdataClient else ProbdataServer)\<rparr>) s))"

fun cmd_options :: "(char \<times> string) list \<Rightarrow> 'w parser \<Rightarrow> 'w parse option" where
  "cmd_options [] st = Some (cmd_finish st)"
| "cmd_options ((flag, optarg) # opts) st =
     (case cmd_option flag optarg st of
        None \<Rightarrow> None
      | Some (Inl st') \<Rightarrow> cmd_options opts st'
      | Some (Inr res) \<Rightarrow> Some res)"

definition probdata_cmd_parse :: "(char \<times> string) list \<Rightarrow> 'w pstate \<Rightarrow> 'w parse option" where
  "probdata_cmd_parse opts s = cmd_options opts (s, False, False)"

subsection \<open>The host's buffer limit\<close>

definition get_max_mem :: "'w env \<Rightarrow> 'w \<Rightarrow> (int \<times> 'w) option" where
  "get_max_mem E w = do {
     let (fp, w) = e_fopen E ''/proc/sys/net/core/rmem_max'' w;
     if fp = 0 then Some (- 1, w)
     else do {
       vals \<leftarrow> sscanf [CInt] (e_fread_all E fp w);
       let max_mem = (case vals of SInt n # _ \<Rightarrow> n | _ \<Rightarrow> - 1);
       Some (max_mem, e_fclose E fp w)
     }
   }"

definition probdata_get_max_buf :: "'w env \<Rightarrow> 'w pstate \<Rightarrow> (int \<times> 'w pstate) option" where
  "probdata_get_max_buf E s = do {
     (max_buffer, w) \<leftarrow> get_max_mem E (ps_world s);
     let s = s\<lparr>ps_world := w\<rparr>;
     Some (if max_buffer < 0 then (- 1, s)
           else (0, upd_prob (\<lambda>p. p\<lparr>pb_host_max_buf := max_buffer\<rparr>) s))
   }"

subsection \<open>The control block\<close>

definition probdata_set_control :: "probdata \<Rightarrow> (int \<times> probdata) option" where
  "probdata_set_control prob = do {
     let c = pb_control prob;
     local_ip \<leftarrow> c_copy_str (fc_local_ip c) (pb_local_ip prob);
     remote_ip \<leftarrow> c_copy_str (fc_remote_ip c) (pb_remote_ip prob);
     Some (0, prob\<lparr>pb_control := c\<lparr>
       fc_role := (if pb_role prob = P_CLIENT then F_CLIENT else F_SERVER),
       fc_host_max_buf := pb_host_max_buf prob,
       fc_local_ip := local_ip, fc_remote_ip := remote_ip,
       fc_tcp_port := pb_tcp_port prob, fc_udt_port := pb_udt_port prob, fc_mss := pb_mss prob,
       fc_bw_bps := pb_bandwidth prob, fc_rtt_ms := pb_rtt_ms prob,
       fc_A_val := pb_spsa_A_val prob, fc_a_val := pb_spsa_a_val prob,
       fc_a_scale := pb_spsa_a_scale prob, fc_c_val := pb_spsa_c_val prob,
       fc_c_scale := pb_spsa_c_scale prob, fc_alpha := pb_spsa_alpha_val prob,
       fc_gamma := pb_spsa_gamma_val prob, fc_duration := pb_prof_duration prob,
       fc_pgr := pb_pgr prob, fc_impeded_limit := pb_impeded_limit prob,
       fc_max_limit := pb_max_prof_limit prob\<rparr>\<rparr>)
   }"

end
