(* ===== verification/Channel.thy ===== *)
theory Channel
  imports Probdata
begin

text \<open>
  The control channel (\<open>probdata_control.cpp\<close>): a TCP connection over which client and
  server exchange one-byte control packets, control parameters and measured performance.

  The two loops over \<open>read\<close> and \<open>write\<close> are modelled call by call. What the operating
  system promises about the calls is the predicate \<open>sane_io\<close>: no call transfers more
  bytes than it was asked for. A call that broke it would write past the buffer.
\<close>

subsection \<open>Numbers as bytes\<close>

definition byte_of :: "int \<Rightarrow> char" where
  "byte_of n = char_of (nat (n mod 256))"

definition of_byte :: "char \<Rightarrow> int" where
  "of_byte c = int (of_char c)"

text \<open>An \<open>int\<close> in memory: four bytes, least significant first, two's complement.\<close>

definition int_bytes :: "int \<Rightarrow> char list" where
  "int_bytes n = [byte_of n, byte_of (n div 256), byte_of (n div 65536), byte_of (n div 16777216)]"

definition signed32 :: "int \<Rightarrow> int" where
  "signed32 n = (if 2147483648 \<le> n then n - 4294967296 else n)"

definition bytes_int :: "char list \<Rightarrow> int" where
  "bytes_int bs = signed32 (foldr (\<lambda>b n. of_byte b + 256 * n) bs 0)"

definition schar_of :: "char \<Rightarrow> int" where
  "schar_of c = (let n = of_byte c in if 128 \<le> n then n - 256 else n)"

lemma of_byte_byte_of [simp]: "of_byte (byte_of n) = n mod 256"
  by (simp add: of_byte_def byte_of_def of_char_of take_bit_nat_def zmod_int)

lemma bytes_int_bytes:
  assumes "in_int n"
  shows "bytes_int (int_bytes n) = n"
proof -
  have d: "n div 65536 = n div 256 div 256" "n div 16777216 = n div 256 div 256 div 256"
    by (simp_all add: div_mult2_eq [symmetric])
  have m: "a mod (256 * c) = a mod 256 + 256 * (a div 256 mod c)" if "0 \<le> c" for a c :: int
    using zmod_zmult2_eq [OF that, of a 256] by simp
  have "n mod (256 * (256 * (256 * 256))) =
      n mod 256 + 256 * (n div 256 mod 256 + 256 * (n div 65536 mod 256 + 256 * (n div 16777216 mod 256)))"
  proof -
    have "n mod (256 * (256 * (256 * 256))) = n mod 256 + 256 * (n div 256 mod (256 * (256 * 256)))"
      by (rule m) simp
    moreover have "n div 256 mod (256 * (256 * 256)) = n div 256 mod 256 + 256 * (n div 256 div 256 mod (256 * 256))"
      by (rule m) simp
    moreover have "n div 256 div 256 mod (256 * 256) = n div 256 div 256 mod 256 + 256 * (n div 256 div 256 div 256 mod 256)"
      by (rule m) simp
    ultimately show ?thesis unfolding d by (simp only:)
  qed
  moreover have "signed32 (n mod (256 * (256 * (256 * 256)))) = n"
  proof (cases "0 \<le> n")
    case True
    then show ?thesis using assms
      by (simp add: in_int_def INT_MAX_def signed32_def mod_pos_pos_trivial)
  next
    case False
    then have "(n + 4294967296) mod 4294967296 = n + 4294967296" using assms
      by (intro mod_pos_pos_trivial) (auto simp: in_int_def INT_MIN_def)
    then have "n mod 4294967296 = n + 4294967296" by simp
    then show ?thesis using False assms by (simp add: in_int_def INT_MIN_def signed32_def)
  qed
  ultimately show ?thesis
    unfolding bytes_int_def int_bytes_def foldr.simps comp_def id_apply of_byte_byte_of
    by (simp only: mult_zero_right add_0_right)
qed

lemma schar_byte: "- 128 \<le> n \<Longrightarrow> n \<le> 127 \<Longrightarrow> schar_of (byte_of n) = n"
  unfolding schar_of_def Let_def of_byte_byte_of by presburger

lemma length_int_bytes [simp]: "length (int_bytes n) = 4"
  by (simp add: int_bytes_def)

text \<open>
  A \<open>double\<close> in memory: sign, exponent and fraction of IEEE 754 in eight bytes, least
  significant first. The significand of \<open>r\<close> is \<open>r / pow2 (rexp r)\<close>; it is below
  \<open>2 ^ 52\<close> exactly for the subnormal numbers, so one formula serves both kinds.
\<close>

definition mag_bits :: "rat \<Rightarrow> int" where
  "mag_bits r = (rexp r + 1074) * 2 ^ 52 + \<lfloor>r / pow2 (rexp r)\<rfloor>"

definition dbl_bits :: "dbl \<Rightarrow> int" where
  "dbl_bits x =
     (case x of
        NaN \<Rightarrow> 0x7FF8000000000000
      | PInf \<Rightarrow> 0x7FF0000000000000
      | MInf \<Rightarrow> 0xFFF0000000000000
      | NegZero \<Rightarrow> 0x8000000000000000
      | Fin r \<Rightarrow> if r = 0 then 0 else if 0 < r then mag_bits r else 2 ^ 63 + mag_bits (- r))"

definition bits_mag :: "int \<Rightarrow> rat" where
  "bits_mag b =
     (let e = b div 2 ^ 52; m = b mod 2 ^ 52
      in if e = 0 then of_int m * pow2 (- 1074) else of_int (m + 2 ^ 52) * pow2 (e - 1075))"

definition bits_dbl :: "int \<Rightarrow> dbl" where
  "bits_dbl b =
     (let neg = (2 ^ 63 \<le> b); b = b mod 2 ^ 63
      in if b div 2 ^ 52 = 2047 then (if b mod 2 ^ 52 = 0 then dinf neg else NaN)
         else if b = 0 then dzero neg
         else Fin (if neg then - bits_mag b else bits_mag b))"

definition dbl_bytes :: "dbl \<Rightarrow> char list" where
  "dbl_bytes x = map (\<lambda>i. byte_of (dbl_bits x div 256 ^ i)) [0..<8]"

definition bytes_dbl :: "char list \<Rightarrow> dbl" where
  "bytes_dbl bs = bits_dbl (foldr (\<lambda>b n. of_byte b + 256 * n) bs 0)"

text \<open>The finite values a \<open>double\<close> can have: representable and below \<open>2 ^ 1024\<close>.\<close>

definition is_double :: "dbl \<Rightarrow> bool" where
  "is_double x \<longleftrightarrow> (case x of Fin r \<Rightarrow> rnd r = r \<and> \<bar>r\<bar> < 2 ^ 1024 | _ \<Rightarrow> True)"

subsection \<open>Reading and writing on a socket\<close>

text \<open>
  The loop of \<open>probdata_ctrl_chan_recv_Nbytes\<close>: the bytes still missing, those that have
  arrived. More bytes than asked for would overrun the buffer.
\<close>

record 'w io =
  io_nleft :: int
  io_data :: string
  io_world :: 'w

definition recv_body :: "'w env \<Rightarrow> int \<Rightarrow> 'w io \<Rightarrow> 'w io ctl option" where
  "recv_body E fd s =
     (if io_nleft s \<le> 0 then Some (Break s)
      else
        (let (r, w) = e_read E fd (io_nleft s) (io_world s); s = s\<lparr>io_world := w\<rparr>
         in case r of
              None \<Rightarrow> Some (Return (- 1) s)
            | Some bs \<Rightarrow>
                if bs = [] then Some (Break s)
                else if io_nleft s < int (length bs) then None
                else Some (Next (s\<lparr>io_nleft := io_nleft s - int (length bs),
                                   io_data := io_data s @ bs\<rparr>))))"

definition probdata_ctrl_chan_recv_Nbytes ::
    "'w env \<Rightarrow> int \<Rightarrow> int \<Rightarrow> 'w \<Rightarrow> (int \<times> string \<times> 'w) option" where
  "probdata_ctrl_chan_recv_Nbytes E fd count w = do {
     c \<leftarrow> run_loop (recv_body E fd) \<lparr>io_nleft = count, io_data = [], io_world = w\<rparr>;
     let s = ctl_state c;
     Some ((case c of Return r _ \<Rightarrow> r | _ \<Rightarrow> count - io_nleft s), io_data s, io_world s)
   }"

text \<open>
  The loop of \<open>probdata_ctrl_chan_send_Nbytes\<close>: the bytes still to be sent. It returns
  \<open>count\<close> also when the loop was left before they were all sent.
\<close>

definition send_body :: "'w env \<Rightarrow> int \<Rightarrow> 'w io \<Rightarrow> 'w io ctl option" where
  "send_body E fd s =
     (if io_nleft s \<le> 0 then Some (Break s)
      else
        (let (r, w) = e_write E fd (io_data s) (io_world s); s = s\<lparr>io_world := w\<rparr>
         in if r < 0 then Some (Return (- 1) s)
            else if r = 0 then Some (Break s)
            else if io_nleft s < r then None
            else Some (Next (s\<lparr>io_nleft := io_nleft s - r, io_data := drop (nat r) (io_data s)\<rparr>))))"

definition probdata_ctrl_chan_send_Nbytes ::
    "'w env \<Rightarrow> int \<Rightarrow> string \<Rightarrow> 'w \<Rightarrow> (int \<times> 'w) option" where
  "probdata_ctrl_chan_send_Nbytes E fd buf w = do {
     c \<leftarrow> run_loop (send_body E fd) \<lparr>io_nleft = int (length buf), io_data = buf, io_world = w\<rparr>;
     Some ((case c of Return r _ \<Rightarrow> r | _ \<Rightarrow> int (length buf)), io_world (ctl_state c))
   }"

definition sane_io :: "'w env \<Rightarrow> bool" where
  "sane_io E \<longleftrightarrow>
     (\<forall>fd n w bs. 0 < n \<longrightarrow> fst (e_read E fd n w) = Some bs \<longrightarrow> int (length bs) \<le> n) \<and>
     (\<forall>fd bs w. fst (e_write E fd bs w) \<le> int (length bs))"

text \<open>Both loops end: every call that goes through transfers at least one byte.\<close>

definition recv_good :: "'w env \<Rightarrow> 'w io \<Rightarrow> bool" where
  "recv_good E s \<longleftrightarrow> sane_io E"

definition send_good :: "'w env \<Rightarrow> 'w io \<Rightarrow> bool" where
  "send_good E s \<longleftrightarrow> sane_io E \<and> io_nleft s = int (length (io_data s))"

interpretation recv_loop: terminating_loop "recv_body E fd" "recv_good E" "\<lambda>s. nat (io_nleft s)" for E fd
proof unfold_locales
  fix s t assume good: "recv_good E s" and step: "recv_body E fd s = Some (Next t)"
  show "recv_good E t" using good by (simp add: recv_good_def)
  from step obtain bs :: string where "0 < io_nleft s" "bs \<noteq> []" "io_nleft t = io_nleft s - int (length bs)"
    by (auto simp: recv_body_def Let_def split: if_splits prod.splits option.splits)
  then show "nat (io_nleft t) < nat (io_nleft s)" by (cases bs) auto
next
  fix s assume "recv_good E s"
  then have "int (length bs) \<le> io_nleft s"
    if "0 < io_nleft s" "e_read E fd (io_nleft s) (io_world s) = (Some bs, w)" for bs w
    using that unfolding recv_good_def sane_io_def by (metis fst_conv)
  then show "recv_body E fd s \<noteq> None"
    by (fastforce simp: recv_body_def Let_def split: prod.splits option.splits)
qed

interpretation send_loop: terminating_loop "send_body E fd" "send_good E" "\<lambda>s. nat (io_nleft s)" for E fd
proof unfold_locales
  fix s t assume good: "send_good E s" and step: "send_body E fd s = Some (Next t)"
  from step obtain r where r: "0 < io_nleft s" "0 < r" "r \<le> io_nleft s"
    "io_nleft t = io_nleft s - r" "io_data t = drop (nat r) (io_data s)"
    by (auto simp: send_body_def Let_def split: if_splits prod.splits)
  then show "send_good E t" "nat (io_nleft t) < nat (io_nleft s)"
    using good by (auto simp: send_good_def)
next
  fix s assume good: "send_good E s"
  have "fst (e_write E fd (io_data s) (io_world s)) \<le> io_nleft s"
    using good unfolding send_good_def sane_io_def by metis
  then show "send_body E fd s \<noteq> None"
    by (auto simp: send_body_def Let_def split: prod.splits)
qed

subsection \<open>Sockets\<close>

text \<open>The string form of the port goes into an array of six bytes (\<open>sprintf(portstr, "%d", ...)\<close>).\<close>

definition port_string :: "int \<Rightarrow> string option" where
  "port_string port = do {
     portstr \<leftarrow> c_puts (replicate 6 NUL) (show_int port);
     Some (c_str portstr)
   }"

definition probdata_ctrl_chan_listen :: "'w env \<Rightarrow> 'w pstate \<Rightarrow> (int \<times> 'w pstate) option" where
  "probdata_ctrl_chan_listen E s = do {
     portstr \<leftarrow> port_string (pb_ctrl_port (ps_prob s));
     n \<leftarrow> c_strlen (pb_local_ip (ps_prob s));
     let host = (if 0 < n then Some (c_str (pb_local_ip (ps_prob s))) else None);
     let (localaddr, w) = e_getaddrinfo E host portstr (ps_world s);
     (case localaddr of
        None \<Rightarrow> Some (- 1, s\<lparr>ps_world := w\<rparr>)
      | Some ai \<Rightarrow>
          (let (fd, w) = e_socket E ai w
           in if fd < 0 then Some (- 1, s\<lparr>ps_world := w\<rparr>)
              else
                (let (r, w) = e_reuseaddr E fd w
                 in if r < 0 then Some (- 1, s\<lparr>ps_world := snd (e_close E fd w)\<rparr>)
                    else
                      (let (r, w) = e_bind E fd ai w
                       in if r < 0 then Some (- 1, s\<lparr>ps_world := snd (e_close E fd w)\<rparr>)
                          else
                            (let (r, w) = e_listen E fd P_MAX_BACKLOG w
                             in if r < 0 then Some (- 1, s\<lparr>ps_world := snd (e_close E fd w)\<rparr>)
                                else Some (0, upd_prob (\<lambda>p. p\<lparr>pb_listen_sock := fd\<rparr>)
                                                (s\<lparr>ps_world := w\<rparr>)))))))
   }"

definition probdata_ctrl_chan_connect :: "'w env \<Rightarrow> 'w pstate \<Rightarrow> (int \<times> 'w pstate) option" where
  "probdata_ctrl_chan_connect E s = do {
     n \<leftarrow> c_strlen (pb_local_ip (ps_prob s));
     let host = (if 0 < n then Some (c_str (pb_local_ip (ps_prob s))) else None);
     let (localaddr, w) = e_getaddrinfo E host ''0'' (ps_world s);
     (case localaddr of
        None \<Rightarrow> Some (- 1, s\<lparr>ps_world := w\<rparr>)
      | Some lai \<Rightarrow> do {
          portstr \<leftarrow> port_string (pb_ctrl_port (ps_prob s));
          m \<leftarrow> c_strlen (pb_remote_ip (ps_prob s));
          if m = 0 then Some (- 1, s\<lparr>ps_world := w\<rparr>)
          else
            (let (serveraddr, w) = e_getaddrinfo E (Some (c_str (pb_remote_ip (ps_prob s)))) portstr w
             in case serveraddr of
                  None \<Rightarrow> Some (- 1, s\<lparr>ps_world := w\<rparr>)
                | Some sai \<Rightarrow>
                    (let (fd, w) = e_socket E sai w
                     in if fd < 0 then Some (- 1, s\<lparr>ps_world := snd (e_close E fd w)\<rparr>)
                        else
                          (let (r, w) = (if 0 < n then e_bind E fd lai w else (0, w))
                           in if r < 0 then Some (- 1, s\<lparr>ps_world := snd (e_close E fd w)\<rparr>)
                              else
                                (let (r, w) = e_connect E fd sai w
                                 in if r < 0 then Some (- 1, s\<lparr>ps_world := snd (e_close E fd w)\<rparr>)
                                    else Some (0, upd_prob (\<lambda>p. p\<lparr>pb_accept_sock := fd\<rparr>)
                                                    (s\<lparr>ps_world := w\<rparr>))))))
        })
   }"

text \<open>The accepted socket or \<open>-1\<close>, and the peer's address in dotted form.\<close>

definition probdata_ctrl_chan_accept :: "'w env \<Rightarrow> 'w pstate \<Rightarrow> int \<times> string \<times> 'w pstate" where
  "probdata_ctrl_chan_accept E s =
     (let (fd, peer, w) = e_accept E (pb_listen_sock (ps_prob s)) (ps_world s)
      in if fd < 0 then (- 1, peer, s\<lparr>ps_world := snd (e_close E fd w)\<rparr>)
         else (fd, peer, s\<lparr>ps_world := w\<rparr>))"

definition probdata_ctrl_chan_close_listen_sock :: "'w env \<Rightarrow> 'w pstate \<Rightarrow> int \<times> 'w pstate" where
  "probdata_ctrl_chan_close_listen_sock E s =
     (if 0 < pb_listen_sock (ps_prob s)
      then (let (r, w) = e_close E (pb_listen_sock (ps_prob s)) (ps_world s); s = s\<lparr>ps_world := w\<rparr>
            in if r \<noteq> 0 then (- 1, s\<lparr>ps_p_errno := P_ERR_UNKNOWN\<rparr>)
               else (0, upd_prob (\<lambda>p. p\<lparr>pb_listen_sock := - 1\<rparr>) s))
      else (0, s))"

text \<open>Here the error number goes to FastProf's \<open>f_errno\<close>.\<close>

definition probdata_ctrl_chan_close_accept_sock :: "'w env \<Rightarrow> 'w pstate \<Rightarrow> int \<times> 'w pstate" where
  "probdata_ctrl_chan_close_accept_sock E s =
     (if 0 < pb_accept_sock (ps_prob s)
      then (let (r, w) = e_close E (pb_accept_sock (ps_prob s)) (ps_world s); s = s\<lparr>ps_world := w\<rparr>
            in if r \<noteq> 0 then (- 1, s\<lparr>ps_f_errno := P_ERR_UNKNOWN\<rparr>)
               else (0, upd_prob (\<lambda>p. p\<lparr>pb_accept_sock := - 1\<rparr>) s))
      else (0, s))"

subsection \<open>Messages\<close>

text \<open>Sending and receiving on the control socket, within the program's state.\<close>

definition send_bytes :: "'w env \<Rightarrow> string \<Rightarrow> 'w pstate \<Rightarrow> (int \<times> 'w pstate) option" where
  "send_bytes E bs s = do {
     (r, w) \<leftarrow> probdata_ctrl_chan_send_Nbytes E (pb_accept_sock (ps_prob s)) bs (ps_world s);
     Some (r, s\<lparr>ps_world := w\<rparr>)
   }"

definition recv_bytes :: "'w env \<Rightarrow> int \<Rightarrow> 'w pstate \<Rightarrow> (int \<times> string \<times> 'w pstate) option" where
  "recv_bytes E n s = do {
     (r, bs, w) \<leftarrow> probdata_ctrl_chan_recv_Nbytes E (pb_accept_sock (ps_prob s)) n (ps_world s);
     Some (r, bs, s\<lparr>ps_world := w\<rparr>)
   }"

definition probdata_ctrl_chan_send_ctrl_packet ::
    "'w env \<Rightarrow> int \<Rightarrow> 'w pstate \<Rightarrow> (int \<times> 'w pstate) option" where
  "probdata_ctrl_chan_send_ctrl_packet E sc_statevar s =
     check (send_bytes E [byte_of sc_statevar] s) (set_errno P_ERR_UNKNOWN) (\<lambda>s. Some (0, s))"

text \<open>
  \<open>struct probdata_ctrlmsg\<close>: the two numbers the parties exchange, eight bytes. Bytes
  that arrive overwrite the front of the receiver's buffer; what does not arrive stays.
\<close>

record probdata_ctrlmsg =
  cm_do_udt_only :: int
  cm_host_max_buf :: int

definition ctrlmsg_bytes :: "probdata_ctrlmsg \<Rightarrow> string" where
  "ctrlmsg_bytes m = int_bytes (cm_do_udt_only m) @ int_bytes (cm_host_max_buf m)"

definition bytes_ctrlmsg :: "string \<Rightarrow> probdata_ctrlmsg" where
  "bytes_ctrlmsg bs = \<lparr>cm_do_udt_only = bytes_int (take 4 bs), cm_host_max_buf = bytes_int (drop 4 bs)\<rparr>"

definition overlay :: "string \<Rightarrow> string \<Rightarrow> string" where
  "overlay bs buf = bs @ drop (length bs) buf"

text \<open>The common limit: the smaller of the peer's and the own one.\<close>

definition merge_max_buf :: "int \<Rightarrow> probdata \<Rightarrow> probdata" where
  "merge_max_buf peer prob =
     (let m = (if pb_host_max_buf prob < peer then pb_host_max_buf prob else peer)
      in prob\<lparr>pb_host_max_buf := m, pb_control := (pb_control prob)\<lparr>fc_host_max_buf := m\<rparr>\<rparr>)"

definition probdata_ctrl_chan_ctrlmsg_exchange_cli ::
    "'w env \<Rightarrow> 'w pstate \<Rightarrow> (int \<times> 'w pstate) option" where
  "probdata_ctrl_chan_ctrlmsg_exchange_cli E s = do {
     let data = ctrlmsg_bytes \<lparr>cm_do_udt_only = pb_do_udt_only (ps_prob s),
                  cm_host_max_buf = fc_host_max_buf (pb_control (ps_prob s))\<rparr>;
     check (send_bytes E data s) (set_errno P_ERR_UNKNOWN) (\<lambda>s. do {
       (ret, bs, s) \<leftarrow> recv_bytes E 8 s;
       if ret < 0 then Some (- 1, set_errno P_ERR_UNKNOWN s)
       else (let data = bytes_ctrlmsg (overlay bs data)
             in Some (0, upd_prob (merge_max_buf (cm_host_max_buf data)) s))
     })
   }"

text \<open>The server's buffer is uninitialised, so a message cut short is an indeterminate value.\<close>

definition probdata_ctrl_chan_ctrlmsg_exchange_srv ::
    "'w env \<Rightarrow> 'w pstate \<Rightarrow> (int \<times> 'w pstate) option" where
  "probdata_ctrl_chan_ctrlmsg_exchange_srv E s = do {
     (ret, bs, s) \<leftarrow> recv_bytes E 8 s;
     if ret < 0 then Some (- 1, set_errno P_ERR_UNKNOWN s)
     else if length bs < 8 then None
     else (let data = bytes_ctrlmsg bs;
               s = upd_prob (\<lambda>p. merge_max_buf (cm_host_max_buf data)
                                   (p\<lparr>pb_do_udt_only := cm_do_udt_only data\<rparr>)) s;
               data = data\<lparr>cm_host_max_buf := pb_host_max_buf (ps_prob s)\<rparr>
           in check (send_bytes E (ctrlmsg_bytes data) s) (set_errno P_ERR_UNKNOWN) (\<lambda>s. Some (0, s)))
   }"

definition probdata_ctrl_chan_ctrlmsg_exchange ::
    "'w env \<Rightarrow> 'w pstate \<Rightarrow> (int \<times> 'w pstate) option" where
  "probdata_ctrl_chan_ctrlmsg_exchange E s =
     check
       (if pb_role (ps_prob s) = P_CLIENT then probdata_ctrl_chan_ctrlmsg_exchange_cli E s
        else Some (0, s)) id
       (\<lambda>s. check
         (if pb_role (ps_prob s) = P_SERVER then probdata_ctrl_chan_ctrlmsg_exchange_srv E s
          else Some (0, s)) id (\<lambda>s. Some (0, s)))"

text \<open>Performance measurements: the eight bytes of \<open>max_perf_mbps\<close>, both ways.\<close>

definition probdata_ctrl_chan_perf_exchange_send ::
    "'w env \<Rightarrow> 'w pstate \<Rightarrow> (int \<times> 'w pstate) option" where
  "probdata_ctrl_chan_perf_exchange_send E s =
     check (send_bytes E (dbl_bytes (pb_max_perf_mbps (ps_prob s))) s) (set_errno P_ERR_UNKNOWN)
       (\<lambda>s. Some (0, s))"

definition probdata_ctrl_chan_perf_exchange_recv ::
    "'w env \<Rightarrow> 'w pstate \<Rightarrow> (int \<times> 'w pstate) option" where
  "probdata_ctrl_chan_perf_exchange_recv E s = do {
     (r, bs, s) \<leftarrow> recv_bytes E 8 s;
     let s = upd_prob (\<lambda>p. p\<lparr>pb_max_perf_mbps :=
               bytes_dbl (overlay bs (dbl_bytes (pb_max_perf_mbps p)))\<rparr>) s;
     Some (if r < 0 then (- 1, set_errno P_ERR_UNKNOWN s) else (0, s))
   }"

definition probdata_ctrl_chan_perf_exchange ::
    "'w env \<Rightarrow> 'w pstate \<Rightarrow> (int \<times> 'w pstate) option" where
  "probdata_ctrl_chan_perf_exchange E s =
     (case pb_role (ps_prob s) of
        P_CLIENT \<Rightarrow> check (probdata_ctrl_chan_perf_exchange_send E s) id (\<lambda>s.
                    check (probdata_ctrl_chan_perf_exchange_recv E s) id (\<lambda>s. Some (0, s)))
      | P_SERVER \<Rightarrow> check (probdata_ctrl_chan_perf_exchange_recv E s) id (\<lambda>s.
                    check (probdata_ctrl_chan_perf_exchange_send E s) id (\<lambda>s. Some (0, s)))
      | P_UNKNOWN \<Rightarrow> Some (- 1, s))"

subsection \<open>Polling\<close>

text \<open>
  \<open>FD_SET\<close> outside \<open>0 .. FD_SETSIZE - 1\<close> is undefined. The status byte is read into
  \<open>prob->status\<close>; \<open>conn_errno\<close> is the error number of the side that polls, and
  \<open>read_errno\<close> the one it sets when the read fails.
\<close>

definition poll_ctrl_channel ::
    "'w env \<Rightarrow> int \<Rightarrow> int option \<Rightarrow> 'w pstate \<Rightarrow> (int \<times> 'w pstate) option" where
  "poll_ctrl_channel E conn_errno read_errno s =
     (let sock = pb_accept_sock (ps_prob s)
      in if sock < 0 \<or> 1024 \<le> sock then None
         else do {
           let s = upd_prob (\<lambda>p. p\<lparr>pb_max_sock := max (pb_max_sock p) sock\<rparr>) s;
           let (ret_select, isset, w) = e_select E sock (ps_world s);
           let s = s\<lparr>ps_world := w\<rparr>;
           if ret_select < 0 then Some (- 1, set_errno conn_errno s)
           else if ret_select = 0 then Some (0, s)
           else if 0 < sock \<and> isset then do {
             (ret_size, bs, s) \<leftarrow> recv_bytes E 1 s;
             let s = (case bs of [] \<Rightarrow> s | b # _ \<Rightarrow> upd_prob (\<lambda>p. p\<lparr>pb_status := schar_of b\<rparr>) s);
             if ret_size \<le> 0
             then Some (- 1, case read_errno of None \<Rightarrow> s | Some e \<Rightarrow> set_errno e s)
             else Some (ret_select, s)
           }
           else Some (- 1, set_errno conn_errno s)
         })"

text \<open>
  The client returns the number of bytes read as soon as it has a packet and does not reach
  the lines that reset \<open>max_sock\<close>; the server returns the result of \<open>select\<close> after them.
\<close>

definition probdata_client_poll_ctrl_channel :: "'w env \<Rightarrow> 'w pstate \<Rightarrow> (int \<times> 'w pstate) option" where
  "probdata_client_poll_ctrl_channel E s = do {
     (r, s) \<leftarrow> poll_ctrl_channel E P_ERR_CTRL_CHAN None s;
     Some (if 0 < r then 1 else r, s)
   }"

definition probdata_server_poll_ctrl_channel :: "'w env \<Rightarrow> 'w pstate \<Rightarrow> (int \<times> 'w pstate) option" where
  "probdata_server_poll_ctrl_channel E s = do {
     (r, s) \<leftarrow> poll_ctrl_channel E P_ERR_UNKNOWN (Some P_ERR_UNKNOWN) s;
     Some (r, if 0 < r then upd_prob (\<lambda>p. p\<lparr>pb_max_sock := - 1\<rparr>) s else s)
   }"

subsection \<open>Doubles on the wire\<close>

lemma pow2_half_open:
  assumes "0 < r" "rnd r = r"
  obtains n :: int where "r = of_int n * pow2 (rexp r)" "0 < n" "n < 2 ^ 53"
    "n < 2 ^ 52 \<longrightarrow> rexp r = - 1074"
proof -
  define n where "n = rne (r / pow2 (rexp r))"
  have r: "r = of_int n * pow2 (rexp r)" using assms by (simp add: rnd_def n_def)
  have p: "0 < pow2 (rexp r)" by simp
  have n0: "0 < n" using assms(1) r p
    by (metis mult_le_0_iff of_int_0_less_iff not_le less_imp_le)
  have "r < pow2 (ilog2 r + 1)" using assms(1) by (rule ilog2_bounds)
  also have "\<dots> \<le> pow2 (53 + rexp r)" by (intro pow2_mono) (simp add: rexp_def assms(1) abs_of_pos)
  finally have "of_int n * pow2 (rexp r) < pow2 53 * pow2 (rexp r)" using r by (simp only: pow2_add)
  then have "of_int n < pow2 53" using p by (simp only: mult_less_cancel_right_pos)
  then have n1: "n < 2 ^ 53" by (simp add: pow2_nat) 
  have n2: "rexp r = - 1074" if "n < 2 ^ 52"
  proof (rule ccontr)
    assume "rexp r \<noteq> - 1074"
    then have e: "rexp r = ilog2 r - 52" using assms(1) by (simp add: rexp_def split: if_splits) 
    have "52 + rexp r = ilog2 r" using e by simp
    then have "pow2 (52 + rexp r) \<le> r" using ilog2_bounds(1) [OF assms(1)] by (simp only:)
    then have "pow2 52 * pow2 (rexp r) \<le> of_int n * pow2 (rexp r)"
      unfolding pow2_add using r by (rule ord_le_eq_trans)
    then have "pow2 52 \<le> of_int n" using p by (simp only: mult_le_cancel_right_pos)
    then show False using that by (simp add: pow2_nat)
  qed
  show thesis using that [OF r n0 n1] n2 by blast
qed

lemma half_div: "0 \<le> n \<Longrightarrow> n < 2 ^ 52 \<Longrightarrow> (e * 2 ^ 52 + n) div 2 ^ 52 = (e::int)"
 "0 \<le> n \<Longrightarrow> n < 2 ^ 52 \<Longrightarrow> (e * 2 ^ 52 + n) mod 2 ^ 52 = (n::int)"
  by simp_all

lemma mag_bits_eq:
  assumes "r = of_int n * pow2 (rexp r)" shows "mag_bits r = (rexp r + 1074) * 2 ^ 52 + n"
proof -
  have "pow2 (rexp r) \<noteq> 0" by simp
  then have "r / pow2 (rexp r) = of_int n" using assms by (simp only: divide_eq_eq)  simp
  then show ?thesis by (simp only: mag_bits_def floor_of_int)
qed

lemma rexp_range: 
  assumes "0 < r" "r < 2 ^ 1024"
  shows "- 1074 \<le> rexp r" "rexp r \<le> 971"
proof -
  show "- 1074 \<le> rexp r" by (simp add: rexp_def)
  have "r < pow2 1024" using assms(2) by (simp add: pow2_nat)
  then have "ilog2 r < 1024" using assms(1) by (intro ilog2_less)
  then show "rexp r \<le> 971" using assms(1) by (simp add: rexp_def)
qed

lemma mag_bits_inv_aux:
  assumes "0 < r" "r < 2 ^ 1024" 
   and n: "r = of_int n * pow2 (rexp r)" "0 < n" "n < 2 ^ 53"
    "n < 2 ^ 52 \<longrightarrow> rexp r = - 1074"
  shows "0 < mag_bits r" "mag_bits r < 2047 * 2 ^ 52" "bits_mag (mag_bits r) = r"
proof -
  note e = rexp_range [OF assms(1,2)]
  note m = mag_bits_eq [OF n(1)]
  have "(rexp r + 1074) * 2 ^ 52 \<le> 2045 * (2 ^ 52 :: int)" using e(2) by (intro mult_right_mono) auto
  then show "mag_bits r < 2047 * 2 ^ 52" using n(3) m by simp
  have "0 \<le> (rexp r + 1074) * (2 ^ 52 :: int)" using e(1) by simp
  then show "0 < mag_bits r" using n(2) m by linarith
  show "bits_mag (mag_bits r) = r"
  proof (cases "n < 2 ^ 52")
    case True
    have e0: "rexp r = - 1074" using True n(4) by simp
    then have "mag_bits r = 0 * 2 ^ 52 + n" using m by simp
    then have d: "mag_bits r div 2 ^ 52 = 0" "mag_bits r mod 2 ^ 52 = n"
      using half_div [of n 0] True n(2) by simp_all
    have "bits_mag (mag_bits r) = of_int n * pow2 (- 1074)" unfolding bits_mag_def Let_def d by simp
    then show ?thesis using n(1) unfolding e0 by (rule trans [OF _ sym])
  next
    case False
    have "mag_bits r = (rexp r + 1075) * 2 ^ 52 + (n - 2 ^ 52)" using m by (simp add: algebra_simps)
    then have d: "mag_bits r div 2 ^ 52 = rexp r + 1075" "mag_bits r mod 2 ^ 52 = n - 2 ^ 52"
      using half_div [of "n - 2 ^ 52" "rexp r + 1075"] False n(3) by simp_all
    have "rexp r + 1075 \<noteq> 0" using e(1) by simp
    then have "bits_mag (mag_bits r) = of_int (n - 2 ^ 52 + 2 ^ 52) * pow2 (rexp r + 1075 - 1075)"
      unfolding bits_mag_def Let_def d by (simp only: if_False)
    then show ?thesis using n(1) by simp
  qed
qed

lemma mag_bits_inv:
  assumes "0 < r" "r < 2 ^ 1024" "rnd r = r"
  shows "0 < mag_bits r" "mag_bits r < 2047 * 2 ^ 52" "bits_mag (mag_bits r) = r"
proof -
  obtain n :: int where n: "r = of_int n * pow2 (rexp r)" "0 < n" "n < 2 ^ 53"
    "n < 2 ^ 52 \<longrightarrow> rexp r = - 1074"
    using pow2_half_open [OF assms(1,3)] .
  show "0 < mag_bits r" "mag_bits r < 2047 * 2 ^ 52" "bits_mag (mag_bits r) = r"
    using mag_bits_inv_aux [OF assms(1,2) n] by blast+
qed

lemma bits_dbl_mag:
  assumes "0 < m" "m < 2047 * 2 ^ 52"
  shows "bits_dbl m = Fin (bits_mag m)" "bits_dbl (2 ^ 63 + m) = Fin (- bits_mag m)"
proof -
  have less: "m < 2 ^ 63" using assms(2) by simp
  then have m: "m mod 2 ^ 63 = m" "(2 ^ 63 + m) mod 2 ^ 63 = m" using assms(1) by simp_all
  have d: "m div 2 ^ 52 \<noteq> 2047"
  proof
    assume "m div 2 ^ 52 = 2047"
    then have "m = 2 ^ 52 * 2047 + m mod 2 ^ 52" using mult_div_mod_eq [of "2 ^ 52" m] by (simp only:)
    then show False using assms(2) pos_mod_sign [of "2 ^ 52" m] by simp
  qed
  show "bits_dbl m = Fin (bits_mag m)" "bits_dbl (2 ^ 63 + m) = Fin (- bits_mag m)"
    unfolding bits_dbl_def Let_def m using d assms(1) less by simp_all
qed

text \<open>Encoding a \<open>double\<close> and decoding it again.\<close>

lemma dbl_bits_range: "is_double x \<Longrightarrow> 0 \<le> dbl_bits x \<and> dbl_bits x < 2 ^ 64"
  using mag_bits_inv(1,2) [of "dval x"] mag_bits_inv(1,2) [of "- dval x"]
  by (cases x) (auto simp: is_double_def dbl_bits_def split: if_splits)

lemma bits_dbl_bits:
  assumes "is_double x"
  shows "bits_dbl (dbl_bits x) = x"
proof (cases x)
  case (Fin r)
  consider "0 < r" | "r = 0" | "0 < - r" by linarith
  then show ?thesis
  proof cases
    case 1
    then have "r < 2 ^ 1024" "rnd r = r" using assms Fin by (auto simp: is_double_def)
    note m = mag_bits_inv [OF 1 this]
    have "dbl_bits x = mag_bits r" using 1 Fin by (simp add: dbl_bits_def)
    then show ?thesis using bits_dbl_mag(1) [OF m(1,2)] m(3) Fin by (simp only:)
  next
    case 2
    have "dbl_bits x = 0" unfolding dbl_bits_def Fin 2 by (simp only: dbl.case if_True simp_thms)
    then show ?thesis using 2 Fin by (simp add: bits_dbl_def dzero_def)
  next
    case 3
    then have "- r < 2 ^ 1024" "rnd (- r) = - r" using assms Fin by (auto simp: is_double_def)
    note m = mag_bits_inv [OF 3 this]
    have "dbl_bits x = 2 ^ 63 + mag_bits (- r)" using 3 Fin by (simp add: dbl_bits_def)
    then show ?thesis using bits_dbl_mag(2) [OF m(1,2)] m(3) Fin by (simp only: minus_minus)
  qed
qed (simp_all add: dbl_bits_def bits_dbl_def dinf_def dzero_def)

lemma bytes_value:
  "foldr (\<lambda>b n. of_byte b + 256 * n) (map (\<lambda>i. byte_of (n div 256 ^ i)) [0..<k]) 0 = n mod 256 ^ k"
proof (induction k arbitrary: n)
  case (Suc k)
  have "map (\<lambda>i. byte_of (n div 256 ^ i)) [0..<Suc k] =
      byte_of n # map (\<lambda>i. byte_of (n div 256 div 256 ^ i)) [0..<k]"
    by (simp add: map_upt_Suc zdiv_zmult2_eq del: upt_Suc)
  then have "foldr (\<lambda>b n. of_byte b + 256 * n) (map (\<lambda>i. byte_of (n div 256 ^ i)) [0..<Suc k]) 0 =
      n mod 256 + 256 * (n div 256 mod 256 ^ k)"
    using Suc.IH [of "n div 256"] by (simp only: foldr.simps comp_def of_byte_byte_of)
  then show ?case using zmod_zmult2_eq [of "256 ^ k" n 256] by simp
qed simp

lemma dbl_round_trip:
  assumes "is_double x"
  shows "bytes_dbl (dbl_bytes x) = x"
proof -
  have "dbl_bits x mod 256 ^ 8 = dbl_bits x"
    using dbl_bits_range [OF assms] by (intro mod_pos_pos_trivial) auto
  then show ?thesis
    unfolding bytes_dbl_def dbl_bytes_def bytes_value using bits_dbl_bits [OF assms] by (simp only:)
qed

subsection \<open>What reading and writing achieve\<close>

text \<open>
  Reading returns \<open>- 1\<close> or the number of bytes it delivers, never more than asked for;
  fewer than asked for only when the stream ended.
\<close>

lemma recv_Nbytes_result:
  assumes "sane_io E" "0 \<le> count"
  obtains r bs w' where "probdata_ctrl_chan_recv_Nbytes E fd count w = Some (r, bs, w')"
    "int (length bs) \<le> count" "r = - 1 \<or> r = int (length bs)"
proof -
  let ?s = "\<lparr>io_nleft = count, io_data = [], io_world = w\<rparr>"
  obtain c where c: "run_loop (recv_body E fd) ?s = Some c"
    using recv_loop.returns [of E ?s] assms(1) by (auto simp: recv_good_def)
  define I where "I = (\<lambda>s::'a io. 0 \<le> io_nleft s \<and> int (length (io_data s)) = count - io_nleft s)"
  have "I (ctl_state c) \<and> (\<forall>r s. c = Return r s \<longrightarrow> r = - 1)"
  proof (rule run_loop_invariant [OF c, of I])
    show "I ?s" using assms(2) by (simp add: I_def)
  next
    fix s t assume "I s" "recv_body E fd s = Some (Next t)"
    then show "I t" 
      by (auto simp: I_def recv_body_def Let_def split: if_splits prod.splits option.splits)
  next
    fix s d assume "I s" "recv_body E fd s = Some d" "\<forall>t. d \<noteq> Next t"
    then show "I (ctl_state d) \<and> (\<forall>r s. d = Return r s \<longrightarrow> r = - 1)"
      by (auto simp: I_def recv_body_def Let_def split: if_splits prod.splits option.splits)
  qed
  then show thesis
    using c by (intro that [of "case c of Return r _ \<Rightarrow> r | _ \<Rightarrow> count - io_nleft (ctl_state c)"
          "io_data (ctl_state c)" "io_world (ctl_state c)"])
      (auto simp: probdata_ctrl_chan_recv_Nbytes_def I_def split: ctl.splits)
qed

text \<open>Sending returns \<open>- 1\<close> or the length of the message.\<close>

lemma send_Nbytes_result:
  assumes "sane_io E"
  obtains r w' where "probdata_ctrl_chan_send_Nbytes E fd buf w = Some (r, w')"
    "r = - 1 \<or> r = int (length buf)"
proof -
  let ?s = "\<lparr>io_nleft = int (length buf), io_data = buf, io_world = w\<rparr>"
  obtain c where c: "run_loop (send_body E fd) ?s = Some c"
    using send_loop.returns [of E ?s] assms(1) by (auto simp: send_good_def)
  have "\<forall>r s. c = Return r s \<longrightarrow> r = - 1"
    by (rule run_loop_invariant [OF c, of "\<lambda>_. True"])
      (auto simp: send_body_def Let_def split: if_splits prod.splits)
  then show thesis
    using c by (intro that [of "case c of Return r _ \<Rightarrow> r | _ \<Rightarrow> int (length buf)"
          "io_world (ctl_state c)"])
      (auto simp: probdata_ctrl_chan_send_Nbytes_def split: ctl.splits)
qed

text \<open>
  A connected stream socket: \<open>rx w\<close> are the bytes that will still arrive, \<open>tx w\<close> those
  that were sent. Reads deliver the next bytes in order and nothing only at the end of the
  stream; writes that go through send a non-empty prefix.
\<close>

definition stream_io :: "'w env \<Rightarrow> int \<Rightarrow> ('w \<Rightarrow> string) \<Rightarrow> ('w \<Rightarrow> string) \<Rightarrow> bool" where
  "stream_io E fd rx tx \<longleftrightarrow>
     (\<forall>n w bs w'. 0 < n \<longrightarrow> e_read E fd n w = (Some bs, w') \<longrightarrow>
        int (length bs) \<le> n \<and> rx w = bs @ rx w' \<and> tx w' = tx w \<and> (bs = [] \<longrightarrow> rx w = [])) \<and>
     (\<forall>bs w r w'. bs \<noteq> [] \<longrightarrow> e_write E fd bs w = (r, w') \<longrightarrow> 0 \<le> r \<longrightarrow>
        0 < r \<and> r \<le> int (length bs) \<and> tx w' = tx w @ take (nat r) bs \<and> rx w' = rx w)"

lemma stream_read:
  assumes "stream_io E fd rx tx" "0 < n" "e_read E fd n w = (Some bs, w')"
  shows "int (length bs) \<le> n" "rx w = bs @ rx w'" "tx w' = tx w" "bs = [] \<Longrightarrow> rx w = []"
  using assms unfolding stream_io_def by blast+

lemma stream_write:
  assumes "stream_io E fd rx tx" "bs \<noteq> []" "e_write E fd bs w = (r, w')" "0 \<le> r"
  shows "0 < r" "r \<le> int (length bs)" "tx w' = tx w @ take (nat r) bs" "rx w' = rx w"
  using assms unfolding stream_io_def by blast+

text \<open>An iteration of either loop on such a socket.\<close>

lemma recv_body_stream:
  assumes "stream_io E fd rx tx" "recv_body E fd s = Some d"
  obtains (more) bs t where "d = Next t" "0 < io_nleft s" "int (length bs) \<le> io_nleft s"
      "io_nleft t = io_nleft s - int (length bs)" "io_data t = io_data s @ bs"
      "rx (io_world s) = bs @ rx (io_world t)" "tx (io_world t) = tx (io_world s)"
  | (error) t where "d = Return (- 1) t"
  | (last) t where "d = Break t" "io_nleft t = io_nleft s" "io_data t = io_data s"
      "rx (io_world t) = rx (io_world s)" "tx (io_world t) = tx (io_world s)"
      "io_nleft s \<le> 0 \<or> rx (io_world s) = []"
proof (cases "io_nleft s \<le> 0")
  case True
  then show thesis using assms(2) by (intro last [of s]) (auto simp: recv_body_def)
next
  case False
  then have pos: "0 < io_nleft s" by simp
  obtain r w' where r: "e_read E fd (io_nleft s) (io_world s) = (r, w')" by fastforce
  show thesis
  proof (cases r)
    case None
    then show thesis using assms(2) pos r by (intro error) (auto simp: recv_body_def)
  next
    case (Some bs)
    note rd = stream_read [OF assms(1) pos r [unfolded Some]]
    let ?t = "s\<lparr>io_nleft := io_nleft s - int (length bs), io_data := io_data s @ bs, io_world := w'\<rparr>"
    show thesis
    proof (cases "bs = []")
      case True
      then show thesis using assms(2) pos r Some rd
        by (intro last [of "s\<lparr>io_world := w'\<rparr>"]) (auto simp: recv_body_def)
    next
      case False
      then show thesis using assms(2) pos r Some rd
        by (intro more [of ?t bs]) (auto simp: recv_body_def)
    qed
  qed
qed

lemma recv_Nbytes_stream:
  fixes E :: "'w env"
  assumes "stream_io E fd rx tx" "n \<le> length (rx w)"
    and "probdata_ctrl_chan_recv_Nbytes E fd (int n) w = Some (r, bs, w')" "0 \<le> r"
  shows "r = int n \<and> bs = take n (rx w) \<and> rx w' = drop n (rx w) \<and> tx w' = tx w"
proof -
  let ?s = "\<lparr>io_nleft = int n, io_data = [], io_world = w\<rparr>"
  obtain c where c: "run_loop (recv_body E fd) ?s = Some c"
    and res: "r = (case c of Return r _ \<Rightarrow> r | _ \<Rightarrow> int n - io_nleft (ctl_state c))"
      "bs = io_data (ctl_state c)" "w' = io_world (ctl_state c)"
    using assms(3) by (auto simp: probdata_ctrl_chan_recv_Nbytes_def Let_def bind_eq_Some_conv)
  define I where "I = (\<lambda>s::'w io. 0 \<le> io_nleft s \<and> int (length (io_data s)) = int n - io_nleft s \<and>
    rx w = io_data s @ rx (io_world s) \<and> tx (io_world s) = tx w)"
  have "(\<exists>t. c = Return (- 1) t) \<or> (\<exists>t. c = Break t \<and> I t \<and> io_nleft t = 0)"
  proof (rule run_loop_invariant [OF c, of I])
    show "I ?s" by (simp add: I_def)
  next
    fix s t assume s: "I s" and step: "recv_body E fd s = Some (Next t)"
    show "I t" by (rule recv_body_stream [OF assms(1) step]) (use s in \<open>auto simp: I_def\<close>)
  next
    fix s d assume s: "I s" and step: "recv_body E fd s = Some d" and last: "\<forall>t. d \<noteq> Next t"
    show "(\<exists>t. d = Return (- 1) t) \<or> (\<exists>t. d = Break t \<and> I t \<and> io_nleft t = 0)"
    proof (rule recv_body_stream [OF assms(1) step])
      fix t assume t: "d = Break t" "io_nleft t = io_nleft s" "io_data t = io_data s"
        "rx (io_world t) = rx (io_world s)" "tx (io_world t) = tx (io_world s)"
        "io_nleft s \<le> 0 \<or> rx (io_world s) = []"
      then have "io_nleft t = 0" using s assms(2) by (auto simp: I_def)
      then show ?thesis using s t by (simp add: I_def)
    qed (use last in auto)
  qed
  then show ?thesis using res assms(2,4) by (auto simp: I_def)
qed

lemma send_Nbytes_stream:
  fixes E :: "'w env"
  assumes "stream_io E fd rx tx"
    and "probdata_ctrl_chan_send_Nbytes E fd buf w = Some (r, w')" "0 \<le> r"
  shows "r = int (length buf) \<and> tx w' = tx w @ buf \<and> rx w' = rx w"
proof -
  let ?s = "\<lparr>io_nleft = int (length buf), io_data = buf, io_world = w\<rparr>"
  obtain c where c: "run_loop (send_body E fd) ?s = Some c"
    and res: "r = (case c of Return r _ \<Rightarrow> r | _ \<Rightarrow> int (length buf))" "w' = io_world (ctl_state c)"
    using assms(2) by (auto simp: probdata_ctrl_chan_send_Nbytes_def bind_eq_Some_conv)
  define I where "I = (\<lambda>s::'w io. io_nleft s = int (length (io_data s)) \<and>
    tx w @ buf = tx (io_world s) @ io_data s \<and> rx (io_world s) = rx w)"
  have "(\<exists>t. c = Return (- 1) t) \<or> (\<exists>t. c = Break t \<and> I t \<and> io_data t = [])"
  proof (rule run_loop_invariant [OF c, of I])
    show "I ?s" by (simp add: I_def)
  next
    fix s t assume s: "I s" and step: "send_body E fd s = Some (Next t)"
    obtain r w1 where r: "e_write E fd (io_data s) (io_world s) = (r, w1)" by fastforce
    have ne: "io_data s \<noteq> []" "0 \<le> r" using s step r
      by (auto simp: I_def send_body_def Let_def split: if_splits)
    note wr = stream_write [OF assms(1) ne(1) r ne(2)]
    show "I t" using s step r wr by (auto simp: I_def send_body_def Let_def split: if_splits)
  next
    fix s d assume s: "I s" and step: "send_body E fd s = Some d" and last: "\<forall>t. d \<noteq> Next t"
    obtain r w1 where r: "e_write E fd (io_data s) (io_world s) = (r, w1)" by fastforce
    show "(\<exists>t. d = Return (- 1) t) \<or> (\<exists>t. d = Break t \<and> I t \<and> io_data t = [])"
      using s step last r stream_write(1) [OF assms(1) _ r]
      by (auto simp: I_def send_body_def Let_def split: if_splits)
  qed
  then show ?thesis using res assms(3) by (auto simp: I_def)
qed

end
