(* ===== verification/Client.thy ===== *)
theory Client
  imports Channel
begin

unbundle bit_operations_syntax

text \<open>
  The client (\<open>probdata_client.cpp\<close>): connecting and identifying itself, the handler of
  control packets, the two profiling runs and the final recommendation.

  A function of the client takes the program's state and returns its code and the new state;
  \<open>None\<close> is undefined behaviour, or a loop of a run that does not end.
\<close>

subsection \<open>The client's identification\<close>

fun show_hex :: "nat \<Rightarrow> string" where
  "show_hex n =
     (let d = n mod 16; c = (if d < 10 then char_of (48 + d) else char_of (87 + d))
      in if n < 16 then [c] else show_hex (n div 16) @ [c])"

declare show_hex.simps [simp del]

text \<open>\<open>%08lx\<close> of an \<open>int\<close> converted to \<open>unsigned long\<close>.\<close>

definition show_08lx :: "int \<Rightarrow> string" where
  "show_08lx n = pad0 8 (show_hex (nat (n mod 2 ^ 64)))"

definition c_strncpy :: "cbuf \<Rightarrow> cbuf \<Rightarrow> nat \<Rightarrow> cbuf option" where
  "c_strncpy dst src n =
     (if n \<le> length dst then Some (take n (c_str src @ replicate n NUL) @ drop n dst) else None)"

text \<open>
  \<open>probdata_client_id_gen\<close>. \<open>gethostname\<close> cuts a long name off at 64 bytes, without a
  terminator. The order of the four calls of \<open>rand\<close> is unspecified in C++; here it is from
  left to right.
\<close>

definition probdata_client_id_gen :: "'w env \<Rightarrow> cbuf \<Rightarrow> 'w \<Rightarrow> (cbuf \<times> 'w) option" where
  "probdata_client_id_gen E ident w = do {
     let currpid = e_getpid E w;
     let w = e_srand E w;
     let hostname = take 64 (e_gethostname E w @ [NUL]);
     _ \<leftarrow> c_strlen hostname;
     let (currtime, w) = e_localtime E w;
     let (r1, w) = e_rand E w;
     let (r2, w) = e_rand E w;
     let (r3, w) = e_rand E w;
     let (r4, w) = e_rand E w;
     temp \<leftarrow> c_puts (replicate 256 NUL)
       (c_str hostname @ ''.'' @ show_int (tm_min currtime XOR r1) @ ''.'' @
        show_0d 6 (tm_sec currtime XOR r2) @ ''.'' @ show_08lx (r3 XOR currpid) @
        show_08lx (r4 XOR currpid) @ ''.'' @ ''1234567890123456789012345678901234567890'');
     ident \<leftarrow> c_strncpy ident temp P_IDPKT_SIZE;
     ident \<leftarrow> c_store ident (P_IDPKT_SIZE - 1) NUL;
     Some (ident, w)
   }"

definition probdata_client_check_id :: "'w env \<Rightarrow> 'w pstate \<Rightarrow> (int \<times> 'w pstate) option" where
  "probdata_client_check_id E s = do {
     (ident, w) \<leftarrow> probdata_client_id_gen E (pb_id (ps_prob s)) (ps_world s);
     let s = upd_prob (\<lambda>p. p\<lparr>pb_id := ident\<rparr>) (s\<lparr>ps_world := w\<rparr>);
     check (send_bytes E (take P_IDPKT_SIZE ident) s) (set_errno P_ERR_UNKNOWN) (\<lambda>s. Some (0, s))
   }"

subsection \<open>Connecting\<close>

text \<open>Bytes received into an array: more than it holds overrun it.\<close>

definition recv_into :: "cbuf \<Rightarrow> string \<Rightarrow> cbuf option" where
  "recv_into buf bs = (if length bs \<le> length buf then Some (overlay bs buf) else None)"

text \<open>
  The server tells the client the client's address: first its length, then that many bytes,
  which go into \<open>local_ip\<close>. The length is not checked against the size of the array. The
  address is copied on to the control block without a terminator.
\<close>

definition client_recv_address :: "'w env \<Rightarrow> 'w pstate \<Rightarrow> (int \<times> 'w pstate) option" where
  "client_recv_address E s = do {
     (r, bs, s) \<leftarrow> recv_bytes E 4 s;
     if r < 0 then Some (- 1, set_errno P_ERR_UNKNOWN s)
     else do {
       (r, addr_bytes, s) \<leftarrow> recv_bytes E (bytes_int (overlay bs (int_bytes 0))) s;
       local_ip \<leftarrow> recv_into (pb_local_ip (ps_prob s)) addr_bytes;
       let s = upd_prob (\<lambda>p. p\<lparr>pb_local_ip := local_ip\<rparr>) s;
       if r < 0 then Some (- 1, set_errno P_ERR_UNKNOWN s)
       else do {
         n \<leftarrow> c_strlen local_ip;
         ip \<leftarrow> c_memcpy (fc_local_ip (pb_control (ps_prob s))) local_ip n;
         Some (0, upd_prob (\<lambda>p. p\<lparr>pb_control := (pb_control p)\<lparr>fc_local_ip := ip\<rparr>\<rparr>) s)
       }
     }
   }"

definition probdata_client_connect :: "'w env \<Rightarrow> 'w pstate \<Rightarrow> (int \<times> 'w pstate) option" where
  "probdata_client_connect E s =
     check
       (if pb_accept_sock (ps_prob s) < 0
        then check (probdata_ctrl_chan_connect E s) (set_errno P_ERR_CTRL_CHAN) (\<lambda>s. Some (0, s))
        else Some (0, s)) id
       (\<lambda>s. check (probdata_client_check_id E s) id (client_recv_address E))"

subsection \<open>Profiling with TCP\<close>

text \<open>
  \<open>f_tcp_prof_new\<close> never returns the null pointer, so the function returns 0 here; the
  code after that, which would allocate \<open>prob_tcp_prof_max\<close>, is not reached.
\<close>

definition probdata_client_tcp_prof_new :: "'w env \<Rightarrow> 'w pstate \<Rightarrow> int \<times> 'w pstate" where
  "probdata_client_tcp_prof_new E s =
     (let (prof, h, w) = f_tcp_prof_new E (ps_heap s) (ps_world s)
      in (0, upd_prob (\<lambda>p. p\<lparr>pb_tcp_prof := Some prof\<rparr>) (s\<lparr>ps_heap := h, ps_world := w\<rparr>)))"

definition probdata_client_tcp_prof_default :: "'w env \<Rightarrow> 'w pstate \<Rightarrow> (int \<times> 'w pstate) option" where
  "probdata_client_tcp_prof_default E s = do {
     prof \<leftarrow> pb_tcp_prof (ps_prob s);
     (r, h, w, err) \<leftarrow> f_tcp_prof_default E prof (ps_heap s, ps_world s) (ps_f_errno s);
     Some (r, s\<lparr>ps_heap := h, ps_world := w, ps_f_errno := err\<rparr>)
   }"

text \<open>The addresses of the control block, set again from those of the program.\<close>

definition control_addresses :: "probdata \<Rightarrow> fastprof_ctrl option" where
  "control_addresses p = do {
     let c = (pb_control p)\<lparr>fc_role := (if pb_role p = P_CLIENT then F_CLIENT else F_SERVER)\<rparr>;
     local_ip \<leftarrow> c_copy_str (fc_local_ip c) (pb_local_ip p);
     remote_ip \<leftarrow> c_copy_str (fc_remote_ip c) (pb_remote_ip p);
     Some (c\<lparr>fc_local_ip := local_ip, fc_remote_ip := remote_ip\<rparr>)
   }"

definition probdata_client_tcp_prof_init :: "'w env \<Rightarrow> 'w pstate \<Rightarrow> (int \<times> 'w pstate) option" where
  "probdata_client_tcp_prof_init E s = do {
     c \<leftarrow> control_addresses (ps_prob s);
     let c = c\<lparr>fc_tcp_port := pb_tcp_port (ps_prob s), fc_duration := pb_prof_duration (ps_prob s)\<rparr>;
     prof \<leftarrow> pb_tcp_prof (ps_prob s);
     (r, h, w) \<leftarrow> f_tcp_prof_init E prof c (ps_heap s, ps_world s);
     Some (r, upd_prob (\<lambda>p. p\<lparr>pb_control := c\<rparr>) (s\<lparr>ps_heap := h, ps_world := w\<rparr>))
   }"

text \<open>
  Running the profiler on the program's objects: what it wrote is the new state, and the
  report is what it printed. The client's run starts with a new profile, its defaults and
  its settings.
\<close>

definition client_run_tcp ::
    "'w env \<Rightarrow> 'w pstate \<Rightarrow> (int \<times> 'w pstate) option" where
  "client_run_tcp E s = do {
     prof \<leftarrow> pb_tcp_prof (ps_prob s);
     (r, t, _) \<leftarrow> f_tcp_client_run E prof (pb_tcp_prof_max (ps_prob s)) (pb_control (ps_prob s))
                   (ps_heap s, ps_world s) (ps_f_errno s);
     Some (r, upd_prob (\<lambda>p. p\<lparr>pb_tcp_prof := Some (r_prof t), pb_tcp_prof_max := r_prof_max t,
                 pb_control := r_ctrl t\<rparr>)
               (s\<lparr>ps_heap := r_heap t, ps_world := r_world t, ps_f_errno := r_f_errno t\<rparr>))
   }"

definition probdata_client_tcp_fastprof_run :: "'w env \<Rightarrow> 'w pstate \<Rightarrow> (int \<times> 'w pstate) option" where
  "probdata_client_tcp_fastprof_run E s =
     check (Some (probdata_client_tcp_prof_new E s)) id
       (\<lambda>s. check (probdata_client_tcp_prof_default E s) id
         (\<lambda>s. check (probdata_client_tcp_prof_init E s) id
           (\<lambda>s. check (client_run_tcp E s) id (\<lambda>s. Some (0, s)))))"

definition probdata_client_tcp_prof_reset :: "'w env \<Rightarrow> 'w pstate \<Rightarrow> (int \<times> 'w pstate) option" where
  "probdata_client_tcp_prof_reset E s = do {
     prof \<leftarrow> pb_tcp_prof (ps_prob s);
     (r, h, w, err) \<leftarrow> f_tcp_prof_reset E prof (pb_control (ps_prob s)) (ps_heap s, ps_world s) (ps_f_errno s);
     Some (r, s\<lparr>ps_heap := h, ps_world := w, ps_f_errno := err\<rparr>)
   }"

subsection \<open>Profiling with UDT\<close>

definition probdata_client_udt_prof_new :: "'w env \<Rightarrow> 'w pstate \<Rightarrow> int \<times> 'w pstate" where
  "probdata_client_udt_prof_new E s =
     (let (prof, w) = f_udt_prof_new E (ps_world s)
      in (0, upd_prob (\<lambda>p. p\<lparr>pb_udt_prof := Some prof\<rparr>) (s\<lparr>ps_world := w\<rparr>)))"

definition probdata_client_udt_prof_default :: "'w env \<Rightarrow> 'w pstate \<Rightarrow> (int \<times> 'w pstate) option" where
  "probdata_client_udt_prof_default E s = do {
     prof \<leftarrow> pb_udt_prof (ps_prob s);
     let (r, w, err) = f_udt_prof_default E prof (ps_world s) (ps_f_errno s);
     Some (r, s\<lparr>ps_world := w, ps_f_errno := err\<rparr>)
   }"

definition probdata_client_udt_prof_init :: "'w env \<Rightarrow> 'w pstate \<Rightarrow> (int \<times> 'w pstate) option" where
  "probdata_client_udt_prof_init E s = do {
     let p = ps_prob s;
     c \<leftarrow> control_addresses p;
     let c = c\<lparr>fc_duration := pb_prof_duration p, fc_max_limit := pb_max_prof_limit p,
                fc_impeded_limit := pb_impeded_limit p, fc_pgr := pb_pgr p, fc_mss := pb_mss p\<rparr>;
     prof \<leftarrow> pb_udt_prof p;
     (r, w) \<leftarrow> f_udt_prof_init E prof c (ps_world s);
     Some (r, upd_prob (\<lambda>p. p\<lparr>pb_control := c\<rparr>) (s\<lparr>ps_world := w\<rparr>))
   }"

definition client_run_udt :: "'w env \<Rightarrow> 'w pstate \<Rightarrow> (int \<times> 'w pstate) option" where
  "client_run_udt E s = do {
     prof \<leftarrow> pb_udt_prof (ps_prob s);
     (r, t, _) \<leftarrow> f_udt_client_run E prof (pb_udt_prof_max (ps_prob s)) (pb_control (ps_prob s))
                   (ps_world s) (ps_f_errno s);
     Some (r, upd_prob (\<lambda>p. p\<lparr>pb_udt_prof := Some (u_prof t), pb_udt_prof_max := u_prof_max t,
                 pb_control := r_ctrl t\<rparr>)
               (s\<lparr>ps_world := r_world t, ps_f_errno := r_f_errno t\<rparr>))
   }"

definition probdata_client_udt_fastprof_run :: "'w env \<Rightarrow> 'w pstate \<Rightarrow> (int \<times> 'w pstate) option" where
  "probdata_client_udt_fastprof_run E s =
     check (Some (probdata_client_udt_prof_new E s)) id
       (\<lambda>s. check (probdata_client_udt_prof_default E s) id
         (\<lambda>s. check (probdata_client_udt_prof_init E s) id
           (\<lambda>s. check (client_run_udt E s) id (\<lambda>s. Some (0, s)))))"

subsection \<open>Searching the history\<close>

text \<open>The disk to disk history is not there yet: the function returns before its search.\<close>

definition probdata_client_search_d2d :: "'w pstate \<Rightarrow> int" where
  "probdata_client_search_d2d s = - 1"

text \<open>\<open>tmp\<close> is what the uninitialised record of the search holds.\<close>

definition probdata_client_search_m2m ::
    "'w env \<Rightarrow> mem_record \<Rightarrow> 'w pstate \<Rightarrow> (int \<times> 'w pstate) option" where
  "probdata_client_search_m2m E tmp s = do {
     let p = ps_prob s;
     (r, record_max, w) \<leftarrow> f_m2m_db_search E tmp (pb_db_file_handler p) (pb_m2m_record_max p)
                              (pb_control p) (ps_world s);
     Some (if r < 0 then - 1 else 0,
           upd_prob (\<lambda>p. p\<lparr>pb_m2m_record_max := record_max\<rparr>) (s\<lparr>ps_world := w\<rparr>))
   }"

definition probdata_client_dw_xdd_tcp :: "'w pstate \<Rightarrow> int \<times> 'w pstate" where
  "probdata_client_dw_xdd_tcp s = (0, s)"

definition probdata_client_dw_xdd_udt :: "'w pstate \<Rightarrow> int \<times> 'w pstate" where
  "probdata_client_dw_xdd_udt s = (0, s)"

subsection \<open>Control packets\<close>

text \<open>Sending the next packet; a failure of the channel ends the handler.\<close>

definition client_reply :: "'w env \<Rightarrow> int \<Rightarrow> 'w pstate \<Rightarrow> (int \<times> 'w pstate) option" where
  "client_reply E packet s =
     check (probdata_ctrl_chan_send_ctrl_packet E packet s) (set_errno P_ERR_CTRL_CHAN)
       (\<lambda>s. Some (0, s))"

text \<open>
  The two-way handshake: exchange the parameters, then ask for the kind of profiling that the
  file names on the command line stand for. A destination file alone is an error.
\<close>

definition client_handshake :: "'w env \<Rightarrow> 'w pstate \<Rightarrow> (int \<times> 'w pstate) option" where
  "client_handshake E s =
     check (probdata_ctrl_chan_ctrlmsg_exchange E s) id (\<lambda>s. do {
       n \<leftarrow> c_strlen (pb_src_file (ps_prob s));
       if 0 < n then client_reply E P_RUN_D2D_DB s
       else do {
         m \<leftarrow> c_strlen (pb_dst_file (ps_prob s));
         if 0 < m
         then check (client_reply E P_CLIENT_TERMINATE s) id
                (\<lambda>s. Some (- 1, set_errno P_ERR_DSTFILE_ONLY s))
         else client_reply E P_RUN_M2M_DB s
       }
     })"

text \<open>
  The question whether to profile online: it is asked until the answer is \<open>y\<close> or \<open>N\<close>; at the
  end of the input \<open>scanf\<close> leaves the answer as it is, and the loop goes on for ever.
\<close>

definition ask_body :: "'w env \<Rightarrow> char \<times> 'w pstate \<Rightarrow> (char \<times> 'w pstate) ctl option" where
  "ask_body E v =
     (let (opt, s) = v
      in if opt = CHR ''y'' \<or> opt = CHR ''N'' then Some (Break v)
         else (let (c, w) = e_scan_char E (ps_world s)
               in Some (Next (case c of None \<Rightarrow> opt | Some c \<Rightarrow> c, s\<lparr>ps_world := w\<rparr>))))"

definition ask_online :: "'w env \<Rightarrow> 'w pstate \<Rightarrow> (char \<times> 'w pstate) option" where
  "ask_online E s = map_option ctl_state (run_loop (ask_body E) (CHR ''x'', s))"

text \<open>
  After the search in the history of disk to disk transfers; as long as there is none, the
  question is not reached. In \<open>client_after_m2m\<close> it is answered with \<open>y\<close> without asking,
  since the program is compiled with \<open>PROBDATA_DEBUG\<close>.
\<close>

definition client_after_d2d :: "'w env \<Rightarrow> 'w pstate \<Rightarrow> (int \<times> 'w pstate) option" where
  "client_after_d2d E s =
     (if probdata_client_search_d2d s < 0 then client_reply E P_RUN_D2D_TCP s
      else do {
        (opt, s) \<leftarrow> ask_online E s;
        if opt = CHR ''y''
        then client_reply E (if 0 < pb_do_udt_only (ps_prob s) then P_RUN_D2D_UDT else P_RUN_D2D_TCP) s
        else client_reply E P_PROGRAM_DONE s
      })"

definition client_after_m2m ::
    "'w env \<Rightarrow> mem_record \<Rightarrow> 'w pstate \<Rightarrow> (int \<times> 'w pstate) option" where
  "client_after_m2m E tmp s = do {
     (r, s) \<leftarrow> probdata_client_search_m2m E tmp s;
     if r < 0 then client_reply E P_RUN_M2M_TCP s
     else do {
       _ \<leftarrow> f_print_m2m_record (pb_m2m_record_max (ps_prob s));
       client_reply E (if 0 < pb_do_udt_only (ps_prob s) then P_RUN_M2M_UDT else P_RUN_M2M_TCP) s
     }
   }"

text \<open>\<open>probdata_client_proc_ctrl_packet\<close>: the \<open>switch\<close> over the packet's code.\<close>

text \<open>What follows the two profiling runs.\<close>

definition client_after_tcp :: "'w env \<Rightarrow> 'w pstate \<Rightarrow> (int \<times> 'w pstate) option" where
  "client_after_tcp E s = check (probdata_client_tcp_fastprof_run E s) id (client_reply E P_RUN_M2M_UDT)"

definition client_after_udt :: "'w env \<Rightarrow> 'w pstate \<Rightarrow> (int \<times> 'w pstate) option" where
  "client_after_udt E s = check (probdata_client_udt_fastprof_run E s) id (client_reply E P_PROGRAM_DONE)"

definition probdata_client_proc_ctrl_packet ::
    "'w env \<Rightarrow> mem_record \<Rightarrow> 'w pstate \<Rightarrow> (int \<times> 'w pstate) option" where
  "probdata_client_proc_ctrl_packet E tmp s =
     (let status = pb_status (ps_prob s)
      in if status = P_CTRL_CHAN_EST then client_reply E P_TWOWAY_HANDSHAKE s
         else if status = P_TWOWAY_HANDSHAKE then client_handshake E s
         else if status = P_RUN_D2D_DB then client_after_d2d E s
         else if status = P_RUN_D2D_TCP then
           check (Some (probdata_client_dw_xdd_tcp s)) (set_errno P_ERR_UNKNOWN)
             (client_reply E P_RUN_D2D_UDT)
         else if status = P_RUN_D2D_UDT then
           check (Some (probdata_client_dw_xdd_udt s)) (set_errno P_ERR_UNKNOWN)
             (client_reply E P_PROGRAM_DONE)
         else if status = P_RUN_M2M_DB then client_after_m2m E tmp s
         else if status = P_RUN_M2M_TCP then client_after_tcp E s
         else if status = P_RUN_M2M_UDT then client_after_udt E s
         else if status = P_PROGRAM_DONE \<or> status = P_SERVER_ERROR \<or> status = P_ACCESS_DENIED
           then Some (0, s)
         else Some (- 1, set_errno P_ERR_UNKNOWN s))"

lemmas client_proc_unfold =
  probdata_client_proc_ctrl_packet_def client_after_tcp_def client_after_udt_def

subsection \<open>The recommendation\<close>

text \<open>
  What the client prints in the end: parameters of UDT, of TCP, or the record of the
  history. Comparing reads all three performances, which must be determinate.
\<close>

record udt_advice =
  ua_src_ip :: string
  ua_dst_ip :: string
  ua_pkt_size :: int
  ua_blk_size :: int
  ua_buf_size :: int
  ua_streams :: int
  ua_perf :: dbl

record tcp_advice =
  ta_src_ip :: string
  ta_dst_ip :: string
  ta_pkt_size :: int
  ta_blk_size :: int
  ta_buf_size :: int
  ta_streams :: int
  ta_perf :: dbl

datatype advice = AdviseUdt udt_advice | AdviseTcp tcp_advice | AdviseRecord string

definition advise_udt ::
    "'w env \<Rightarrow> fastprof_udt_prof \<Rightarrow> dbl \<Rightarrow> fastprof_ctrl \<Rightarrow> 'w \<Rightarrow> advice option" where
  "advise_udt E prof perf c w = do {
     _ \<leftarrow> c_strlen (fc_local_ip c); _ \<leftarrow> c_strlen (fc_remote_ip c);
     pkt \<leftarrow> c_int (e_tpg_get E (udt_prof prof) UdtMss w - 44);
     Some (AdviseUdt \<lparr>ua_src_ip = c_str (fc_local_ip c), ua_dst_ip = c_str (fc_remote_ip c),
       ua_pkt_size = pkt, ua_blk_size = e_tpg_get E (udt_prof prof) Blocksize w,
       ua_buf_size = e_tpg_get E (udt_prof prof) UdtSendBufsize w,
       ua_streams = e_tpg_get_total_stream_num E (udt_prof prof) w, ua_perf = perf\<rparr>)
   }"

definition advise_tcp ::
    "iperf_heap \<Rightarrow> fastprof_tcp_prof \<Rightarrow> fastprof_ctrl \<Rightarrow> advice option" where
  "advise_tcp h prof c = do {
     _ \<leftarrow> c_strlen (fc_local_ip c); _ \<leftarrow> c_strlen (fc_remote_ip c);
     t \<leftarrow> h (tcp_prof prof);
     Some (AdviseTcp \<lparr>ta_src_ip = c_str (fc_local_ip c), ta_dst_ip = c_str (fc_remote_ip c),
       ta_pkt_size = it_mss t, ta_blk_size = it_blksize t, ta_buf_size = it_socket_bufsize t,
       ta_streams = it_num_streams t, ta_perf = tp_perf_Mbps prof\<rparr>)
   }"

definition advise_if :: "bool \<Rightarrow> 'a option \<Rightarrow> 'a list option" where
  "advise_if b m = (if b then do { x \<leftarrow> m; Some [x] } else Some [])"

definition client_advice :: "'w env \<Rightarrow> 'w pstate \<Rightarrow> advice list option" where
  "client_advice E s = do {
     let p = ps_prob s;
     let c = pb_control p;
     udt \<leftarrow> pb_udt_prof_max p;
     udt_perf \<leftarrow> up_perf_Mbps udt;
     tcp \<leftarrow> pb_tcp_prof_max p;
     let tcp_perf = tp_perf_Mbps tcp;
     history \<leftarrow> average_perf (pb_m2m_record_max p);
     a1 \<leftarrow> advise_if (udt_perf > tcp_perf \<and> udt_perf > history) (advise_udt E udt udt_perf c (ps_world s));
     a2 \<leftarrow> advise_if (tcp_perf > udt_perf \<and> tcp_perf > history) (advise_tcp (ps_heap s) tcp c);
     a3 \<leftarrow> advise_if (history > tcp_perf \<and> history > udt_perf)
            (map_option AdviseRecord (f_print_m2m_record (pb_m2m_record_max p)));
     Some (a1 @ a2 @ a3)
   }"

subsection \<open>The client\<close>

text \<open>An iteration of the loop: poll, and handle the packet when there is one.\<close>

definition client_body :: "'w env \<Rightarrow> mem_record \<Rightarrow> 'w pstate \<Rightarrow> 'w pstate ctl option" where
  "client_body E tmp s =
     (if pb_status (ps_prob s) = P_PROGRAM_DONE then Some (Break s)
      else do {
        (ret, s) \<leftarrow> probdata_client_poll_ctrl_channel E s;
        if ret < 0 then Some (Return (- 1) (set_errno P_ERR_CTRL_CHAN s))
        else if ret = 0 then Some (Next s)
        else do {
          (r, s) \<leftarrow> probdata_client_proc_ctrl_packet E tmp s;
          Some (if r < 0 then Return (- 1) s else Next s)
        }
      })"

definition client_estimate_rtt :: "'w env \<Rightarrow> 'w pstate \<Rightarrow> 'w pstate option" where
  "client_estimate_rtt E s =
     (if pb_rtt_ms (ps_prob s) < 0 then do {
        (x, w) \<leftarrow> f_estimate_rtt E (pb_remote_ip (ps_prob s)) (ps_world s);
        let s = upd_prob (\<lambda>p. p\<lparr>pb_rtt_ms := x\<rparr>) (s\<lparr>ps_world := w\<rparr>);
        Some (if x < 0 then s
              else upd_prob (\<lambda>p. p\<lparr>pb_control := (pb_control p)\<lparr>fc_rtt_ms := x\<rparr>\<rparr>) s)
      }
      else Some s)"

text \<open>\<open>probdata_client\<close>: its code, the advice when it came to one, and the final state.\<close>

definition probdata_client ::
    "'w env \<Rightarrow> mem_record \<Rightarrow> 'w pstate \<Rightarrow> (int \<times> advice list option \<times> 'w pstate) option" where
  "probdata_client E tmp s = do {
     let s = s\<lparr>ps_world := snd (e_system E ''date'' (snd (e_system E ''uname -a'' (ps_world s))))\<rparr>;
     s \<leftarrow> client_estimate_rtt E s;
     (r, s) \<leftarrow> probdata_client_connect E s;
     if r < 0 then Some (- 1, None, s)
     else do {
       c \<leftarrow> run_loop (client_body E tmp) (upd_prob (\<lambda>p. p\<lparr>pb_status := P_PROGRAM_START\<rparr>) s);
       (case c of
          Return r s \<Rightarrow> Some (r, None, s)
        | _ \<Rightarrow> do {
            let s = ctl_state c;
            a \<leftarrow> client_advice E s;
            Some (0, Some a, s\<lparr>ps_world := snd (e_system E ''date'' (ps_world s))\<rparr>)
          })
     }
   }"

subsection \<open>Cleaning up\<close>

text \<open>\<open>FD_CLR\<close> and \<open>FD_SET\<close> are defined for descriptors below \<open>FD_SETSIZE\<close> only.\<close>

definition fd_in_set :: "int \<Rightarrow> bool" where
  "fd_in_set fd \<longleftrightarrow> 0 \<le> fd \<and> fd < 1024"

text \<open>
  Both parties overwrite their strings with the digit \<open>0\<close>, not with the terminator.
\<close>

definition forget_strings :: "probdata \<Rightarrow> probdata option" where
  "forget_strings p = do {
     local_ip \<leftarrow> c_memset (pb_local_ip p) (CHR ''0'') P_HOSTADDR_LEN;
     remote_ip \<leftarrow> c_memset (pb_remote_ip p) (CHR ''0'') P_HOSTADDR_LEN;
     src_file \<leftarrow> c_memset (pb_src_file p) (CHR ''0'') P_FILENAME_LEN;
     dst_file \<leftarrow> c_memset (pb_dst_file p) (CHR ''0'') P_FILENAME_LEN;
     ident \<leftarrow> c_memset (pb_id p) (CHR ''0'') P_IDPKT_SIZE;
     Some (p\<lparr>pb_local_ip := local_ip, pb_remote_ip := remote_ip, pb_src_file := src_file,
             pb_dst_file := dst_file, pb_id := ident\<rparr>)
   }"

text \<open>
  \<open>probdata_client_clean_up\<close>, which nothing calls. It frees the control block too, and
  sets the pointer to the UDT worker twice and the one to the TCP worker never.
\<close>

definition probdata_client_clean_up :: "'w env \<Rightarrow> 'w pstate \<Rightarrow> (int \<times> 'w pstate) option" where
  "probdata_client_clean_up E s = do {
     tcp \<leftarrow> pb_tcp_prof (ps_prob s);
     let (_, h, w) = f_tcp_prof_delete E tcp (ps_heap s, ps_world s);
     let s = s\<lparr>ps_heap := h, ps_world := w\<rparr>;
     udt \<leftarrow> pb_udt_prof (ps_prob s);
     let (r, udt, w) = f_udt_prof_delete E udt (ps_world s);
     let s = upd_prob (\<lambda>p. p\<lparr>pb_udt_prof := Some udt\<rparr>) (s\<lparr>ps_world := w\<rparr>);
     if r < 0 then Some (- 1, s)
     else if \<not> fd_in_set (pb_accept_sock (ps_prob s)) \<or> \<not> fd_in_set (pb_listen_sock (ps_prob s)) then None
     else do {
       let w = snd (e_close E (pb_listen_sock (ps_prob s)) (ps_world s));
       let w = snd (e_close E (pb_accept_sock (ps_prob s)) w);
       p \<leftarrow> forget_strings (ps_prob s);
       Some (0, s\<lparr>ps_prob := p\<lparr>pb_instance := None, pb_udt_worker := None\<rparr>, ps_world := w\<rparr>)
     }
   }"

end
