(* ===== verification/Server.thy ===== *)
theory Server
  imports Client
begin

text \<open>
  The server (\<open>probdata_server.cpp\<close>): accepting a client, the handler of control packets,
  and the two worker threads that serve the profiling runs.

  A worker runs concurrently with the handler. Starting, cancelling and joining it are calls
  of the interface; its body is a function of its own on the program's state.
\<close>

subsection \<open>Accepting a client\<close>

definition probdata_server_listen :: "'w env \<Rightarrow> 'w pstate \<Rightarrow> (int \<times> 'w pstate) option" where
  "probdata_server_listen E s =
     check (probdata_ctrl_chan_listen E s) (set_errno P_ERR_UNKNOWN) (\<lambda>s. Some (0, s))"

text \<open>
  The first client is identified and told its address. When there is one already, the new
  connection is turned away: the denial goes to the control socket of the first client, and
  its failure would only be noticed if the code were positive.
\<close>

definition server_welcome :: "'w env \<Rightarrow> string \<Rightarrow> 'w pstate \<Rightarrow> (int \<times> 'w pstate) option" where
  "server_welcome E peer s = do {
     (r, bs, s) \<leftarrow> recv_bytes E (int P_IDPKT_SIZE) s;
     ident \<leftarrow> recv_into (pb_id (ps_prob s)) bs;
     let s = upd_prob (\<lambda>p. p\<lparr>pb_id := ident\<rparr>) s;
     if r < 0 then Some (- 1, set_errno P_ERR_UNKNOWN s)
     else check (send_bytes E (int_bytes (int (length peer))) s) (set_errno P_ERR_UNKNOWN)
            (\<lambda>s. check (send_bytes E peer s) (set_errno P_ERR_UNKNOWN) (\<lambda>s. Some (0, s)))
   }"

definition server_reject :: "'w env \<Rightarrow> int \<Rightarrow> 'w pstate \<Rightarrow> (int \<times> 'w pstate) option" where
  "server_reject E fd s = do {
     (r, _, w) \<leftarrow> probdata_ctrl_chan_recv_Nbytes E fd (int P_IDPKT_SIZE) (ps_world s);
     let s = s\<lparr>ps_world := w\<rparr>;
     if r < 0 then Some (- 1, set_errno P_ERR_UNKNOWN s)
     else do {
       (r, s) \<leftarrow> probdata_ctrl_chan_send_ctrl_packet E P_ACCESS_DENIED s;
       if 0 < r then Some (- 1, set_errno P_ERR_UNKNOWN s)
       else Some (0, s\<lparr>ps_world := snd (e_close E fd (ps_world s))\<rparr>)
     }
   }"

definition probdata_server_accept :: "'w env \<Rightarrow> 'w pstate \<Rightarrow> (int \<times> 'w pstate) option" where
  "probdata_server_accept E s =
     (let (fd, peer, s) = probdata_ctrl_chan_accept E s
      in if fd < 0 then Some (- 1, set_errno P_ERR_UNKNOWN s)
         else if pb_accept_sock (ps_prob s) < 0
         then server_welcome E peer (upd_prob (\<lambda>p. p\<lparr>pb_accept_sock := fd\<rparr>) s)
         else server_reject E fd s)"

subsection \<open>Starting the workers\<close>

definition probdata_server_tcp_prof_new :: "'w env \<Rightarrow> 'w pstate \<Rightarrow> int \<times> 'w pstate" where
  "probdata_server_tcp_prof_new E s =
     (let (prof, h, w) = f_tcp_prof_new E (ps_heap s) (ps_world s)
      in (0, upd_prob (\<lambda>p. p\<lparr>pb_tcp_prof := Some prof\<rparr>) (s\<lparr>ps_heap := h, ps_world := w\<rparr>)))"

definition probdata_server_tcp_prof_default :: "'w env \<Rightarrow> 'w pstate \<Rightarrow> (int \<times> 'w pstate) option" where
  "probdata_server_tcp_prof_default E s = do {
     prof \<leftarrow> pb_tcp_prof (ps_prob s);
     (r, h, w, err) \<leftarrow> f_tcp_prof_default E prof (ps_heap s, ps_world s) (ps_f_errno s);
     Some (r, s\<lparr>ps_heap := h, ps_world := w, ps_f_errno := err\<rparr>)
   }"

definition probdata_server_tcp_prof_init :: "'w env \<Rightarrow> 'w pstate \<Rightarrow> (int \<times> 'w pstate) option" where
  "probdata_server_tcp_prof_init E s = do {
     prof \<leftarrow> pb_tcp_prof (ps_prob s);
     (r, h, w) \<leftarrow> f_tcp_prof_init E prof (pb_control (ps_prob s)) (ps_heap s, ps_world s);
     Some (r, s\<lparr>ps_heap := h, ps_world := w\<rparr>)
   }"

definition probdata_server_tcp_prof_delete :: "'w env \<Rightarrow> 'w pstate \<Rightarrow> (int \<times> 'w pstate) option" where
  "probdata_server_tcp_prof_delete E s = do {
     prof \<leftarrow> pb_tcp_prof (ps_prob s);
     let (r, h, w) = f_tcp_prof_delete E prof (ps_heap s, ps_world s);
     Some (r, s\<lparr>ps_heap := h, ps_world := w\<rparr>)
   }"

definition probdata_server_tcp_prof_reset :: "'w env \<Rightarrow> 'w pstate \<Rightarrow> (int \<times> 'w pstate) option" where
  "probdata_server_tcp_prof_reset E s = do {
     prof \<leftarrow> pb_tcp_prof (ps_prob s);
     (r, h, w, err) \<leftarrow> f_tcp_prof_reset E prof (pb_control (ps_prob s)) (ps_heap s, ps_world s) (ps_f_errno s);
     Some (r, s\<lparr>ps_heap := h, ps_world := w, ps_f_errno := err\<rparr>)
   }"

text \<open>
  \<open>pthread_create\<close>: the pointer to the thread's identifier is set before the call, so it
  is not null even when the call fails.
\<close>

definition start_tcp_worker :: "'w env \<Rightarrow> 'w pstate \<Rightarrow> int \<times> 'w pstate" where
  "start_tcp_worker E s =
     (let (ret, t, w) = e_thread_create E TcpWorker (ps_world s);
          s = upd_prob (\<lambda>p. p\<lparr>pb_tcp_worker := Some t\<rparr>) (s\<lparr>ps_world := w\<rparr>)
      in if ret \<noteq> 0 then (- 1, set_errno P_ERR_THREAD s) else (0, s))"

definition probdata_server_tcp_fastprof_run :: "'w env \<Rightarrow> 'w pstate \<Rightarrow> (int \<times> 'w pstate) option" where
  "probdata_server_tcp_fastprof_run E s =
     check (Some (probdata_server_tcp_prof_new E s)) id
       (\<lambda>s. check (probdata_server_tcp_prof_default E s) id
         (\<lambda>s. check (probdata_server_tcp_prof_init E s) id
           (\<lambda>s. Some (start_tcp_worker E s))))"

definition probdata_server_udt_prof_new :: "'w env \<Rightarrow> 'w pstate \<Rightarrow> int \<times> 'w pstate" where
  "probdata_server_udt_prof_new E s =
     (let (prof, w) = f_udt_prof_new E (ps_world s)
      in (0, upd_prob (\<lambda>p. p\<lparr>pb_udt_prof := Some prof\<rparr>) (s\<lparr>ps_world := w\<rparr>)))"

definition probdata_server_udt_prof_default :: "'w env \<Rightarrow> 'w pstate \<Rightarrow> (int \<times> 'w pstate) option" where
  "probdata_server_udt_prof_default E s = do {
     prof \<leftarrow> pb_udt_prof (ps_prob s);
     let (r, w, err) = f_udt_prof_default E prof (ps_world s) (ps_f_errno s);
     Some (r, s\<lparr>ps_world := w, ps_f_errno := err\<rparr>)
   }"

definition probdata_server_udt_prof_init :: "'w env \<Rightarrow> 'w pstate \<Rightarrow> (int \<times> 'w pstate) option" where
  "probdata_server_udt_prof_init E s = do {
     let p = ps_prob s;
     let c = (pb_control p)\<lparr>fc_role := (if pb_role p = P_CLIENT then F_CLIENT else F_SERVER)\<rparr>;
     remote_ip \<leftarrow> c_copy_str (fc_remote_ip c) (pb_remote_ip p);
     let c = c\<lparr>fc_remote_ip := remote_ip, fc_udt_port := pb_udt_port p,
                fc_duration := pb_prof_duration p, fc_max_limit := pb_max_prof_limit p,
                fc_impeded_limit := pb_impeded_limit p, fc_pgr := pb_pgr p\<rparr>;
     prof \<leftarrow> pb_udt_prof p;
     (r, w) \<leftarrow> f_udt_prof_init E prof c (ps_world s);
     Some (r, upd_prob (\<lambda>p. p\<lparr>pb_control := c\<rparr>) (s\<lparr>ps_world := w\<rparr>))
   }"

definition probdata_server_udt_prof_reset :: "'w env \<Rightarrow> 'w pstate \<Rightarrow> (int \<times> 'w pstate) option" where
  "probdata_server_udt_prof_reset E s = do {
     prof \<leftarrow> pb_udt_prof (ps_prob s);
     (r, w, err) \<leftarrow> f_udt_prof_reset E prof (pb_control (ps_prob s)) (ps_world s) (ps_f_errno s);
     Some (r, s\<lparr>ps_world := w, ps_f_errno := err\<rparr>)
   }"

definition start_udt_worker :: "'w env \<Rightarrow> 'w pstate \<Rightarrow> int \<times> 'w pstate" where
  "start_udt_worker E s =
     (let (ret, t, w) = e_thread_create E UdtWorker (ps_world s);
          s = upd_prob (\<lambda>p. p\<lparr>pb_udt_worker := Some t\<rparr>) (s\<lparr>ps_world := w\<rparr>)
      in if ret \<noteq> 0 then (- 1, set_errno P_ERR_THREAD s) else (0, s))"

definition probdata_server_udt_fastprof_run :: "'w env \<Rightarrow> 'w pstate \<Rightarrow> (int \<times> 'w pstate) option" where
  "probdata_server_udt_fastprof_run E s =
     check (Some (probdata_server_udt_prof_new E s)) id
       (\<lambda>s. check (probdata_server_udt_prof_default E s) id
         (\<lambda>s. check (probdata_server_udt_prof_init E s) id
           (\<lambda>s. Some (start_udt_worker E s))))"

definition probdata_server_dw_xdd_udt :: "'w pstate \<Rightarrow> int \<times> 'w pstate" where
  "probdata_server_dw_xdd_udt s = (0, s)"

definition probdata_server_dw_xdd_tcp :: "'w pstate \<Rightarrow> int \<times> 'w pstate" where
  "probdata_server_dw_xdd_tcp s = (0, s)"

subsection \<open>Control packets\<close>

definition server_reply :: "'w env \<Rightarrow> int \<Rightarrow> 'w pstate \<Rightarrow> (int \<times> 'w pstate) option" where
  "server_reply E packet s =
     check (probdata_ctrl_chan_send_ctrl_packet E packet s) (set_errno P_ERR_UNKNOWN)
       (\<lambda>s. Some (0, s))"

text \<open>
  Joining a worker; the code of the call is only logged. \<open>None\<close> is a null pointer that is
  dereferenced, or a join that does not return.
\<close>

definition join_worker :: "'w env \<Rightarrow> thread \<Rightarrow> 'w pstate \<Rightarrow> 'w pstate option" where
  "join_worker E t s = do { (_, w) \<leftarrow> e_thread_join E t (ps_world s); Some (s\<lparr>ps_world := w\<rparr>) }"

definition stop_tcp_worker :: "'w env \<Rightarrow> 'w pstate \<Rightarrow> 'w pstate option" where
  "stop_tcp_worker E s = do {
     t \<leftarrow> pb_tcp_worker (ps_prob s);
     join_worker E t (s\<lparr>ps_world := snd (e_thread_cancel E t (ps_world s))\<rparr>)
   }"

definition join_if_started :: "'w env \<Rightarrow> thread option \<Rightarrow> 'w pstate \<Rightarrow> 'w pstate option" where
  "join_if_started E t s = (case t of None \<Rightarrow> Some s | Some t \<Rightarrow> join_worker E t s)"

text \<open>\<open>probdata_server_proc_ctrl_packet\<close>: the \<open>switch\<close> over the packet's code.\<close>

text \<open>The request for the UDT run, and the end of the session.\<close>

definition server_m2m_udt :: "'w env \<Rightarrow> 'w pstate \<Rightarrow> (int \<times> 'w pstate) option" where
  "server_m2m_udt E s = do {
     s \<leftarrow> (if 0 < pb_do_udt_only (ps_prob s) then Some s else stop_tcp_worker E s);
     check (server_reply E P_RUN_M2M_UDT s) id
       (\<lambda>s. check (probdata_server_udt_fastprof_run E s) (set_errno P_ERR_UNKNOWN)
         (\<lambda>s. Some (0, s)))
   }"

definition server_finish :: "'w env \<Rightarrow> 'w pstate \<Rightarrow> (int \<times> 'w pstate) option" where
  "server_finish E s = do {
     s \<leftarrow> join_if_started E (pb_udt_worker (ps_prob s)) s;
     s \<leftarrow> join_if_started E (pb_tcp_worker (ps_prob s)) s;
     server_reply E P_PROGRAM_DONE s
   }"

definition probdata_server_proc_ctrl_packet ::
    "'w env \<Rightarrow> 'w pstate \<Rightarrow> (int \<times> 'w pstate) option" where
  "probdata_server_proc_ctrl_packet E s =
     (let status = pb_status (ps_prob s)
      in if status = P_TWOWAY_HANDSHAKE then
           check (server_reply E P_TWOWAY_HANDSHAKE s) id
             (\<lambda>s. check (probdata_ctrl_chan_ctrlmsg_exchange E s) id (\<lambda>s. Some (0, s)))
         else if status = P_RUN_D2D_DB then server_reply E P_RUN_D2D_DB s
         else if status = P_RUN_D2D_TCP then
           check (Some (probdata_server_dw_xdd_tcp s)) (set_errno P_ERR_UNKNOWN)
             (server_reply E P_RUN_D2D_TCP)
         else if status = P_RUN_D2D_UDT then
           check (Some (probdata_server_dw_xdd_udt s)) (set_errno P_ERR_UNKNOWN)
             (server_reply E P_RUN_D2D_UDT)
         else if status = P_RUN_M2M_DB then server_reply E P_RUN_M2M_DB s
         else if status = P_RUN_M2M_TCP then
           check (probdata_server_tcp_fastprof_run E s) (set_errno P_ERR_UNKNOWN)
             (server_reply E P_RUN_M2M_TCP)
         else if status = P_RUN_M2M_UDT then server_m2m_udt E s
         else if status = P_PROGRAM_DONE then server_finish E s
         else Some (0, s))"

lemmas server_proc_unfold =
  probdata_server_proc_ctrl_packet_def server_m2m_udt_def server_finish_def

subsection \<open>The server\<close>

definition server_done :: "int \<Rightarrow> bool" where
  "server_done status \<longleftrightarrow>
     status = P_PROGRAM_DONE \<or> status = P_SERVER_ERROR \<or> status = P_CLIENT_TERMINATE"

definition server_body :: "'w env \<Rightarrow> 'w pstate \<Rightarrow> 'w pstate ctl option" where
  "server_body E s =
     (if server_done (pb_status (ps_prob s)) then Some (Break s)
      else do {
        (ret, s) \<leftarrow> probdata_server_poll_ctrl_channel E s;
        if ret < 0 then Some (Return (- 1) (set_errno P_ERR_UNKNOWN s))
        else if ret = 0 then Some (Next s)
        else do {
          (r, s) \<leftarrow> probdata_server_proc_ctrl_packet E s;
          Some (if r < 0 then Return (- 1) (set_errno P_ERR_UNKNOWN s) else Next s)
        }
      })"

definition probdata_server_clean_up :: "'w env \<Rightarrow> 'w pstate \<Rightarrow> (int \<times> 'w pstate) option" where
  "probdata_server_clean_up E s =
     (if \<not> fd_in_set (pb_accept_sock (ps_prob s)) \<or> \<not> fd_in_set (pb_listen_sock (ps_prob s)) then None
      else do {
        let w = snd (e_close E (pb_listen_sock (ps_prob s)) (ps_world s));
        let w = snd (e_close E (pb_accept_sock (ps_prob s)) w);
        p \<leftarrow> forget_strings (ps_prob s);
        Some (0, s\<lparr>ps_prob := p\<lparr>pb_udt_worker := None, pb_tcp_worker := None, pb_instance := None\<rparr>,
                   ps_world := w\<rparr>)
      })"

definition probdata_server :: "'w env \<Rightarrow> 'w pstate \<Rightarrow> (int \<times> 'w pstate) option" where
  "probdata_server E s = do {
     let s = upd_prob (\<lambda>p. p\<lparr>pb_status := P_PROGRAM_START\<rparr>)
               (s\<lparr>ps_world := snd (e_system E ''date'' (ps_world s))\<rparr>);
     check (probdata_server_listen E s) id
       (\<lambda>s. check (probdata_server_accept E s) id
         (\<lambda>s. check (probdata_ctrl_chan_send_ctrl_packet E P_CTRL_CHAN_EST
                       (upd_prob (\<lambda>p. p\<lparr>pb_status := P_CTRL_CHAN_EST\<rparr>) s))
           (set_errno P_ERR_SEND_MESSAGE) (\<lambda>s. do {
             c \<leftarrow> run_loop (server_body E) s;
             (case c of
                Return r s \<Rightarrow> Some (r, s)
              | _ \<Rightarrow> check (probdata_server_clean_up E (ctl_state c)) id
                  (\<lambda>s. Some (0, s\<lparr>ps_world := snd (e_system E ''date'' (ps_world s))\<rparr>)))
           })))
   }"

subsection \<open>The TCP worker\<close>

text \<open>
  The state of the worker's loop. \<open>cancel\<close> says whether a request to cancel the thread is
  pending when it gets to \<open>pthread_testcancel\<close>; the thread then leaves through its
  clean-up handler, which is the code 1 here.
\<close>

record 'w tcp_worker =
  tw_err_cnt :: int
  tw_state :: "'w pstate"

definition tcp_worker_body ::
    "'w env \<Rightarrow> ('w \<Rightarrow> bool) \<Rightarrow> 'w tcp_worker \<Rightarrow> 'w tcp_worker ctl option" where
  "tcp_worker_body E cancel v =
     (if cancel (ps_world (tw_state v)) then Some (Return 1 v)
      else do {
        let s = tw_state v;
        prof \<leftarrow> pb_tcp_prof (ps_prob s);
        t \<leftarrow> ps_heap s (tcp_prof prof);
        let (r, t, w) = e_iperf_run_server E (tcp_prof prof) t (ps_world s);
        let v = v\<lparr>tw_err_cnt := (if r < 0 then tw_err_cnt v + 1 else 0),
                   tw_state := s\<lparr>ps_heap := (ps_heap s)(tcp_prof prof \<mapsto> t), ps_world := w\<rparr>\<rparr>;
        if r < 0 \<and> P_MAX_ERROR_NUM \<le> tw_err_cnt v then Some (Break v)
        else do {
          (r, s) \<leftarrow> probdata_server_tcp_prof_reset E (tw_state v);
          Some (if r < 0 then Break (v\<lparr>tw_state := s\<rparr>) else Next (v\<lparr>tw_state := s\<rparr>))
        }
      })"

definition probdata_server_tcp_fastprof_cleanup_handler ::
    "'w env \<Rightarrow> 'w pstate \<Rightarrow> 'w pstate option" where
  "probdata_server_tcp_fastprof_cleanup_handler E s = do {
     (_, s) \<leftarrow> probdata_server_tcp_prof_reset E s;
     (_, s) \<leftarrow> probdata_server_tcp_prof_delete E s;
     Some s
   }"

definition probdata_server_tcp_fastprof_worker ::
    "'w env \<Rightarrow> ('w \<Rightarrow> bool) \<Rightarrow> 'w pstate \<Rightarrow> 'w pstate option" where
  "probdata_server_tcp_fastprof_worker E cancel s = do {
     c \<leftarrow> run_loop (tcp_worker_body E cancel) \<lparr>tw_err_cnt = 0, tw_state = s\<rparr>;
     (case c of
        Return _ v \<Rightarrow> probdata_server_tcp_fastprof_cleanup_handler E (tw_state v)
      | _ \<Rightarrow> do {
          (_, s) \<leftarrow> probdata_server_tcp_prof_delete E (tw_state (ctl_state c));
          probdata_server_tcp_fastprof_cleanup_handler E s
        })
   }"

subsection \<open>The UDT worker\<close>

text \<open>
  The worker reads the state that the handler writes. \<open>meanwhile\<close> is what the handler has
  done to it since the last iteration.
\<close>

record 'w udt_worker =
  uw_err_cnt :: int
  uw_ok_cnt :: int
  uw_state :: "'w pstate"

definition udt_worker_body ::
    "'w env \<Rightarrow> ('w pstate \<Rightarrow> 'w pstate) \<Rightarrow> 'w udt_worker \<Rightarrow> 'w udt_worker ctl option" where
  "udt_worker_body E meanwhile v =
     (let s = meanwhile (uw_state v); v = v\<lparr>uw_state := s\<rparr>
      in if pb_status (ps_prob s) \<noteq> P_RUN_M2M_UDT then Some (Break v)
         else if uw_ok_cnt v > pb_max_prof_limit (ps_prob s) then Some (Break v)
         else if uw_err_cnt v \<ge> P_MAX_ERROR_NUM then Some (Break v)
         else do {
           prof \<leftarrow> pb_udt_prof (ps_prob s);
           let (ret, w) = e_tpg_server_run E (udt_prof prof) 15 0 (ps_world s);
           let v = v\<lparr>uw_state := s\<lparr>ps_world := w\<rparr>\<rparr>;
           if ret < 0 then do {
             (r, s) \<leftarrow> probdata_server_udt_prof_reset E (uw_state v);
             let v = v\<lparr>uw_state := s\<rparr>;
             if r < 0 then Some (Return 0 v)
             else
               (let v = v\<lparr>uw_err_cnt := uw_err_cnt v + 1\<rparr>
                in Some (if uw_err_cnt v > P_MAX_ERROR_NUM then Break v else Next v))
           }
           else if ret = 0 then Some (Next v)
           else Some (Next (v\<lparr>uw_err_cnt := 0, uw_ok_cnt := uw_ok_cnt v + 1\<rparr>))
         })"

definition probdata_server_udt_fastprof_worker ::
    "'w env \<Rightarrow> ('w pstate \<Rightarrow> 'w pstate) \<Rightarrow> 'w pstate \<Rightarrow> 'w udt_worker option" where
  "probdata_server_udt_fastprof_worker E meanwhile s = do {
     c \<leftarrow> run_loop (udt_worker_body E meanwhile) \<lparr>uw_err_cnt = 0, uw_ok_cnt = 0, uw_state = s\<rparr>;
     Some (ctl_state c)
   }"

end
