(* ===== verification/Exchange.thy ===== *)
theory Exchange
  imports Channel
begin

text \<open>
  What the messages of the control channel achieve between two parties whose sockets are
  connected: the exchange of the control parameters, and of measured performance.
\<close>

subsection \<open>Ports\<close>

lemma length_show_nat_iff: "length (show_nat n) \<le> Suc k \<longleftrightarrow> n < 10 ^ Suc k"
proof (induction k arbitrary: n)
  case 0
  have "length (show_nat n) \<le> 1 \<longleftrightarrow> n < 10"
    by (subst show_nat.simps) (simp add: Suc_le_eq)
  then show ?case by simp
next
  case (Suc k)
  show ?case
  proof (cases "n < 10")
    case True
    then have "length (show_nat n) = 1" by (subst show_nat.simps) simp
    moreover have "n < 10 ^ Suc (Suc k)"
      using True by (rule less_le_trans) simp
    ultimately show ?thesis by simp
  next
    case False
    then have "length (show_nat n) = Suc (length (show_nat (n div 10)))" by (subst show_nat.simps) simp
    moreover have "n div 10 < 10 ^ Suc k \<longleftrightarrow> n < 10 ^ Suc (Suc k)"
      by (simp add: div_less_iff_less_mult mult.commute)
    ultimately show ?thesis using Suc.IH [of "n div 10"] by simp
  qed
qed

lemma port_string_defined:
  assumes "0 \<le> port"
  shows "port_string port = (if port < 100000 then Some (show_int port) else None)"
proof -
  have "NUL \<notin> set (show_int port)"
    using show_nat_digits [of "nat port"] assms by (auto simp: show_int_def NUL_def c_isdigit_def)
  moreover have "length (show_int port) < 6 \<longleftrightarrow> port < 100000"
    using length_show_nat_iff [of "nat port" 4] assms
    by (simp add: show_int_def nat_less_iff) linarith
  ultimately show ?thesis by (simp add: port_string_def c_puts_def)
qed

subsection \<open>The control parameters\<close>

lemma bytes_ctrlmsg_bytes:
  assumes "in_int (cm_do_udt_only m)" "in_int (cm_host_max_buf m)"
  shows "bytes_ctrlmsg (ctrlmsg_bytes m) = m"
  using assms by (simp add: bytes_ctrlmsg_def ctrlmsg_bytes_def bytes_int_bytes)

lemma length_ctrlmsg_bytes [simp]: "length (ctrlmsg_bytes m) = 8"
  by (simp add: ctrlmsg_bytes_def)

lemma overlay_full [simp]: "length bs = length buf \<Longrightarrow> overlay bs buf = bs"
  by (simp add: overlay_def)

text \<open>Sending and receiving within the program's state, on a connected socket.\<close>

lemma send_bytes_stream:
  assumes "stream_io E (pb_accept_sock (ps_prob s)) rx tx" "send_bytes E bs s = Some (r, t)" "0 \<le> r"
  obtains w where "t = s\<lparr>ps_world := w\<rparr>" "tx w = tx (ps_world s) @ bs" "rx w = rx (ps_world s)"
  using assms(2,3) send_Nbytes_stream [OF assms(1), of bs "ps_world s" r]
  by (auto simp: send_bytes_def bind_eq_Some_conv)

lemma recv_bytes_stream:
  assumes "stream_io E (pb_accept_sock (ps_prob s)) rx tx" "n \<le> length (rx (ps_world s))"
    and "recv_bytes E (int n) s = Some (r, bs, t)" "0 \<le> r"
  obtains w where "t = s\<lparr>ps_world := w\<rparr>" "bs = take n (rx (ps_world s))"
    "rx w = drop n (rx (ps_world s))" "tx w = tx (ps_world s)" "r = int n"
  using assms(3,4) recv_Nbytes_stream [OF assms(1,2)]
  by (auto simp: recv_bytes_def bind_eq_Some_conv)

definition cli_msg :: "probdata \<Rightarrow> probdata_ctrlmsg" where
  "cli_msg p = \<lparr>cm_do_udt_only = pb_do_udt_only p, cm_host_max_buf = fc_host_max_buf (pb_control p)\<rparr>"

lemma ctrlmsg_exchange_cli_stream:
  assumes "stream_io E (pb_accept_sock (ps_prob s)) rx tx" "8 \<le> length (rx (ps_world s))"
    and "probdata_ctrl_chan_ctrlmsg_exchange_cli E s = Some (0, t)"
  shows "tx (ps_world t) = tx (ps_world s) @ ctrlmsg_bytes (cli_msg (ps_prob s)) \<and>
    ps_prob t = merge_max_buf (cm_host_max_buf (bytes_ctrlmsg (take 8 (rx (ps_world s))))) (ps_prob s)"
  using assms(3)
  unfolding probdata_ctrl_chan_ctrlmsg_exchange_cli_def Let_def cli_msg_def [symmetric]
proof (rule check_zero, goal_cases)
  case (2 r u)
  from send_bytes_stream [OF assms(1) 2(1,2)] obtain w where u: "u = s\<lparr>ps_world := w\<rparr>"
    "tx w = tx (ps_world s) @ ctrlmsg_bytes (cli_msg (ps_prob s))" "rx w = rx (ps_world s)" .
  from 2(3) obtain ret bs v where recv: "recv_bytes E (int 8) u = Some (ret, bs, v)" "0 \<le> ret"
    and t: "t = upd_prob (merge_max_buf (cm_host_max_buf
      (bytes_ctrlmsg (overlay bs (ctrlmsg_bytes (cli_msg (ps_prob s))))))) v"
    by (auto simp: bind_eq_Some_conv split: if_splits)
  have "stream_io E (pb_accept_sock (ps_prob u)) rx tx" "8 \<le> length (rx (ps_world u))"
    using assms(1,2) u by simp_all
  from recv_bytes_stream [OF this recv] obtain w' where v: "v = u\<lparr>ps_world := w'\<rparr>"
    "bs = take 8 (rx (ps_world u))" "tx w' = tx (ps_world u)" .
  show ?case using u v t assms(2) by (simp add: upd_prob_def)
qed simp

text \<open>What the server answers, and what its state becomes.\<close>

definition srv_msg :: "probdata_ctrlmsg \<Rightarrow> probdata \<Rightarrow> probdata_ctrlmsg" where
  "srv_msg m p = m\<lparr>cm_host_max_buf := min (cm_host_max_buf m) (pb_host_max_buf p)\<rparr>"

lemma srv_msg_merge:
  "m\<lparr>cm_host_max_buf := pb_host_max_buf (merge_max_buf (cm_host_max_buf m)
      (p\<lparr>pb_do_udt_only := cm_do_udt_only m\<rparr>))\<rparr> = srv_msg m p"
  by (simp add: merge_max_buf_def srv_msg_def Let_def min_def)

lemma ctrlmsg_exchange_srv_stream:
  assumes "stream_io E (pb_accept_sock (ps_prob s)) rx tx" "8 \<le> length (rx (ps_world s))"
    and "probdata_ctrl_chan_ctrlmsg_exchange_srv E s = Some (0, t)"
    and "m = bytes_ctrlmsg (take 8 (rx (ps_world s)))"
  shows "tx (ps_world t) = tx (ps_world s) @ ctrlmsg_bytes (srv_msg m (ps_prob s)) \<and>
    ps_prob t = merge_max_buf (cm_host_max_buf m) ((ps_prob s)\<lparr>pb_do_udt_only := cm_do_udt_only m\<rparr>)"
proof -
  from assms(3) obtain ret bs u where recv: "recv_bytes E (int 8) s = Some (ret, bs, u)" "0 \<le> ret"
    by (auto simp: probdata_ctrl_chan_ctrlmsg_exchange_srv_def bind_eq_Some_conv split: if_splits)
  from recv_bytes_stream [OF assms(1,2) recv] obtain w where u: "u = s\<lparr>ps_world := w\<rparr>"
    "bs = take 8 (rx (ps_world s))" "tx w = tx (ps_world s)" .
  have m: "bytes_ctrlmsg bs = m" "\<not> length bs < 8" using u assms(2,4) by simp_all
  let ?p = "merge_max_buf (cm_host_max_buf m) ((ps_prob s)\<lparr>pb_do_udt_only := cm_do_udt_only m\<rparr>)"
  let ?v = "s\<lparr>ps_world := w, ps_prob := ?p\<rparr>"
  have "check (send_bytes E (ctrlmsg_bytes (srv_msg m (ps_prob s))) ?v) (set_errno P_ERR_UNKNOWN)
      (\<lambda>s. Some (0, s)) = Some (0, t)"
    using assms(3) recv m unfolding probdata_ctrl_chan_ctrlmsg_exchange_srv_def
    by (simp add: u(1) upd_prob_def srv_msg_merge)
  then obtain r where send: "send_bytes E (ctrlmsg_bytes (srv_msg m (ps_prob s))) ?v = Some (r, t)" "0 \<le> r"
    by (auto elim: check_zero)
  have "stream_io E (pb_accept_sock (ps_prob ?v)) rx tx"
    using assms(1) by (simp add: merge_max_buf_def Let_def)
  from send_bytes_stream [OF this send] obtain w' where
    "t = ?v\<lparr>ps_world := w'\<rparr>" "tx w' = tx w @ ctrlmsg_bytes (srv_msg m (ps_prob s))" by auto
  then show ?thesis using u(3) by simp
qed

text \<open>
  C1. After both sides have exchanged control parameters over connected sockets (what each
  sends are the next bytes the other receives), they agree: both use the smaller of the two
  buffer limits, also for the profilers, and the server follows the client's choice of UDT only.
\<close>

theorem ctrlmsg_exchange_agree:
  assumes cli: "probdata_ctrl_chan_ctrlmsg_exchange_cli Ec c = Some (0, c')"
      "stream_io Ec (pb_accept_sock (ps_prob c)) rxc txc" "8 \<le> length (rxc (ps_world c))"
    and srv: "probdata_ctrl_chan_ctrlmsg_exchange_srv Es s = Some (0, s')"
      "stream_io Es (pb_accept_sock (ps_prob s)) rxs txs" "8 \<le> length (rxs (ps_world s))"
    and connected: "txc (ps_world c') = txc (ps_world c) @ take 8 (rxs (ps_world s))"
      "txs (ps_world s') = txs (ps_world s) @ take 8 (rxc (ps_world c))"
    and ints: "in_int (pb_do_udt_only (ps_prob c))" "in_int (pb_host_max_buf (ps_prob c))"
      "in_int (pb_host_max_buf (ps_prob s))"
    and control: "fc_host_max_buf (pb_control (ps_prob c)) = pb_host_max_buf (ps_prob c)"
  shows "pb_host_max_buf (ps_prob c') = min (pb_host_max_buf (ps_prob c)) (pb_host_max_buf (ps_prob s)) \<and>
    pb_host_max_buf (ps_prob s') = pb_host_max_buf (ps_prob c') \<and>
    fc_host_max_buf (pb_control (ps_prob c')) = pb_host_max_buf (ps_prob c') \<and>
    fc_host_max_buf (pb_control (ps_prob s')) = pb_host_max_buf (ps_prob c') \<and>
    pb_do_udt_only (ps_prob s') = pb_do_udt_only (ps_prob c)"
proof -
  let ?m = "cli_msg (ps_prob c)" and ?r = "srv_msg (cli_msg (ps_prob c)) (ps_prob s)"
  note c = ctrlmsg_exchange_cli_stream [OF cli(2,3,1)]
  have "take 8 (rxs (ps_world s)) = ctrlmsg_bytes ?m" using c connected(1) by simp
  then have m: "?m = bytes_ctrlmsg (take 8 (rxs (ps_world s)))"
    using ints(1,2) control by (simp add: bytes_ctrlmsg_bytes cli_msg_def)
  note s = ctrlmsg_exchange_srv_stream [OF srv(2,3,1) m]
  have "take 8 (rxc (ps_world c)) = ctrlmsg_bytes ?r" using s connected(2) by simp
  then have "bytes_ctrlmsg (take 8 (rxc (ps_world c))) = ?r"
    using ints control by (simp add: bytes_ctrlmsg_bytes srv_msg_def cli_msg_def min_def)
  then show ?thesis using c s control
    by (simp add: merge_max_buf_def Let_def cli_msg_def srv_msg_def)
qed

subsection \<open>Measured performance\<close>

lemma perf_exchange_send_stream:
  assumes "stream_io E (pb_accept_sock (ps_prob s)) rx tx"
    and "probdata_ctrl_chan_perf_exchange_send E s = Some (r, t)" "0 \<le> r"
  obtains w where "t = s\<lparr>ps_world := w\<rparr>" "rx w = rx (ps_world s)"
    "tx w = tx (ps_world s) @ dbl_bytes (pb_max_perf_mbps (ps_prob s))"
proof -
  from assms(2,3) obtain r' where send: "send_bytes E (dbl_bytes (pb_max_perf_mbps (ps_prob s))) s = Some (r', t)"
    "0 \<le> r'" by (auto simp: probdata_ctrl_chan_perf_exchange_send_def elim!: check_zero)
  from send_bytes_stream [OF assms(1) send] show thesis using that by blast
qed

lemma perf_exchange_recv_cases:
  assumes "stream_io E (pb_accept_sock (ps_prob s)) rx tx" "8 \<le> length (rx (ps_world s))"
    and "probdata_ctrl_chan_perf_exchange_recv E s = Some (r, t)" "0 \<le> r"
  obtains w where "t = upd_prob (\<lambda>p. p\<lparr>pb_max_perf_mbps := bytes_dbl (take 8 (rx (ps_world s)))\<rparr>)
      (s\<lparr>ps_world := w\<rparr>)" "tx w = tx (ps_world s)"
proof -
  from assms(3,4) obtain ret bs u where recv: "recv_bytes E (int 8) s = Some (ret, bs, u)" "0 \<le> ret"
    and t: "t = upd_prob (\<lambda>p. p\<lparr>pb_max_perf_mbps :=
               bytes_dbl (overlay bs (dbl_bytes (pb_max_perf_mbps p)))\<rparr>) u"
    by (auto simp: probdata_ctrl_chan_perf_exchange_recv_def bind_eq_Some_conv Let_def split: if_splits)
  have len: "length (dbl_bytes y) = 8" for y by (simp add: dbl_bytes_def)
  from recv_bytes_stream [OF assms(1,2) recv] obtain w where "u = s\<lparr>ps_world := w\<rparr>"
    "bs = take 8 (rx (ps_world s))" "tx w = tx (ps_world s)" .
  then show thesis using t assms(2) by (intro that [of w]) (simp_all add: len)
qed

text \<open>
  C29. After the exchange of measured performance both sides hold the client's value: the
  server overwrites its own value with the one it receives before it sends it back.
\<close>

theorem perf_exchange_result:
  assumes cli: "probdata_ctrl_chan_perf_exchange Ec c = Some (0, c')" "pb_role (ps_prob c) = P_CLIENT"
      "stream_io Ec (pb_accept_sock (ps_prob c)) rxc txc" "8 \<le> length (rxc (ps_world c))"
    and srv: "probdata_ctrl_chan_perf_exchange Es s = Some (0, s')" "pb_role (ps_prob s) = P_SERVER"
      "stream_io Es (pb_accept_sock (ps_prob s)) rxs txs" "8 \<le> length (rxs (ps_world s))"
    and connected: "txc (ps_world c') = txc (ps_world c) @ take 8 (rxs (ps_world s))"
      "txs (ps_world s') = txs (ps_world s) @ take 8 (rxc (ps_world c))"
    and x: "is_double (pb_max_perf_mbps (ps_prob c))"
  shows "pb_max_perf_mbps (ps_prob c') = pb_max_perf_mbps (ps_prob c) \<and>
    pb_max_perf_mbps (ps_prob s') = pb_max_perf_mbps (ps_prob c)"
proof -
  let ?x = "pb_max_perf_mbps (ps_prob c)"
  from cli(1,2) obtain rc c1 rc' where c1: "probdata_ctrl_chan_perf_exchange_send Ec c = Some (rc, c1)" "0 \<le> rc"
    and c2: "probdata_ctrl_chan_perf_exchange_recv Ec c1 = Some (rc', c')" "0 \<le> rc'"
    by (auto simp: probdata_ctrl_chan_perf_exchange_def elim!: check_zero)
  from srv(1,2) obtain rs s1 rs' where s1: "probdata_ctrl_chan_perf_exchange_recv Es s = Some (rs, s1)" "0 \<le> rs"
    and s2: "probdata_ctrl_chan_perf_exchange_send Es s1 = Some (rs', s')" "0 \<le> rs'"
    by (auto simp: probdata_ctrl_chan_perf_exchange_def elim!: check_zero)
  from perf_exchange_send_stream [OF cli(3) c1] obtain w where w: "c1 = c\<lparr>ps_world := w\<rparr>"
    "rxc w = rxc (ps_world c)" "txc w = txc (ps_world c) @ dbl_bytes ?x" .
  have sock: "stream_io Ec (pb_accept_sock (ps_prob c1)) rxc txc" "8 \<le> length (rxc (ps_world c1))"
    using cli(3,4) w by simp_all
  obtain w' where c': "c' = upd_prob (\<lambda>p. p\<lparr>pb_max_perf_mbps :=
      bytes_dbl (take 8 (rxc (ps_world c1)))\<rparr>) (c1\<lparr>ps_world := w'\<rparr>)" "txc w' = txc (ps_world c1)"
    using perf_exchange_recv_cases [OF sock c2] .
  then have "txc (ps_world c') = txc w" using w(1) by (simp add: upd_prob_def)
  then have "take 8 (rxs (ps_world s)) = dbl_bytes ?x" using connected(1) w(3) by simp
  then have x': "bytes_dbl (take 8 (rxs (ps_world s))) = ?x" using dbl_round_trip [OF x] by simp
  obtain w'' where s1': "s1 = upd_prob (\<lambda>p. p\<lparr>pb_max_perf_mbps := ?x\<rparr>) (s\<lparr>ps_world := w''\<rparr>)"
      "txs w'' = txs (ps_world s)"
    using perf_exchange_recv_cases [OF srv(3,4) s1] unfolding x' .
  have "stream_io Es (pb_accept_sock (ps_prob s1)) rxs txs" using srv(3) s1' by (simp add: upd_prob_def)
  from perf_exchange_send_stream [OF this s2] obtain w3 where s': "s' = s1\<lparr>ps_world := w3\<rparr>"
    "txs w3 = txs (ps_world s1) @ dbl_bytes (pb_max_perf_mbps (ps_prob s1))" .
  then have "take 8 (rxc (ps_world c)) = dbl_bytes ?x"
    using connected(2) s1' by (simp add: upd_prob_def)
  then have "bytes_dbl (take 8 (rxc (ps_world c1))) = ?x" using w(1,2) dbl_round_trip [OF x] by simp
  then show ?thesis using c'(1) s'(1) s1'(1) by (simp add: upd_prob_def)
qed

subsection \<open>Reading and writing\<close>

text \<open>
  C40. Where no call transfers more than it was asked for, reading and writing on the
  control channel return: reading delivers at most \<open>count\<close> bytes and returns their number
  or \<open>- 1\<close>, writing returns the length of the message or \<open>- 1\<close>.
\<close>

theorem ctrl_chan_io_returns:
  assumes "sane_io E" "0 \<le> count"
  shows "(\<exists>r bs w'. probdata_ctrl_chan_recv_Nbytes E fd count w = Some (r, bs, w') \<and>
      int (length bs) \<le> count \<and> (r = - 1 \<or> r = int (length bs))) \<and>
    (\<exists>r w'. probdata_ctrl_chan_send_Nbytes E fd buf w = Some (r, w') \<and>
      (r = - 1 \<or> r = int (length buf)))"
proof (intro conjI)
  show "\<exists>r bs w'. probdata_ctrl_chan_recv_Nbytes E fd count w = Some (r, bs, w') \<and>
      int (length bs) \<le> count \<and> (r = - 1 \<or> r = int (length bs))"
    by (rule recv_Nbytes_result [OF assms, of fd w]) blast
  show "\<exists>r w'. probdata_ctrl_chan_send_Nbytes E fd buf w = Some (r, w') \<and>
      (r = - 1 \<or> r = int (length buf))"
    by (rule send_Nbytes_result [OF assms(1), of fd buf w]) blast
qed

text \<open>
  Sending reports a short write as success: when \<open>write\<close> returns 0 the loop ends and
  the function returns the length of the message although nothing was transmitted.
\<close>

theorem send_Nbytes_short_write:
  assumes "buf \<noteq> []" "e_write E fd buf w = (0, w')"
  shows "probdata_ctrl_chan_send_Nbytes E fd buf w = Some (int (length buf), w')"
  using assms
  by (simp add: probdata_ctrl_chan_send_Nbytes_def run_loop_unfold [of "send_body E fd"] send_body_def
      Let_def)

text \<open>
  A control port of six digits or more does not fit into the array for its decimal
  form: opening the listening socket is undefined then, whatever the rest of the state.
\<close>

lemma ctrl_chan_listen_port_overflow:
  assumes "100000 \<le> pb_ctrl_port (ps_prob s)"
  shows "probdata_ctrl_chan_listen E s = None"
  using port_string_defined [of "pb_ctrl_port (ps_prob s)"] assms
  by (simp add: probdata_ctrl_chan_listen_def)

end
