(* ===== verification/Demo.thy ===== *)
theory Demo
  imports Server Exchange
begin

text \<open>
  A concrete environment, on which the hypotheses of the properties are shown to hold
  together: every call of the operating system and of the two libraries succeeds, the
  network delivers the bytes it is given, the random numbers are 0 and each measurement
  is one gigabit per second. The world is the pair of the bytes still to be read and the
  bytes written.
\<close>

type_synonym net = "string \<times> string"

definition demo_stream :: iperf_stream where
  "demo_stream = \<lparr>st_start_time = (0, 0), st_end_time = (1, 0), st_bytes_sent = 125000000,
     st_bytes_sent_omit = 0\<rparr>"

definition demo_test :: iperf_test where
  "demo_test = \<lparr>it_num_streams = 1, it_duration = 10, it_mss = 1460, it_blksize = 131072,
     it_socket_bufsize = 0, it_outfile = 1, it_streams = [demo_stream]\<rparr>"

definition demo_read :: "int \<Rightarrow> net \<Rightarrow> string option \<times> net" where
  "demo_read n w = (Some (take (nat n) (fst w)), (drop (nat n) (fst w), snd w))"

definition demo_write :: "string \<Rightarrow> net \<Rightarrow> int \<times> net" where
  "demo_write bs w = (int (length bs), (fst w, snd w @ bs))"

text \<open>\<open>contents\<close> is the text of every file that is opened.\<close>

definition demo_env :: "string \<Rightarrow> net env" where
  "demo_env contents = \<lparr>
     e_srand = (\<lambda>w. w), e_rand = (\<lambda>w. (0, w)), e_pow = (\<lambda>_ _. 1),
     e_localtime = (\<lambda>w. (\<lparr>tm_year = 119, tm_mon = 0, tm_mday = 1, tm_hour = 0, tm_min = 0, tm_sec = 0\<rparr>, w)),
     e_getpid = (\<lambda>_. 1), e_mutex_init = (\<lambda>w. (0, w)), e_popen_output = (\<lambda>_ w. (None, w)),
     e_dir_exists = (\<lambda>_ _. True), e_mkdir = (\<lambda>_ w. w), e_system = (\<lambda>_ w. (0, w)),
     e_fopen = (\<lambda>_ w. (1, w)), e_fread_all = (\<lambda>_ _. contents), e_fprintf = (\<lambda>_ _ w. w),
     e_fclose = (\<lambda>_ w. w), e_strdup = (\<lambda>_ w. (1, w)), e_stdout = 1,
     e_scan_char = (\<lambda>w. (Some CHR ''y'', w)), e_gethostname = (\<lambda>_. ''host''),
     e_getaddrinfo = (\<lambda>_ _ w. (Some 1, w)), e_socket = (\<lambda>_ w. (4, w)), e_reuseaddr = (\<lambda>_ w. (0, w)),
     e_bind = (\<lambda>_ _ w. (0, w)), e_listen = (\<lambda>_ _ w. (0, w)), e_connect = (\<lambda>_ _ w. (0, w)),
     e_accept = (\<lambda>_ w. (5, ''10.0.0.2'', w)), e_close = (\<lambda>_ w. (0, w)),
     e_read = (\<lambda>_. demo_read), e_write = (\<lambda>_. demo_write),
     e_select = (\<lambda>_ w. (1, True, w)),
     e_thread_create = (\<lambda>_ w. (0, 7, w)), e_thread_cancel = (\<lambda>_ w. (0, w)),
     e_thread_join = (\<lambda>_ w. Some (0, w)),
     e_iperf_new_test = (\<lambda>w. (1, demo_test, w)), e_iperf_defaults = (\<lambda>_ t w. (0, t, w)),
     e_iperf_test_reset = (\<lambda>_ t w. (t, w)), e_iperf_free_test = (\<lambda>_ w. w),
     e_iperf_set = (\<lambda>_ _ t w. (t, w)), e_iperf_run_client = (\<lambda>_ t w. (0, t, w)),
     e_iperf_run_server = (\<lambda>_ t w. (0, t, w)),
     e_tpg_new_profile = (\<lambda>w. (2, w)), e_tpg_delete_profile = (\<lambda>_ w. (0, w)),
     e_tpg_prof_default = (\<lambda>_ w. (0, w)), e_tpg_set_role = (\<lambda>_ _ w. w),
     e_tpg_set_hostname = (\<lambda>_ _ w. w), e_tpg_set = (\<lambda>_ _ _ w. w), e_tpg_get = (\<lambda>_ _ _. 1500),
     e_tpg_get_total_stream_num = (\<lambda>_ _. 1), e_tpg_get_total_sent_bytes = (\<lambda>_ _. 125000000),
     e_tpg_set_perf = (\<lambda>_ _ _ w. w), e_tpg_get_client_perf = (\<lambda>_ _. Fin 1000),
     e_tpg_client_run = (\<lambda>_ w. (0, w)), e_tpg_client_clean_up = (\<lambda>_ w. (0, w)),
     e_tpg_client_reset = (\<lambda>_ w. (0, w)), e_tpg_server_run = (\<lambda>_ _ _ w. (1, w)),
     e_tpg_server_clean_up = (\<lambda>_ w. (0, w)), e_tpg_server_reset = (\<lambda>_ w. (0, w))\<rparr>"

definition demo_ctrl :: fastprof_ctrl where
  "demo_ctrl = \<lparr>fc_role = F_CLIENT, fc_local_ip = ''10.0.0.2'' @ replicate 56 NUL,
     fc_remote_ip = ''10.0.0.1'' @ replicate 56 NUL, fc_tcp_port = 5020, fc_udt_port = 5005,
     fc_host_max_buf = 16024, fc_bw_bps = Fin 1000000000, fc_rtt_ms = - 1, fc_mss = 1500,
     fc_A_val = 0, fc_a_val = 1, fc_a_scale = 1, fc_c_val = 1, fc_c_scale = 1, fc_alpha = 1,
     fc_gamma = 1, fc_pgr = Fin (3 / 4), fc_impeded_limit = 30, fc_max_limit = 1, fc_duration = 10\<rparr>"

definition demo_prof :: fastprof_tcp_prof where
  "demo_prof = \<lparr>tcp_prof = 1, total_sent = 0, tp_perf_Mbps = - 1\<rparr>"

definition demo_heap :: iperf_heap where
  "demo_heap = [1 \<mapsto> demo_test]"

lemma demo_addresses [simp]:
  "terminated (fc_remote_ip demo_ctrl)" "terminated (fc_local_ip demo_ctrl)"
  "c_text (fc_remote_ip demo_ctrl) = Some (c_str (fc_remote_ip demo_ctrl))"
  "c_text (fc_local_ip demo_ctrl) = Some (c_str (fc_local_ip demo_ctrl))"
  by (simp_all add: demo_ctrl_def terminated_def c_text_def)

text \<open>The probe: reading delivers the next bytes and writing appends to those written.\<close>

lemma demo_env_io [simp]:
  "e_read (demo_env f) fd = demo_read" "e_write (demo_env f) fd = demo_write"
  by (simp_all add: demo_env_def)

lemma demo_sane: "sane_io (demo_env f)"
  by (auto simp: sane_io_def demo_read_def demo_write_def min_def le_nat_iff)

lemma demo_connected: "stream_io (demo_env f) fd fst snd"
  by (auto simp: stream_io_def demo_sane demo_read_def demo_write_def min_def)

lemma demo_recv:
  "0 < n \<Longrightarrow> n \<le> length rx \<Longrightarrow>
   probdata_ctrl_chan_recv_Nbytes (demo_env f) fd (int n) (rx, tx) =
     Some (int n, take n rx, (drop n rx, tx))"
  by (cases rx) (simp_all add: probdata_ctrl_chan_recv_Nbytes_def
      run_loop_unfold [of "recv_body (demo_env f) fd"] recv_body_def demo_read_def Let_def)

lemma demo_send:
  "probdata_ctrl_chan_send_Nbytes (demo_env f) fd bs (rx, tx) = Some (int (length bs), (rx, tx @ bs))"
  by (cases bs) (simp_all add: probdata_ctrl_chan_send_Nbytes_def
      run_loop_unfold [of "send_body (demo_env f) fd"] send_body_def demo_write_def Let_def)


text \<open>Two parties whose sockets are connected, with what the peer sends still to be read.\<close>

definition demo_prob :: "p_program_role \<Rightarrow> probdata" where
  "demo_prob role = \<lparr>
     pb_status = P_PROGRAM_START, pb_role = role, pb_listen_sock = 3, pb_accept_sock = 5,
     pb_max_sock = - 1, pb_ctrl_port = 7001, pb_tcp_port = 5020, pb_udt_port = 5005,
     pb_local_ip = replicate 64 NUL, pb_remote_ip = ''10.0.0.1'' @ replicate 56 NUL,
     pb_src_file = replicate 128 NUL, pb_dst_file = replicate 128 NUL, pb_id = replicate 32 NUL,
     pb_instance = Some (if role = P_CLIENT then ProbdataClient else ProbdataServer),
     pb_max_perf_mbps = (if role = P_CLIENT then Fin 1000 else - 1),
     pb_start_time_us = - 1, pb_end_time_us = - 1, pb_mss = 1500, pb_rtt_ms = - 1,
     pb_prof_duration = 10, pb_max_prof_limit = 60, pb_impeded_limit = 30, pb_pgr = Fin (3 / 4),
     pb_do_udt_only = (if role = P_CLIENT then 1 else - 1),
     pb_host_max_buf = (if role = P_CLIENT then 16024 else 2000000), pb_bandwidth = - 1,
     pb_spsa_A_val = Fin 0, pb_spsa_a_val = Fin 15, pb_spsa_a_scale = Fin (5 / 4),
     pb_spsa_c_val = Fin (11 / 2), pb_spsa_c_scale = 1, pb_spsa_alpha_val = 1,
     pb_spsa_gamma_val = 1, pb_udt_prof = None, pb_udt_prof_max = None, pb_tcp_prof = None,
     pb_tcp_prof_max = None, pb_control = demo_ctrl, pb_udt_worker = None, pb_tcp_worker = None,
     pb_db_file_handler = 0, pb_m2m_record_max = mem_record_zero\<rparr>"

definition demo_state :: "p_program_role \<Rightarrow> string \<Rightarrow> net pstate" where
  "demo_state role rx = \<lparr>ps_prob = demo_prob role, ps_heap = demo_heap, ps_p_errno = P_ERR_NONE,
     ps_f_errno = F_ERR_NONE, ps_world = (rx, [])\<rparr>"

lemma demo_state_simps [simp]:
  "ps_prob (demo_state role rx) = demo_prob role" "ps_world (demo_state role rx) = (rx, [])"
  "ps_heap (demo_state role rx) = demo_heap" "pb_role (demo_prob role) = role"
  "pb_accept_sock (demo_prob role) = 5" "pb_control (demo_prob role) = demo_ctrl"
  by (simp_all add: demo_state_def demo_prob_def)

lemma demo_send_bytes [simp]:
  "send_bytes (demo_env f) bs s =
     Some (int (length bs), s\<lparr>ps_world := (fst (ps_world s), snd (ps_world s) @ bs)\<rparr>)"
  using demo_send [of f "pb_accept_sock (ps_prob s)" bs "fst (ps_world s)" "snd (ps_world s)"]
  by (simp add: send_bytes_def)

lemma demo_recv_bytes:
  assumes "0 < n" "n \<le> length (fst (ps_world s))"
  shows "recv_bytes (demo_env f) (int n) s =
    Some (int n, take n (fst (ps_world s)),
      s\<lparr>ps_world := (drop n (fst (ps_world s)), snd (ps_world s))\<rparr>)"
  using demo_recv [of n "fst (ps_world s)" f "pb_accept_sock (ps_prob s)" "snd (ps_world s)"] assms
  by (simp add: recv_bytes_def)

end
