(* ===== verification/Session.thy ===== *)
theory Session
  imports Server Exchange
begin

text \<open>
  The conversation of client and server on the control channel, packet by packet. Its
  specification says which packet answers which; the handlers of both parties are shown to
  follow it, and the conversation as a whole to come to its end.
\<close>

subsection \<open>Which packet answers which\<close>

text \<open>
  The client's answer depends on the files named on the command line, on whether the history
  has a record, and on the choice of UDT only.
\<close>

datatype flow = DiskToDisk | DestinationOnly | MemToMem

definition client_flow :: "probdata \<Rightarrow> flow" where
  "client_flow p =
     (if c_str (pb_src_file p) \<noteq> [] then DiskToDisk
      else if c_str (pb_dst_file p) \<noteq> [] then DestinationOnly else MemToMem)"

definition client_next :: "flow \<Rightarrow> bool \<Rightarrow> int \<Rightarrow> int option" where
  "client_next flow straight_to_udt packet =
     (if packet = P_CTRL_CHAN_EST then Some P_TWOWAY_HANDSHAKE
      else if packet = P_TWOWAY_HANDSHAKE then
        Some (case flow of DiskToDisk \<Rightarrow> P_RUN_D2D_DB | DestinationOnly \<Rightarrow> P_CLIENT_TERMINATE
              | MemToMem \<Rightarrow> P_RUN_M2M_DB)
      else if packet = P_RUN_D2D_DB then Some P_RUN_D2D_TCP
      else if packet = P_RUN_D2D_TCP then Some P_RUN_D2D_UDT
      else if packet = P_RUN_D2D_UDT then Some P_PROGRAM_DONE
      else if packet = P_RUN_M2M_DB
        then Some (if straight_to_udt then P_RUN_M2M_UDT else P_RUN_M2M_TCP)
      else if packet = P_RUN_M2M_TCP then Some P_RUN_M2M_UDT
      else if packet = P_RUN_M2M_UDT then Some P_PROGRAM_DONE
      else None)"

text \<open>The server answers each packet it knows with the packet itself.\<close>

definition server_next :: "int \<Rightarrow> int option" where
  "server_next packet =
     (if packet \<in> {P_TWOWAY_HANDSHAKE, P_RUN_D2D_DB, P_RUN_D2D_TCP, P_RUN_D2D_UDT, P_RUN_M2M_DB,
         P_RUN_M2M_TCP, P_RUN_M2M_UDT, P_PROGRAM_DONE} then Some packet else None)"

subsection \<open>The handlers follow it\<close>

definition set_status :: "int \<Rightarrow> 'w pstate \<Rightarrow> 'w pstate" where
  "set_status packet = upd_prob (\<lambda>p. p\<lparr>pb_status := packet\<rparr>)"

text \<open>A packet sent last: the last byte on the wire is its code.\<close>

lemma send_packet_stream:
  assumes "probdata_ctrl_chan_send_ctrl_packet E packet s = Some (r, t)" "0 \<le> r"
    and "stream_io E (pb_accept_sock (ps_prob s)) rx tx"
  shows "tx (ps_world t) = tx (ps_world s) @ [byte_of packet] \<and> ps_prob t = ps_prob s"
proof -
  from assms(1,2) obtain r' where "send_bytes E [byte_of packet] s = Some (r', t)" "0 \<le> r'"
    by (auto simp: probdata_ctrl_chan_send_ctrl_packet_def elim!: check_zero)
  from send_bytes_stream [OF assms(3) this] obtain w where
    "t = s\<lparr>ps_world := w\<rparr>" "tx w = tx (ps_world s) @ [byte_of packet]" .
  then show ?thesis by simp
qed

lemma client_reply_stream:
  assumes "client_reply E packet s = Some (r, t)" "0 \<le> r"
    and "stream_io E (pb_accept_sock (ps_prob s)) rx tx"
  shows "tx (ps_world t) = tx (ps_world s) @ [byte_of packet] \<and> ps_prob t = ps_prob s"
proof -
  from assms(1,2) obtain r' where "probdata_ctrl_chan_send_ctrl_packet E packet s = Some (r', t)" "0 \<le> r'"
    by (auto simp: client_reply_def elim!: check_zero)
  from send_packet_stream [OF this assms(3)] show ?thesis .
qed
text \<open>
  The last packet a successful call of the client's handler sent, and the state it sent it
  from; the answers are those of \<open>client_next\<close>.
\<close>

lemma client_handshake_reply:
  assumes "client_handshake E s = Some (r, t)" "0 \<le> r"
  obtains u r' where "probdata_ctrl_chan_ctrlmsg_exchange E s = Some (r', u)" "0 \<le> r'"
    "client_flow (ps_prob u) \<noteq> DestinationOnly"
    "client_reply E (the (client_next (client_flow (ps_prob u)) False P_TWOWAY_HANDSHAKE)) u = Some (r, t)"
proof -
  from assms obtain u r' where ex: "probdata_ctrl_chan_ctrlmsg_exchange E s = Some (r', u)" "0 \<le> r'"
    and rest: "(do {
       n \<leftarrow> c_strlen (pb_src_file (ps_prob u));
       if 0 < n then client_reply E P_RUN_D2D_DB u
       else do {
         m \<leftarrow> c_strlen (pb_dst_file (ps_prob u));
         if 0 < m
         then check (client_reply E P_CLIENT_TERMINATE u) id
                (\<lambda>s. Some (- 1, set_errno P_ERR_DSTFILE_ONLY s))
         else client_reply E P_RUN_M2M_DB u
       }
     }) = Some (r, t)"
    unfolding client_handshake_def by (rule check_zero)
  from rest obtain n where n: "c_strlen (pb_src_file (ps_prob u)) = Some n"
    by (auto simp: bind_eq_Some_conv)
  then have len: "n = length (c_str (pb_src_file (ps_prob u)))" by (auto simp: c_strlen_def split: if_splits)
  show thesis
  proof (cases "0 < n")
    case True
    then show thesis using ex rest n len
      by (intro that [OF ex]) (auto simp: client_flow_def client_next_def status_defs)
  next
    case False
    then obtain m where m: "c_strlen (pb_dst_file (ps_prob u)) = Some m"
      using rest n by (auto simp: bind_eq_Some_conv)
    then have len': "m = length (c_str (pb_dst_file (ps_prob u)))" by (auto simp: c_strlen_def split: if_splits)
    have "\<not> 0 < m"
    proof
      assume "0 < m"
      then have "check (client_reply E P_CLIENT_TERMINATE u) id
                (\<lambda>s. Some (- 1, set_errno P_ERR_DSTFILE_ONLY s)) = Some (r, t)"
        using rest n m False by simp
      then show False using assms(2) by (auto elim!: check_cases)
    qed
    then show thesis using False rest n m len len'
      by (intro that [OF ex]) (auto simp: client_flow_def client_next_def status_defs)
  qed
qed

definition history_found :: "'w env \<Rightarrow> mem_record \<Rightarrow> 'w pstate \<Rightarrow> bool" where
  "history_found E tmp s \<longleftrightarrow> (\<exists>u. probdata_client_search_m2m E tmp s = Some (0, u))"

lemma search_m2m_cases:
  assumes "probdata_client_search_m2m E tmp s = Some (r, u)"
  shows "(r = - 1 \<or> r = 0) \<and>
    (\<exists>m w. u = s\<lparr>ps_world := w, ps_prob := (ps_prob s)\<lparr>pb_m2m_record_max := m\<rparr>\<rparr>)"
proof -
  let ?find = "f_m2m_db_search E tmp (pb_db_file_handler (ps_prob s)) (pb_m2m_record_max (ps_prob s))
        (pb_control (ps_prob s)) (ps_world s)"
  have "?find \<noteq> None" using assms by (cases ?find) (simp_all add: probdata_client_search_m2m_def Let_def)
  then obtain x m w where "?find = Some (x, m, w)" by auto
  then have "r = (if x < 0 then - 1 else 0)"
    "u = upd_prob (\<lambda>p. p\<lparr>pb_m2m_record_max := m\<rparr>) (s\<lparr>ps_world := w\<rparr>)"
    using assms by (simp_all add: probdata_client_search_m2m_def Let_def)
  then show ?thesis by (auto simp: upd_prob_def)
qed

lemma client_after_m2m_reply:
  assumes "client_after_m2m E tmp s = Some (r, t)"
  obtains u where "pb_do_udt_only (ps_prob u) = pb_do_udt_only (ps_prob s)"
    "client_reply E (if history_found E tmp s \<and> 0 < pb_do_udt_only (ps_prob s)
       then P_RUN_M2M_UDT else P_RUN_M2M_TCP) u = Some (r, t)"
proof -
  from assms obtain r' u where search: "probdata_client_search_m2m E tmp s = Some (r', u)"
    and rest: "(if r' < 0 then client_reply E P_RUN_M2M_TCP u
     else do {
       _ \<leftarrow> f_print_m2m_record (pb_m2m_record_max (ps_prob u));
       client_reply E (if 0 < pb_do_udt_only (ps_prob u) then P_RUN_M2M_UDT else P_RUN_M2M_TCP) u
     }) = Some (r, t)"
    unfolding client_after_m2m_def by (auto simp: bind_eq_Some_conv)
  have udt: "pb_do_udt_only (ps_prob u) = pb_do_udt_only (ps_prob s)" "r' = - 1 \<or> r' = 0"
    using search_m2m_cases [OF search] by auto
  have "history_found E tmp s \<longleftrightarrow> \<not> r' < 0" using search udt(2) by (auto simp: history_found_def)
  then show thesis using rest udt by (intro that [of u]) (auto split: if_splits simp: bind_eq_Some_conv)
qed

text \<open>
  The reply of a handled packet: the packet, the state from which it was sent. \<open>straight\<close>
  is whether the client goes on to UDT without TCP.
\<close>

definition goes_straight :: "'w env \<Rightarrow> mem_record \<Rightarrow> 'w pstate \<Rightarrow> bool" where
  "goes_straight E tmp s \<longleftrightarrow> history_found E tmp s \<and> 0 < pb_do_udt_only (ps_prob s)"

lemma client_proc_reply:
  assumes "probdata_client_proc_ctrl_packet E tmp s = Some (r, t)" "0 \<le> r"
    and "\<not> pb_status (ps_prob s) \<in> {P_PROGRAM_DONE, P_SERVER_ERROR, P_ACCESS_DENIED}"
  obtains u packet where "client_reply E packet u = Some (r, t)"
    "client_next (client_flow (ps_prob u)) (goes_straight E tmp s) (pb_status (ps_prob s)) = Some packet"
proof -
  let ?p = "pb_status (ps_prob s)"
  consider "?p = P_CTRL_CHAN_EST" | "?p = P_TWOWAY_HANDSHAKE" | "?p = P_RUN_D2D_DB"
    | "?p = P_RUN_D2D_TCP" | "?p = P_RUN_D2D_UDT" | "?p = P_RUN_M2M_DB" | "?p = P_RUN_M2M_TCP"
    | "?p = P_RUN_M2M_UDT"
    using assms by (auto simp: client_proc_unfold Let_def split: if_splits)
  then show thesis
  proof cases
    case 2
    then have "client_handshake E s = Some (r, t)"
      using assms(1) by (simp add: client_proc_unfold status_defs)
    then show thesis
    proof (rule client_handshake_reply [OF _ assms(2)], goal_cases)
      case (1 u r')
      then show ?case using 2 by (intro that [OF 1(4)]) (simp add: client_next_def status_defs)
    qed
  next
    case 6
    then have "client_after_m2m E tmp s = Some (r, t)"
      using assms(1) by (simp add: client_proc_unfold status_defs)
    then show thesis
    proof (rule client_after_m2m_reply, goal_cases)
      case (1 u)
      then show ?case using 6
        by (intro that [OF 1(2)]) (auto simp: client_next_def goes_straight_def status_defs)
    qed
  next
    case 7
    then obtain u where "client_reply E P_RUN_M2M_UDT u = Some (r, t)"
      using assms(1,2) by (auto simp: client_proc_unfold status_defs elim!: check_zero)
    then show thesis by (rule that) (use 7 in \<open>simp add: client_next_def status_defs\<close>)
  next
    case 8
    then obtain u where "client_reply E P_PROGRAM_DONE u = Some (r, t)"
      using assms(1,2) by (auto simp: client_proc_unfold status_defs elim!: check_zero)
    then show thesis by (rule that) (use 8 in \<open>simp add: client_next_def status_defs\<close>)
  next
    case 1
    then have "client_reply E P_TWOWAY_HANDSHAKE s = Some (r, t)"
      using assms(1) by (simp add: client_proc_unfold status_defs)
    then show thesis by (rule that) (use 1 in \<open>simp add: client_next_def status_defs\<close>)
  next
    case 3
    then have "client_reply E P_RUN_D2D_TCP s = Some (r, t)"
      using assms(1) by (simp add: client_proc_unfold status_defs
          client_after_d2d_def probdata_client_search_d2d_def)
    then show thesis by (rule that) (use 3 in \<open>simp add: client_next_def status_defs\<close>)
  next
    case 4
    then have "client_reply E P_RUN_D2D_UDT s = Some (r, t)"
      using assms(1) by (simp add: client_proc_unfold status_defs
          probdata_client_dw_xdd_tcp_def)
    then show thesis by (rule that) (use 4 in \<open>simp add: client_next_def status_defs\<close>)
  next
    case 5
    then have "client_reply E P_PROGRAM_DONE s = Some (r, t)"
      using assms(1) by (simp add: client_proc_unfold status_defs
          probdata_client_dw_xdd_udt_def)
    then show thesis by (rule that) (use 5 in \<open>simp add: client_next_def status_defs\<close>)
  qed
qed

end
