(* ===== verification/DemoRun.thy ===== *)
theory DemoRun
  imports Demo Session
begin

text \<open>
  A whole run of each profiler in the demonstration environment. The path has 1 Gb/s, so
  the goal of three quarters of it is met by the first measurement.
\<close>

subsection \<open>Exact arithmetic\<close>

lemma round64_numeral:
  "round64 1 = Fin 1" "round64 (- 1) = Fin (- 1)"
  "numeral k \<le> (9007199254740992 :: int) \<Longrightarrow> round64 (numeral k) = Fin (numeral k)"
  "numeral k \<le> (9007199254740992 :: int) \<Longrightarrow> round64 (- numeral k) = Fin (- numeral k)"
  "numeral k \<le> (9007199254740992 :: int) \<Longrightarrow> round64 (numeral k / 2) = Fin (numeral k / 2)"
  "round64 (1 / 2) = Fin (1 / 2)" "round64 (- 1 / 2) = Fin (- 1 / 2)"
  using round64_exact [of 1 0] round64_exact [of "- 1" 0] round64_exact [of "numeral k" 0]
    round64_exact [of "- numeral k" 0] round64_exact [of "numeral k" 1] round64_exact [of 1 1]
    round64_exact [of "- 1" 1] by simp_all

lemmas dbl_eval =
  zero_dbl_def one_dbl_def plus_dbl_def minus_dbl_def uminus_dbl_def times_dbl_def divide_dbl_def
  abs_dbl_def less_dbl_def less_eq_dbl_def dadd_def dsub_def dmul_def ddiv_def dle_def dzero_def
  dinf_def d_of_int_def round64_numeral Let_def

declare Fin_0_zero [simp del] Fin_1_one [simp del]

definition demo_limits :: limits where
  "demo_limits = \<lparr>l_no_imp_limit = 30, l_max_prof_limit = 1, l_perf_gain_ratio = Fin (3 / 4),
     l_BW_Gbps = Fin 1, l_buf_size_min_safeguard = 16000, l_buf_size_max_safeguard = 16024\<rparr>"

lemma demo_spsa_limits: "spsa_limits demo_ctrl = Some demo_limits" "host_buf_ok demo_ctrl"
  by (simp_all add: spsa_limits_def demo_ctrl_def demo_limits_def host_buf_ok_def F_GB_def F_BUF_MIN_def
      F_BUF_MAX_def dbl_eval)

subsection \<open>The search before its first probe\<close>

lemma demo_draw:
  "spsa_draw (demo_env f) s = s\<lparr>r_theta := (Fin 2, Fin 2)\<rparr>"
  by (simp add: spsa_draw_def demo_env_def f_rand_def c_rem_def dbl_eval)

lemma demo_checks:
  assumes "r_profile_num s = 0" "r_no_imp_counter s = 0" "r_max_perf_Gbps s = 0"
  shows "spsa_checks demo_limits s = Next (s\<lparr>r_flag := - 1\<rparr>)"
  using assms by (simp add: spsa_checks_def spsa_scale_gains_def demo_limits_def dbl_eval)

lemma demo_rtt: "f_estimate_rtt (demo_env f) (fc_remote_ip demo_ctrl) w = Some (- 1, w)"
  by (simp add: f_estimate_rtt_def demo_ctrl_def demo_env_def c_strlen_def c_str_def c_puts_def NUL_def)

lemma demo_bdp:
  assumes "r_ctrl s = demo_ctrl"
  shows "spsa_update_bdp (demo_env f) demo_limits s = Some s"
  using assms by (simp add: spsa_update_bdp_def spsa_update_rtt_def demo_rtt spsa_BDP_B_def)
    (simp add: demo_ctrl_def dbl_eval)


lemma demo_prepare:
  assumes "r_ctrl s = demo_ctrl" "r_theta s = (Fin 2, Fin 2)" "r_k s = 0" "r_a s = Fin 1" "r_c s = Fin 1"
  shows "spsa_prepare (demo_env f) demo_limits s =
    Some (Fin 1, (Fin (- 1), Fin (- 1)),
      \<lparr>p_theta_plus = (Fin 1, Fin 1), p_theta_minus = (Fin 3, Fin 3),
       p_ck_adjust_plus = (Fin 1, Fin 1), p_ck_adjust_minus = (Fin 1, Fin 1)\<rparr>, s\<lparr>r_k := 1\<rparr>)"
proof -
  have d: "f_perturb (demo_env f) w = (Fin (- 1), w)" for w
    by (simp add: f_perturb_def demo_env_def RAND_MAX_def dbl_eval)
  have p: "e_pow (demo_env f) x y = Fin 1" for x y by (simp add: demo_env_def one_dbl_def)
  have c: "spsa_clip (Fin 2) = Fin 2"
    by (simp add: spsa_clip_def F_ITERATIVE_MAX_def F_ITERATIVE_MIN_def dbl_eval)
  have g: "spsa_gains (demo_env f) (s\<lparr>r_theta := (Fin 2, Fin 2)\<rparr>) = Some (Fin 1, Fin 1, s\<lparr>r_theta := (Fin 2, Fin 2), r_k := 1\<rparr>)"
    using assms by (simp add: spsa_gains_def p c_int_def dbl_eval)
  have a: "spsa_adjust (Fin 1) (Fin 2) (Fin 1) = (Fin 1, Fin 1)" "spsa_adjust (Fin 1) (Fin 2) (Fin 3) = (Fin 1, Fin 3)"
    by (simp_all add: spsa_adjust_def F_ITERATIVE_MAX_def F_ITERATIVE_MIN_def dbl_eval)
  have e: "Fin 2 + Fin 1 * Fin (- 1) = Fin 1" "Fin 2 - Fin 1 * Fin (- 1) = Fin 3"
    by (simp_all add: dbl_eval)
  have P: "spsa_points (Fin 1) (Fin 2, Fin 2) (Fin (- 1), Fin (- 1)) =
     \<lparr>p_theta_plus = (Fin 1, Fin 1), p_theta_minus = (Fin 3, Fin 3),
       p_ck_adjust_plus = (Fin 1, Fin 1), p_ck_adjust_minus = (Fin 1, Fin 1)\<rparr>"
    by (simp add: spsa_points_def e a)
  have "s\<lparr>r_theta := (Fin 2, Fin 2)\<rparr> = s" using assms(2) by (cases s) simp
  then show ?thesis using assms(1,2) g
    by (simp add: spsa_prepare_def demo_bdp c spsa_delta_def d P)
qed

lemma demo_declare [simp]:
  fixes e w
  defines "d \<equiv> spsa_declare demo_ctrl e w"
  shows "r_ctrl d = demo_ctrl" "r_profile_num d = 0" "r_no_imp_counter d = 0" "r_max_perf_Gbps d = 0"
    "r_a d = Fin 1" "r_c d = Fin 1" "r_k d = 0" "r_world d = w"
    "r_buf_size_min d = 16000" "r_buf_size_max d = 16024"
  unfolding d_def spsa_declare_def F_BUF_MIN_def F_BUF_MAX_def F_GB_def
  by (simp_all add: demo_ctrl_def one_dbl_def)

subsection \<open>A run of the TCP profiler\<close>

lemma demo_reset:
  "h (tcp_prof p) = Some it \<Longrightarrow>
   f_tcp_prof_reset (demo_env f) p demo_ctrl (h, w) e =
     Some (0, h(tcp_prof p \<mapsto> it\<lparr>it_mss := 1460, it_outfile := 1\<rparr>), w, e)"
proof -
  have "fc_mss demo_ctrl = 1500" by (simp add: demo_ctrl_def)
  then show "h (tcp_prof p) = Some it \<Longrightarrow> ?thesis"
    by (simp add: c_int_def f_tcp_prof_reset_def f_tcp_prof_init_def iperf_set_def iperf_member_def demo_env_def)
qed

lemma demo_perf:
  "f_get_perf_from_iperf p (h(tcp_prof p \<mapsto> it)) e = Some (Fin 1000, p\<lparr>total_sent := 125000000\<rparr>, e)"
  if "it_streams it = [demo_stream]"
proof -
  have t: "f_timeval_diff (0, 0) (1, 0) = Fin 1" by (simp add: f_timeval_diff_def dbl_eval)
  have b: "bytes_total [demo_stream] = 125000000" by (simp add: bytes_total_def demo_stream_def)
  have p: "Fin 8 * d_of_int 125000000 / ((Fin 1 - 0) * Fin 1000 * Fin 1000) = Fin 1000"
    by (simp add: dbl_eval)
  show ?thesis using that t b p by (simp add: f_get_perf_from_iperf_def Let_def)
     (simp add: demo_stream_def)
qed


lemma demo_tm: "tm_text \<lparr>tm_year = 119, tm_mon = 0, tm_mday = 1, tm_hour = 0, tm_min = 0, tm_sec = 0\<rparr> =
  ''01:01:2019:00:00:00''"
  by (simp add: tm_text_def show_0d_def show_int_def pad0_def show_nat.simps digit_char_def char_of_def bit_0)

lemma demo_strlen: "c_strlen (''10.0.0.1'' @ replicate 56 NUL) = Some 8" "c_strlen (''10.0.0.2'' @ replicate 56 NUL) = Some 8"
  "c_str (''10.0.0.1'' @ replicate 56 NUL) = ''10.0.0.1''" "c_str (''10.0.0.2'' @ replicate 56 NUL) = ''10.0.0.2''"
  by (simp_all add: c_strlen_def c_str_def NUL_def)

lemma replicate_update: "(replicate n x)[i := x] = replicate n x"
  by (metis length_replicate list_update_beyond list_update_id not_less nth_replicate)

lemma demo_compose:
  assumes "h (tcp_prof p) = Some it"
  shows "\<exists>r line. f_tcp_m2m_record_compose (demo_env f) p demo_ctrl h w = Some (0, r, w) \<and> mem_record_text r = Some line"
  using assms
  by (simp add: f_tcp_m2m_record_compose_def demo_strlen demo_env_def demo_tm)
     (simp add: demo_ctrl_def demo_strlen c_memcpy_def mem_record_zero_def c_store_def c_puts_def
      c_copy_str_eq c_lit_def mem_record_text_def c_strlen_def c_str_def NUL_def terminated_def replicate_update)


lemma demo_record:
  assumes "r_ctrl s = demo_ctrl" "r_heap s (tcp_prof (r_prof s)) = Some it"
  shows "f_tcp_record (demo_env f) s = Some (0, s)"
proof -
  obtain r line where r: "f_tcp_m2m_record_compose (demo_env f) (r_prof s) demo_ctrl (r_heap s) (r_world s) =
      Some (0, r, r_world s)" "mem_record_text r = Some line"
    using demo_compose [where h = "r_heap s" and p = "r_prof s", OF assms(2)] by blast
  have "m2m_filename demo_ctrl \<noteq> None"
    by (simp add: m2m_filename_def demo_ctrl_def c_strlen_def c_str_def NUL_def F_DEFAULT_M2M_FOLDER_def c_puts_def)
  then have "f_tcp_m2m_record_add (demo_env f) r demo_ctrl (r_world s) = Some (0, r_world s)"
    using r(2) by (auto simp: f_tcp_m2m_record_add_def demo_env_def)
  then show ?thesis using r(1) assms(1) by (simp add: f_tcp_record_def)
qed

definition demo_it :: "iperf_test \<Rightarrow> iperf_test" where
  "demo_it it = it\<lparr>it_mss := 1460, it_outfile := 1, it_socket_bufsize := 8000, it_num_streams := 1\<rparr>"

definition demo_after :: "iperf_test \<Rightarrow> char \<Rightarrow> net tcp_run \<Rightarrow> net tcp_run" where
  "demo_after it m s = s\<lparr>r_heap := (r_heap s)(tcp_prof (r_prof s) \<mapsto> demo_it it),
     r_prof := (r_prof s)\<lparr>total_sent := 125000000, tp_perf_Mbps := Fin 1000\<rparr>,
     r_profile_num := 1,
     r_visited_list := r_visited_list s @ [f_tcp_visited (Fin 16000, Fin 1) m (Fin 1)]\<rparr>"

lemma demo_floor: "\<lfloor>16001 / 2 :: rat\<rfloor> = 8000" "\<lfloor>3 / 2 :: rat\<rfloor> = 1" "\<lfloor>32001 / 2 :: rat\<rfloor> = 16000"
  "\<lfloor>2913 / 2 :: rat\<rfloor> = 1456"
  by (simp_all add: floor_eq_iff)

lemma demo_tcp_probe_eq:
  assumes "r_ctrl s = demo_ctrl" "r_heap s (tcp_prof (r_prof s)) = Some it" "it_streams it = [demo_stream]"
    "r_buf_size_min s = 16000" "r_buf_size_max s = 16024" "r_profile_num s = 0"
  shows "f_tcp_probe (demo_env f) demo_limits b m (Fin 1, Fin 1) s =
    do { c \<leftarrow> spsa_keep_best f_tcp_save demo_limits (Fin 1) (Fin 1, Fin 1) (demo_after it m s);
         Some (Fin 1, c) }"
proof -
  have v: "f_tcp_settings s (Fin 1, Fin 1) = (Fin 16000, Fin 1)"
    using assms(4,5) by (simp add: f_tcp_settings_def spsa_theta_to_val_def F_ITERATIVE_MAX_def
      F_ITERATIVE_MIN_def F_STREAM_NUM_MIN_def F_STREAM_NUM_MAX_def dbl_eval)
  have r: "d_to_int (f_round (Fin 16000 * 1 * Fin (1 / 2))) = Some 8000" "d_to_int (f_round (Fin 1 * 1)) = Some 1"
    by (simp_all add: f_round_def d_to_int_def dbl_eval demo_floor c_int_def)
  have run: "e_iperf_run_client (demo_env f) a t w = (0, t, w)" for a t w by (simp add: demo_env_def)
  let ?s = "s\<lparr>r_heap := (r_heap s)(tcp_prof (r_prof s) \<mapsto> demo_it it),
    r_prof := (r_prof s)\<lparr>total_sent := 125000000, tp_perf_Mbps := Fin 1000\<rparr>\<rparr>"
  have m: "f_tcp_measure (demo_env f) b (Fin 16000, Fin 1) s = Some (0, ?s)"
    using assms(1,2,3) r by (simp add: f_tcp_measure_def demo_reset run demo_perf demo_it_def)
  have rec: "f_tcp_record (demo_env f) ?s = Some (0, ?s)"
    using assms(1) by (intro demo_record) auto
  have y: "Fin 1000 / Fin 1000 = Fin 1" by (simp add: dbl_eval)
  show ?thesis using assms(6)
    by (simp add: f_tcp_probe_def v m rec y c_int_def Let_def demo_after_def)
qed

lemma demo_goal: "Fin 1 / l_BW_Gbps demo_limits \<ge> l_perf_gain_ratio demo_limits" "Fin 1 > 0"
  by (simp_all add: demo_limits_def dbl_eval)

lemma demo_tcp_probe:
  assumes "r_ctrl s = demo_ctrl" "r_heap s (tcp_prof (r_prof s)) = Some it" "it_streams it = [demo_stream]"
    "r_buf_size_min s = 16000" "r_buf_size_max s = 16024" "r_profile_num s = 0" "r_max_perf_Gbps s = 0"
  shows "\<exists>t. f_tcp_probe (demo_env f) demo_limits b m (Fin 1, Fin 1) s = Some (Fin 1, Break t) \<and>
    r_heap t = (r_heap s)(tcp_prof (r_prof s) \<mapsto> demo_it it) \<and> r_flag t = 3 \<and> r_profile_num t = 1 \<and>
    r_max_perf_Gbps t = Fin 1 \<and> r_ctrl t = demo_ctrl \<and> tcp_prof (r_prof t) = tcp_prof (r_prof s) \<and>
    r_prof_max t = Some (r_prof t)"
  using assms demo_goal
  by (simp add: demo_tcp_probe_eq demo_after_def spsa_keep_best_def f_tcp_save_def Let_def)

lemma demo_tcp_probe_worse:
  assumes "r_ctrl s = demo_ctrl" "r_heap s (tcp_prof (r_prof s)) = Some it" "it_streams it = [demo_stream]"
    "r_buf_size_min s = 16000" "r_buf_size_max s = 16024" "r_profile_num s = 0"
    "\<not> Fin 1 > r_max_perf_Gbps s" "r_no_imp_counter s = 0"
  shows "\<exists>t. f_tcp_probe (demo_env f) demo_limits b m (Fin 1, Fin 1) s = Some (Fin 1, Next t)"
  using assms by (simp add: demo_tcp_probe_eq demo_after_def spsa_keep_best_def c_int_def)

lemma demo_write_list [simp]: "spsa_write_list (demo_env f) name head ls w = w"
proof -
  have "fold (e_fprintf (demo_env f) a) ls w = w" for a
    by (induction ls) (simp_all add: demo_env_def)
  then show ?thesis by (simp add: spsa_write_list_def demo_env_def)
qed

text \<open>What the end of both runs computes.\<close>

lemma demo_finish:
  "f_get_currtime_str (demo_env f) (replicate 32 NUL) w =
     Some (0, ''01:01:2019:00:00:00'' @ NUL # replicate 12 NUL, w)"
  "l_no_imp_limit demo_limits = 30" "l_max_prof_limit demo_limits = 1"
  "d_to_int (l_perf_gain_ratio demo_limits * Fin 100) = Some 75"
  "\<not> fc_rtt_ms demo_ctrl > 0"
  by (simp_all add: f_get_currtime_str_def demo_env_def demo_tm c_puts_def)
     (simp_all add: demo_limits_def demo_ctrl_def d_to_int_def dbl_eval c_int_def)

lemma demo_prof_name:
  "\<exists>name. spsa_get_prof_name (demo_env f) ''./tcp_profile'' 30 1 75 ''disabled'' w = Some (name, w)"
  "\<exists>name. spsa_get_prof_name (demo_env f) ''./udt_profile'' 30 1 75 ''disabled'' w = Some (name, w)"
  by (simp_all add: spsa_get_prof_name_def demo_env_def show_0d_def show_int_def pad0_def show_nat.simps
      c_puts_def)

lemma demo_tcp_run:
  "\<exists>s rep. f_tcp_client_run (demo_env f) demo_prof None demo_ctrl (demo_heap, ([], [])) F_ERR_NONE =
     Some (0, s, Some rep) \<and> r_max_perf_Gbps s = Fin 1 \<and> tr_flag rep = 3 \<and> r_profile_num s = 1"
proof -
  let ?E = "demo_env f" and ?L = demo_limits
  let ?s0 = "f_tcp_start (spsa_declare demo_ctrl F_ERR_NONE ([], [])) demo_heap demo_prof None"
  let ?s1 = "?s0\<lparr>r_theta := (Fin 2, Fin 2)\<rparr>"
  let ?s2 = "?s1\<lparr>r_flag := - 1, r_k := 1\<rparr>"
  have s0: "r_ctrl ?s0 = demo_ctrl" "r_a ?s0 = Fin 1" "r_c ?s0 = Fin 1" "r_k ?s0 = 0"
    "r_buf_size_min ?s0 = 16000" "r_buf_size_max ?s0 = 16024"
    by (simp_all add: f_tcp_start_def search.defs tcp_run.defs)
  have opened: "f_open_log ?E ?s0 = (0, ?s0)" by (simp add: f_open_log_def demo_env_def)
  have chk: "spsa_checks ?L ?s1 = Next (?s1\<lparr>r_flag := - 1\<rparr>)"
    by (rule demo_checks) (simp_all add: s0)
  have prep: "spsa_prepare ?E ?L (?s1\<lparr>r_flag := - 1\<rparr>) = Some (Fin 1, (Fin (- 1), Fin (- 1)),
      \<lparr>p_theta_plus = (Fin 1, Fin 1), p_theta_minus = (Fin 3, Fin 3),
       p_ck_adjust_plus = (Fin 1, Fin 1), p_ck_adjust_minus = (Fin 1, Fin 1)\<rparr>, ?s2)"
    by (subst demo_prepare) (simp_all add: s0)
  have "r_heap ?s2 (tcp_prof (r_prof ?s2)) = Some demo_test" "it_streams demo_test = [demo_stream]"
    by (simp_all add: demo_heap_def demo_prof_def demo_test_def)
  moreover have tp: "tcp_prof demo_prof = 1" by (simp add: demo_prof_def)
  ultimately have hp: "r_heap ?s2 (tcp_prof (r_prof ?s2)) = Some demo_test" "it_streams demo_test = [demo_stream]"
    by blast+
  from demo_tcp_probe [OF _ hp, of f False "CHR ''+''"]
  obtain t where t: "f_tcp_probe ?E ?L False (CHR ''+'') (Fin 1, Fin 1) ?s2 = Some (Fin 1, Break t)"
    "r_heap t 1 \<noteq> None" "r_flag t = 3" "r_profile_num t = 1" "r_max_perf_Gbps t = Fin 1"
    "r_prof_max t = Some (r_prof t)" "tcp_prof (r_prof t) = 1" "r_ctrl t = demo_ctrl"
    by (auto simp: s0 tp)
  have iter: "spsa_iter (f_tcp_probe ?E ?L) ?E ?L ?s1 = Some (Break t)"
    by (simp add: spsa_iter_def chk prep spsa_plus_def t(1))
  have loop: "run_loop (spsa_iter (f_tcp_probe ?E ?L) ?E ?L) ?s1 = Some (Break t)"
    by (subst run_loop_unfold) (simp add: iter)
  have "\<exists>rep. f_tcp_report t = Some rep \<and> tr_flag rep = 3"
    using t by (auto simp: f_tcp_report_def)
  then obtain rep where rep: "f_tcp_report t = Some rep" "tr_flag rep = 3" by blast
  obtain name where "spsa_get_prof_name ?E ''./tcp_profile'' 30 1 75 ''disabled'' (r_world t) = Some (name, r_world t)"
    using demo_prof_name by blast
  then have fin: "f_tcp_finish ?E ?L t = Some (0, t, Some rep)"
    by (simp add: f_tcp_finish_def demo_finish rep t(8) Let_def)
  show ?thesis
    by (simp add: f_tcp_client_run_def opened demo_spsa_limits demo_draw loop fin t rep)
qed


subsection \<open>A run of the UDT profiler\<close>

definition demo_udt_prof :: fastprof_udt_prof where
  "demo_udt_prof = \<lparr>udt_prof = 2, up_perf_Mbps = None\<rparr>"

lemma demo_udt_compose:
  "\<exists>r line. f_udt_m2m_record_compose (demo_env f) p demo_ctrl w = Some (0, r, w) \<and>
     mem_record_text r = Some line"
  by (simp add: f_udt_m2m_record_compose_def demo_env_def demo_tm)
     (simp add: demo_ctrl_def demo_strlen c_memcpy_def mem_record_zero_def c_store_def c_puts_def
      c_copy_str_eq c_lit_def mem_record_text_def c_strlen_def c_str_def NUL_def terminated_def
      replicate_update)

lemma demo_udt_record:
  assumes "r_ctrl s = demo_ctrl"
  shows "f_udt_record (demo_env f) s = Some (0, s)"
proof -
  obtain r line where r: "f_udt_m2m_record_compose (demo_env f) (u_prof s) demo_ctrl (r_world s) =
      Some (0, r, r_world s)" "mem_record_text r = Some line"
    using demo_udt_compose [where p = "u_prof s"] by blast
  have "m2m_filename demo_ctrl \<noteq> None"
    by (simp add: m2m_filename_def demo_ctrl_def c_strlen_def c_str_def NUL_def F_DEFAULT_M2M_FOLDER_def
        c_puts_def)
  then have "f_udt_m2m_record_add (demo_env f) r demo_ctrl (r_world s) = Some (0, r_world s)"
    using r(2) by (auto simp: f_udt_m2m_record_add_def demo_env_def)
  then show ?thesis using r(1) assms(1) by (simp add: f_udt_record_def)
qed

lemma demo_udt_probe:
  assumes "r_ctrl s = demo_ctrl" "r_buf_size_min s = 16000" "r_buf_size_max s = 16024"
    "r_profile_num s = 0" "r_max_perf_Gbps s = 0" "u_block_unit s = 1456"
  shows "\<exists>t. f_udt_probe (demo_env f) demo_limits b m (Fin 1, Fin 1) s = Some (Fin 1, Break t) \<and>
    r_flag t = 3 \<and> r_profile_num t = 1 \<and> r_max_perf_Gbps t = Fin 1 \<and> r_ctrl t = demo_ctrl \<and>
    up_perf_Mbps (u_prof t) = Some (Fin 1000) \<and> u_prof_max t = Some (u_prof t)"
proof -
  have v: "f_udt_settings s (Fin 1, Fin 1) = (Fin 1, Fin 16000)"
    using assms(2,3) by (simp add: f_udt_settings_def spsa_theta_to_val_def F_ITERATIVE_MAX_def
      F_ITERATIVE_MIN_def F_BLK_MIN_def F_BLK_MAX_def dbl_eval)
  have r: "d_to_int (f_round (Fin 1 * d_of_int 1456)) = Some 1456"
    "d_to_int (f_round (Fin 16000 * 1)) = Some 16000"
    "d_to_int (f_round (Fin 16000 * 1 * Fin (1 / 2))) = Some 8000"
    by (simp_all add: f_round_def d_to_int_def dbl_eval demo_floor c_int_def)
  have ap: "f_udt_apply (demo_env f) p 1456 (Fin 1, Fin 16000) w = Some w" for p w
    using r by (simp add: f_udt_apply_def) (simp add: demo_env_def)
  let ?s = "s\<lparr>u_prof := (u_prof s)\<lparr>up_perf_Mbps := Some (Fin 1000)\<rparr>\<rparr>"
  have m: "f_udt_measure (demo_env f) b (Fin 1, Fin 16000) s = Some (0, ?s)"
    using assms(6) by (simp add: f_udt_measure_def ap) (simp add: demo_env_def)
  have rec: "f_udt_record (demo_env f) ?s = Some (0, ?s)"
    using assms(1) by (intro demo_udt_record) auto
  have y: "Fin 1000 / Fin 1000 = Fin 1" by (simp add: dbl_eval)
  show ?thesis using assms demo_goal
    by (simp add: f_udt_probe_def v m rec y c_int_def Let_def spsa_keep_best_def f_udt_save_def)
qed

lemma demo_udt_run:
  "\<exists>s rep. f_udt_client_run (demo_env f) demo_udt_prof None demo_ctrl ([], []) F_ERR_NONE =
     Some (0, s, Some rep) \<and> r_max_perf_Gbps s = Fin 1 \<and> ur_flag rep = 3 \<and> r_profile_num s = 1"
proof -
  let ?E = "demo_env f" and ?L = demo_limits
  let ?s0 = "f_udt_start (spsa_declare demo_ctrl F_ERR_NONE ([], [])) 1456 demo_udt_prof None"
  let ?s1 = "?s0\<lparr>r_theta := (Fin 2, Fin 2)\<rparr>"
  let ?s2 = "?s1\<lparr>r_flag := - 1, r_k := 1\<rparr>"
  have s0: "r_ctrl ?s0 = demo_ctrl" "r_a ?s0 = Fin 1" "r_c ?s0 = Fin 1" "r_k ?s0 = 0"
    "r_buf_size_min ?s0 = 16000" "r_buf_size_max ?s0 = 16024" "u_block_unit ?s0 = 1456"
    by (simp_all add: f_udt_start_def search.defs udt_run.defs)
  have opened: "f_open_log ?E ?s0 = (0, ?s0)" by (simp add: f_open_log_def demo_env_def)
  have chk: "spsa_checks ?L ?s1 = Next (?s1\<lparr>r_flag := - 1\<rparr>)"
    by (rule demo_checks) (simp_all add: s0)
  have prep: "spsa_prepare ?E ?L (?s1\<lparr>r_flag := - 1\<rparr>) = Some (Fin 1, (Fin (- 1), Fin (- 1)),
      \<lparr>p_theta_plus = (Fin 1, Fin 1), p_theta_minus = (Fin 3, Fin 3),
       p_ck_adjust_plus = (Fin 1, Fin 1), p_ck_adjust_minus = (Fin 1, Fin 1)\<rparr>, ?s2)"
    by (subst demo_prepare) (simp_all add: s0)
  from demo_udt_probe [of ?s2 f False "CHR ''+''"]
  obtain t where t: "f_udt_probe ?E ?L False (CHR ''+'') (Fin 1, Fin 1) ?s2 = Some (Fin 1, Break t)"
    "r_flag t = 3" "r_profile_num t = 1" "r_max_perf_Gbps t = Fin 1"
    "u_prof_max t = Some (u_prof t)" "r_ctrl t = demo_ctrl" "up_perf_Mbps (u_prof t) = Some (Fin 1000)"
    by (auto simp: s0)
  have "spsa_iter (f_udt_probe ?E ?L) ?E ?L ?s1 = Some (Break t)"
    by (simp add: spsa_iter_def chk prep spsa_plus_def t(1))
  then have loop: "run_loop (spsa_iter (f_udt_probe ?E ?L) ?E ?L) ?s1 = Some (Break t)"
    by (subst run_loop_unfold) simp
  have "\<exists>rep. f_udt_report ?E t w = Some rep \<and> ur_flag rep = 3" for w
    using t by (simp add: f_udt_report_def) (simp add: demo_env_def c_int_def)
  then obtain rep where rep: "f_udt_report ?E t (r_world t) = Some rep" "ur_flag rep = 3" by blast
  obtain name where "spsa_get_prof_name ?E ''./udt_profile'' 30 1 75 ''disabled'' (r_world t) = Some (name, r_world t)"
    using demo_prof_name by blast
  then have fin: "f_udt_finish ?E ?L t = Some (0, t, Some rep)"
    by (simp add: f_udt_finish_def demo_finish rep t(6) Let_def)
  have "fc_mss demo_ctrl = 1500" by (simp add: demo_ctrl_def)
  then show ?thesis
    by (simp add: f_udt_client_run_def f_udt_search_def opened demo_spsa_limits demo_draw loop fin t rep c_int_def)
qed

end
