(* ===== verification/Witnesses.thy ===== *)
theory Witnesses
  imports DemoRun
begin

text \<open>
  Each property that has hypotheses is applied here at a concrete input where they hold:
  the environment of \<open>Demo\<close>, or a small value given on the spot.
\<close>

subsection \<open>The control channel\<close>

theorem ctrl_chan_io_returns_witness:
  "(\<exists>r bs w'. probdata_ctrl_chan_recv_Nbytes (demo_env []) 5 8 (''abc'', []) = Some (r, bs, w') \<and>
      int (length bs) \<le> 8 \<and> (r = - 1 \<or> r = int (length bs))) \<and>
    (\<exists>r w'. probdata_ctrl_chan_send_Nbytes (demo_env []) 5 ''packet'' (''abc'', []) = Some (r, w') \<and>
      (r = - 1 \<or> r = int (length ''packet'')))"
  by (rule ctrl_chan_io_returns [OF demo_sane]) simp

theorem send_Nbytes_short_write_witness:
  "probdata_ctrl_chan_send_Nbytes ((demo_env [])\<lparr>e_write := \<lambda>_ _ w. (0, w)\<rparr>) 5 ''packet'' ([], []) =
    Some (int (length ''packet''), ([], []))"
  by (rule send_Nbytes_short_write) simp_all

definition demo_params :: string where
  "demo_params = ctrlmsg_bytes \<lparr>cm_do_udt_only = 1, cm_host_max_buf = 16024\<rparr>"

lemma demo_params_simps [simp]:
  "length demo_params = 8"
  "bytes_ctrlmsg demo_params = \<lparr>cm_do_udt_only = 1, cm_host_max_buf = 16024\<rparr>"
  by (simp_all add: demo_params_def bytes_ctrlmsg_bytes)

lemma demo_exchange_cli:
  "\<exists>c'. probdata_ctrl_chan_ctrlmsg_exchange_cli (demo_env []) (demo_state P_CLIENT demo_params) =
     Some (0, c') \<and> snd (ps_world c') = demo_params"
  using demo_recv_bytes [of 8 _ "[]"]
  by (simp add: probdata_ctrl_chan_ctrlmsg_exchange_cli_def Let_def upd_prob_def demo_prob_def
      demo_ctrl_def demo_params_def)

lemma demo_exchange_srv:
  "\<exists>s'. probdata_ctrl_chan_ctrlmsg_exchange_srv (demo_env []) (demo_state P_SERVER demo_params) =
     Some (0, s') \<and> snd (ps_world s') = demo_params"
  using demo_recv_bytes [of 8 _ "[]"]
  by (simp add: probdata_ctrl_chan_ctrlmsg_exchange_srv_def Let_def upd_prob_def demo_prob_def
      merge_max_buf_def) (simp add: demo_params_def)

theorem ctrlmsg_exchange_agree_witness:
  "\<exists>c' s'.
     probdata_ctrl_chan_ctrlmsg_exchange_cli (demo_env []) (demo_state P_CLIENT demo_params) = Some (0, c') \<and>
     probdata_ctrl_chan_ctrlmsg_exchange_srv (demo_env []) (demo_state P_SERVER demo_params) = Some (0, s') \<and>
     pb_host_max_buf (ps_prob c') = min (pb_host_max_buf (demo_prob P_CLIENT)) (pb_host_max_buf (demo_prob P_SERVER)) \<and>
     pb_host_max_buf (ps_prob s') = pb_host_max_buf (ps_prob c') \<and>
     fc_host_max_buf (pb_control (ps_prob c')) = pb_host_max_buf (ps_prob c') \<and>
     fc_host_max_buf (pb_control (ps_prob s')) = pb_host_max_buf (ps_prob c') \<and>
     pb_do_udt_only (ps_prob s') = pb_do_udt_only (demo_prob P_CLIENT)"
proof -
  obtain c' where c: "probdata_ctrl_chan_ctrlmsg_exchange_cli (demo_env []) (demo_state P_CLIENT demo_params) =
      Some (0, c')" "snd (ps_world c') = demo_params" using demo_exchange_cli by blast
  obtain s' where s: "probdata_ctrl_chan_ctrlmsg_exchange_srv (demo_env []) (demo_state P_SERVER demo_params) =
      Some (0, s')" "snd (ps_world s') = demo_params" using demo_exchange_srv by blast
  have "fc_host_max_buf demo_ctrl = pb_host_max_buf (demo_prob P_CLIENT)"
    "in_int (pb_do_udt_only (demo_prob P_CLIENT))" "in_int (pb_host_max_buf (demo_prob P_CLIENT))"
    "in_int (pb_host_max_buf (demo_prob P_SERVER))"
    by (simp_all add: demo_ctrl_def demo_prob_def)
  with ctrlmsg_exchange_agree [OF c(1) demo_connected _ s(1) demo_connected] c(2) s(2)
  show ?thesis using c(1) s(1) by simp
qed

definition demo_perf :: string where
  "demo_perf = dbl_bytes (Fin 1000)"

lemma demo_perf_simps [simp]: "length demo_perf = 8" "bytes_dbl demo_perf = Fin 1000"
    "is_double (Fin 1000)" "overlay demo_perf (dbl_bytes x) = demo_perf"
proof -
  have r: "rnd 1000 = 1000" using rnd_of_int [of 1000] by simp
  then show i: "is_double (Fin 1000)" by (simp add: is_double_def)
  show "length demo_perf = 8" "bytes_dbl demo_perf = Fin 1000"
    "overlay demo_perf (dbl_bytes x) = demo_perf"
    using dbl_round_trip [OF i] by (simp_all add: demo_perf_def dbl_bytes_def overlay_def)
qed

lemma demo_perf_exchange:
  assumes "role = P_CLIENT \<or> role = P_SERVER"
  shows "\<exists>c'. probdata_ctrl_chan_perf_exchange (demo_env []) (demo_state role demo_perf) =
     Some (0, c') \<and> snd (ps_world c') = demo_perf"
  using assms demo_recv_bytes [of 8 _ "[]"]
  by (auto simp: probdata_ctrl_chan_perf_exchange_def probdata_ctrl_chan_perf_exchange_send_def
      probdata_ctrl_chan_perf_exchange_recv_def Let_def upd_prob_def demo_prob_def demo_perf_def [symmetric])

theorem perf_exchange_result_witness:
  "\<exists>c' s'.
     probdata_ctrl_chan_perf_exchange (demo_env []) (demo_state P_CLIENT demo_perf) = Some (0, c') \<and>
     probdata_ctrl_chan_perf_exchange (demo_env []) (demo_state P_SERVER demo_perf) = Some (0, s') \<and>
     pb_max_perf_mbps (ps_prob c') = pb_max_perf_mbps (demo_prob P_CLIENT) \<and>
     pb_max_perf_mbps (ps_prob s') = pb_max_perf_mbps (demo_prob P_CLIENT)"
proof -
  obtain c' where c: "probdata_ctrl_chan_perf_exchange (demo_env []) (demo_state P_CLIENT demo_perf) =
      Some (0, c')" "snd (ps_world c') = demo_perf" using demo_perf_exchange by blast
  obtain s' where s: "probdata_ctrl_chan_perf_exchange (demo_env []) (demo_state P_SERVER demo_perf) =
      Some (0, s')" "snd (ps_world s') = demo_perf" using demo_perf_exchange by blast
  have "pb_max_perf_mbps (demo_prob P_CLIENT) = Fin 1000" by (simp add: demo_prob_def)
  with perf_exchange_result [OF c(1) _ demo_connected _ s(1) _ demo_connected] c(2) s(2)
  show ?thesis using c(1) s(1) by simp
qed


subsection \<open>The profilers\<close>

theorem f_tcp_client_run_bounds_witness:
  "\<exists>s rep. f_tcp_client_run (demo_env []) demo_prof None demo_ctrl (demo_heap, ([], [])) F_ERR_NONE =
      Some (0, s, Some rep) \<and> r_profile_num s = int (length (r_visited_list s)) \<and> r_profile_num s \<le> 3 \<and>
    tr_profile_num rep = 1"
proof -
  obtain s rep where run: "f_tcp_client_run (demo_env []) demo_prof None demo_ctrl
      (demo_heap, ([], [])) F_ERR_NONE = Some (0, s, Some rep)" "r_profile_num s = 1"
    using demo_tcp_run by blast
  from f_tcp_client_run_bounds [OF run(1) demo_spsa_limits] show ?thesis
    using run by (auto simp: demo_finish)
qed

theorem f_tcp_client_run_best_witness:
  "\<exists>s rep. f_tcp_client_run (demo_env []) demo_prof None demo_ctrl (demo_heap, ([], [])) F_ERR_NONE =
      Some (0, s, Some rep) \<and> in_box (r_max_theta s) \<and> Fin 1 = tr_perf_Mbps rep / Fin 1000 \<and>
    (\<exists>v \<in> set (r_visited_list s). tt_perf_Mbps v = Fin 1 * Fin 1000)"
proof -
  obtain s rep where run: "f_tcp_client_run (demo_env []) demo_prof None demo_ctrl
      (demo_heap, ([], [])) F_ERR_NONE = Some (0, s, Some rep)" "r_max_perf_Gbps s = Fin 1"
    using demo_tcp_run by blast
  have "0 < r_max_perf_Gbps s" using run(2) demo_goal(2) by simp
  from f_tcp_client_run_best [OF run(1) demo_spsa_limits, THEN conjunct2, THEN mp, OF this]
  show ?thesis unfolding run(2) using run(1) by blast
qed

theorem f_tcp_client_run_ranges_witness:
  "\<exists>s rep. f_tcp_client_run (demo_env []) demo_prof None demo_ctrl (demo_heap, ([], [])) F_ERR_NONE =
      Some (0, s, Some rep) \<and>
    (\<forall>v \<in> set (r_visited_list s). dfin (tt_buf_size v) \<and> dfin (tt_stream_num v) \<and>
       16000 \<le> dval (tt_buf_size v) \<and> dval (tt_buf_size v) \<le> 16024 \<and>
       1 \<le> dval (tt_stream_num v) \<and> dval (tt_stream_num v) \<le> 25)"
proof -
  obtain s rep where run: "f_tcp_client_run (demo_env []) demo_prof None demo_ctrl
      (demo_heap, ([], [])) F_ERR_NONE = Some (0, s, Some rep)"
    using demo_tcp_run by blast
  have "l_buf_size_max_safeguard demo_limits = 16024" "F_BUF_MIN = 16000"
    by (simp_all add: demo_limits_def F_BUF_MIN_def)
  with f_tcp_client_run_ranges [OF run demo_spsa_limits] run show ?thesis by auto
qed

definition demo_tcp_start :: "net tcp_run" where
  "demo_tcp_start = spsa_draw (demo_env [])
     (f_tcp_start (spsa_declare demo_ctrl F_ERR_NONE ([], [])) demo_heap demo_prof None)"

theorem f_tcp_loop_ends_witness:
  "(\<exists>c. run_loop (spsa_iter (f_tcp_probe (demo_env []) demo_limits) (demo_env []) demo_limits)
       demo_tcp_start = Some c) \<or>
   (\<exists>t. loop_reaches (spsa_iter (f_tcp_probe (demo_env []) demo_limits) (demo_env []) demo_limits)
       demo_tcp_start t \<and>
     spsa_iter (f_tcp_probe (demo_env []) demo_limits) (demo_env []) demo_limits t = None)"
  by (rule f_tcp_loop_ends [OF demo_spsa_limits demo_tcp_start_def])

theorem f_tcp_report_aliases_witness:
  "\<exists>s rep t. f_tcp_client_run (demo_env []) demo_prof None demo_ctrl (demo_heap, ([], [])) F_ERR_NONE =
      Some (0, s, Some rep) \<and> r_heap s (tcp_prof (r_prof s)) = Some t \<and>
    tr_bufsize rep = it_socket_bufsize t \<and> tr_streams rep = it_num_streams t \<and>
    Fin 1 = tr_perf_Mbps rep / Fin 1000"
proof -
  obtain s rep where run: "f_tcp_client_run (demo_env []) demo_prof None demo_ctrl
      (demo_heap, ([], [])) F_ERR_NONE = Some (0, s, Some rep)" "r_max_perf_Gbps s = Fin 1"
    using demo_tcp_run by blast
  have "0 < r_max_perf_Gbps s" using run(2) demo_goal(2) by simp
  from f_tcp_report_aliases [OF run(1) demo_spsa_limits this] run show ?thesis by auto
qed

theorem f_udt_client_run_result_witness:
  "\<exists>s rep. f_udt_client_run (demo_env []) demo_udt_prof None demo_ctrl ([], []) F_ERR_NONE =
      Some (0, s, Some rep) \<and> r_profile_num s = int (length (u_visited_list s)) \<and>
    (\<exists>v \<in> set (u_visited_list s). ut_perf_Mbps v = Fin 1 * Fin 1000) \<and>
    spsa_stopped demo_limits s \<and> Fin 1 = ur_perf_Mbps rep / Fin 1000"
proof -
  obtain s rep where run: "f_udt_client_run (demo_env []) demo_udt_prof None demo_ctrl ([], []) F_ERR_NONE =
      Some (0, s, Some rep)" "r_max_perf_Gbps s = Fin 1"
    using demo_udt_run by blast
  have best: "0 < r_max_perf_Gbps s" using run(2) demo_goal(2) by simp
  note result = f_udt_client_run_result [OF run(1) demo_spsa_limits, unfolded if_P [OF best] option.case]
  show ?thesis using result run(1) unfolding run(2) by (elim conjE) (intro exI conjI; assumption)
qed

theorem f_udt_client_run_ranges_witness:
  "\<exists>s rep. f_udt_client_run (demo_env []) demo_udt_prof None demo_ctrl ([], []) F_ERR_NONE =
      Some (0, s, Some rep) \<and>
    (\<forall>v \<in> set (u_visited_list s). dfin (ut_blk_size v) \<and> dfin (ut_buf_size v) \<and>
       1 \<le> dval (ut_blk_size v) \<and> dval (ut_blk_size v) \<le> 25 \<and>
       16000 \<le> dval (ut_buf_size v) \<and> dval (ut_buf_size v) \<le> 16024)"
proof -
  obtain s rep where run: "f_udt_client_run (demo_env []) demo_udt_prof None demo_ctrl ([], []) F_ERR_NONE =
      Some (0, s, Some rep)"
    using demo_udt_run by blast
  have "l_buf_size_max_safeguard demo_limits = 16024" "F_BUF_MIN = 16000"
    by (simp_all add: demo_limits_def F_BUF_MIN_def)
  with f_udt_client_run_ranges [OF run demo_spsa_limits] run show ?thesis by auto
qed

theorem f_udt_prof_reset_result_witness:
  "f_udt_prof_reset (demo_env []) demo_udt_prof demo_ctrl ([], []) F_ERR_NONE = Some (0, ([], []), F_ERR_NONE) \<and>
     fc_role demo_ctrl \<noteq> F_UNKNOWN"
proof -
  have E: "e_tpg_client_clean_up (demo_env []) p w = (0, w)" "e_tpg_client_reset (demo_env []) p w = (0, w)"
    "e_tpg_prof_default (demo_env []) p w = (0, w)" "e_tpg_set (demo_env []) p opt n w = w"
    "e_tpg_set_role (demo_env []) p role w = w" "e_tpg_set_hostname (demo_env []) p name w = w" for p w opt n role name
    by (simp_all add: demo_env_def)
  have role: "fc_role demo_ctrl = F_CLIENT" by (simp add: demo_ctrl_def)
  have r: "f_udt_prof_reset (demo_env []) demo_udt_prof demo_ctrl ([], []) F_ERR_NONE =
      Some (0, ([], []), F_ERR_NONE)"
    by (simp add: f_udt_prof_reset_def f_udt_clean_reset_def f_udt_prof_default_def f_udt_prof_init_def Let_def
        E role)
  from f_udt_prof_reset_result [OF r] r show ?thesis by blast
qed


text \<open>A path of 8.6 Gb/s and 1.024 s: the product is about 1.1 GB.\<close>

definition demo_long_path :: "net search" where
  "demo_long_path = spsa_declare (demo_ctrl\<lparr>fc_rtt_ms := Fin 1024, fc_bw_bps := Fin 8589934592\<rparr>)
     F_ERR_NONE ([], [])"

lemma demo_long_BDP:
  "spsa_BDP_B (r_ctrl demo_long_path) = Fin (1152921504606847 / 1048576)"
proof -
  have r: "rnd (1 / 1000) = of_int 4611686018427388 * pow2 (- 10 - 52)"
  proof (rule rnd_eqI)
    show "rne (1 / 1000 * pow2 (52 - (- 10))) = 4611686018427388"
      by (rule rne_eqI) (simp_all add: power_int_def)
  qed (simp_all add: power_int_def power_divide)
  have a: "round64 (1 / 1000) = Fin (1152921504606847 / 1152921504606846976)"
  proof -
    have "rnd (1 / 1000) = 1152921504606847 / 1152921504606846976"
      using r by (simp add: power_int_def power_divide)
    then show ?thesis by (simp add: round64_def)
  qed
  have b: "round64 (1152921504606847 / 1125899906842624) = Fin (1152921504606847 / 1125899906842624)"
    "round64 (1152921504606847 / 1048576) = Fin (1152921504606847 / 1048576)"
    using round64_exact [of 1152921504606847 50] round64_exact [of 1152921504606847 20] by simp_all
  show ?thesis
    by (simp add: demo_long_path_def spsa_declare_def spsa_BDP_B_def a b dbl_eval)
qed

theorem spsa_bdp_overflow_witness:
  "spsa_update_bdp (demo_env []) demo_limits demo_long_path = None"
proof (rule spsa_bdp_overflow)
  show "\<not> fc_bw_bps (r_ctrl demo_long_path) < 0"
    by (simp add: demo_long_path_def spsa_declare_def dbl_eval)
  have c: "fc_remote_ip (r_ctrl demo_long_path) = fc_remote_ip demo_ctrl"
    "fc_rtt_ms (r_ctrl demo_long_path) = Fin 1024"
    by (simp_all add: demo_long_path_def spsa_declare_def)
  have "(r_ctrl demo_long_path)\<lparr>fc_rtt_ms := Fin 1024\<rparr> = r_ctrl demo_long_path"
    by (simp add: demo_long_path_def spsa_declare_def)
  then show "spsa_update_rtt (demo_env []) demo_long_path = Some demo_long_path"
    unfolding spsa_update_rtt_def c demo_rtt by (simp add: c dbl_eval)
  show "spsa_BDP_B (r_ctrl demo_long_path) = Fin (1152921504606847 / 1048576)" by (rule demo_long_BDP)
  show "2 ^ 29 \<le> (1152921504606847 / 1048576 :: rat)" by simp
qed

text \<open>A second measurement as good as the first one.\<close>

definition demo_second :: "net tcp_run" where
  "demo_second = (f_tcp_start (spsa_declare demo_ctrl F_ERR_NONE ([], [])) demo_heap demo_prof
     (Some demo_prof))\<lparr>r_max_perf_Gbps := Fin 1\<rparr>"

theorem f_tcp_probe_overwrites_best_witness:
  "\<exists>t. f_tcp_probe (demo_env []) demo_limits True (CHR ''-'') (Fin 1, Fin 1) demo_second = Some (Fin 1, Next t) \<and>
     r_prof_max t = Some demo_prof \<and> (\<exists>it. r_heap t (tcp_prof demo_prof) = Some it \<and>
       d_to_int (f_round (fst (f_tcp_settings demo_second (Fin 1, Fin 1)) * 1 * Fin (1 / 2))) =
         Some (it_socket_bufsize it) \<and>
       d_to_int (f_round (snd (f_tcp_settings demo_second (Fin 1, Fin 1)) * 1)) = Some (it_num_streams it))"
proof -
  have s: "r_ctrl demo_second = demo_ctrl" "r_heap demo_second (tcp_prof (r_prof demo_second)) = Some demo_test"
    "it_streams demo_test = [demo_stream]" "r_buf_size_min demo_second = 16000"
    "r_buf_size_max demo_second = 16024" "r_profile_num demo_second = 0"
    "\<not> Fin 1 > r_max_perf_Gbps demo_second" "r_no_imp_counter demo_second = 0"
    "r_prof_max demo_second = Some demo_prof" "r_prof demo_second = demo_prof"
    by (simp_all add: demo_second_def f_tcp_start_def search.defs tcp_run.defs)
       (simp_all add: demo_heap_def demo_prof_def demo_test_def)
  obtain t where t: "f_tcp_probe (demo_env []) demo_limits True (CHR ''-'') (Fin 1, Fin 1) demo_second =
      Some (Fin 1, Next t)" using demo_tcp_probe_worse [OF s(1-8)] by blast
  have "it_socket_bufsize (fst (snd (e_iperf_run_client (demo_env []) a it w))) = it_socket_bufsize it \<and>
      it_num_streams (fst (snd (e_iperf_run_client (demo_env []) a it w))) = it_num_streams it" for a it w
    by (simp add: demo_env_def)
  from f_tcp_probe_overwrites_best [OF t s(7,9) _ this] show ?thesis
    using t s(10) by (intro exI [of _ t]) simp
qed

end
