(* ===== verification/Wire.thy ===== *)
theory Wire
  imports Session
begin

text \<open>
  What the operations of the server put on the control channel: a contract \<open>sends\<close> for
  the bytes that a successful call transmits, and what the handler of control packets
  transmits as a whole. The packet in flight reaches a handler through the poll.
\<close>

subsection \<open>What does not write on the control channel\<close>

text \<open>
  The calls of the system and of the two libraries that the server's handler makes besides
  reading and writing: none of them writes on the control channel. The libraries have sockets
  of their own, and so have the workers, which run during a join.
\<close>

definition off_channel :: "'w env \<Rightarrow> ('w \<Rightarrow> string) \<Rightarrow> bool" where
  "off_channel E tx \<longleftrightarrow>
     (\<forall>k w. tx (snd (snd (e_thread_create E k w))) = tx w) \<and>
     (\<forall>t w. tx (snd (e_thread_cancel E t w)) = tx w) \<and>
     (\<forall>t w r w'. e_thread_join E t w = Some (r, w') \<longrightarrow> tx w' = tx w) \<and>
     (\<forall>w. tx (snd (snd (e_iperf_new_test E w))) = tx w) \<and>
     (\<forall>p t w. tx (snd (snd (e_iperf_defaults E p t w))) = tx w) \<and>
     (\<forall>p opt t w. tx (snd (e_iperf_set E p opt t w)) = tx w) \<and>
     (\<forall>str w. tx (snd (e_strdup E str w)) = tx w) \<and>
     (\<forall>name w. tx (snd (e_fopen E name w)) = tx w) \<and>
     (\<forall>w. tx (snd (e_tpg_new_profile E w)) = tx w) \<and>
     (\<forall>p w. tx (snd (e_tpg_prof_default E p w)) = tx w) \<and>
     (\<forall>p role w. tx (e_tpg_set_role E p role w) = tx w) \<and>
     (\<forall>p name w. tx (e_tpg_set_hostname E p name w) = tx w) \<and>
     (\<forall>p opt n w. tx (e_tpg_set E p opt n w) = tx w)"

lemma off_channelD:
  assumes "off_channel E tx"
  shows "tx (snd (snd (e_thread_create E k w))) = tx w" "tx (snd (e_thread_cancel E t w)) = tx w"
    "e_thread_join E t w = Some (r, w') \<Longrightarrow> tx w' = tx w" "tx (snd (snd (e_iperf_new_test E w))) = tx w"
    "tx (snd (snd (e_iperf_defaults E p it w))) = tx w" "tx (snd (e_iperf_set E p opt it w)) = tx w"
    "tx (snd (e_strdup E str w)) = tx w" "tx (snd (e_fopen E str w)) = tx w"
    "tx (snd (e_tpg_new_profile E w)) = tx w" "tx (snd (e_tpg_prof_default E p w)) = tx w"
    "tx (e_tpg_set_role E p role w) = tx w" "tx (e_tpg_set_hostname E p str w) = tx w"
    "tx (e_tpg_set E p topt n w) = tx w"
  using assms by (simp_all add: off_channel_def)

subsection \<open>What an operation transmits\<close>

definition sends ::
    "'w env \<Rightarrow> ('w \<Rightarrow> string) \<Rightarrow> ('w \<Rightarrow> string) \<Rightarrow> string \<Rightarrow> ('w pstate \<Rightarrow> (int \<times> 'w pstate) option) \<Rightarrow> bool" where
  "sends E rx tx bs f \<longleftrightarrow> (\<forall>s r t. stream_io E (pb_accept_sock (ps_prob s)) rx tx \<longrightarrow>
     f s = Some (r, t) \<longrightarrow> 0 \<le> r \<longrightarrow> tx (ps_world t) = tx (ps_world s) @ bs \<and>
       pb_accept_sock (ps_prob t) = pb_accept_sock (ps_prob s))"

lemma sendsI:
  assumes "\<And>s r t. stream_io E (pb_accept_sock (ps_prob s)) rx tx \<Longrightarrow> f s = Some (r, t) \<Longrightarrow> 0 \<le> r \<Longrightarrow>
    tx (ps_world t) = tx (ps_world s) @ bs \<and> pb_accept_sock (ps_prob t) = pb_accept_sock (ps_prob s)"
  shows "sends E rx tx bs f"
  using assms unfolding sends_def by blast

lemma sendsD:
  assumes "sends E rx tx bs f" "stream_io E (pb_accept_sock (ps_prob s)) rx tx" "f s = Some (r, t)" "0 \<le> r"
  shows "tx (ps_world t) = tx (ps_world s) @ bs" "pb_accept_sock (ps_prob t) = pb_accept_sock (ps_prob s)"
  using assms unfolding sends_def by blast+

lemma sends_check:
  assumes "sends E rx tx bs f" "sends E rx tx cs g"
  shows "sends E rx tx (bs @ cs) (\<lambda>s. check (f s) fail g)"
proof (rule sendsI)
  fix s r t
  assume io: "stream_io E (pb_accept_sock (ps_prob s)) rx tx" and "check (f s) fail g = Some (r, t)" "0 \<le> r"
  then obtain q u where u: "f s = Some (q, u)" "0 \<le> q" "g u = Some (r, t)" by (auto elim: check_zero)
  note first = sendsD [OF assms(1) io u(1,2)]
  have "stream_io E (pb_accept_sock (ps_prob u)) rx tx" using io first(2) by simp
  from sendsD [OF assms(2) this u(3) \<open>0 \<le> r\<close>] first
  show "tx (ps_world t) = tx (ps_world s) @ bs @ cs \<and> pb_accept_sock (ps_prob t) = pb_accept_sock (ps_prob s)"
    by simp
qed

lemma sends_nothing_check:
  "sends E rx tx [] f \<Longrightarrow> sends E rx tx bs g \<Longrightarrow> sends E rx tx bs (\<lambda>s. check (f s) fail g)"
  "sends E rx tx bs f \<Longrightarrow> sends E rx tx [] g \<Longrightarrow> sends E rx tx bs (\<lambda>s. check (f s) fail g)"
  using sends_check [of E rx tx "[]" f bs g fail] sends_check [of E rx tx bs f "[]" g fail] by simp_all

lemma sends_stay [simp]: "sends E rx tx [] (\<lambda>s. Some (r, s))" "sends E rx tx [] (\<lambda>s. Some (r, set_errno e s))"
  by (auto simp: sends_def set_errno_def)

lemma sends_Some:
  assumes "\<And>s. tx (ps_world (snd (f s))) = tx (ps_world s) \<and>
    pb_accept_sock (ps_prob (snd (f s))) = pb_accept_sock (ps_prob s)"
  shows "sends E rx tx [] (\<lambda>s. Some (f s))"
  using assms by (auto simp: sends_def) (metis snd_conv)+

lemma sends_packet: "sends E rx tx [byte_of packet] (probdata_ctrl_chan_send_ctrl_packet E packet)"
  by (rule sendsI) (auto dest: send_packet_stream)

lemma sends_reply: "sends E rx tx [byte_of packet] (server_reply E packet)"
  unfolding server_reply_def by (intro sends_nothing_check(2) sends_packet sends_stay)

subsection \<open>Setting up the profilers\<close>

lemma iperf_set_quiet:
  assumes "off_channel E tx" "iperf_set E p opt hw = Some hw'"
  shows "tx (snd hw') = tx (snd hw)"
proof -
  obtain t where "hw' = ((fst hw)(p \<mapsto> fst (e_iperf_set E p opt t (snd hw))), snd (e_iperf_set E p opt t (snd hw)))"
    using assms(2) by (auto simp: iperf_set_def bind_eq_Some_conv case_prod_beta)
  then show ?thesis by (simp add: off_channelD(6) [OF assms(1)])
qed

lemma iperf_member_world: "iperf_member p f hw = Some hw' \<Longrightarrow> snd hw' = snd hw"
  by (auto simp: iperf_member_def bind_eq_Some_conv case_prod_beta)

lemma f_tcp_prof_init_quiet:
  assumes "off_channel E tx" "f_tcp_prof_init E prof ctrl hw = Some (r, h', w')"
  shows "tx w' = tx (snd hw)"
proof -
  define start where "start = snd hw"
  have set: "tx (snd v) = tx start" if "iperf_set E p opt u = Some v" "tx (snd u) = tx start" for p opt u v
    using iperf_set_quiet [OF assms(1) that(1)] that(2) by simp
  have member: "tx (snd v) = tx start" if "iperf_member p f u = Some v" "tx (snd u) = tx start" for p f u v
    using iperf_member_world [OF that(1)] that(2) by simp
  have "tx (snd hw) = tx start" by (simp add: start_def)
  then have "tx w' = tx start"
    using assms(2) unfolding f_tcp_prof_init_def Let_def bind_eq_Some_conv
    apply (elim exE conjE)
    apply (drule set, assumption)+
    apply (drule member, assumption)
    apply (drule set, assumption)+
    apply (auto simp: case_prod_beta off_channelD(7,8) [OF assms(1)] bind_eq_Some_conv split: if_splits dest!: iperf_member_world)
    done
  then show ?thesis by (simp add: start_def)
qed

lemma f_tcp_prof_new_quiet: "off_channel E tx \<Longrightarrow> tx (snd (snd (f_tcp_prof_new E h w))) = tx w"
  using off_channelD(4) [of E tx w] by (auto simp: f_tcp_prof_new_def split: prod.splits)

lemma f_tcp_prof_default_quiet:
  assumes "off_channel E tx" "f_tcp_prof_default E prof (h, w) e = Some (r, h', w', e')"
  shows "tx w' = tx w"
proof -
  obtain t where "w' = snd (snd (e_iperf_defaults E (tcp_prof prof) t w))"
    using assms(2) by (auto simp: f_tcp_prof_default_def bind_eq_Some_conv Let_def case_prod_beta split: if_splits)
  then show ?thesis by (simp add: off_channelD(5) [OF assms(1)])
qed

lemma f_udt_prof_new_quiet: "off_channel E tx \<Longrightarrow> tx (snd (f_udt_prof_new E w)) = tx w"
  using off_channelD(9) [of E tx w] by (auto simp: f_udt_prof_new_def split: prod.splits)

lemma f_udt_prof_default_quiet:
  "off_channel E tx \<Longrightarrow> tx (fst (snd (f_udt_prof_default E prof w e))) = tx w"
  using off_channelD(10) [of E tx "udt_prof prof" w]
  by (auto simp: f_udt_prof_default_def split: prod.splits)

lemma f_udt_prof_init_quiet:
  "off_channel E tx \<Longrightarrow> f_udt_prof_init E prof ctrl w = Some (r, w') \<Longrightarrow> tx w' = tx w"
  by (auto simp: f_udt_prof_init_def Let_def bind_eq_Some_conv off_channelD)

lemmas quiet_fields = set_errno_def upd_prob_def Let_def

lemma sends_tcp_run:
  assumes "off_channel E tx"
  shows "sends E rx tx [] (probdata_server_tcp_fastprof_run E)"
  unfolding probdata_server_tcp_fastprof_run_def
proof (intro sends_nothing_check(1) sends_Some)
  show "tx (ps_world (snd (probdata_server_tcp_prof_new E s))) = tx (ps_world s) \<and>
      pb_accept_sock (ps_prob (snd (probdata_server_tcp_prof_new E s))) = pb_accept_sock (ps_prob s)" for s
    using f_tcp_prof_new_quiet [OF assms, of "ps_heap s" "ps_world s"]
    by (auto simp: probdata_server_tcp_prof_new_def quiet_fields split: prod.splits)
  show "sends E rx tx [] (probdata_server_tcp_prof_default E)"
    by (rule sendsI) (auto simp: probdata_server_tcp_prof_default_def bind_eq_Some_conv
        dest: f_tcp_prof_default_quiet [OF assms])
  show "sends E rx tx [] (probdata_server_tcp_prof_init E)"
    by (rule sendsI) (auto simp: probdata_server_tcp_prof_init_def bind_eq_Some_conv
        dest: f_tcp_prof_init_quiet [OF assms])
  show "tx (ps_world (snd (start_tcp_worker E s))) = tx (ps_world s) \<and>
      pb_accept_sock (ps_prob (snd (start_tcp_worker E s))) = pb_accept_sock (ps_prob s)" for s
    using off_channelD(1) [OF assms, of TcpWorker "ps_world s"]
    by (auto simp: start_tcp_worker_def quiet_fields split: prod.splits)
qed

lemma sends_udt_run:
  assumes "off_channel E tx"
  shows "sends E rx tx [] (probdata_server_udt_fastprof_run E)"
  unfolding probdata_server_udt_fastprof_run_def
proof (intro sends_nothing_check(1) sends_Some)
  show "tx (ps_world (snd (probdata_server_udt_prof_new E s))) = tx (ps_world s) \<and>
      pb_accept_sock (ps_prob (snd (probdata_server_udt_prof_new E s))) = pb_accept_sock (ps_prob s)" for s
    using f_udt_prof_new_quiet [OF assms, of "ps_world s"]
    by (auto simp: probdata_server_udt_prof_new_def quiet_fields split: prod.splits)
  show "sends E rx tx [] (probdata_server_udt_prof_default E)"
    using f_udt_prof_default_quiet [OF assms]
    by (intro sendsI) (auto simp: probdata_server_udt_prof_default_def bind_eq_Some_conv case_prod_beta)
  show "sends E rx tx [] (probdata_server_udt_prof_init E)"
    by (rule sendsI) (auto simp: probdata_server_udt_prof_init_def bind_eq_Some_conv quiet_fields
        dest: f_udt_prof_init_quiet [OF assms])
  show "tx (ps_world (snd (start_udt_worker E s))) = tx (ps_world s) \<and>
      pb_accept_sock (ps_prob (snd (start_udt_worker E s))) = pb_accept_sock (ps_prob s)" for s
    using off_channelD(1) [OF assms, of UdtWorker "ps_world s"]
    by (auto simp: start_udt_worker_def quiet_fields split: prod.splits)
qed

subsection \<open>Joining the workers\<close>

lemma join_quiet:
  assumes "off_channel E tx"
  shows "join_worker E t s = Some u \<Longrightarrow> tx (ps_world u) = tx (ps_world s) \<and> ps_prob u = ps_prob s"
    "join_if_started E k s = Some u \<Longrightarrow> tx (ps_world u) = tx (ps_world s) \<and> ps_prob u = ps_prob s"
    "stop_tcp_worker E s = Some u \<Longrightarrow> tx (ps_world u) = tx (ps_world s) \<and> ps_prob u = ps_prob s"
  using off_channelD(2,3) [OF assms]
  by (auto simp: join_worker_def join_if_started_def stop_tcp_worker_def bind_eq_Some_conv split: option.splits)

lemma sends_m2m_udt:
  assumes "off_channel E tx"
  shows "sends E rx tx [byte_of P_RUN_M2M_UDT] (server_m2m_udt E)"
proof (rule sendsI)
  fix s r t
  assume io: "stream_io E (pb_accept_sock (ps_prob s)) rx tx" and run: "server_m2m_udt E s = Some (r, t)" "0 \<le> r"
  let ?rest = "\<lambda>s. check (server_reply E P_RUN_M2M_UDT s) id
       (\<lambda>s. check (probdata_server_udt_fastprof_run E s) (set_errno P_ERR_UNKNOWN) (\<lambda>s. Some (0, s)))"
  from run(1) obtain u where u: "tx (ps_world u) = tx (ps_world s)" "ps_prob u = ps_prob s"
    and rest: "?rest u = Some (r, t)"
    using join_quiet(3) [OF assms]
    by (auto simp: server_m2m_udt_def bind_eq_Some_conv split: if_splits)
  have "sends E rx tx [byte_of P_RUN_M2M_UDT] ?rest"
    by (intro sends_nothing_check(2) sends_reply sends_udt_run assms sends_stay)
  from sendsD [OF this _ rest run(2)] io u
  show "tx (ps_world t) = tx (ps_world s) @ [byte_of P_RUN_M2M_UDT] \<and>
      pb_accept_sock (ps_prob t) = pb_accept_sock (ps_prob s)" by simp
qed

lemma sends_finish:
  assumes "off_channel E tx"
  shows "sends E rx tx [byte_of P_PROGRAM_DONE] (server_finish E)"
proof (rule sendsI)
  fix s r t
  assume io: "stream_io E (pb_accept_sock (ps_prob s)) rx tx" and run: "server_finish E s = Some (r, t)" "0 \<le> r"
  from run(1) obtain u v where "join_if_started E (pb_udt_worker (ps_prob s)) s = Some u"
    "join_if_started E (pb_tcp_worker (ps_prob u)) u = Some v" "server_reply E P_PROGRAM_DONE v = Some (r, t)"
    by (auto simp: server_finish_def bind_eq_Some_conv)
  then show "tx (ps_world t) = tx (ps_world s) @ [byte_of P_PROGRAM_DONE] \<and>
      pb_accept_sock (ps_prob t) = pb_accept_sock (ps_prob s)"
    using sendsD [OF sends_reply, of E v rx tx P_PROGRAM_DONE r t] io run(2)
    by (auto dest!: join_quiet(2) [OF assms])
qed

subsection \<open>The handshake\<close>

lemma recv_bytes_quiet:
  fixes E :: "'w env"
  assumes "stream_io E (pb_accept_sock (ps_prob s)) rx tx" "recv_bytes E n s = Some (r, bs, t)" "0 \<le> r"
  shows "tx (ps_world t) = tx (ps_world s) \<and> ps_prob t = ps_prob s"
proof -
  let ?fd = "pb_accept_sock (ps_prob s)" and ?w = "ps_world s"
  let ?s = "\<lparr>io_nleft = n, io_data = [], io_world = ?w\<rparr>"
  obtain w' where recv: "probdata_ctrl_chan_recv_Nbytes E ?fd n ?w = Some (r, bs, w')" and t: "t = s\<lparr>ps_world := w'\<rparr>"
    using assms(2) by (auto simp: recv_bytes_def bind_eq_Some_conv)
  obtain c where c: "run_loop (recv_body E ?fd) ?s = Some c"
    and res: "r = (case c of Return r _ \<Rightarrow> r | _ \<Rightarrow> n - io_nleft (ctl_state c))" "w' = io_world (ctl_state c)"
    using recv by (auto simp: probdata_ctrl_chan_recv_Nbytes_def Let_def bind_eq_Some_conv)
  have "(\<exists>v. c = Return (- 1) v) \<or> tx (io_world (ctl_state c)) = tx ?w"
  proof (rule run_loop_invariant [OF c, of "\<lambda>v. tx (io_world v) = tx ?w"])
    fix v u assume "tx (io_world v) = tx ?w" "recv_body E ?fd v = Some (Next u)"
    then show "tx (io_world u) = tx ?w" by (elim recv_body_stream [OF assms(1)]) auto
  next
    fix v d assume "tx (io_world v) = tx ?w" "recv_body E ?fd v = Some d" "\<forall>u. d \<noteq> Next u"
    then show "(\<exists>v. d = Return (- 1) v) \<or> tx (io_world (ctl_state d)) = tx ?w"
      by (elim recv_body_stream [OF assms(1)]) auto
  qed simp
  then show ?thesis using res t assms(3) by auto
qed

text \<open>What the server answers in the handshake: its choice of UDT only and the common limit.\<close>

definition agreed_msg :: "probdata \<Rightarrow> probdata_ctrlmsg" where
  "agreed_msg p = \<lparr>cm_do_udt_only = pb_do_udt_only p, cm_host_max_buf = pb_host_max_buf p\<rparr>"

lemma exchange_srv_sends:
  assumes "stream_io E (pb_accept_sock (ps_prob s)) rx tx"
    "probdata_ctrl_chan_ctrlmsg_exchange_srv E s = Some (r, t)" "0 \<le> r"
  shows "tx (ps_world t) = tx (ps_world s) @ ctrlmsg_bytes (agreed_msg (ps_prob t))"
proof -
  from assms(2,3) obtain ret bs u where recv: "recv_bytes E 8 s = Some (ret, bs, u)" "0 \<le> ret"
    by (auto simp: probdata_ctrl_chan_ctrlmsg_exchange_srv_def bind_eq_Some_conv split: if_splits)
  note quiet = recv_bytes_quiet [OF assms(1) recv]
  let ?m = "bytes_ctrlmsg bs"
  let ?p = "merge_max_buf (cm_host_max_buf ?m) ((ps_prob u)\<lparr>pb_do_udt_only := cm_do_udt_only ?m\<rparr>)"
  let ?v = "u\<lparr>ps_prob := ?p\<rparr>"
  have m: "?m\<lparr>cm_host_max_buf := pb_host_max_buf ?p\<rparr> = agreed_msg ?p"
    by (simp add: agreed_msg_def merge_max_buf_def Let_def)
  have "check (send_bytes E (ctrlmsg_bytes (agreed_msg ?p)) ?v) (set_errno P_ERR_UNKNOWN)
      (\<lambda>s. Some (0, s)) = Some (r, t)"
    using assms(2) recv unfolding probdata_ctrl_chan_ctrlmsg_exchange_srv_def
    by (auto simp: upd_prob_def Let_def m split: if_splits)
  then obtain q where send: "send_bytes E (ctrlmsg_bytes (agreed_msg ?p)) ?v = Some (q, t)" "0 \<le> q"
    using assms(3) by (auto elim: check_zero)
  have "stream_io E (pb_accept_sock (ps_prob ?v)) rx tx"
    using assms(1) quiet by (simp add: merge_max_buf_def Let_def)
  from send_bytes_stream [OF this send] obtain w where
    "t = ?v\<lparr>ps_world := w\<rparr>" "tx w = tx (ps_world u) @ ctrlmsg_bytes (agreed_msg ?p)" by auto
  then show ?thesis using quiet by simp
qed

lemma handshake_sends:
  assumes "stream_io E (pb_accept_sock (ps_prob s)) rx tx" "pb_role (ps_prob s) = P_SERVER"
    "check (server_reply E P_TWOWAY_HANDSHAKE s) id
       (\<lambda>s. check (probdata_ctrl_chan_ctrlmsg_exchange E s) id (\<lambda>s. Some (0, s))) = Some (r, t)" "0 \<le> r"
  shows "tx (ps_world t) = tx (ps_world s) @ byte_of P_TWOWAY_HANDSHAKE # ctrlmsg_bytes (agreed_msg (ps_prob t))"
proof -
  from assms(3,4) obtain q u q' where u: "server_reply E P_TWOWAY_HANDSHAKE s = Some (q, u)" "0 \<le> q"
    and v: "probdata_ctrl_chan_ctrlmsg_exchange E u = Some (q', t)" "0 \<le> q'"
    by (auto elim!: check_zero)
  obtain q0 where "probdata_ctrl_chan_send_ctrl_packet E P_TWOWAY_HANDSHAKE s = Some (q0, u)" "0 \<le> q0"
    using u by (auto simp: server_reply_def elim!: check_zero)
  note reply = send_packet_stream [OF this assms(1)]
  then have "pb_role (ps_prob u) = P_SERVER" using assms(2) by simp
  then obtain q1 where "probdata_ctrl_chan_ctrlmsg_exchange_srv E u = Some (q1, t)" "0 \<le> q1"
    using v by (auto simp: probdata_ctrl_chan_ctrlmsg_exchange_def elim!: check_zero)
  from exchange_srv_sends [OF _ this, of rx tx] reply assms(1) show ?thesis by simp
qed

subsection \<open>The handler\<close>

text \<open>
  The bytes that the server transmits for a packet: the packet itself, in the handshake
  followed by the agreed parameters; nothing for packets it does not know.
\<close>

definition server_output :: "int \<Rightarrow> probdata \<Rightarrow> string" where
  "server_output packet p =
     (case server_next packet of
        None \<Rightarrow> []
      | Some q \<Rightarrow> byte_of q # (if packet = P_TWOWAY_HANDSHAKE then ctrlmsg_bytes (agreed_msg p) else []))"

lemma server_proc_sends:
  assumes "probdata_server_proc_ctrl_packet E s = Some (r, t)" "0 \<le> r"
    and io: "stream_io E (pb_accept_sock (ps_prob s)) rx tx"
    and quiet: "off_channel E tx" and role: "pb_role (ps_prob s) = P_SERVER"
  shows "tx (ps_world t) = tx (ps_world s) @ server_output (pb_status (ps_prob s)) (ps_prob t)"
proof -
  let ?p = "pb_status (ps_prob s)"
  have out: "server_output q p = [byte_of q]" if "q \<noteq> P_TWOWAY_HANDSHAKE" "server_next q \<noteq> None" for q p
    using that by (auto simp: server_output_def server_next_def split: if_splits)
  have reply: "tx (ps_world t) = tx (ps_world s) @ [byte_of q]" if "sends E rx tx [byte_of q] f" "f s = Some (r, t)" for f q
    using sendsD(1) [OF that(1) io that(2) assms(2)] .
  have xdd: "sends E rx tx [byte_of q] (\<lambda>s. check (Some (0, s)) (set_errno P_ERR_UNKNOWN) (server_reply E q))" for q
    by (intro sends_nothing_check(1) sends_reply sends_stay)
  have tcp: "sends E rx tx [byte_of q] (\<lambda>s. check (probdata_server_tcp_fastprof_run E s)
      (set_errno P_ERR_UNKNOWN) (server_reply E q))" for q
    by (intro sends_nothing_check(1) sends_reply sends_tcp_run quiet)
  consider "?p = P_TWOWAY_HANDSHAKE" | "?p = P_RUN_D2D_DB \<or> ?p = P_RUN_M2M_DB"
    | "?p = P_RUN_D2D_TCP" | "?p = P_RUN_D2D_UDT" | "?p = P_RUN_M2M_TCP" | "?p = P_RUN_M2M_UDT"
    | "?p = P_PROGRAM_DONE" | "server_next ?p = None"
    by (cases "server_next ?p = None", blast) (auto simp: server_next_def split: if_splits)
  then show ?thesis
  proof cases
    case 1
    then show ?thesis using assms(1) handshake_sends [OF io role _ assms(2)]
      by (simp add: probdata_server_proc_ctrl_packet_def Let_def server_output_def server_next_def)
  next
    case 2
    then have "server_reply E ?p s = Some (r, t)"
      using assms(1) by (auto simp: probdata_server_proc_ctrl_packet_def Let_def status_defs)
    then show ?thesis using reply [OF sends_reply] out [of ?p] 2 by (auto simp: server_next_def status_defs)
  next
    case 3
    then show ?thesis using assms(1) reply [OF xdd [of ?p]] out [of ?p]
      by (simp add: probdata_server_proc_ctrl_packet_def probdata_server_dw_xdd_tcp_def server_next_def status_defs)
  next
    case 4
    then show ?thesis using assms(1) reply [OF xdd [of ?p]] out [of ?p]
      by (simp add: probdata_server_proc_ctrl_packet_def probdata_server_dw_xdd_udt_def server_next_def status_defs)
  next
    case 5
    then show ?thesis using assms(1) reply [OF tcp [of ?p]] out [of ?p]
      by (simp add: probdata_server_proc_ctrl_packet_def server_next_def status_defs)
  next
    case 6
    then show ?thesis using assms(1) reply [OF sends_m2m_udt [OF quiet]] out [of ?p]
      by (simp add: probdata_server_proc_ctrl_packet_def server_next_def status_defs)
  next
    case 7
    then show ?thesis using assms(1) reply [OF sends_finish [OF quiet]] out [of ?p]
      by (simp add: probdata_server_proc_ctrl_packet_def server_next_def status_defs)
  next
    case 8
    then have "t = s" using assms(1)
      by (auto simp: server_next_def server_proc_unfold Let_def split: if_splits)
    then show ?thesis using 8 by (simp add: server_output_def)
  qed
qed

subsection \<open>The poll\<close>

text \<open>Waiting for the socket neither reads nor writes.\<close>

definition select_waits :: "'w env \<Rightarrow> ('w \<Rightarrow> string) \<Rightarrow> ('w \<Rightarrow> string) \<Rightarrow> bool" where
  "select_waits E rx tx \<longleftrightarrow> (\<forall>fd w r b w'. e_select E fd w = (r, b, w') \<longrightarrow> tx w' = tx w \<and> rx w' = rx w)"

text \<open>
  A poll that finds a packet makes the first byte that arrives the status of the program; it
  changes nothing else that the handlers decide by, and sends nothing.
\<close>

lemma poll_takes_packet:
  assumes "poll_ctrl_channel E ce re s = Some (k, t)" "0 < k" "rx (ps_world s) = a # rest"
    "stream_io E (pb_accept_sock (ps_prob s)) rx tx" "select_waits E rx tx"
  shows "pb_status (ps_prob t) = schar_of a \<and> rx (ps_world t) = rest \<and> tx (ps_world t) = tx (ps_world s) \<and>
    pb_accept_sock (ps_prob t) = pb_accept_sock (ps_prob s) \<and> pb_role (ps_prob t) = pb_role (ps_prob s)"
proof -
  let ?sock = "pb_accept_sock (ps_prob s)"
  obtain q isset w where sel: "e_select E ?sock (ps_world s) = (q, isset, w)" by (cases "e_select E ?sock (ps_world s)") auto
  then have w: "tx w = tx (ps_world s)" "rx w = a # rest" using assms(3,5) by (auto simp: select_waits_def)
  let ?u = "s\<lparr>ps_prob := (ps_prob s)\<lparr>pb_max_sock := max (pb_max_sock (ps_prob s)) ?sock\<rparr>, ps_world := w\<rparr>"
  obtain n bs v where recv: "recv_bytes E (int 1) ?u = Some (n, bs, v)" "0 < n"
    and t: "t = (case bs of [] \<Rightarrow> v | b # _ \<Rightarrow> upd_prob (\<lambda>p. p\<lparr>pb_status := schar_of b\<rparr>) v)"
    using assms(1,2) sel
    by (auto simp: poll_ctrl_channel_def upd_prob_def Let_def bind_eq_Some_conv split: if_splits option.splits)
  have "stream_io E (pb_accept_sock (ps_prob ?u)) rx tx" "1 \<le> length (rx (ps_world ?u))"
    using assms(4) w by simp_all
  from recv_bytes_stream [OF this recv(1)] recv(2) obtain w' where
    "v = ?u\<lparr>ps_world := w'\<rparr>" "bs = [a]" "rx w' = rest" "tx w' = tx (ps_world s)"
    using w by auto
  then show ?thesis using t by (simp add: upd_prob_def)
qed

end
