(* ===== verification/Dialogue.thy ===== *)
theory Dialogue
  imports Wire "HOL-Library.Sublist"
begin

text \<open>
  The two handlers as refinements of the packet-level protocol of \<open>Session\<close>, and the
  protocol as a state machine: which packets can occur, that the conversation of the handlers
  (\<open>talk\<close>) is one of its runs, and that every conversation ends.
\<close>

subsection \<open>What the handlers leave alone\<close>

text \<open>
  No part of a handler changes the control socket, the files of the command line or the role.
\<close>

definition same_link :: "'w pstate \<Rightarrow> 'w pstate \<Rightarrow> bool" where
  "same_link s t \<longleftrightarrow>
     pb_accept_sock (ps_prob t) = pb_accept_sock (ps_prob s) \<and>
     pb_src_file (ps_prob t) = pb_src_file (ps_prob s) \<and>
     pb_dst_file (ps_prob t) = pb_dst_file (ps_prob s) \<and> pb_role (ps_prob t) = pb_role (ps_prob s)"

lemma same_link_refl [simp]: "same_link s s"
  by (simp add: same_link_def)

lemma same_link_trans [trans]: "same_link s t \<Longrightarrow> same_link t u \<Longrightarrow> same_link s u"
  by (simp add: same_link_def)

lemma same_link_world [simp]:
  "same_link s (t\<lparr>ps_world := w\<rparr>) = same_link s t" "same_link s (t\<lparr>ps_heap := h\<rparr>) = same_link s t"
  "same_link s (t\<lparr>ps_p_errno := e\<rparr>) = same_link s t" "same_link s (t\<lparr>ps_f_errno := f\<rparr>) = same_link s t"
  "same_link s (set_errno e t) = same_link s t"
  by (simp_all add: same_link_def set_errno_def)

lemma same_link_upd:
  assumes "\<And>p. pb_accept_sock (f p) = pb_accept_sock p" "\<And>p. pb_src_file (f p) = pb_src_file p"
    "\<And>p. pb_dst_file (f p) = pb_dst_file p" "\<And>p. pb_role (f p) = pb_role p"
  shows "same_link s (upd_prob f t) = same_link s t"
  using assms by (simp add: same_link_def upd_prob_def)

lemma same_link_flow: "same_link s t \<Longrightarrow> client_flow (ps_prob t) = client_flow (ps_prob s)"
  by (simp add: same_link_def client_flow_def)

text \<open>The contract of an operation: it keeps the link.\<close>

definition keeps_link :: "('w pstate \<Rightarrow> (int \<times> 'w pstate) option) \<Rightarrow> bool" where
  "keeps_link f \<longleftrightarrow> (\<forall>s r t. f s = Some (r, t) \<longrightarrow> same_link s t)"

lemma keeps_linkI: "(\<And>s r t. f s = Some (r, t) \<Longrightarrow> same_link s t) \<Longrightarrow> keeps_link f"
  by (simp add: keeps_link_def)

lemma keeps_linkD: "keeps_link f \<Longrightarrow> f s = Some (r, t) \<Longrightarrow> same_link s t"
  by (simp add: keeps_link_def)

lemma keeps_link_check:
  assumes "keeps_link f" "keeps_link g" "\<And>s. same_link s (fail s)"
  shows "keeps_link (\<lambda>s. check (f s) fail g)"
proof (rule keeps_linkI, erule check_cases)
  fix s r t r' u assume "f s = Some (r', u)" "t = fail u"
  then show "same_link s t" using assms(1,3) keeps_linkD same_link_trans by fast
next
  fix s r t r' u assume "f s = Some (r', u)" "g u = Some (r, t)"
  then show "same_link s t" using assms(1,2) keeps_linkD same_link_trans by fast
qed

lemma keeps_link_basic [simp]:
  "keeps_link (\<lambda>s. Some (r, s))" "keeps_link (\<lambda>s. Some (r, set_errno e s))"
  by (auto simp: keeps_link_def)

lemma same_link_id [simp]: "same_link s (id s)"
  by simp

lemma send_bytes_keeps: "keeps_link (send_bytes E bs)"
  by (rule keeps_linkI) (auto simp: send_bytes_def bind_eq_Some_conv)

lemma recv_bytes_keeps: "recv_bytes E n s = Some (r, bs, t) \<Longrightarrow> same_link s t"
  by (auto simp: recv_bytes_def bind_eq_Some_conv)

lemma send_packet_keeps: "keeps_link (probdata_ctrl_chan_send_ctrl_packet E p)"
  unfolding probdata_ctrl_chan_send_ctrl_packet_def
  by (intro keeps_link_check send_bytes_keeps) auto

lemma client_reply_keeps: "keeps_link (client_reply E p)"
  unfolding client_reply_def by (intro keeps_link_check send_packet_keeps) auto

lemma server_reply_keeps: "keeps_link (server_reply E p)"
  unfolding server_reply_def by (intro keeps_link_check send_packet_keeps) auto

lemma same_link_merge [simp]: "same_link s (upd_prob (merge_max_buf m) t) = same_link s t"
  by (rule same_link_upd) (simp_all add: merge_max_buf_def Let_def)

lemma exchange_cli_keeps: "keeps_link (probdata_ctrl_chan_ctrlmsg_exchange_cli E)"
  unfolding probdata_ctrl_chan_ctrlmsg_exchange_cli_def Let_def
proof (rule keeps_linkI, erule check_cases, goal_cases)
  case (1 s r t r' u) then show ?case using keeps_linkD [OF send_bytes_keeps] by auto
next
  case (2 s r t r' u)
  from 2(3) obtain ret bs v where "recv_bytes E 8 u = Some (ret, bs, v)" "same_link v t"
    by (auto simp: bind_eq_Some_conv split: if_splits)
  then show ?case using keeps_linkD [OF send_bytes_keeps 2(1)] recv_bytes_keeps same_link_trans by meson
qed

lemma exchange_srv_keeps: "keeps_link (probdata_ctrl_chan_ctrlmsg_exchange_srv E)"
proof (rule keeps_linkI)
  fix s r t assume exchange: "probdata_ctrl_chan_ctrlmsg_exchange_srv E s = Some (r, t)"
  then obtain ret bs v where recv: "recv_bytes E 8 s = Some (ret, bs, v)"
    by (auto simp: probdata_ctrl_chan_ctrlmsg_exchange_srv_def bind_eq_Some_conv)
  let ?d = "bytes_ctrlmsg bs"
  let ?u = "upd_prob (\<lambda>p. merge_max_buf (cm_host_max_buf ?d) (p\<lparr>pb_do_udt_only := cm_do_udt_only ?d\<rparr>)) v"
  have "same_link v ?u"
    by (subst same_link_upd) (simp_all add: merge_max_buf_def Let_def)
  moreover have "t = set_errno P_ERR_UNKNOWN v \<or> (\<exists>data. check (send_bytes E data ?u)
      (set_errno P_ERR_UNKNOWN) (\<lambda>s. Some (0, s)) = Some (r, t))"
    using exchange recv
    by (auto simp: probdata_ctrl_chan_ctrlmsg_exchange_srv_def Let_def split: if_splits)
  ultimately have "same_link v t"
    by (auto elim!: check_cases dest!: keeps_linkD [OF send_bytes_keeps] intro: same_link_trans)
  then show "same_link s t" using recv_bytes_keeps [OF recv] same_link_trans by meson
qed

lemma exchange_keeps: "keeps_link (probdata_ctrl_chan_ctrlmsg_exchange E)"
  unfolding probdata_ctrl_chan_ctrlmsg_exchange_def
proof (intro keeps_link_check)
  show "keeps_link (\<lambda>s. if pb_role (ps_prob s) = P_CLIENT
      then probdata_ctrl_chan_ctrlmsg_exchange_cli E s else Some (0, s))"
    using exchange_cli_keeps by (auto simp: keeps_link_def)
  show "keeps_link (\<lambda>s. if pb_role (ps_prob s) = P_SERVER
      then probdata_ctrl_chan_ctrlmsg_exchange_srv E s else Some (0, s))"
    using exchange_srv_keeps by (auto simp: keeps_link_def)
qed auto


lemma keeps_link_Some: "keeps_link (\<lambda>s. Some (f s))" if "\<And>s. same_link s (snd (f s))"
  using that by (auto simp: keeps_link_def) (metis snd_conv)

lemmas link_fields = same_link_def upd_prob_def

lemma client_tcp_run_keeps: "keeps_link (probdata_client_tcp_fastprof_run E)"
  unfolding probdata_client_tcp_fastprof_run_def
proof (intro keeps_link_check keeps_link_Some)
  show "same_link s (snd (probdata_client_tcp_prof_new E s))" for s
    by (auto simp: probdata_client_tcp_prof_new_def link_fields Let_def split: prod.split)
  show "keeps_link (probdata_client_tcp_prof_default E)"
    by (rule keeps_linkI) (auto simp: probdata_client_tcp_prof_default_def bind_eq_Some_conv)
  show "keeps_link (probdata_client_tcp_prof_init E)"
    by (rule keeps_linkI) (auto simp: probdata_client_tcp_prof_init_def bind_eq_Some_conv link_fields Let_def)
  show "keeps_link (client_run_tcp E)"
    by (rule keeps_linkI) (auto simp: client_run_tcp_def bind_eq_Some_conv link_fields)
qed auto

lemma client_udt_run_keeps: "keeps_link (probdata_client_udt_fastprof_run E)"
  unfolding probdata_client_udt_fastprof_run_def
proof (intro keeps_link_check keeps_link_Some)
  show "same_link s (snd (probdata_client_udt_prof_new E s))" for s
    by (auto simp: probdata_client_udt_prof_new_def link_fields Let_def split: prod.split)
  show "keeps_link (probdata_client_udt_prof_default E)"
    by (rule keeps_linkI) (auto simp: probdata_client_udt_prof_default_def bind_eq_Some_conv Let_def case_prod_beta)
  show "keeps_link (probdata_client_udt_prof_init E)"
    by (rule keeps_linkI) (auto simp: probdata_client_udt_prof_init_def bind_eq_Some_conv link_fields Let_def
        case_prod_beta)
  show "keeps_link (client_run_udt E)"
    by (rule keeps_linkI) (auto simp: client_run_udt_def bind_eq_Some_conv link_fields)
qed auto

lemma server_tcp_run_keeps: "keeps_link (probdata_server_tcp_fastprof_run E)"
  unfolding probdata_server_tcp_fastprof_run_def
proof (intro keeps_link_check keeps_link_Some)
  show "same_link s (snd (probdata_server_tcp_prof_new E s))" for s
    by (auto simp: probdata_server_tcp_prof_new_def link_fields Let_def split: prod.split)
  show "keeps_link (probdata_server_tcp_prof_default E)"
    by (rule keeps_linkI) (auto simp: probdata_server_tcp_prof_default_def bind_eq_Some_conv)
  show "keeps_link (probdata_server_tcp_prof_init E)"
    by (rule keeps_linkI) (auto simp: probdata_server_tcp_prof_init_def bind_eq_Some_conv)
  show "same_link s (snd (start_tcp_worker E s))" for s
    by (auto simp: start_tcp_worker_def Let_def link_fields set_errno_def split: prod.split)
qed auto

lemma server_udt_run_keeps: "keeps_link (probdata_server_udt_fastprof_run E)"
  unfolding probdata_server_udt_fastprof_run_def
proof (intro keeps_link_check keeps_link_Some)
  show "same_link s (snd (probdata_server_udt_prof_new E s))" for s
    by (auto simp: probdata_server_udt_prof_new_def link_fields Let_def split: prod.split)
  show "keeps_link (probdata_server_udt_prof_default E)"
    by (rule keeps_linkI) (auto simp: probdata_server_udt_prof_default_def bind_eq_Some_conv Let_def case_prod_beta)
  show "keeps_link (probdata_server_udt_prof_init E)"
    by (rule keeps_linkI) (auto simp: probdata_server_udt_prof_init_def bind_eq_Some_conv link_fields Let_def
        case_prod_beta)
  show "same_link s (snd (start_udt_worker E s))" for s
    by (auto simp: start_udt_worker_def Let_def link_fields set_errno_def split: prod.split)
qed auto

lemma join_keeps: "join_worker E t s = Some u \<Longrightarrow> same_link s u"
  "join_if_started E w s = Some u \<Longrightarrow> same_link s u" "stop_tcp_worker E s = Some u \<Longrightarrow> same_link s u"
  by (auto simp: join_worker_def join_if_started_def stop_tcp_worker_def bind_eq_Some_conv split: option.splits)


lemma search_keeps: "keeps_link (probdata_client_search_m2m E tmp)"
  by (rule keeps_linkI) (auto dest!: search_m2m_cases simp: same_link_def)

lemma client_handshake_keeps: "keeps_link (client_handshake E)"
  unfolding client_handshake_def
proof (rule keeps_link_check [OF exchange_keeps])
  show "keeps_link (\<lambda>s. do {
       n \<leftarrow> c_strlen (pb_src_file (ps_prob s));
       if 0 < n then client_reply E P_RUN_D2D_DB s
       else do {
         m \<leftarrow> c_strlen (pb_dst_file (ps_prob s));
         if 0 < m
         then check (client_reply E P_CLIENT_TERMINATE s) id
                (\<lambda>s. Some (- 1, set_errno P_ERR_DSTFILE_ONLY s))
         else client_reply E P_RUN_M2M_DB s
       }
     })"
    by (rule keeps_linkI) (auto simp: bind_eq_Some_conv split: if_splits elim!: check_cases
        dest: keeps_linkD [OF client_reply_keeps])
qed auto

lemma client_after_m2m_keeps: "keeps_link (client_after_m2m E tmp)"
proof (rule keeps_linkI)
  fix s r t assume run: "client_after_m2m E tmp s = Some (r, t)"
  then obtain r' u where u: "probdata_client_search_m2m E tmp s = Some (r', u)"
    by (auto simp: client_after_m2m_def bind_eq_Some_conv)
  then have "\<exists>p. client_reply E p u = Some (r, t)"
    using run by (auto simp: client_after_m2m_def bind_eq_Some_conv split: if_splits)
  then show "same_link s t"
    using keeps_linkD [OF search_keeps u] keeps_linkD [OF client_reply_keeps] same_link_trans by meson
qed

lemma client_proc_keeps: "keeps_link (probdata_client_proc_ctrl_packet E tmp)"
proof -
  have "keeps_link (\<lambda>s. check (probdata_client_tcp_fastprof_run E s) id (client_reply E p))"
    "keeps_link (\<lambda>s. check (probdata_client_udt_fastprof_run E s) id (client_reply E p))" for p
    by (intro keeps_link_check client_tcp_run_keeps client_udt_run_keeps client_reply_keeps; simp)+
  note parts = this [THEN keeps_linkD] keeps_linkD [OF client_reply_keeps]
    keeps_linkD [OF client_handshake_keeps] keeps_linkD [OF client_after_m2m_keeps]
  show ?thesis
    by (rule keeps_linkI)
      (auto simp: client_proc_unfold Let_def client_after_d2d_def probdata_client_search_d2d_def
        probdata_client_dw_xdd_tcp_def probdata_client_dw_xdd_udt_def split: if_splits dest: parts)
qed

subsection \<open>The handlers answer as the protocol says\<close>

lemma client_proc_last_byte:
  assumes "probdata_client_proc_ctrl_packet E tmp s = Some (r, t)" "0 \<le> r"
    and "pb_status (ps_prob s) \<notin> {P_PROGRAM_DONE, P_SERVER_ERROR, P_ACCESS_DENIED}"
    and "stream_io E (pb_accept_sock (ps_prob s)) rx tx"
  obtains packet sent where "client_next (client_flow (ps_prob s)) (goes_straight E tmp s)
      (pb_status (ps_prob s)) = Some packet" "tx (ps_world t) = sent @ [byte_of packet]"
proof -
  obtain u packet where u: "client_reply E packet u = Some (r, t)"
    and answer: "client_next (client_flow (ps_prob u)) (goes_straight E tmp s) (pb_status (ps_prob s)) = Some packet"
    using client_proc_reply [OF assms(1-3)] .
  have "same_link s t" "same_link u t"
    using assms(1) u by (auto dest: keeps_linkD [OF client_proc_keeps] keeps_linkD [OF client_reply_keeps])
  then have "client_flow (ps_prob u) = client_flow (ps_prob s)"
    "pb_accept_sock (ps_prob u) = pb_accept_sock (ps_prob s)"
    by (auto simp: same_link_def client_flow_def)
  then show thesis using that answer client_reply_stream [OF u assms(2), of rx tx] assms(4) by auto
qed

text \<open>
  C3. A call of the client's handler that succeeds on a packet of a running session sends, as
  its last byte on the control channel, exactly the packet that the protocol prescribes for
  the files of the command line, the history and the choice of UDT.
\<close>

theorem client_answers:
  assumes "probdata_client_proc_ctrl_packet E tmp s = Some (r, t)" "0 \<le> r"
    and "pb_status (ps_prob s) \<notin> {P_PROGRAM_DONE, P_SERVER_ERROR, P_ACCESS_DENIED}"
    and "stream_io E (pb_accept_sock (ps_prob s)) rx tx"
  shows "\<exists>packet sent. client_next (client_flow (ps_prob s)) (goes_straight E tmp s)
      (pb_status (ps_prob s)) = Some packet \<and> tx (ps_world t) = sent @ [byte_of packet]"
  using client_proc_last_byte [OF assms] by blast

text \<open>
  C4. A call of the server's handler that succeeds on a packet it knows transmits exactly that
  packet over the client's connection, in the handshake followed by the agreed parameters of
  its final state; packets it does not know it ignores without an answer.
\<close>

theorem server_answers:
  assumes "probdata_server_proc_ctrl_packet E s = Some (r, t)" "0 \<le> r"
    and "stream_io E (pb_accept_sock (ps_prob s)) rx tx" "off_channel E tx" "pb_role (ps_prob s) = P_SERVER"
  shows "case server_next (pb_status (ps_prob s)) of
      None \<Rightarrow> r = 0 \<and> t = s
    | Some packet \<Rightarrow> packet = pb_status (ps_prob s) \<and>
        tx (ps_world t) = tx (ps_world s) @ byte_of packet #
          (if packet = P_TWOWAY_HANDSHAKE then ctrlmsg_bytes (agreed_msg (ps_prob t)) else [])"
proof (cases "server_next (pb_status (ps_prob s))")
  case None
  then show ?thesis using assms(1)
    by (auto simp: server_next_def server_proc_unfold Let_def split: if_splits)
next
  case (Some packet)
  moreover from this have "packet = pb_status (ps_prob s)" by (simp add: server_next_def split: if_splits)
  ultimately show ?thesis
    using server_proc_sends [OF assms] unfolding server_output_def by (simp del: list.simps)
qed

subsection \<open>The protocol as a state machine\<close>

text \<open>A state of the conversation is the packet in flight and where it is going.\<close>

datatype msg = ToClient int | ToServer int

inductive conv_step :: "flow \<Rightarrow> bool \<Rightarrow> msg \<Rightarrow> msg \<Rightarrow> bool" for flow straight where
  client: "client_next flow straight p = Some q \<Longrightarrow> conv_step flow straight (ToClient p) (ToServer q)"
| server: "server_next p = Some q \<Longrightarrow> conv_step flow straight (ToServer p) (ToClient q)"

inductive_simps conv_step_simps [simp]:
  "conv_step flow straight (ToClient p) m" "conv_step flow straight (ToServer p) m"

definition conv_reaches :: "flow \<Rightarrow> bool \<Rightarrow> msg \<Rightarrow> bool" where
  "conv_reaches flow straight = (conv_step flow straight)\<^sup>*\<^sup>* (ToClient P_CTRL_CHAN_EST)"

text \<open>The course that a conversation takes.\<close>

definition round_trip :: "int \<Rightarrow> msg list" where
  "round_trip p = [ToServer p, ToClient p]"

definition conversation :: "flow \<Rightarrow> bool \<Rightarrow> msg list" where
  "conversation flow straight = ToClient P_CTRL_CHAN_EST # round_trip P_TWOWAY_HANDSHAKE @
     (case flow of
        DiskToDisk \<Rightarrow> concat (map round_trip [P_RUN_D2D_DB, P_RUN_D2D_TCP, P_RUN_D2D_UDT, P_PROGRAM_DONE])
      | DestinationOnly \<Rightarrow> [ToServer P_CLIENT_TERMINATE]
      | MemToMem \<Rightarrow> concat (map round_trip
          (if straight then [P_RUN_M2M_DB, P_RUN_M2M_UDT, P_PROGRAM_DONE]
           else [P_RUN_M2M_DB, P_RUN_M2M_TCP, P_RUN_M2M_UDT, P_PROGRAM_DONE])))"

lemmas conv_defs = conversation_def round_trip_def client_next_def server_next_def status_defs

definition chained :: "('a \<Rightarrow> 'a \<Rightarrow> bool) \<Rightarrow> 'a list \<Rightarrow> bool" where
  "chained R xs \<longleftrightarrow> (\<forall>i. Suc i < length xs \<longrightarrow> R (xs ! i) (xs ! Suc i))"

lemma chained_Cons: "chained R (x # y # xs) \<longleftrightarrow> R x y \<and> chained R (y # xs)"
  by (auto simp: chained_def less_Suc_eq_0_disj all_conj_distrib)

lemma chained_single [simp]: "chained R [x]" "chained R []"
  by (simp_all add: chained_def)

lemma chained_reaches:
  assumes "chained R (x # xs)" "y \<in> set (x # xs)"
  shows "R\<^sup>*\<^sup>* x y"
  using assms
proof (induction xs arbitrary: x)
  case (Cons z xs)
  then show ?case by (auto simp: chained_Cons intro: converse_rtranclp_into_rtranclp)
qed simp

lemma conversation_chained: "chained (conv_step flow straight) (conversation flow straight)"
  by (cases flow; cases straight) (simp_all add: conv_defs chained_Cons)

lemma conversation_closed:
  assumes "m \<in> set (conversation flow straight)" "conv_step flow straight m m'"
  shows "m' \<in> set (conversation flow straight)"
  using assms by (cases flow; cases straight) (auto simp: conv_defs)

lemma conv_reaches_iff:
  "conv_reaches flow straight m \<longleftrightarrow> m \<in> set (conversation flow straight)"
proof
  assume "conv_reaches flow straight m"
  then have "(conv_step flow straight)\<^sup>*\<^sup>* (ToClient P_CTRL_CHAN_EST) m" by (simp add: conv_reaches_def)
  then show "m \<in> set (conversation flow straight)"
  proof (induction rule: rtranclp_induct)
    case base
    show ?case by (simp add: conversation_def)
  next
    case (step y z)
    then show ?case using conversation_closed by blast
  qed
next
  assume "m \<in> set (conversation flow straight)"
  moreover obtain ms where "conversation flow straight = ToClient P_CTRL_CHAN_EST # ms"
    by (simp add: conversation_def)
  ultimately show "conv_reaches flow straight m"
    unfolding conv_reaches_def using conversation_chained [of flow straight] chained_reaches by metis
qed

text \<open>A chain of a deterministic step relation is a prefix of every one that has come to its end.\<close>

lemma chained_prefix:
  assumes "\<And>x y z. R x y \<Longrightarrow> R x z \<Longrightarrow> y = z" "chained R (x # xs)" "chained R (x # ys)"
    "\<And>z. \<not> R (last (x # ys)) z"
  shows "prefix (x # xs) (x # ys)"
  using assms(2-)
proof (induction xs arbitrary: x ys)
  case (Cons z xs)
  then have "R x z" by (simp add: chained_Cons)
  then obtain y ys' where ys: "ys = y # ys'" using Cons.prems(3) [of z] by (cases ys) auto
  then have "y = z" using Cons.prems(2) \<open>R x z\<close> assms(1) by (auto simp: chained_Cons)
  then show ?case using Cons.IH [of z ys'] Cons.prems ys by (simp add: chained_Cons)
qed simp

lemma conv_step_deterministic: "conv_step flow straight m x \<Longrightarrow> conv_step flow straight m y \<Longrightarrow> x = y"
  by (cases m) auto

definition conv_final :: "flow \<Rightarrow> msg" where
  "conv_final flow = (if flow = DestinationOnly then ToServer P_CLIENT_TERMINATE else ToClient P_PROGRAM_DONE)"

lemma conv_final_stuck: "\<not> conv_step flow straight (conv_final flow) m"
  by (cases flow) (auto simp: conv_final_def client_next_def server_next_def status_defs)

lemma conversation_hd_last:
  "hd (conversation flow straight) = ToClient P_CTRL_CHAN_EST"
  "last (conversation flow straight) = conv_final flow" "conversation flow straight \<noteq> []"
  by (cases flow; cases straight; simp add: conversation_def round_trip_def conv_final_def)+

lemma conversation_distinct: "distinct (conversation flow straight)"
  by (cases flow; cases straight) (simp_all add: conv_defs)

lemma conv_chain_prefix:
  assumes "chained (conv_step flow straight) ms" "ms \<noteq> []" "hd ms = ToClient P_CTRL_CHAN_EST"
  shows "prefix ms (conversation flow straight)"
proof -
  obtain x xs where ms: "ms = x # xs" using assms(2) by (cases ms) auto
  obtain ys where ys: "conversation flow straight = x # ys"
    using conversation_hd_last(1,3) [of flow straight] assms(3) ms by (cases "conversation flow straight") auto
  show ?thesis unfolding ms ys
    using chained_prefix [of "conv_step flow straight" x xs ys] conv_step_deterministic assms(1) ms
      conversation_chained [of flow straight] conversation_hd_last(2) [of flow straight] conv_final_stuck
    unfolding ys by metis
qed

subsection \<open>The conversation of the two programs\<close>

text \<open>
  A turn of the client: its poll takes the packet \<open>p\<close> that arrives and its handler deals
  with it, successfully; likewise a turn of the server. Both run from a state of their own,
  over a connected socket.
\<close>

definition client_turn :: "'c env \<Rightarrow> mem_record \<Rightarrow> ('c \<Rightarrow> string) \<Rightarrow> ('c \<Rightarrow> string) \<Rightarrow> flow \<Rightarrow> bool \<Rightarrow>
    int \<Rightarrow> 'c pstate \<Rightarrow> 'c pstate \<Rightarrow> bool" where
  "client_turn E tmp rx tx flow straight p s t \<longleftrightarrow> (\<exists>a rest k u r.
     stream_io E (pb_accept_sock (ps_prob s)) rx tx \<and> select_waits E rx tx \<and>
     rx (ps_world s) = a # rest \<and> p = schar_of a \<and>
     probdata_client_poll_ctrl_channel E s = Some (k, u) \<and> 0 < k \<and>
     client_flow (ps_prob u) = flow \<and> goes_straight E tmp u = straight \<and>
     probdata_client_proc_ctrl_packet E tmp u = Some (r, t) \<and> 0 \<le> r)"

definition server_turn :: "'s env \<Rightarrow> ('s \<Rightarrow> string) \<Rightarrow> ('s \<Rightarrow> string) \<Rightarrow>
    int \<Rightarrow> 's pstate \<Rightarrow> 's pstate \<Rightarrow> bool" where
  "server_turn E rx tx p s t \<longleftrightarrow> (\<exists>a rest k u r.
     stream_io E (pb_accept_sock (ps_prob s)) rx tx \<and> select_waits E rx tx \<and> off_channel E tx \<and>
     pb_role (ps_prob s) = P_SERVER \<and>
     rx (ps_world s) = a # rest \<and> p = schar_of a \<and>
     probdata_server_poll_ctrl_channel E s = Some (k, u) \<and> 0 < k \<and>
     probdata_server_proc_ctrl_packet E u = Some (r, t) \<and> 0 \<le> r)"

text \<open>
  The conversation: the packet that the client's turn answers with is the last byte it has
  transmitted, the packet that the server's turn answers with the first one (in the handshake
  its parameters follow); the peer reads the byte as its next packet. A turn that transmits
  nothing, and one after a packet that ends the session, answers nothing.
\<close>

inductive talk ::
  "'c env \<Rightarrow> mem_record \<Rightarrow> ('c \<Rightarrow> string) \<Rightarrow> ('c \<Rightarrow> string) \<Rightarrow> 's env \<Rightarrow> ('s \<Rightarrow> string) \<Rightarrow> ('s \<Rightarrow> string) \<Rightarrow>
    flow \<Rightarrow> bool \<Rightarrow> msg \<Rightarrow> msg \<Rightarrow> bool"
  for Ec tmp rxc txc Es rxs txs flow straight where
  client_says: "talk Ec tmp rxc txc Es rxs txs flow straight (ToClient p) (ToServer (schar_of b))"
    if "client_turn Ec tmp rxc txc flow straight p s t" "p \<notin> {P_PROGRAM_DONE, P_SERVER_ERROR, P_ACCESS_DENIED}"
      "txc (ps_world t) = sent @ [b]"
| server_says: "talk Ec tmp rxc txc Es rxs txs flow straight (ToServer p) (ToClient (schar_of b))"
    if "server_turn Es rxs txs p s t" "txs (ps_world t) = txs (ps_world s) @ b # parameters"

lemma client_next_schar: "client_next flow straight p = Some q \<Longrightarrow> schar_of (byte_of q) = q"
  by (rule schar_byte) (auto simp: client_next_def status_defs split: if_splits flow.splits)

lemma server_next_schar: "server_next p = Some q \<Longrightarrow> schar_of (byte_of q) = q"
  by (rule schar_byte) (auto simp: server_next_def status_defs split: if_splits)

lemma client_turn_answer:
  assumes "client_turn E tmp rx tx flow straight p s t"
    and "p \<notin> {P_PROGRAM_DONE, P_SERVER_ERROR, P_ACCESS_DENIED}"
  obtains packet sent where "client_next flow straight p = Some packet"
    "tx (ps_world t) = sent @ [byte_of packet]"
proof -
  from assms(1) obtain a rest k u r where
    io: "stream_io E (pb_accept_sock (ps_prob s)) rx tx" "select_waits E rx tx"
    and p: "rx (ps_world s) = a # rest" "p = schar_of a"
    and poll: "probdata_client_poll_ctrl_channel E s = Some (k, u)" "0 < k"
    and run: "client_flow (ps_prob u) = flow" "goes_straight E tmp u = straight"
      "probdata_client_proc_ctrl_packet E tmp u = Some (r, t)" "0 \<le> r"
    unfolding client_turn_def by blast
  obtain k' where "poll_ctrl_channel E P_ERR_CTRL_CHAN None s = Some (k', u)" "0 < k'"
    using poll by (auto simp: probdata_client_poll_ctrl_channel_def bind_eq_Some_conv split: if_splits)
  note u = poll_takes_packet [OF this p(1) io]
  then have "pb_status (ps_prob u) \<notin> {P_PROGRAM_DONE, P_SERVER_ERROR, P_ACCESS_DENIED}"
    "stream_io E (pb_accept_sock (ps_prob u)) rx tx" "pb_status (ps_prob u) = p"
    using assms(2) io(1) p(2) by simp_all
  note status = this
  show thesis
    by (rule client_proc_last_byte [OF run(3,4) status(1,2)])
      (use that run(1,2) status(3) in blast)
qed

lemma server_turn_sends:
  assumes "server_turn E rx tx p s t"
  shows "tx (ps_world t) = tx (ps_world s) @ server_output p (ps_prob t)"
proof -
  from assms obtain a rest k u r where
    io: "stream_io E (pb_accept_sock (ps_prob s)) rx tx" "select_waits E rx tx" "off_channel E tx"
    and p: "pb_role (ps_prob s) = P_SERVER" "rx (ps_world s) = a # rest" "p = schar_of a"
    and poll: "probdata_server_poll_ctrl_channel E s = Some (k, u)" "0 < k"
    and run: "probdata_server_proc_ctrl_packet E u = Some (r, t)" "0 \<le> r"
    unfolding server_turn_def by blast
  obtain u' where poll': "poll_ctrl_channel E P_ERR_UNKNOWN (Some P_ERR_UNKNOWN) s = Some (k, u')"
    and u: "u = upd_prob (\<lambda>p. p\<lparr>pb_max_sock := - 1\<rparr>) u'"
    using poll by (auto simp: probdata_server_poll_ctrl_channel_def bind_eq_Some_conv)
  note u' = poll_takes_packet [OF poll' poll(2) p(2) io(1,2)]
  then have "stream_io E (pb_accept_sock (ps_prob u)) rx tx" "pb_role (ps_prob u) = P_SERVER"
    "pb_status (ps_prob u) = p" "tx (ps_world u) = tx (ps_world s)"
    using io(1) p by (simp_all add: u upd_prob_def)
  then show ?thesis using server_proc_sends [OF run, of rx tx] io(3) by simp
qed

lemma talk_conv_step:
  assumes "talk Ec tmp rxc txc Es rxs txs flow straight m m'"
  shows "conv_step flow straight m m'"
  using assms
proof cases
  case (client_says p s t b sent)
  obtain packet sent' where "client_next flow straight p = Some packet"
    "txc (ps_world t) = sent' @ [byte_of packet]"
    using client_turn_answer [OF client_says(3,4)] .
  then show ?thesis using client_says by (simp add: client_next_schar)
next
  case (server_says p s t b parameters)
  then have "server_output p (ps_prob t) = b # parameters"
    using server_turn_sends [OF server_says(3)] by simp
  then obtain q where "server_next p = Some q" "b = byte_of q"
    by (auto simp: server_output_def split: option.splits)
  then show ?thesis using server_says by (simp add: server_next_schar)
qed

interpretation conversation_sim: simulation
  "talk Ec tmp rxc txc Es rxs txs flow straight" "conv_step flow straight" "\<lambda>m. m" "\<lambda>_. True"
  for Ec tmp rxc txc Es rxs txs flow straight
  by unfold_locales (auto intro: talk_conv_step)

lemma talk_conv_reaches:
  "(talk Ec tmp rxc txc Es rxs txs flow straight)\<^sup>*\<^sup>* (ToClient P_CTRL_CHAN_EST) m \<Longrightarrow>
   conv_reaches flow straight m"
  unfolding conv_reaches_def by (rule conjunct1 [OF conversation_sim.reaches [OF _ TrueI]])

text \<open>
  C8. What client and server say to each other, from the packet that establishes the control
  channel on, is a beginning of the course of the protocol for the files of the command line,
  the history and the choice of UDT only, and no packet travels twice in the same direction:
  no packet occurs out of turn, a run with UDT comes after the handshake and the history, and
  with a record in the history and UDT only, TCP is never asked for.
\<close>

theorem conversation_course:
  assumes "chained (talk Ec tmp rxc txc Es rxs txs flow straight) ms" "ms \<noteq> []"
    and "hd ms = ToClient P_CTRL_CHAN_EST"
  shows "prefix ms (conversation flow straight) \<and> distinct ms"
proof -
  have "chained (conv_step flow straight) ms"
    using assms(1) talk_conv_step unfolding chained_def by blast
  from conv_chain_prefix [OF this assms(2,3)] show ?thesis
    using conversation_distinct [of flow straight] by (auto simp: prefix_def)
qed

fun phase_rank :: "int \<Rightarrow> nat" where
  "phase_rank p =
     (if p = P_CTRL_CHAN_EST then 6 else if p = P_TWOWAY_HANDSHAKE then 5
      else if p = P_RUN_M2M_DB \<or> p = P_RUN_D2D_DB then 4
      else if p = P_RUN_M2M_TCP \<or> p = P_RUN_D2D_TCP then 3
      else if p = P_RUN_M2M_UDT \<or> p = P_RUN_D2D_UDT then 2 else if p = P_PROGRAM_DONE then 1 else 0)"

fun conv_rank :: "msg \<Rightarrow> nat" where
  "conv_rank (ToClient p) = 2 * phase_rank p"
| "conv_rank (ToServer p) = 2 * phase_rank p + 1"

lemma conv_step_rank: "conv_step flow straight m m' \<Longrightarrow> conv_rank m' < conv_rank m"
  by (erule conv_step.cases)
    (auto simp: client_next_def server_next_def status_defs split: if_splits flow.splits)

text \<open>A party takes its turn on a packet in flight.\<close>

definition takes_turn :: "'c env \<Rightarrow> mem_record \<Rightarrow> ('c \<Rightarrow> string) \<Rightarrow> ('c \<Rightarrow> string) \<Rightarrow> 's env \<Rightarrow> ('s \<Rightarrow> string) \<Rightarrow>
    ('s \<Rightarrow> string) \<Rightarrow> flow \<Rightarrow> bool \<Rightarrow> msg \<Rightarrow> bool" where
  "takes_turn Ec tmp rxc txc Es rxs txs flow straight m \<longleftrightarrow>
     (case m of ToClient p \<Rightarrow> \<exists>s t. client_turn Ec tmp rxc txc flow straight p s t
      | ToServer p \<Rightarrow> \<exists>s t. server_turn Es rxs txs p s t)"

lemma conversation_known:
  assumes "m \<in> set (conversation flow straight)" "m \<noteq> conv_final flow"
  shows "case m of ToClient p \<Rightarrow> p \<notin> {P_PROGRAM_DONE, P_SERVER_ERROR, P_ACCESS_DENIED}
    | ToServer p \<Rightarrow> server_next p = Some p"
  using assms by (cases flow; cases straight) (auto simp: conv_defs conv_final_def)

lemma turn_answered:
  assumes "conv_reaches flow straight m" "m \<noteq> conv_final flow"
    and "takes_turn Ec tmp rxc txc Es rxs txs flow straight m"
  obtains m' where "talk Ec tmp rxc txc Es rxs txs flow straight m m'"
proof -
  note known = conversation_known [OF assms(1) [unfolded conv_reaches_iff] assms(2)]
  show thesis
  proof (cases m)
    case (ToClient p)
    then obtain s t where turn: "client_turn Ec tmp rxc txc flow straight p s t"
      using assms(3) by (auto simp: takes_turn_def)
    have p: "p \<notin> {P_PROGRAM_DONE, P_SERVER_ERROR, P_ACCESS_DENIED}" using known ToClient by simp
    obtain packet sent where "txc (ps_world t) = sent @ [byte_of packet]"
      using client_turn_answer [OF turn p] .
    from client_says [OF turn p this] show thesis using that ToClient by blast
  next
    case (ToServer p)
    then obtain s t where turn: "server_turn Es rxs txs p s t"
      using assms(3) by (auto simp: takes_turn_def)
    have "server_next p = Some p" using known ToServer by simp
    then have "txs (ps_world t) = txs (ps_world s) @ byte_of p #
        (if p = P_TWOWAY_HANDSHAKE then ctrlmsg_bytes (agreed_msg (ps_prob t)) else [])"
      using server_turn_sends [OF turn] unfolding server_output_def by (simp del: list.simps)
    from server_says [OF turn this] show thesis using that ToServer by blast
  qed
qed


end
