(* ===== verification/MainLoop.thy ===== *)
theory MainLoop
  imports Dialogue
begin

text \<open>
  The main loops of both parties and what their results say. The two loops have the same
  shape: poll the control channel, handle a packet, until the status says that the session
  is over. That shape is the locale \<open>control_loop\<close>; its facts are the client's and the
  server's through the interpretations below.
\<close>

subsection \<open>The shape of a main loop\<close>

locale control_loop =
  fixes body :: "'w pstate \<Rightarrow> 'w pstate ctl option"
    and poll :: "'w pstate \<Rightarrow> (int \<times> 'w pstate) option"
    and handle :: "'w pstate \<Rightarrow> (int \<times> 'w pstate) option"
    and finished :: "int \<Rightarrow> bool"
    and poll_fail :: "'w pstate \<Rightarrow> 'w pstate"
    and handle_fail :: "'w pstate \<Rightarrow> 'w pstate"
  assumes body_eq: "body s =
     (if finished (pb_status (ps_prob s)) then Some (Break s)
      else do {
        (ret, s) \<leftarrow> poll s;
        if ret < 0 then Some (Return (- 1) (poll_fail s))
        else if ret = 0 then Some (Next s)
        else do {
          (r, s) \<leftarrow> handle s;
          Some (if r < 0 then Return (- 1) (handle_fail s) else Next s)
        }
      })"
begin

lemma body_cases:
  assumes "body s = Some c"
  obtains "finished (pb_status (ps_prob s))" "c = Break s"
  | ret u where "\<not> finished (pb_status (ps_prob s))" "poll s = Some (ret, u)" "ret < 0"
      "c = Return (- 1) (poll_fail u)"
  | u where "\<not> finished (pb_status (ps_prob s))" "poll s = Some (0, u)" "c = Next u"
  | ret u r t where "\<not> finished (pb_status (ps_prob s))" "poll s = Some (ret, u)" "0 < ret"
      "handle u = Some (r, t)" "r < 0" "c = Return (- 1) (handle_fail t)"
  | ret u r t where "\<not> finished (pb_status (ps_prob s))" "poll s = Some (ret, u)" "0 < ret"
      "handle u = Some (r, t)" "0 \<le> r" "c = Next t"
proof (cases "finished (pb_status (ps_prob s))")
  case True
  then show thesis using assms that(1) by (simp add: body_eq)
next
  case False
  then obtain ret u where p: "poll s = Some (ret, u)"
    using assms by (auto simp: body_eq bind_eq_Some_conv)
  consider "ret < 0" | "ret = 0" | "0 < ret" by linarith
  then show thesis
  proof cases
    case 3
    then obtain r t where h: "handle u = Some (r, t)"
      using assms False p by (auto simp: body_eq bind_eq_Some_conv)
    show thesis
      by (cases "r < 0") (use assms False p 3 h that(4,5) in \<open>simp_all add: body_eq\<close>)
  qed (use assms False p that(2,3) in \<open>simp_all add: body_eq\<close>)
qed

text \<open>A loop that ends has finished its session, or failed with \<open>- 1\<close>.\<close>

lemma result:
  assumes "run_loop body s = Some c"
  obtains t where "c = Break t" "finished (pb_status (ps_prob t))"
  | t where "c = Return (- 1) t"
proof -
  obtain t where t: "body t = Some c" "\<forall>u. c \<noteq> Next u" using run_loop_last [OF assms] by blast
  show thesis
    by (rule body_cases [OF t(1)]) (use t(2) that in auto)
qed

text \<open>What polling and handling keep, the loop keeps.\<close>

lemma invariant:
  assumes "loop_reaches body s t" "I s"
    and "\<And>s r t. I s \<Longrightarrow> poll s = Some (r, t) \<Longrightarrow> I t"
    and "\<And>s r t. I s \<Longrightarrow> handle s = Some (r, t) \<Longrightarrow> I t"
  shows "I t"
proof (rule loop_reaches_invariant [of body s t I, OF assms(1,2)])
  fix s t assume I: "I s" and step: "body s = Some (Next t)"
  show "I t"
  proof (rule body_cases [OF step])
    fix u assume "poll s = Some (0, u)" "Next t = Next u"
    then show ?thesis using assms(3) [OF I] by simp
  next
    fix ret u r v assume "poll s = Some (ret, u)" "handle u = Some (r, v)" "Next t = Next v"
    then show ?thesis using assms(4) [OF assms(3) [OF I]] by simp
  qed simp_all
qed

end

interpretation client_loop: control_loop "client_body E tmp" "probdata_client_poll_ctrl_channel E"
  "probdata_client_proc_ctrl_packet E tmp" "\<lambda>status. status = P_PROGRAM_DONE"
  "set_errno P_ERR_CTRL_CHAN" "\<lambda>s. s" for E tmp
  by unfold_locales (simp add: client_body_def)

interpretation server_loop: control_loop "server_body E" "probdata_server_poll_ctrl_channel E"
  "probdata_server_proc_ctrl_packet E" server_done "set_errno P_ERR_UNKNOWN" "set_errno P_ERR_UNKNOWN" for E
  by unfold_locales (simp add: server_body_def)

subsection \<open>What the results of the two programs say\<close>

lemma client_outcome:
  assumes "probdata_client E tmp s = Some (r, recommended, t)"
  shows "r = 0 \<and> recommended \<noteq> None \<and> pb_status (ps_prob t) = P_PROGRAM_DONE \<or>
    r = - 1 \<and> recommended = None"
proof -
  let ?s0 = "s\<lparr>ps_world := snd (e_system E ''date'' (snd (e_system E ''uname -a'' (ps_world s))))\<rparr>"
  obtain s1 q s2 where s1: "client_estimate_rtt E ?s0 = Some s1" "probdata_client_connect E s1 = Some (q, s2)"
    using assms by (auto simp: probdata_client_def Let_def bind_eq_Some_conv)
  show ?thesis
  proof (cases "q < 0")
    case True
    then show ?thesis using assms s1 by (simp add: probdata_client_def Let_def)
  next
    case False
    let ?s3 = "upd_prob (\<lambda>p. p\<lparr>pb_status := P_PROGRAM_START\<rparr>) s2"
    obtain c where c: "run_loop (client_body E tmp) ?s3 = Some c"
      using assms s1 False by (auto simp: probdata_client_def Let_def bind_eq_Some_conv)
    show ?thesis
      by (rule client_loop.result [OF c])
        (use assms s1 False c in \<open>auto simp: probdata_client_def Let_def bind_eq_Some_conv\<close>)
  qed
qed

text \<open>
  C10. The client returns 0, with a recommendation, only after the packet that ends the
  session; in every other case it returns \<open>- 1\<close> and recommends nothing.
\<close>

theorem probdata_client_result:
  assumes "probdata_client E tmp s = Some (r, recommended, t)"
  shows "r = 0 \<and> recommended \<noteq> None \<and> pb_status (ps_prob t) = P_PROGRAM_DONE \<or>
    r = - 1 \<and> recommended = None"
  by (rule client_outcome [OF assms])

lemma c_memset_take: "c_memset dst c n = Some b \<Longrightarrow> take n b = replicate n c"
  by (auto simp: c_memset_def split: if_splits)

text \<open>Every string of the program's state filled with the digit zero, over its whole length.\<close>

definition strings_overwritten :: "probdata \<Rightarrow> bool" where
  "strings_overwritten p \<longleftrightarrow>
     take P_HOSTADDR_LEN (pb_local_ip p) = replicate P_HOSTADDR_LEN (CHR ''0'') \<and>
     take P_HOSTADDR_LEN (pb_remote_ip p) = replicate P_HOSTADDR_LEN (CHR ''0'') \<and>
     take P_FILENAME_LEN (pb_src_file p) = replicate P_FILENAME_LEN (CHR ''0'') \<and>
     take P_FILENAME_LEN (pb_dst_file p) = replicate P_FILENAME_LEN (CHR ''0'') \<and>
     take P_IDPKT_SIZE (pb_id p) = replicate P_IDPKT_SIZE (CHR ''0'')"

lemma forget_strings_effect: "forget_strings p = Some q \<Longrightarrow> strings_overwritten q \<and> pb_status q = pb_status p"
  by (auto simp: forget_strings_def strings_overwritten_def bind_eq_Some_conv dest: c_memset_take)

lemma strings_overwritten_upd [simp]:
  "strings_overwritten (p\<lparr>pb_udt_worker := u, pb_tcp_worker := t, pb_instance := i\<rparr>) = strings_overwritten p"
  by (simp add: strings_overwritten_def)

lemma server_outcome:
  assumes "probdata_server E s = Some (r, t)"
  shows "r = 0 \<and> server_done (pb_status (ps_prob t)) \<and> pb_instance (ps_prob t) = None \<and>
      pb_udt_worker (ps_prob t) = None \<and> pb_tcp_worker (ps_prob t) = None \<and> strings_overwritten (ps_prob t) \<or>
    r = - 1"
proof -
  let ?finish = "\<lambda>c. (case c of Return r s \<Rightarrow> Some (r, s)
      | _ \<Rightarrow> check (probdata_server_clean_up E (ctl_state c)) id
          (\<lambda>s. Some (0, s\<lparr>ps_world := snd (e_system E ''date'' (ps_world s))\<rparr>)))"
  have "r = - 1 \<or> (\<exists>u c. run_loop (server_body E) u = Some c \<and> ?finish c = Some (r, t))"
    using assms unfolding probdata_server_def Let_def
    by (auto elim!: check_cases simp: bind_eq_Some_conv)
  then show ?thesis
  proof (elim disjE exE conjE)
    fix u c assume c: "run_loop (server_body E) u = Some c" and fin: "?finish c = Some (r, t)"
    show ?thesis
    proof (rule server_loop.result [OF c])
      fix v assume v: "c = Break v" "server_done (pb_status (ps_prob v))"
      from fin v(1) have "check (probdata_server_clean_up E v) id
          (\<lambda>s. Some (0, s\<lparr>ps_world := snd (e_system E ''date'' (ps_world s))\<rparr>)) = Some (r, t)" by simp
      then show ?thesis
      proof (rule check_cases)
        fix q x assume up: "probdata_server_clean_up E v = Some (q, x)"
          and "Some (0, x\<lparr>ps_world := snd (e_system E ''date'' (ps_world x))\<rparr>) = Some (r, t)"
        then show ?thesis using v(2)
          by (auto simp: probdata_server_clean_up_def Let_def bind_eq_Some_conv
              dest!: forget_strings_effect split: if_splits)
      qed simp
    qed (use fin in simp)
  qed simp
qed



subsection \<open>What a session keeps\<close>

lemma upd_prob_world [simp]: "ps_world (upd_prob f s) = ps_world s"
  by (simp add: upd_prob_def)

lemma poll_keeps:
  "poll_ctrl_channel E e f s = Some (r, t) \<Longrightarrow> same_link s t"
proof -
  assume poll: "poll_ctrl_channel E e f s = Some (r, t)"
  let ?sock = "pb_accept_sock (ps_prob s)"
  let ?s = "upd_prob (\<lambda>p. p\<lparr>pb_max_sock := max (pb_max_sock p) ?sock\<rparr>) s"
  obtain q b w where sel: "e_select E ?sock (ps_world s) = (q, b, w)"
    by (cases "e_select E ?sock (ps_world s)")
  let ?u = "?s\<lparr>ps_world := w\<rparr>"
  have link: "same_link s ?u" by (simp add: link_fields)
  show ?thesis
  proof (cases "0 < q \<and> 0 < ?sock \<and> b")
    case True
    then obtain k bs v where recv: "recv_bytes E 1 ?u = Some (k, bs, v)"
      using poll sel by (auto simp: poll_ctrl_channel_def Let_def bind_eq_Some_conv split: if_splits)
    have "same_link v t"
      using poll sel True recv
      by (auto simp: poll_ctrl_channel_def Let_def same_link_upd split: if_splits list.splits option.splits)
    then show ?thesis using link recv_bytes_keeps [OF recv] same_link_trans by meson
  next
    case False
    then show ?thesis using poll sel link
      by (auto simp: poll_ctrl_channel_def Let_def split: if_splits)
  qed
qed

lemma server_proc_keeps: "keeps_link (probdata_server_proc_ctrl_packet E)"
proof -
  have exch: "keeps_link (\<lambda>s. check (probdata_ctrl_chan_ctrlmsg_exchange E s) id (\<lambda>s. Some (0, s)))"
    and udt: "keeps_link (\<lambda>s. check (probdata_server_udt_fastprof_run E s) (set_errno P_ERR_UNKNOWN)
      (\<lambda>s. Some (0, s)))"
    by (intro keeps_link_check exchange_keeps server_udt_run_keeps keeps_link_basic; simp)+
  have "keeps_link (\<lambda>s. check (server_reply E P_TWOWAY_HANDSHAKE s) id
      (\<lambda>s. check (probdata_ctrl_chan_ctrlmsg_exchange E s) id (\<lambda>s. Some (0, s))))"
    "keeps_link (\<lambda>s. check (server_reply E P_RUN_M2M_UDT s) id
      (\<lambda>s. check (probdata_server_udt_fastprof_run E s) (set_errno P_ERR_UNKNOWN) (\<lambda>s. Some (0, s))))"
    "keeps_link (\<lambda>s. check (probdata_server_tcp_fastprof_run E s) (set_errno P_ERR_UNKNOWN)
      (server_reply E P_RUN_M2M_TCP))"
    by (intro keeps_link_check server_reply_keeps exch udt server_tcp_run_keeps; simp)+
  note parts = this [THEN keeps_linkD] keeps_linkD [OF server_reply_keeps]
  note joins = join_keeps [THEN same_link_trans]
  show ?thesis
    by (rule keeps_linkI)
      (auto simp: server_proc_unfold Let_def bind_eq_Some_conv
        probdata_server_dw_xdd_tcp_def probdata_server_dw_xdd_udt_def split: if_splits dest: parts intro: joins)
qed

text \<open>
  From the first iteration of its main loop to the last, neither party changes its control
  connection, its role or the files it was asked to transfer, whatever the peer sends.
\<close>

theorem session_keeps_link:
  "(loop_reaches (client_body E tmp) s t \<longrightarrow> same_link s t) \<and>
   (loop_reaches (server_body E) s t \<longrightarrow> same_link s t)"
proof (intro conjI impI)
  assume run: "loop_reaches (client_body E tmp) s t"
  show "same_link s t"
  proof (rule client_loop.invariant [OF run same_link_refl])
    fix u r v assume "same_link s u" "probdata_client_poll_ctrl_channel E u = Some (r, v)"
    then show "same_link s v"
      by (auto simp: probdata_client_poll_ctrl_channel_def bind_eq_Some_conv
          dest: poll_keeps intro: same_link_trans)
  next
    fix u r v assume "same_link s u" "probdata_client_proc_ctrl_packet E tmp u = Some (r, v)"
    then show "same_link s v" by (blast dest: keeps_linkD [OF client_proc_keeps] intro: same_link_trans)
  qed
next
  assume run: "loop_reaches (server_body E) s t"
  show "same_link s t"
  proof (rule server_loop.invariant [OF run same_link_refl])
    fix u r v assume su: "same_link s u" and "probdata_server_poll_ctrl_channel E u = Some (r, v)"
    then obtain x where "poll_ctrl_channel E P_ERR_UNKNOWN (Some P_ERR_UNKNOWN) u = Some (r, x)"
      "v = (if 0 < r then upd_prob (\<lambda>p. p\<lparr>pb_max_sock := - 1\<rparr>) x else x)"
      by (auto simp: probdata_server_poll_ctrl_channel_def bind_eq_Some_conv)
    then show "same_link s v" using same_link_trans [OF su poll_keeps] by (auto simp: same_link_upd)
  next
    fix u r v assume "same_link s u" "probdata_server_proc_ctrl_packet E u = Some (r, v)"
    then show "same_link s v" by (blast dest: keeps_linkD [OF server_proc_keeps] intro: same_link_trans)
  qed
qed

end
