(* ===== verification/Workers.thy ===== *)
theory Workers
  imports MainLoop
begin

text \<open>
  The two worker threads of the server: how they end, and how the handler of control packets
  starts, stops and joins them.
\<close>

subsection \<open>The TCP worker\<close>

lemma tcp_worker_deleted:
  assumes "probdata_server_tcp_prof_delete E s = Some (r, t)" "pb_tcp_prof (ps_prob s) = Some prof"
  shows "ps_heap t (tcp_prof prof) = None \<and> pb_tcp_prof (ps_prob t) = Some prof"
  using assms by (auto simp: probdata_server_tcp_prof_delete_def f_tcp_prof_delete_def)

text \<open>
  C17. The TCP worker ends without undefined behaviour only when it is cancelled. When it
  leaves its loop on its own (too many errors in a row, or a reset that fails) it deletes its
  test object, and the clean-up handler then resets and deletes the object once more.
\<close>

theorem tcp_worker_ends_cancelled:
  assumes "probdata_server_tcp_fastprof_worker E cancel s = Some t"
  shows "\<exists>v. loop_reaches (tcp_worker_body E cancel) \<lparr>tw_err_cnt = 0, tw_state = s\<rparr> v \<and>
    cancel (ps_world (tw_state v)) \<and>
    probdata_server_tcp_fastprof_cleanup_handler E (tw_state v) = Some t"
proof -
  let ?v0 = "\<lparr>tw_err_cnt = 0, tw_state = s\<rparr>"
  obtain c where run: "run_loop (tcp_worker_body E cancel) ?v0 = Some c"
    and rest: "(case c of
        Return _ v \<Rightarrow> probdata_server_tcp_fastprof_cleanup_handler E (tw_state v)
      | _ \<Rightarrow> do {
          (_, s) \<leftarrow> probdata_server_tcp_prof_delete E (tw_state (ctl_state c));
          probdata_server_tcp_fastprof_cleanup_handler E s
        }) = Some t"
    using assms by (auto simp: probdata_server_tcp_fastprof_worker_def bind_eq_Some_conv)
  obtain v where v: "loop_reaches (tcp_worker_body E cancel) ?v0 v"
    "tcp_worker_body E cancel v = Some c" "\<forall>u. c \<noteq> Next u"
    using run_loop_last [OF run] by blast
  show ?thesis
  proof (cases "cancel (ps_world (tw_state v))")
    case True
    then have "c = Return 1 v" using v(2) by (simp add: tcp_worker_body_def)
    then show ?thesis using v(1) rest True by auto
  next
    case False
    then obtain x where c: "c = Break x"
      using v(2,3) by (auto simp: tcp_worker_body_def Let_def bind_eq_Some_conv case_prod_beta split: if_splits)
    then obtain q u where del: "probdata_server_tcp_prof_delete E (tw_state x) = Some (q, u)"
      and cl: "probdata_server_tcp_fastprof_cleanup_handler E u = Some t"
      using rest by (auto simp: bind_eq_Some_conv)
    obtain prof where prof: "pb_tcp_prof (ps_prob (tw_state x)) = Some prof"
      using del by (auto simp: probdata_server_tcp_prof_delete_def bind_eq_Some_conv)
    have "probdata_server_tcp_prof_reset E u = None"
      using tcp_worker_deleted [OF del prof]
      by (simp add: probdata_server_tcp_prof_reset_def f_tcp_prof_reset_def Let_def)
    then show ?thesis using cl by (simp add: probdata_server_tcp_fastprof_cleanup_handler_def)
  qed
qed

subsection \<open>The UDT worker\<close>

definition udt_worker_ok :: "int \<Rightarrow> 'w udt_worker \<Rightarrow> bool" where
  "udt_worker_ok limit v \<longleftrightarrow>
     0 \<le> uw_ok_cnt v \<and> uw_ok_cnt v \<le> max 0 (limit + 1) \<and> 0 \<le> uw_err_cnt v \<and>
     uw_err_cnt v \<le> P_MAX_ERROR_NUM \<and> pb_max_prof_limit (ps_prob (uw_state v)) = limit"

lemma udt_worker_body_ok:
  assumes "udt_worker_ok limit v" "udt_worker_body E meanwhile v = Some c"
    and "\<And>s. pb_max_prof_limit (ps_prob (meanwhile s)) = pb_max_prof_limit (ps_prob s)"
  shows "udt_worker_ok limit (ctl_state c)"
  using assms
  by (auto simp: udt_worker_body_def udt_worker_ok_def Let_def bind_eq_Some_conv P_MAX_ERROR_NUM_def
      probdata_server_udt_prof_reset_def case_prod_beta split: if_splits)

text \<open>
  C18. The UDT worker serves at most one run more than the limit on profiles and survives at
  most ten failed runs in a row, whatever the handler does to the shared state meanwhile as
  long as it leaves the limit alone; it leaves when the session has gone on to another phase.
\<close>

theorem udt_worker_bounds:
  assumes "probdata_server_udt_fastprof_worker E meanwhile s = Some v"
    and "\<And>s. pb_max_prof_limit (ps_prob (meanwhile s)) = pb_max_prof_limit (ps_prob s)"
  shows "0 \<le> uw_ok_cnt v \<and> uw_ok_cnt v \<le> max 0 (pb_max_prof_limit (ps_prob s) + 1) \<and>
    0 \<le> uw_err_cnt v \<and> uw_err_cnt v \<le> P_MAX_ERROR_NUM"
proof -
  let ?limit = "pb_max_prof_limit (ps_prob s)" and ?v0 = "\<lparr>uw_err_cnt = 0, uw_ok_cnt = 0, uw_state = s\<rparr>"
  obtain c where run: "run_loop (udt_worker_body E meanwhile) ?v0 = Some c" and v: "v = ctl_state c"
    using assms(1) by (auto simp: probdata_server_udt_fastprof_worker_def bind_eq_Some_conv)
  have "udt_worker_ok ?limit (ctl_state c)"
  proof (rule run_loop_invariant [OF run, of "udt_worker_ok ?limit"])
    show "udt_worker_ok ?limit ?v0" by (simp add: udt_worker_ok_def P_MAX_ERROR_NUM_def)
    show "udt_worker_ok ?limit t" if "udt_worker_ok ?limit u" "udt_worker_body E meanwhile u = Some (Next t)" for u t
      using udt_worker_body_ok [OF that assms(2)] by simp
    show "udt_worker_ok ?limit (ctl_state d)" if "udt_worker_ok ?limit u" "udt_worker_body E meanwhile u = Some d" for u d
      using udt_worker_body_ok [OF that assms(2)] .
  qed
  then show ?thesis by (simp add: udt_worker_ok_def v)
qed


subsection \<open>Starting, stopping and joining them\<close>

lemma server_reply_prob: "server_reply E p s = Some (r, t) \<Longrightarrow> ps_prob t = ps_prob s"
  by (auto simp: server_reply_def probdata_ctrl_chan_send_ctrl_packet_def send_bytes_def set_errno_def
      bind_eq_Some_conv elim!: check_cases)

lemma server_udt_run_workers:
  assumes "probdata_server_udt_fastprof_run E s = Some (r, t)" "0 \<le> r"
  shows "pb_tcp_worker (ps_prob t) = pb_tcp_worker (ps_prob s) \<and> (\<exists>x. pb_udt_worker (ps_prob t) = Some x)"
  using assms unfolding probdata_server_udt_fastprof_run_def
  by (auto elim!: check_zero simp: probdata_server_udt_prof_new_def probdata_server_udt_prof_default_def
      probdata_server_udt_prof_init_def start_udt_worker_def upd_prob_def Let_def bind_eq_Some_conv
      set_errno_def case_prod_beta split: if_splits)

lemma server_tcp_run_worker:
  assumes "probdata_server_tcp_fastprof_run E s = Some (r, t)" "0 \<le> r"
  shows "(\<exists>x. pb_tcp_worker (ps_prob t) = Some x) \<and> pb_do_udt_only (ps_prob t) = pb_do_udt_only (ps_prob s)"
  using assms unfolding probdata_server_tcp_fastprof_run_def
  by (auto elim!: check_zero simp: probdata_server_tcp_prof_new_def probdata_server_tcp_prof_default_def
      probdata_server_tcp_prof_init_def start_tcp_worker_def upd_prob_def Let_def bind_eq_Some_conv
      set_errno_def case_prod_beta split: if_splits)

lemma set_status_simps [simp]:
  "pb_status (ps_prob (set_status p s)) = p" "ps_world (set_status p s) = ps_world s"
  "pb_tcp_worker (ps_prob (set_status p s)) = pb_tcp_worker (ps_prob s)"
  "pb_udt_worker (ps_prob (set_status p s)) = pb_udt_worker (ps_prob s)"
  "pb_do_udt_only (ps_prob (set_status p s)) = pb_do_udt_only (ps_prob s)"
  by (simp_all add: set_status_def upd_prob_def)

lemma server_proc_udt_unfold:
  assumes "pb_status (ps_prob s) = P_RUN_M2M_UDT"
  shows "probdata_server_proc_ctrl_packet E s = do {
     s \<leftarrow> (if 0 < pb_do_udt_only (ps_prob s) then Some s else stop_tcp_worker E s);
     check (server_reply E P_RUN_M2M_UDT s) id
       (\<lambda>s. check (probdata_server_udt_fastprof_run E s) (set_errno P_ERR_UNKNOWN) (\<lambda>s. Some (0, s)))
   }"
  using assms by (simp add: server_proc_unfold status_defs)

lemma server_proc_done_unfold:
  assumes "pb_status (ps_prob s) = P_PROGRAM_DONE"
  shows "probdata_server_proc_ctrl_packet E s = do {
     s \<leftarrow> join_if_started E (pb_udt_worker (ps_prob s)) s;
     s \<leftarrow> join_if_started E (pb_tcp_worker (ps_prob s)) s;
     server_reply E P_PROGRAM_DONE s
   }"
  using assms by (simp add: server_proc_unfold status_defs)

lemma join_keeps_workers:
  "join_if_started E w s = Some u \<Longrightarrow> ps_prob u = ps_prob s"
  by (auto simp: join_if_started_def join_worker_def bind_eq_Some_conv split: option.splits)

lemma server_done_joins:
  assumes "pb_status (ps_prob s) = P_PROGRAM_DONE" "pb_tcp_worker (ps_prob s) = Some t"
    and "\<And>u. join_if_started E (pb_udt_worker (ps_prob s)) s = Some u \<Longrightarrow> e_thread_join E t (ps_world u) = None"
  shows "probdata_server_proc_ctrl_packet E s = None"
proof (cases "join_if_started E (pb_udt_worker (ps_prob s)) s")
  case None
  then show ?thesis by (simp add: server_proc_done_unfold [OF assms(1)])
next
  case (Some u)
  then have "pb_tcp_worker (ps_prob u) = Some t" using join_keeps_workers assms(2) by metis
  then have "join_if_started E (pb_tcp_worker (ps_prob u)) u = None"
    using assms(3) [OF Some] by (simp add: join_if_started_def join_worker_def)
  then show ?thesis using Some by (simp add: server_proc_done_unfold [OF assms(1)])
qed

lemma server_udt_phase_workers:
  assumes "check (server_reply E P_RUN_M2M_UDT s) id
       (\<lambda>s. check (probdata_server_udt_fastprof_run E s) (set_errno P_ERR_UNKNOWN) (\<lambda>s. Some (0, s))) =
    Some (r, t)" "0 \<le> r"
  shows "pb_tcp_worker (ps_prob t) = pb_tcp_worker (ps_prob s) \<and> (\<exists>x. pb_udt_worker (ps_prob t) = Some x)"
  using assms
  by (auto elim!: check_zero dest!: server_reply_prob server_udt_run_workers)

text \<open>
  When both protocols are profiled, the server goes on to UDT only after it has cancelled
  and joined the TCP worker; without a worker that is a null pointer. It keeps the pointer,
  so at the end of the session the same thread is joined a second time, and if that join does
  not return the session does not end.
\<close>

theorem server_udt_phase:
  assumes "probdata_server_proc_ctrl_packet E s = Some (r, s1)" "0 \<le> r"
    and "pb_status (ps_prob s) = P_RUN_M2M_UDT" "\<not> 0 < pb_do_udt_only (ps_prob s)"
  shows "\<exists>t joined. pb_tcp_worker (ps_prob s) = Some t \<and>
    e_thread_join E t (snd (e_thread_cancel E t (ps_world s))) = Some joined \<and>
    pb_tcp_worker (ps_prob s1) = Some t \<and> pb_udt_worker (ps_prob s1) \<noteq> None \<and>
    ((\<forall>u. join_if_started E (pb_udt_worker (ps_prob s1)) (set_status P_PROGRAM_DONE s1) = Some u \<longrightarrow>
        e_thread_join E t (ps_world u) = None) \<longrightarrow>
      probdata_server_proc_ctrl_packet E (set_status P_PROGRAM_DONE s1) = None)"
proof -
  obtain u where u: "stop_tcp_worker E s = Some u"
    and rest: "check (server_reply E P_RUN_M2M_UDT u) id
       (\<lambda>s. check (probdata_server_udt_fastprof_run E s) (set_errno P_ERR_UNKNOWN) (\<lambda>s. Some (0, s))) =
      Some (r, s1)"
    using assms(1,4) by (auto simp: server_proc_udt_unfold [OF assms(3)] bind_eq_Some_conv)
  obtain t joined where t: "pb_tcp_worker (ps_prob s) = Some t"
    "e_thread_join E t (snd (e_thread_cancel E t (ps_world s))) = Some joined" "ps_prob u = ps_prob s"
    using u by (auto simp: stop_tcp_worker_def join_worker_def bind_eq_Some_conv)
  have w: "pb_tcp_worker (ps_prob s1) = Some t" "pb_udt_worker (ps_prob s1) \<noteq> None"
    using server_udt_phase_workers [OF rest assms(2)] t(1,3) by auto
  have "probdata_server_proc_ctrl_packet E (set_status P_PROGRAM_DONE s1) = None"
    if "\<forall>u. join_if_started E (pb_udt_worker (ps_prob s1)) (set_status P_PROGRAM_DONE s1) = Some u \<longrightarrow>
        e_thread_join E t (ps_world u) = None"
    by (rule server_done_joins [of _ t]) (use w that in simp_all)
  with t w show ?thesis by blast
qed

text \<open>
  A client that wants UDT only and finds nothing in the history still asks for TCP. The
  server then starts a TCP worker that the UDT phase does not cancel and the end of the
  session joins; a worker that nobody cancels does not return, so neither does the handler of
  the last packet.
\<close>

theorem udt_only_session_hangs:
  assumes "probdata_server_proc_ctrl_packet E (set_status P_RUN_M2M_TCP s) = Some (r1, s1)" "0 \<le> r1"
    and "probdata_server_proc_ctrl_packet E (set_status P_RUN_M2M_UDT s1) = Some (r2, s2)" "0 \<le> r2"
    and "0 < pb_do_udt_only (ps_prob s)" "\<not> history_found Ec tmp c"
  shows "client_next MemToMem (goes_straight Ec tmp c) P_RUN_M2M_DB = Some P_RUN_M2M_TCP \<and>
    (\<exists>t. pb_tcp_worker (ps_prob s1) = Some t \<and> pb_tcp_worker (ps_prob s2) = Some t \<and>
       ((\<forall>w. e_thread_join E t w = None) \<longrightarrow>
         probdata_server_proc_ctrl_packet E (set_status P_PROGRAM_DONE s2) = None))"
proof
  show "client_next MemToMem (goes_straight Ec tmp c) P_RUN_M2M_DB = Some P_RUN_M2M_TCP"
    using assms(6) by (simp add: goes_straight_def client_next_def status_defs)
  have "check (probdata_server_tcp_fastprof_run E (set_status P_RUN_M2M_TCP s)) (set_errno P_ERR_UNKNOWN)
      (server_reply E P_RUN_M2M_TCP) = Some (r1, s1)"
    using assms(1) by (simp add: server_proc_unfold status_defs)
  then obtain q u where u: "probdata_server_tcp_fastprof_run E (set_status P_RUN_M2M_TCP s) = Some (q, u)" "0 \<le> q"
    "server_reply E P_RUN_M2M_TCP u = Some (r1, s1)"
    using assms(2) by (auto elim!: check_zero)
  obtain t where t: "pb_tcp_worker (ps_prob s1) = Some t" "0 < pb_do_udt_only (ps_prob s1)"
    using server_tcp_run_worker [OF u(1,2)] server_reply_prob [OF u(3)] assms(5) by auto
  have "check (server_reply E P_RUN_M2M_UDT (set_status P_RUN_M2M_UDT s1)) id
       (\<lambda>s. check (probdata_server_udt_fastprof_run E s) (set_errno P_ERR_UNKNOWN) (\<lambda>s. Some (0, s))) =
      Some (r2, s2)"
    using assms(3) t(2) by (simp add: server_proc_udt_unfold)
  from server_udt_phase_workers [OF this assms(4)] t(1)
  have t2: "pb_tcp_worker (ps_prob s2) = Some t" by simp
  have "probdata_server_proc_ctrl_packet E (set_status P_PROGRAM_DONE s2) = None"
    if "\<forall>w. e_thread_join E t w = None"
    by (rule server_done_joins [of _ t]) (use t2 that in simp_all)
  with t(1) t2 show "\<exists>t. pb_tcp_worker (ps_prob s1) = Some t \<and> pb_tcp_worker (ps_prob s2) = Some t \<and>
       ((\<forall>w. e_thread_join E t w = None) \<longrightarrow>
         probdata_server_proc_ctrl_packet E (set_status P_PROGRAM_DONE s2) = None)" by blast
qed

end
