(* ===== verification/History.thy ===== *)
theory History
  imports FastprofTcp FastprofUdt
begin

text \<open>
  What the profile data base promises: a record that a profiler writes reads back, the search
  finds the best record of a file, and how it fails.
\<close>

subsection \<open>Records\<close>

text \<open>
  C26. A well-formed record survives the data base: what is written for it, followed by the
  newline or the end of the file, scans as all seventeen fields, and storing them gives a
  record that prints the same and has the performance rounded to six decimals.
\<close>

theorem mem_record_round_trip:
  assumes "wf_record r" "mem_record_text r = Some t" "stops rest"
  shows "\<exists>vals. sscanf mem_record_format (t @ rest) = Some vals \<and> length vals = MEM_RECORD_NUM_ELEMENTS \<and>
    reads_as r (mem_record_store m vals)"
  using sscanf_record [OF assms] mem_record_store_reads_as [of r m]
  by (simp add: record_vals_def MEM_RECORD_NUM_ELEMENTS_def)

lemma zero_copy:
  assumes "terminated src" "length (c_str src) < n"
  shows "c_memcpy (replicate n NUL) src (length (c_str src)) =
    Some (c_str src @ replicate (n - length (c_str src)) NUL)"
  using assms c_str_less [OF assms(1)] take_c_str [of src] by (simp add: c_memcpy_def)

lemma c_str_padded: "NUL \<notin> set s \<Longrightarrow> 0 < n \<Longrightarrow> c_str (s @ replicate n NUL) = s"
  by (cases n) simp_all

lemma update_padded: "(s @ replicate n x)[length s := x] = s @ replicate n x"
  by (cases n) (simp_all add: list_update_append list_update_beyond)

lemma c_str_cut:
  assumes "NUL \<notin> set s" "0 < n"
  shows "c_str ((s @ replicate n NUL)[m := NUL]) = take m s"
proof (cases "m < length s")
  case True
  then have "(s @ replicate n NUL)[m := NUL] = take m s @ NUL # drop (Suc m) s @ replicate n NUL"
    by (simp add: list_update_append upd_conv_take_nth_drop)
  moreover have "NUL \<notin> set (take m s)" using assms(1) by (blast dest: in_set_takeD)
  ultimately show ?thesis by simp
next
  case False
  have "(replicate n NUL)[m - length s := NUL] = replicate n NUL"
    by (metis length_replicate list_update_beyond list_update_id not_less nth_replicate)
  then show ?thesis using False assms by (simp add: list_update_append c_str_padded)
qed

text \<open>
  C35. A composed record holds the remote address as its destination, but the terminator of
  the destination is written into the source: a local address longer than the remote one is
  cut off at the remote one's length.
\<close>

theorem record_compose_addresses:
  assumes "f_tcp_m2m_record_compose E prof ctrl h w = Some (x, r, w')"
    and "length (c_str (fc_local_ip ctrl)) < 32" "length (c_str (fc_remote_ip ctrl)) < 32"
  shows "x = 0 \<and> c_str (dst_ip r) = c_str (fc_remote_ip ctrl) \<and>
    c_str (src_ip r) = take (length (c_str (fc_remote_ip ctrl))) (c_str (fc_local_ip ctrl)) \<and>
    average_perf r = Some (tp_perf_Mbps prof) \<and> trans_size r = total_sent prof"
proof -
  let ?l = "fc_local_ip ctrl" and ?r = "fc_remote_ip ctrl"
  have "c_strlen ?l \<noteq> None"
    using assms(1) by (cases "c_strlen ?l") (simp_all add: f_tcp_m2m_record_compose_def Let_def case_prod_beta)
  moreover from this have "c_strlen ?r \<noteq> None"
    using assms(1) by (cases "c_strlen ?r")
      (auto simp: f_tcp_m2m_record_compose_def Let_def case_prod_beta bind_eq_None_conv)
  ultimately have t: "terminated ?l" "terminated ?r"
    by (auto simp: c_strlen_def terminated_def split: if_splits)
  have n: "c_strlen ?l = Some (length (c_str ?l))" "c_strlen ?r = Some (length (c_str ?r))"
    using t by (simp_all add: c_strlen_terminated)
  let ?src = "c_str ?l @ replicate (32 - length (c_str ?l)) NUL"
  have s1: "c_store ?src (length (c_str ?l)) NUL = Some ?src"
    using assms(2) by (simp add: c_store_def update_padded)
  have s2: "c_store ?src (length (c_str ?r)) NUL = Some (?src[length (c_str ?r) := NUL])"
    using assms(2,3) by (simp add: c_store_def)
  have src: "src_ip r = ?src[length (c_str ?r) := NUL]"
    "dst_ip r = c_str ?r @ replicate (32 - length (c_str ?r)) NUL" "x = 0"
    "average_perf r = Some (tp_perf_Mbps prof)" "trans_size r = total_sent prof"
    using assms(1)
    by (auto simp: n s1 s2 zero_copy [OF t(1) assms(2)] zero_copy [OF t(2) assms(3)] f_tcp_m2m_record_compose_def bind_eq_Some_conv mem_record_zero_def Let_def case_prod_beta)
  have "c_str (src_ip r) = take (length (c_str ?r)) (c_str ?l)"
    unfolding src(1) using assms(2) by (intro c_str_cut) simp_all
  moreover have "c_str (dst_ip r) = c_str ?r"
    unfolding src(2) using assms(3) by (intro c_str_padded) simp_all
  ultimately show ?thesis using src by simp
qed

subsection \<open>The search\<close>

text \<open>
  C25. On a file of records, comments and blank lines the search returns 0 exactly when a
  record has a performance that is not negative, and leaves in \<open>record_max\<close> one that reads
  as a record of the file whose performance none of the file's records exceeds.
\<close>

theorem db_search_finds_best:
  assumes "\<forall>l \<in> set ls. ok_line l"
  shows "\<exists>m. db_search_text tmp (db_file ls) m0 = Some (if best_perf (db_best None (db_records ls)) < 0 then - 1 else 0, m) \<and>
    (\<forall>r \<in> set (db_records ls). \<exists>best. average_perf m = Some best \<and> \<not> read_perf r > best) \<and>
    (average_perf m = Some (- 1) \<or> (\<exists>r \<in> set (db_records ls). reads_as r m))"
proof -
  let ?best = "db_best None (db_records ls)"
  obtain m where m: "db_search_text tmp (db_file ls) m0 = Some (if best_perf ?best < 0 then - 1 else 0, m)"
    "holds_best ?best m"
    using db_search_text_file [OF assms] by blast
  have "best_perf None \<noteq> NaN" by (simp add: uminus_dbl_def one_dbl_def del: Fin_1_one)
  from db_best_max [OF this, of "db_records ls"] db_best_cases [of None "db_records ls"] m
  show ?thesis by (intro exI [of _ m]) (auto simp: holds_best_def)
qed

text \<open>
  C27. A line that does not have the form of a record ends the search with \<open>- 1\<close>, whatever
  follows it, although the best of the records before it is then already in \<open>record_max\<close>.
\<close>

theorem db_search_malformed:
  assumes "\<forall>l \<in> set ls. ok_line l" "newline \<notin> set bad" "length bad < 511"
    and "\<not> skipped_line (bad @ [newline])"
    and "sscanf mem_record_format (c_str (bad @ [newline, NUL])) = Some vals"
    and "length vals \<noteq> MEM_RECORD_NUM_ELEMENTS"
  shows "\<exists>m. db_search_text tmp (db_file ls @ bad @ newline # further) m0 = Some (- 1, m) \<and>
    average_perf m = Some (best_perf (db_best None (db_records ls)))"
proof -
  let ?s = "\<lparr>d_rest = db_file ls @ bad @ newline # further, d_eof = False, d_tmp = tmp,
             d_max = m0\<lparr>average_perf := Some (- 1)\<rparr>\<rparr>"
  obtain t where t: "run_loop db_search_body ?s = run_loop db_search_body t" "\<not> d_eof t"
    "d_rest t = bad @ newline # further" "holds_best (db_best None (db_records ls)) (d_max t)"
    using run_loop_prefix [OF assms(1), of ?s "bad @ newline # further" None] by (auto simp: holds_best_def)
  have "fgets 511 (d_rest t) = (bad @ [newline], further, False)"
    using fgets_line [OF assms(2,3)] t(3) by simp
  then have "db_search_body t = Some (Return (- 1) (t\<lparr>d_rest := further, d_eof := False\<rparr>))"
    using t(2) assms(4-6) by (simp add: db_search_body_def)
  then have "run_loop db_search_body t = Some (Return (- 1) (t\<lparr>d_rest := further, d_eof := False\<rparr>))"
    by (subst run_loop_unfold) simp
  then show ?thesis using t(1,4) by (simp add: db_search_text_def holds_best_def)
qed

end
