(* ===== verification/Identify.thy ===== *)
theory Identify
  imports Server Exchange
begin

text \<open>
  The opening of a session: the client identifies itself, the server tells it its address,
  and packets are delivered.
\<close>

subsection \<open>The client's identifier\<close>

lemma in_int_xor: "in_int a \<Longrightarrow> in_int b \<Longrightarrow> in_int (a XOR b)"
proof -
  have iff: "in_int n \<longleftrightarrow> signed_take_bit 31 n = n" for n
    by (simp add: signed_take_bit_int_eq_self_iff in_int_def INT_MAX_def INT_MIN_def) linarith
  have xor: "signed_take_bit 31 (a XOR b) = signed_take_bit 31 a XOR signed_take_bit 31 b"
    by (rule bit_eqI) (simp add: bit_signed_take_bit_iff bit_xor_iff)
  assume "in_int a" "in_int b"
  then show ?thesis by (simp add: iff xor)
qed

lemma length_show_int:
  assumes "in_int n"
  shows "length (show_int n) \<le> 11"
proof -
  have "nat n < 10 ^ 10" "nat (- n) < 10 ^ 10"
    using assms by (auto simp: in_int_def INT_MAX_def INT_MIN_def)
  then have "length (show_nat (nat n)) \<le> 10" "length (show_nat (nat (- n))) \<le> 10"
    using length_show_nat [of _ 10] by simp_all
  then show ?thesis by (simp add: show_int_def)
qed

lemma length_show_0d6:
  assumes "in_int n"
  shows "length (show_0d 6 n) \<le> 11"
proof -
  have "nat n < 10 ^ 10" "nat (- n) < 10 ^ 10"
    using assms by (auto simp: in_int_def INT_MAX_def INT_MIN_def)
  then have "length (show_nat (nat n)) \<le> 10" "length (show_nat (nat (- n))) \<le> 10"
    using length_show_nat [of _ 10] by simp_all
  then show ?thesis by (simp add: show_0d_def pad0_def split: nat_diff_split)
qed

lemma length_show_hex: "n < 16 ^ Suc k \<Longrightarrow> length (show_hex n) \<le> Suc k"
proof (induction k arbitrary: n)
  case 0
  then show ?case by (subst show_hex.simps) (simp add: Let_def)
next
  case (Suc k)
  have "n div 16 < 16 ^ Suc k" using Suc.prems by (simp add: div_less_iff_less_mult mult.commute)
  from Suc.IH [OF this] show ?case by (subst show_hex.simps) (simp add: Let_def)
qed

lemma length_show_08lx: "length (show_08lx n) \<le> 16"
proof -
  have "nat (n mod 2 ^ 64) < 16 ^ Suc 15"
  proof -
    have "n mod 18446744073709551616 < 18446744073709551616" by simp
    then have "nat (n mod 18446744073709551616) < 18446744073709551616" by linarith
    then show ?thesis by simp
  qed
  from length_show_hex [OF this] show ?thesis by (simp add: show_08lx_def pad0_def)
qed

text \<open>
  Generating the identifier is defined on every host whose name is shorter than 64
  characters, whatever the random numbers: the text it formats fits its array of 256 bytes,
  and the result is 32 bytes long and terminated.
\<close>

theorem client_id_gen_defined:
  assumes host: "\<And>w. length (e_gethostname E w) < 64" and "length ident = P_IDPKT_SIZE"
    and rand: "\<And>w. in_int (fst (e_rand E w))"
    and time: "\<And>w. in_int (tm_min (fst (e_localtime E w))) \<and> in_int (tm_sec (fst (e_localtime E w)))"
  shows "\<exists>ident' w'. probdata_client_id_gen E ident w = Some (ident', w') \<and>
    length ident' = P_IDPKT_SIZE \<and> ident' ! 31 = NUL \<and> length (c_str ident') \<le> 31"
proof -
  let ?pid = "e_getpid E w" and ?host = "take 64 (e_gethostname E (e_srand E w) @ [NUL])"
  obtain t w1 where t: "e_localtime E (e_srand E w) = (t, w1)" by (cases "e_localtime E (e_srand E w)")
  obtain r1 w2 where r1: "e_rand E w1 = (r1, w2)" by (cases "e_rand E w1")
  obtain r2 w3 where r2: "e_rand E w2 = (r2, w3)" by (cases "e_rand E w2")
  obtain r3 w4 where r3: "e_rand E w3 = (r3, w4)" by (cases "e_rand E w3")
  obtain r4 w5 where r4: "e_rand E w4 = (r4, w5)" by (cases "e_rand E w4")
  have ints: "in_int r1" "in_int r2" "in_int (tm_min t)" "in_int (tm_sec t)"
    using rand [of w1] rand [of w2] time [of "e_srand E w"] r1 r2 t by simp_all
  have "?host = e_gethostname E (e_srand E w) @ [NUL]" using host [of "e_srand E w"] by simp
  then have "NUL \<in> set ?host" by simp
  then have h: "c_strlen ?host = Some (length (c_str ?host))" "length (c_str ?host) < 64"
    using c_str_less [of ?host] by (simp_all add: c_strlen_def terminated_def)
  let ?text = "c_str ?host @ ''.'' @ show_int (tm_min t XOR r1) @ ''.'' @
        show_0d 6 (tm_sec t XOR r2) @ ''.'' @ show_08lx (r3 XOR ?pid) @
        show_08lx (r4 XOR ?pid) @ ''.'' @ ''1234567890123456789012345678901234567890''"
  have "length ?text < 256"
    using h(2) length_show_int [OF in_int_xor [OF ints(3,1)]] length_show_0d6 [OF in_int_xor [OF ints(4,2)]]
      length_show_08lx [of "r3 XOR ?pid"] length_show_08lx [of "r4 XOR ?pid"]
    by simp
  then obtain temp where temp: "c_puts (replicate 256 NUL) ?text = Some temp" by (simp add: c_puts_def)
  let ?id = "take P_IDPKT_SIZE (c_str temp @ replicate P_IDPKT_SIZE NUL)"
  have len: "length ?id = P_IDPKT_SIZE" by (simp add: P_IDPKT_SIZE_def)
  have "probdata_client_id_gen E ident w = Some (?id[31 := NUL], w5)"
    using assms(2) h(1) temp len
    by (simp add: probdata_client_id_gen_def Let_def t r1 r2 r3 r4 c_strncpy_def c_store_def P_IDPKT_SIZE_def)
  moreover have last: "?id[31 := NUL] ! 31 = NUL" "length (?id[31 := NUL]) = P_IDPKT_SIZE"
    using len by (simp_all add: P_IDPKT_SIZE_def)
  moreover have "NUL \<in> set (?id[31 := NUL])"
    using nth_mem [of 31 "?id[31 := NUL]"] last by (simp only: P_IDPKT_SIZE_def)
  then have "length (c_str (?id[31 := NUL])) < length (?id[31 := NUL])"
    unfolding terminated_def [symmetric] by (rule c_str_less)
  then have "length (c_str (?id[31 := NUL])) \<le> 31" using last(2) by (simp only: P_IDPKT_SIZE_def)
  ultimately show ?thesis by blast
qed

subsection \<open>The client's address\<close>

lemma int_bytes_overlay [simp]: "overlay (int_bytes n) (int_bytes m) = int_bytes n"
  by (simp add: overlay_def int_bytes_def)

text \<open>What the client does with the announced address.\<close>

lemma client_recv_address_stream:
  assumes "client_recv_address E s = Some (r, t)" "0 \<le> r"
    and "stream_io E (pb_accept_sock (ps_prob s)) rx tx"
    and "rx (ps_world s) = int_bytes (int (length a)) @ a @ rest" "length a < 2147483648"
  shows "length a \<le> length (pb_local_ip (ps_prob s)) \<and>
    pb_local_ip (ps_prob t) = a @ drop (length a) (pb_local_ip (ps_prob s)) \<and>
    (\<exists>n ip. c_strlen (pb_local_ip (ps_prob t)) = Some n \<and>
       c_memcpy (fc_local_ip (pb_control (ps_prob s))) (pb_local_ip (ps_prob t)) n = Some ip \<and>
       fc_local_ip (pb_control (ps_prob t)) = ip) \<and> rx (ps_world t) = rest"
proof -
  obtain r1 bs u where recv1: "recv_bytes E 4 s = Some (r1, bs, u)" "0 \<le> r1"
    using assms(1,2) by (auto simp: client_recv_address_def bind_eq_Some_conv split: if_splits)
  have l4: "4 \<le> length (rx (ps_world s))" using assms(4) by simp
  have "recv_bytes E (int 4) s = Some (r1, bs, u)" using recv1 by simp
  from recv_bytes_stream [OF assms(3) l4 this recv1(2)] obtain w where
    u: "u = s\<lparr>ps_world := w\<rparr>" "bs = take 4 (rx (ps_world s))" "rx w = drop 4 (rx (ps_world s))" .
  then have bs: "bs = int_bytes (int (length a))" "rx (ps_world u) = a @ rest" using assms(4) by simp_all
  have "in_int (int (length a))" using assms(5) by (intro in_intI) simp_all
  then have len: "bytes_int (overlay bs (int_bytes 0)) = int (length a)"
    by (simp add: bs bytes_int_bytes)
  obtain r2 addr v where recv2: "recv_bytes E (int (length a)) u = Some (r2, addr, v)"
    using assms(1) recv1 len by (auto simp: client_recv_address_def bind_eq_Some_conv)
  have ok: "0 \<le> r2"
  proof (rule ccontr)
    assume "\<not> 0 \<le> r2"
    then have "r = - 1" using assms(1) recv1 len recv2
      by (auto simp: client_recv_address_def bind_eq_Some_conv)
    then show False using assms(2) by simp
  qed
  have "stream_io E (pb_accept_sock (ps_prob u)) rx tx" "length a \<le> length (rx (ps_world u))"
    using assms(3) u bs by simp_all
  from recv_bytes_stream [OF this recv2 ok] obtain w' where
    v: "v = u\<lparr>ps_world := w'\<rparr>" "addr = a" "rx w' = rest" using bs(2) by auto
  let ?old = "pb_local_ip (ps_prob s)"
  have "length a \<le> length ?old"
    using assms(1) recv1 len recv2 v u
    by (auto simp: client_recv_address_def bind_eq_Some_conv recv_into_def split: if_splits)
  then show ?thesis
    using assms(1) recv1 len recv2 ok v u
    by (auto simp: client_recv_address_def bind_eq_Some_conv recv_into_def overlay_def upd_prob_def)
qed

text \<open>
  C39. A client that the server has welcomed knows its own address as the server sees it. Its
  control block gets the characters of the address and no terminator, so what the block held
  behind them stays part of the string.
\<close>

theorem client_learns_address:
  assumes srv: "server_welcome Es peer s = Some (q, s')" "0 \<le> q"
      "stream_io Es (pb_accept_sock (ps_prob s)) rxs txs" "32 \<le> length (rxs (ps_world s))"
    and cli: "client_recv_address Ec c = Some (r, c')" "0 \<le> r"
      "stream_io Ec (pb_accept_sock (ps_prob c)) rxc txc"
    and connected: "txs (ps_world s') = txs (ps_world s) @ sent" "rxc (ps_world c) = sent @ rest"
    and peer: "NUL \<notin> set peer" "length peer < 64" "pb_local_ip (ps_prob c) = replicate 64 NUL"
      "length (fc_local_ip (pb_control (ps_prob c))) = 64"
  shows "c_str (pb_local_ip (ps_prob c')) = peer \<and>
    fc_local_ip (pb_control (ps_prob c')) =
      peer @ drop (length peer) (fc_local_ip (pb_control (ps_prob c))) \<and> rxc (ps_world c') = rest"
proof -
  obtain r0 bs u where recv: "recv_bytes Es (int 32) s = Some (r0, bs, u)"
    using srv(1) by (auto simp: server_welcome_def P_IDPKT_SIZE_def bind_eq_Some_conv)
  obtain ident where ident: "recv_into (pb_id (ps_prob u)) bs = Some ident"
    using srv(1) recv by (auto simp: server_welcome_def P_IDPKT_SIZE_def bind_eq_Some_conv)
  let ?v = "upd_prob (\<lambda>p. p\<lparr>pb_id := ident\<rparr>) u"
  have r0: "0 \<le> r0"
  proof (rule ccontr)
    assume "\<not> 0 \<le> r0"
    then have "q = - 1" using srv(1) recv ident by (simp add: server_welcome_def P_IDPKT_SIZE_def Let_def)
    then show False using srv(2) by simp
  qed
  from recv_bytes_stream [OF srv(3,4) recv r0] obtain w where u: "u = s\<lparr>ps_world := w\<rparr>"
    "txs w = txs (ps_world s)" .
  have "check (send_bytes Es (int_bytes (int (length peer))) ?v) (set_errno P_ERR_UNKNOWN)
      (\<lambda>s. check (send_bytes Es peer s) (set_errno P_ERR_UNKNOWN) (\<lambda>s. Some (0, s))) = Some (q, s')"
    using srv(1) recv ident r0 by (simp add: server_welcome_def P_IDPKT_SIZE_def)
  then obtain r1 x r2 where x: "send_bytes Es (int_bytes (int (length peer))) ?v = Some (r1, x)" "0 \<le> r1"
    and y: "send_bytes Es peer x = Some (r2, s')" "0 \<le> r2"
    using srv(2) by (auto elim!: check_zero)
  have "stream_io Es (pb_accept_sock (ps_prob ?v)) rxs txs" using srv(3) u by (simp add: upd_prob_def)
  from send_bytes_stream [OF this x] obtain w1 where x': "x = ?v\<lparr>ps_world := w1\<rparr>"
    "txs w1 = txs (ps_world ?v) @ int_bytes (int (length peer))" .
  have "stream_io Es (pb_accept_sock (ps_prob x)) rxs txs" using srv(3) u x' by (simp add: upd_prob_def)
  from send_bytes_stream [OF this y] obtain w2 where y': "s' = x\<lparr>ps_world := w2\<rparr>"
    "txs w2 = txs (ps_world x) @ peer" .
  have sent: "sent = int_bytes (int (length peer)) @ peer"
    using connected(1) y' x' u by (simp add: upd_prob_def)
  have "rxc (ps_world c) = int_bytes (int (length peer)) @ peer @ rest" "length peer < 2147483648"
    using connected(2) sent peer(2) by simp_all
  note addr = client_recv_address_stream [OF cli this]
  have ip: "pb_local_ip (ps_prob c') = peer @ replicate (64 - length peer) NUL"
    using addr peer(3) by simp
  obtain n where n: "64 - length peer = Suc n" using peer(2) by (cases "64 - length peer") auto
  have str: "c_str (pb_local_ip (ps_prob c')) = peer" unfolding ip n using peer(1) by simp
  have "c_strlen (pb_local_ip (ps_prob c')) = Some (length peer)"
    using str by (simp add: c_strlen_def ip n)
  then show ?thesis using addr str ip peer(2,4) by (auto simp: c_memcpy_def split: if_splits)
qed

text \<open>
  The length of the address is not checked: a peer that announces and sends more bytes
  than \<open>local_ip\<close> has makes the client write past the end of the array.
\<close>

theorem client_address_overflow:
  assumes "recv_bytes E 4 s = Some (4, int_bytes (int (length a)), u)"
    and "recv_bytes E (int (length a)) u = Some (int (length a), a, v)"
    and "length (pb_local_ip (ps_prob v)) < length a" "length a < 2147483648"
  shows "client_recv_address E s = None"
proof -
  have "in_int (int (length a))" using assms(4) by (intro in_intI) simp_all
  then have "bytes_int (overlay (int_bytes (int (length a))) (int_bytes 0)) = int (length a)"
    by (simp add: bytes_int_bytes)
  then show ?thesis using assms by (simp add: client_recv_address_def recv_into_def)
qed

end
