(* ===== verification/SessionWitnesses.thy ===== *)
theory SessionWitnesses
  imports Demo Workers History Identify
begin

text \<open>
  The properties of the session are applied here: single calls of the two handlers, a whole
  run of the client and of the server over the network of \<open>Demo\<close>, and the workers.
\<close>

subsection \<open>A conversation\<close>

lemma demo_simps [simp]:
  "pb_status (demo_prob role) = P_PROGRAM_START" "pb_src_file (demo_prob role) = replicate 128 NUL"
  "pb_dst_file (demo_prob role) = replicate 128 NUL"
  by (simp_all add: demo_prob_def)

lemma demo_select [simp]: "e_select (demo_env f) fd w = (1, True, w)"
  by (simp add: demo_env_def)

lemma demo_poll:
  assumes "pb_accept_sock (ps_prob s) = 5"
  shows "poll_ctrl_channel (demo_env f) a b s = (case ps_world s of
      (c # rx, tx) \<Rightarrow> Some (1, s\<lparr>ps_world := (rx, tx),
         ps_prob := (ps_prob s)\<lparr>pb_max_sock := max (pb_max_sock (ps_prob s)) 5, pb_status := schar_of c\<rparr>\<rparr>)
    | _ \<Rightarrow> poll_ctrl_channel (demo_env f) a b s)"
  using assms demo_recv_bytes [of 1 _ f]
  by (auto simp: poll_ctrl_channel_def Let_def upd_prob_def split: prod.splits list.splits)

theorem client_answers_witness:
  "\<exists>t packet sent. probdata_client_proc_ctrl_packet (demo_env []) mem_record_zero
      (set_status P_CTRL_CHAN_EST (demo_state P_CLIENT [])) = Some (0, t) \<and>
    packet = P_TWOWAY_HANDSHAKE \<and> snd (ps_world t) = sent @ [byte_of packet]"
proof -
  let ?s = "set_status P_CTRL_CHAN_EST (demo_state P_CLIENT [])"
  have s: "pb_status (ps_prob ?s) = P_CTRL_CHAN_EST" by (simp add: set_status_def upd_prob_def)
  obtain t where t: "probdata_client_proc_ctrl_packet (demo_env []) mem_record_zero ?s = Some (0, t)"
    unfolding client_proc_unfold s
    by (simp add: client_reply_def probdata_ctrl_chan_send_ctrl_packet_def)
  have "pb_status (ps_prob ?s) \<notin> {P_PROGRAM_DONE, P_SERVER_ERROR, P_ACCESS_DENIED}"
    unfolding s by (simp add: status_defs)
  from client_answers [OF t _ this demo_connected] t show ?thesis
    unfolding s by (auto simp: client_next_def)
qed

lemma demo_quiet: "off_channel (demo_env f) snd" "select_waits (demo_env f) fst snd"
  by (auto simp: off_channel_def select_waits_def demo_env_def)

text \<open>The parameters of a client that wants both runs, and the server's answer to its handshake.\<close>

definition demo_parameters :: string where
  "demo_parameters = ctrlmsg_bytes \<lparr>cm_do_udt_only = 0, cm_host_max_buf = 16024\<rparr>"

lemma demo_parameters_length [simp]: "length demo_parameters = 8" "demo_parameters \<noteq> []"
proof -
  show "length demo_parameters = 8" by (simp add: demo_parameters_def)
  then show "demo_parameters \<noteq> []" by auto
qed

lemma demo_server_handshake:
  assumes "fst (ps_world s) = demo_parameters" "pb_status (ps_prob s) = P_TWOWAY_HANDSHAKE"
    "pb_role (ps_prob s) = P_SERVER"
  obtains t where "probdata_server_proc_ctrl_packet (demo_env f) s = Some (0, t)"
  using demo_recv_bytes [of 8 _ f] assms
  by (auto simp: server_proc_unfold server_reply_def probdata_ctrl_chan_send_ctrl_packet_def
      probdata_ctrl_chan_ctrlmsg_exchange_def probdata_ctrl_chan_ctrlmsg_exchange_srv_def
      upd_prob_def merge_max_buf_def Let_def)

theorem server_answers_witness:
  "\<exists>t. probdata_server_proc_ctrl_packet (demo_env [])
      (set_status P_TWOWAY_HANDSHAKE (demo_state P_SERVER demo_parameters)) = Some (0, t) \<and>
    snd (ps_world t) = byte_of P_TWOWAY_HANDSHAKE # ctrlmsg_bytes (agreed_msg (ps_prob t))"
proof -
  let ?s = "set_status P_TWOWAY_HANDSHAKE (demo_state P_SERVER demo_parameters)"
  have s: "pb_status (ps_prob ?s) = P_TWOWAY_HANDSHAKE" "pb_role (ps_prob ?s) = P_SERVER"
    "fst (ps_world ?s) = demo_parameters" "snd (ps_world ?s) = []"
    by (simp_all add: set_status_def upd_prob_def)
  obtain t where t: "probdata_server_proc_ctrl_packet (demo_env []) ?s = Some (0, t)"
    using demo_server_handshake [OF s(3,1,2)] .
  have n: "server_next P_TWOWAY_HANDSHAKE = Some P_TWOWAY_HANDSHAKE" by (simp add: server_next_def)
  from server_answers [OF t _ demo_connected demo_quiet(1) s(2), unfolded s n option.case] t show ?thesis by simp
qed

text \<open>The first four packets of a conversation: handshake both ways, then the history.\<close>

definition demo_client :: "string \<Rightarrow> net pstate" where
  "demo_client rx = upd_prob (\<lambda>p. p\<lparr>pb_do_udt_only := 0\<rparr>) (demo_state P_CLIENT rx)"

lemma demo_client_flow:
  "client_flow (ps_prob (demo_client rx)) = MemToMem" "\<not> goes_straight E tmp (demo_client rx)"
proof -
  have "c_str (replicate 128 NUL) = []" using c_str_padded [of "[]" 128] by simp
  then show "client_flow (ps_prob (demo_client rx)) = MemToMem"
    by (simp add: client_flow_def demo_client_def upd_prob_def)
qed (simp add: goes_straight_def demo_client_def upd_prob_def)

lemma demo_client_poll:
  "probdata_client_poll_ctrl_channel (demo_env f) (demo_client (a # rx)) =
    Some (1, (demo_client rx)\<lparr>ps_prob := (ps_prob (demo_client rx))\<lparr>pb_max_sock := 5, pb_status := schar_of a\<rparr>\<rparr>)"
  using demo_poll [of "demo_client (a # rx)" f P_ERR_CTRL_CHAN None]
  by (simp add: probdata_client_poll_ctrl_channel_def demo_client_def upd_prob_def) (simp add: demo_state_def demo_prob_def)

lemma demo_client_turn:
  assumes "probdata_client_proc_ctrl_packet (demo_env f) mem_record_zero ((demo_client rx)\<lparr>ps_prob :=
      (ps_prob (demo_client rx))\<lparr>pb_max_sock := 5, pb_status := schar_of a\<rparr>\<rparr>) = Some (0, t)"
  shows "client_turn (demo_env f) mem_record_zero fst snd MemToMem False (schar_of a) (demo_client (a # rx)) t"
proof -
  have "client_flow (ps_prob (demo_client rx)\<lparr>pb_max_sock := 5, pb_status := schar_of a\<rparr>) = MemToMem"
    using demo_client_flow(1) [of rx] by (simp add: client_flow_def split: if_splits)
  moreover have "rx (ps_world (demo_client (a # rs))) = a # rs" if "rx = fst" for rx rs
    using that by (simp add: demo_client_def upd_prob_def)
  ultimately show ?thesis
    unfolding client_turn_def
    using demo_client_poll [of f a rx] assms demo_connected demo_quiet(2)
    by (intro exI [of _ a] exI [of _ rx] exI conjI) (auto simp: goes_straight_def demo_client_def upd_prob_def)
qed

lemma demo_client_est:
  obtains t where "client_turn (demo_env f) mem_record_zero fst snd MemToMem False P_CTRL_CHAN_EST
      (demo_client [byte_of P_CTRL_CHAN_EST]) t" "snd (ps_world t) = [] @ [byte_of P_TWOWAY_HANDSHAKE]"
proof -
  have p: "schar_of (byte_of P_CTRL_CHAN_EST) = P_CTRL_CHAN_EST" by (simp add: schar_byte status_defs)
  let ?s = "(demo_client [])\<lparr>ps_prob := (ps_prob (demo_client []))\<lparr>pb_max_sock := 5, pb_status := P_CTRL_CHAN_EST\<rparr>\<rparr>"
  obtain t where "probdata_client_proc_ctrl_packet (demo_env f) mem_record_zero ?s = Some (0, t)"
    "snd (ps_world t) = [] @ [byte_of P_TWOWAY_HANDSHAKE]"
    by (simp add: client_proc_unfold client_reply_def probdata_ctrl_chan_send_ctrl_packet_def)
      (simp add: demo_client_def upd_prob_def)
  then show thesis using demo_client_turn [where a = "byte_of P_CTRL_CHAN_EST" and rx = "[]" and f = f, unfolded p] that
    by blast
qed

lemma demo_client_handshake:
  obtains t sent where "client_turn (demo_env f) mem_record_zero fst snd MemToMem False P_TWOWAY_HANDSHAKE
      (demo_client (byte_of P_TWOWAY_HANDSHAKE # demo_parameters)) t"
    "snd (ps_world t) = sent @ [byte_of P_RUN_M2M_DB]"
proof -
  have p: "schar_of (byte_of P_TWOWAY_HANDSHAKE) = P_TWOWAY_HANDSHAKE" by (simp add: schar_byte status_defs)
  let ?s = "(demo_client demo_parameters)\<lparr>ps_prob := (ps_prob (demo_client demo_parameters))
    \<lparr>pb_max_sock := 5, pb_status := P_TWOWAY_HANDSHAKE\<rparr>\<rparr>"
  have str: "c_strlen (replicate 128 NUL) = Some 0"
    using c_str_padded [of "[]" 128] by (simp add: c_strlen_def)
  have w: "ps_world ?s = (demo_parameters, [])" "pb_role (ps_prob ?s) = P_CLIENT"
    "pb_src_file (ps_prob ?s) = replicate 128 NUL" "pb_dst_file (ps_prob ?s) = replicate 128 NUL"
    by (simp_all add: demo_client_def upd_prob_def)
  obtain t sent where "probdata_client_proc_ctrl_packet (demo_env f) mem_record_zero ?s = Some (0, t)"
    "snd (ps_world t) = sent @ [byte_of P_RUN_M2M_DB]"
    using demo_recv_bytes [of 8 _ f] str w
    by (simp add: client_proc_unfold client_handshake_def client_reply_def probdata_ctrl_chan_send_ctrl_packet_def
        probdata_ctrl_chan_ctrlmsg_exchange_def probdata_ctrl_chan_ctrlmsg_exchange_cli_def status_defs
        upd_prob_def merge_max_buf_def Let_def)
  then show thesis
    using demo_client_turn [where a = "byte_of P_TWOWAY_HANDSHAKE" and rx = demo_parameters and f = f, unfolded p] that
    by blast
qed

lemma demo_server_turn:
  assumes "probdata_server_proc_ctrl_packet (demo_env f) ((demo_state P_SERVER rx)\<lparr>ps_prob :=
      (demo_prob P_SERVER)\<lparr>pb_max_sock := - 1, pb_status := schar_of a\<rparr>\<rparr>) = Some (0, t)"
  shows "server_turn (demo_env f) fst snd (schar_of a) (demo_state P_SERVER (a # rx)) t"
proof -
  have "probdata_server_poll_ctrl_channel (demo_env f) (demo_state P_SERVER (a # rx)) =
    Some (1, (demo_state P_SERVER rx)\<lparr>ps_prob := (demo_prob P_SERVER)\<lparr>pb_max_sock := - 1, pb_status := schar_of a\<rparr>\<rparr>)"
    using demo_poll [of "demo_state P_SERVER (a # rx)" f P_ERR_UNKNOWN "Some P_ERR_UNKNOWN"]
    by (simp add: probdata_server_poll_ctrl_channel_def upd_prob_def) (simp add: demo_state_def)
  then show ?thesis
    unfolding server_turn_def using assms demo_connected demo_quiet by fastforce
qed

lemma demo_server_says:
  assumes "p \<in> {P_TWOWAY_HANDSHAKE, P_RUN_M2M_DB}"
  obtains s t parameters where "server_turn (demo_env f) fst snd p s t"
    "snd (ps_world t) = snd (ps_world s) @ byte_of p # parameters"
proof -
  define rx where "rx = (if p = P_TWOWAY_HANDSHAKE then demo_parameters else [])"
  have p: "schar_of (byte_of p) = p" using assms by (auto simp: schar_byte status_defs)
  let ?s = "(demo_state P_SERVER rx)\<lparr>ps_prob := (demo_prob P_SERVER)\<lparr>pb_max_sock := - 1, pb_status := p\<rparr>\<rparr>"
  obtain t where t: "probdata_server_proc_ctrl_packet (demo_env f) ?s = Some (0, t)"
  proof (cases "p = P_TWOWAY_HANDSHAKE")
    case True
    then show thesis using demo_server_handshake [of ?s f] that rx_def by auto
  next
    case False
    then show thesis using assms that
      by (auto simp: server_proc_unfold server_reply_def probdata_ctrl_chan_send_ctrl_packet_def status_defs)
  qed
  have turn: "server_turn (demo_env f) fst snd p (demo_state P_SERVER (byte_of p # rx)) t"
    using demo_server_turn [where a = "byte_of p", unfolded p, OF t] .
  have "server_next p = Some p" using assms by (auto simp: server_next_def)
  then show thesis using that [OF turn] server_turn_sends [OF turn] by (simp add: server_output_def)
qed

definition demo_talk :: "msg \<Rightarrow> msg \<Rightarrow> bool" where
  "demo_talk = talk (demo_env []) mem_record_zero fst snd (demo_env []) fst snd MemToMem False"

lemma demo_talk_steps:
  "demo_talk (ToClient P_CTRL_CHAN_EST) (ToServer P_TWOWAY_HANDSHAKE)"
  "demo_talk (ToServer P_TWOWAY_HANDSHAKE) (ToClient P_TWOWAY_HANDSHAKE)"
  "demo_talk (ToClient P_TWOWAY_HANDSHAKE) (ToServer P_RUN_M2M_DB)"
  "demo_talk (ToServer P_RUN_M2M_DB) (ToClient P_RUN_M2M_DB)"
proof -
  have b: "schar_of (byte_of P_TWOWAY_HANDSHAKE) = P_TWOWAY_HANDSHAKE" "schar_of (byte_of P_RUN_M2M_DB) = P_RUN_M2M_DB"
    by (simp_all add: schar_byte status_defs)
  have c: "P_CTRL_CHAN_EST \<notin> {P_PROGRAM_DONE, P_SERVER_ERROR, P_ACCESS_DENIED}"
    "P_TWOWAY_HANDSHAKE \<notin> {P_PROGRAM_DONE, P_SERVER_ERROR, P_ACCESS_DENIED}" by (simp_all add: status_defs)
  show "demo_talk (ToClient P_CTRL_CHAN_EST) (ToServer P_TWOWAY_HANDSHAKE)"
    unfolding demo_talk_def using demo_client_est [of "[]"] talk.client_says [OF _ c(1)] b(1) by metis
  show "demo_talk (ToClient P_TWOWAY_HANDSHAKE) (ToServer P_RUN_M2M_DB)"
    unfolding demo_talk_def using demo_client_handshake [of "[]"] talk.client_says [OF _ c(2)] b(2) by metis
  show "demo_talk (ToServer P_TWOWAY_HANDSHAKE) (ToClient P_TWOWAY_HANDSHAKE)"
    unfolding demo_talk_def using demo_server_says [of P_TWOWAY_HANDSHAKE "[]"] talk.server_says b(1)
    by (metis insertI1)
  show "demo_talk (ToServer P_RUN_M2M_DB) (ToClient P_RUN_M2M_DB)"
    unfolding demo_talk_def using demo_server_says [of P_RUN_M2M_DB "[]"] talk.server_says b(2)
    by (metis insertI1 insertI2)
qed

theorem conversation_course_witness:
  "let ms = [ToClient P_CTRL_CHAN_EST, ToServer P_TWOWAY_HANDSHAKE, ToClient P_TWOWAY_HANDSHAKE,
      ToServer P_RUN_M2M_DB, ToClient P_RUN_M2M_DB]
   in chained demo_talk ms \<and> prefix ms (conversation MemToMem False) \<and> distinct ms"
proof -
  let ?ms = "[ToClient P_CTRL_CHAN_EST, ToServer P_TWOWAY_HANDSHAKE, ToClient P_TWOWAY_HANDSHAKE,
      ToServer P_RUN_M2M_DB, ToClient P_RUN_M2M_DB]"
  have "chained demo_talk ?ms" using demo_talk_steps by (simp add: chained_Cons)
  with conversation_course [of "demo_env []" mem_record_zero fst snd "demo_env []" fst snd MemToMem False ?ms]
  show ?thesis unfolding demo_talk_def Let_def by simp
qed


theorem session_keeps_link_witness:
  "\<exists>t. server_body (demo_env []) (demo_state P_SERVER [byte_of P_RUN_M2M_DB]) = Some (Next t) \<and>
    pb_status (ps_prob t) = P_RUN_M2M_DB \<and> same_link (demo_state P_SERVER [byte_of P_RUN_M2M_DB]) t"
proof -
  let ?s = "demo_state P_SERVER [byte_of P_RUN_M2M_DB]"
  have p: "pb_status (demo_prob P_SERVER) = P_PROGRAM_START" by (simp add: demo_prob_def)
  obtain t where t: "server_body (demo_env []) ?s = Some (Next t)" "pb_status (ps_prob t) = P_RUN_M2M_DB"
    using demo_recv_bytes [of 1 _ "[]"]
    by (simp add: server_body_def p server_done_def status_defs schar_byte probdata_server_poll_ctrl_channel_def
        poll_ctrl_channel_def Let_def upd_prob_def server_proc_unfold server_reply_def
        probdata_ctrl_chan_send_ctrl_packet_def)
  have "loop_reaches (server_body (demo_env [])) ?s t"
    by (rule loop_reaches.again [of "server_body (demo_env [])" ?s ?s t, OF loop_reaches.start t(1)])
  with session_keeps_link [of "demo_env []" mem_record_zero ?s t] t show ?thesis by blast
qed

subsection \<open>A whole session\<close>

text \<open>A client whose peer ends the session at once, with results to compare.\<close>

definition demo_udt_result :: fastprof_udt_prof where
  "demo_udt_result = \<lparr>udt_prof = 2, up_perf_Mbps = Some (Fin 900)\<rparr>"

definition demo_finished :: "net pstate" where
  "demo_finished = upd_prob (\<lambda>p. p\<lparr>pb_rtt_ms := Fin 1, pb_udt_prof_max := Some demo_udt_result,
      pb_tcp_prof_max := Some (demo_prof\<lparr>tp_perf_Mbps := Fin 1000\<rparr>),
      pb_m2m_record_max := mem_record_zero\<lparr>average_perf := Some (- 1)\<rparr>\<rparr>)
    (demo_state P_CLIENT (int_bytes 8 @ ''10.0.0.2'' @ [byte_of P_PROGRAM_DONE]))"

lemma demo_ident:
  "\<exists>i. (\<forall>w. probdata_client_id_gen (demo_env f) (replicate 32 NUL) w = Some (i, w)) \<and> length i = 32"
proof -
  let ?text = "''host.'' @ show_int 0 @ ''.'' @ show_0d 6 0 @ ''.'' @ show_08lx 1 @
    show_08lx 1 @ ''.1234567890123456789012345678901234567890''"
  have "length ?text < length (replicate 256 NUL)"
    using length_show_int [of 0] length_show_0d6 [of 0] length_show_08lx [of 1] by simp
  then obtain temp where temp: "c_puts (replicate 256 NUL) ?text = Some temp"
    using c_puts_eq by blast
  have host: "c_strlen (''host'' @ [NUL]) = Some 4" "c_str (''host'' @ [NUL]) = ''host''"
    by (simp_all add: c_strlen_def c_str_def NUL_def)
  let ?i = "(take 32 (c_str temp @ replicate 32 NUL))[31 := NUL]"
  have "probdata_client_id_gen (demo_env f) (replicate 32 NUL) w = Some (?i, w)" for w
    using temp host
    by (simp add: probdata_client_id_gen_def Let_def demo_env_def c_strncpy_def c_store_def
        P_IDPKT_SIZE_def)
  moreover have "length ?i = 32" by simp
  ultimately show ?thesis by blast
qed

lemma demo_finished_simps [simp]:
  "pb_rtt_ms (ps_prob demo_finished) = Fin 1" "pb_accept_sock (ps_prob demo_finished) = 5"
  "pb_id (ps_prob demo_finished) = replicate 32 NUL"
  "pb_local_ip (ps_prob demo_finished) = replicate 64 NUL"
  "pb_control (ps_prob demo_finished) = demo_ctrl"
  "pb_udt_prof_max (ps_prob demo_finished) = Some demo_udt_result"
  "pb_tcp_prof_max (ps_prob demo_finished) = Some (demo_prof\<lparr>tp_perf_Mbps := Fin 1000\<rparr>)"
  "average_perf (pb_m2m_record_max (ps_prob demo_finished)) = Some (- 1)"
  "ps_heap demo_finished = demo_heap"
  "ps_world demo_finished = (int_bytes 8 @ ''10.0.0.2'' @ [byte_of P_PROGRAM_DONE], [])"
  by (simp_all add: demo_finished_def upd_prob_def) (simp_all add: demo_prob_def)

lemma demo_system [simp]: "e_system (demo_env f) c w = (0, w)"
  by (simp add: demo_env_def)

lemma demo_finished_connect:
  "\<exists>t. probdata_client_connect (demo_env []) demo_finished = Some (0, t) \<and>
    fst (ps_world t) = [byte_of P_PROGRAM_DONE] \<and> pb_accept_sock (ps_prob t) = 5 \<and>
    pb_udt_prof_max (ps_prob t) = Some demo_udt_result \<and>
    pb_tcp_prof_max (ps_prob t) = Some (demo_prof\<lparr>tp_perf_Mbps := Fin 1000\<rparr>) \<and>
    average_perf (pb_m2m_record_max (ps_prob t)) = Some (- 1) \<and> ps_heap t = demo_heap \<and>
    terminated (fc_local_ip (pb_control (ps_prob t))) \<and>
    terminated (fc_remote_ip (pb_control (ps_prob t)))"
proof -
  obtain i where i: "\<And>w. probdata_client_id_gen (demo_env []) (replicate 32 NUL) w = Some (i, w)"
    "length i = 32" using demo_ident by blast
  have len: "bytes_int (int_bytes 8) = int 8" by (simp add: bytes_int_bytes)
  have ip: "overlay ''10.0.0.2'' (replicate 64 NUL) = ''10.0.0.2'' @ replicate 56 NUL"
    by (simp add: overlay_def)
  have "NUL \<notin> set ''10.0.0.2''" by (simp add: NUL_def)
  then have str: "c_str (''10.0.0.2'' @ replicate 56 NUL) = ''10.0.0.2''" by (rule c_str_padded) simp
  have t: "terminated (x @ replicate 56 NUL)" for x by (simp add: terminated_def)
  have n: "c_strlen (''10.0.0.2'' @ replicate 56 NUL) = Some 8" 
    using c_strlen_terminated [OF t [of "''10.0.0.2''"]] str by simp
  have c: "c_memcpy (fc_local_ip demo_ctrl) (''10.0.0.2'' @ replicate 56 NUL) 8 = Some (''10.0.0.2'' @ replicate 56 NUL)"
    "terminated (''10.0.0.2'' @ replicate 56 NUL)" "terminated (fc_remote_ip demo_ctrl)"
    using t [of "''10.0.0.2''"] t [of "''10.0.0.1''"] by (simp_all add: c_memcpy_def demo_ctrl_def)
  show ?thesis
    using i demo_recv_bytes [of 4 _ "[]"] demo_recv_bytes [of 8 _ "[]"] len ip [simplified] n [simplified] c [simplified]
    by (simp add: probdata_client_connect_def probdata_client_check_id_def client_recv_address_def
      upd_prob_def Let_def recv_into_def)
qed

lemma done_codes:
  "P_PROGRAM_START \<noteq> P_PROGRAM_DONE" "schar_of (byte_of P_PROGRAM_DONE) = P_PROGRAM_DONE"
  "schar_of (byte_of P_CLIENT_TERMINATE) = P_CLIENT_TERMINATE"
  "P_PROGRAM_DONE \<noteq> 0" 
  by (simp_all add: status_defs schar_byte)

lemma client_packet_done:
  "pb_status (ps_prob s) = P_PROGRAM_DONE \<Longrightarrow> probdata_client_proc_ctrl_packet E tmp s = Some (0, s)"
  by (simp add: client_proc_unfold status_defs)

lemma demo_finished_loop:
  assumes "ps_world t = ([byte_of P_PROGRAM_DONE], tx)" "pb_accept_sock (ps_prob t) = 5"
  shows "run_loop (client_body (demo_env []) tmp) (upd_prob (\<lambda>p. p\<lparr>pb_status := P_PROGRAM_START\<rparr>) t) =
    Some (Break (t\<lparr>ps_world := ([], tx), ps_prob := (ps_prob t)\<lparr>pb_max_sock := max (pb_max_sock (ps_prob t)) 5,
      pb_status := P_PROGRAM_DONE\<rparr>\<rparr>))"
  using assms
  by (simp add: run_loop_unfold [of "client_body (demo_env []) tmp"] client_body_def upd_prob_def
    probdata_client_poll_ctrl_channel_def demo_poll done_codes client_packet_done)

theorem probdata_client_result_witness:
  "\<exists>recommended t. probdata_client (demo_env []) mem_record_zero demo_finished = Some (0, recommended, t) \<and>
    recommended \<noteq> None \<and> pb_status (ps_prob t) = P_PROGRAM_DONE"
proof -
  obtain t where t: "probdata_client_connect (demo_env []) demo_finished = Some (0, t)"
    "fst (ps_world t) = [byte_of P_PROGRAM_DONE]" "pb_accept_sock (ps_prob t) = 5"
    "pb_udt_prof_max (ps_prob t) = Some demo_udt_result"
    "pb_tcp_prof_max (ps_prob t) = Some (demo_prof\<lparr>tp_perf_Mbps := Fin 1000\<rparr>)"
    "average_perf (pb_m2m_record_max (ps_prob t)) = Some (- 1)" "ps_heap t = demo_heap"
    "terminated (fc_local_ip (pb_control (ps_prob t)))"
    "terminated (fc_remote_ip (pb_control (ps_prob t)))"
    using demo_finished_connect by blast
  obtain tx where w: "ps_world t = ([byte_of P_PROGRAM_DONE], tx)" using t(2) by (cases "ps_world t") simp
  note loop = demo_finished_loop [OF w t(3)]
  have h: "demo_heap 1 = Some demo_test" "tcp_prof demo_prof = 1"
    by (simp_all add: demo_heap_def demo_prof_def)
  have start: "client_estimate_rtt (demo_env []) demo_finished = Some demo_finished"
    by (simp add: client_estimate_rtt_def)
  have s: "demo_finished\<lparr>ps_world := ps_world demo_finished\<rparr> = demo_finished" by simp
  obtain r rec u where run: "probdata_client (demo_env []) mem_record_zero demo_finished = Some (r, rec, u)" "r = 0"
    unfolding probdata_client_def demo_system snd_conv Let_def s start bind.simps t(1) prod.case
    using t h
    by (simp add: loop client_advice_def Let_def demo_udt_result_def advise_if_def advise_tcp_def
        c_strlen_terminated)
  from probdata_client_result [OF run(1)] run show ?thesis by auto
qed

definition demo_listening :: "net pstate" where
  "demo_listening = upd_prob (\<lambda>p. p\<lparr>pb_accept_sock := - 1\<rparr>)
    (demo_state P_SERVER (replicate 32 (CHR ''i'') @ [byte_of P_CLIENT_TERMINATE]))"

lemma demo_port: "\<exists>p. port_string 7001 = Some p"
proof -
  have "length (show_int 7001) < length (replicate 6 NUL)"
    using length_show_nat [of 7001 4] by (simp add: show_int_def)
  from c_puts_eq [OF this] show ?thesis by (simp add: port_string_def)
qed

text \<open>A server whose client identifies itself and leaves.\<close>

definition demo_served :: "net pstate" where
  "demo_served = upd_prob (\<lambda>p. p\<lparr>pb_status := P_CLIENT_TERMINATE, pb_listen_sock := 4,
      pb_accept_sock := 5, pb_id := replicate 32 (CHR ''i''), pb_max_sock := - 1\<rparr>)
    (demo_listening\<lparr>ps_world := ([], int_bytes 8 @ ''10.0.0.2'' @ [byte_of P_CTRL_CHAN_EST])\<rparr>)"

lemma demo_served_listen:
  "probdata_server_listen (demo_env []) (upd_prob (\<lambda>p. p\<lparr>pb_status := P_PROGRAM_START\<rparr>) demo_listening) =
    Some (0, upd_prob (\<lambda>p. p\<lparr>pb_listen_sock := 4\<rparr>)
      (upd_prob (\<lambda>p. p\<lparr>pb_status := P_PROGRAM_START\<rparr>) demo_listening))"
proof -
  obtain p where "port_string 7001 = Some p" using demo_port by blast
  then show ?thesis
    by (simp add: probdata_server_listen_def probdata_ctrl_chan_listen_def Let_def demo_listening_def
      upd_prob_def demo_prob_def c_strlen_def c_str_def demo_env_def)
qed

lemma demo_served_accept:
  "probdata_server_accept (demo_env []) (upd_prob (\<lambda>p. p\<lparr>pb_listen_sock := 4\<rparr>)
      (upd_prob (\<lambda>p. p\<lparr>pb_status := P_PROGRAM_START\<rparr>) demo_listening)) =
    Some (0, upd_prob (\<lambda>p. p\<lparr>pb_status := P_PROGRAM_START, pb_listen_sock := 4, pb_accept_sock := 5,
        pb_id := replicate 32 (CHR ''i'')\<rparr>)
      (demo_listening\<lparr>ps_world := ([byte_of P_CLIENT_TERMINATE], int_bytes 8 @ ''10.0.0.2'')\<rparr>))"
proof -
  have "e_accept (demo_env []) fd w = (5, ''10.0.0.2'', w)" for fd w by (simp add: demo_env_def)
  moreover have "overlay (replicate 32 (CHR ''i'')) (replicate 32 NUL) = replicate 32 (CHR ''i'')"
    by (simp add: overlay_def)
  ultimately show ?thesis
    using demo_recv_bytes [of 32 _ "[]"]
    by (simp add: probdata_server_accept_def probdata_ctrl_chan_accept_def Let_def demo_listening_def
      upd_prob_def server_welcome_def P_IDPKT_SIZE_def recv_into_def)
       (simp add: demo_prob_def)
qed

lemma server_packet_terminate:
  "pb_status (ps_prob s) = P_CLIENT_TERMINATE \<Longrightarrow> probdata_server_proc_ctrl_packet E s = Some (0, s)"
  by (simp add: server_proc_unfold status_defs)

lemma demo_served_loop:
  assumes "ps_world t = ([byte_of P_CLIENT_TERMINATE], tx)" "pb_accept_sock (ps_prob t) = 5"
    and "\<not> server_done (pb_status (ps_prob t))"
  shows "run_loop (server_body (demo_env [])) t =
    Some (Break (t\<lparr>ps_world := ([], tx), ps_prob := (ps_prob t)\<lparr>pb_max_sock := - 1,
      pb_status := P_CLIENT_TERMINATE\<rparr>\<rparr>))"
proof -
  have "server_done P_CLIENT_TERMINATE" by (simp add: server_done_def)
  then show ?thesis
    using assms
    by (simp add: run_loop_unfold [of "server_body (demo_env [])"] server_body_def upd_prob_def
      probdata_server_poll_ctrl_channel_def demo_poll done_codes server_packet_terminate)
qed


subsection \<open>The workers\<close>

definition demo_serving :: "net pstate" where
  "demo_serving = upd_prob (\<lambda>p. p\<lparr>pb_status := P_RUN_M2M_UDT, pb_max_prof_limit := 0,
      pb_tcp_prof := Some demo_prof, pb_tcp_worker := Some 7,
      pb_udt_prof := Some \<lparr>udt_prof = 2, up_perf_Mbps = None\<rparr>\<rparr>)
    (demo_state P_SERVER [])"

lemma demo_serving_simps [simp]:
  "pb_status (ps_prob demo_serving) = P_RUN_M2M_UDT"
  "pb_max_prof_limit (ps_prob demo_serving) = 0" "pb_do_udt_only (ps_prob demo_serving) = - 1"
  "pb_tcp_prof (ps_prob demo_serving) = Some demo_prof" "pb_tcp_worker (ps_prob demo_serving) = Some 7"
  "pb_udt_prof (ps_prob demo_serving) = Some \<lparr>udt_prof = 2, up_perf_Mbps = None\<rparr>"
  "pb_control (ps_prob demo_serving) = demo_ctrl" "ps_heap demo_serving = demo_heap"
  "ps_world demo_serving = ([], [])" "pb_accept_sock (ps_prob demo_serving) = 5"
  "pb_remote_ip (ps_prob demo_serving) = ''10.0.0.1'' @ replicate 56 NUL"
  "pb_role (ps_prob demo_serving) = P_SERVER"
  by (simp_all add: demo_serving_def upd_prob_def) (simp_all add: demo_prob_def)

lemma demo_remote_copy:
  "length x = 64 \<Longrightarrow> \<exists>y. c_copy_str x (''10.0.0.1'' @ replicate 56 NUL) = Some y \<and> terminated y"
proof -
  have "terminated (''10.0.0.1'' @ replicate 56 NUL)" by (simp add: terminated_def)
  moreover have "length (c_str (''10.0.0.1'' @ replicate 56 NUL)) = 8"
    using c_str_padded [of "''10.0.0.1''" 56] by (simp add: NUL_def)
  ultimately show "length x = 64 \<Longrightarrow> ?thesis" by (simp add: c_copy_str_eq) (simp add: terminated_def)
qed

theorem udt_worker_bounds_witness:
  "\<exists>v. probdata_server_udt_fastprof_worker (demo_env []) id demo_serving = Some v \<and>
    0 \<le> uw_ok_cnt v \<and> uw_ok_cnt v \<le> 1 \<and> 0 \<le> uw_err_cnt v \<and> uw_err_cnt v \<le> P_MAX_ERROR_NUM"
proof -
  have r: "e_tpg_server_run (demo_env []) p n m w = (1, w)" for p n m w by (simp add: demo_env_def)
  obtain v where v: "probdata_server_udt_fastprof_worker (demo_env []) id demo_serving = Some v"
    by (simp add: probdata_server_udt_fastprof_worker_def udt_worker_body_def r P_MAX_ERROR_NUM_def Let_def
        run_loop_unfold [of "udt_worker_body (demo_env []) id"])
  from udt_worker_bounds [OF v] v show ?thesis by simp
qed

lemma demo_udt_calls [simp]:
  "f_udt_prof_default (demo_env f) p w e = (0, w, e)"
  "terminated (fc_remote_ip c) \<Longrightarrow> f_udt_prof_init (demo_env f) p c w = Some (0, w)"
  by (simp_all add: f_udt_prof_default_def f_udt_prof_init_def demo_env_def Let_def c_simps)

lemma demo_remote_length [simp]: "length (fc_remote_ip demo_ctrl) = 64" "length (fc_local_ip demo_ctrl) = 64"
  by (simp_all add: demo_ctrl_def)

text \<open>Starting the UDT worker on a state whose addresses are those of the demonstration.\<close>

lemma demo_start_udt:
  assumes "length (fc_remote_ip (pb_control (ps_prob s))) = 64"
    "pb_remote_ip (ps_prob s) = ''10.0.0.1'' @ replicate 56 NUL"
  shows "\<exists>t. probdata_server_udt_fastprof_run (demo_env f) s = Some (0, t)"
proof -
  obtain y where "c_copy_str (fc_remote_ip (pb_control (ps_prob s))) (''10.0.0.1'' @ replicate 56 NUL) = Some y"
    "terminated y"
    using demo_remote_copy [OF assms(1)] by auto
  moreover have "e_thread_create (demo_env f) k w = (0, 7, w)" for k w by (simp add: demo_env_def)
  ultimately show ?thesis
    using assms
    by (simp add: probdata_server_udt_fastprof_run_def probdata_server_udt_prof_new_def
        probdata_server_udt_prof_default_def probdata_server_udt_prof_init_def start_udt_worker_def
        Let_def case_prod_beta upd_prob_def)
qed

theorem server_udt_phase_witness:
  "\<exists>s1. probdata_server_proc_ctrl_packet (demo_env []) demo_serving = Some (0, s1) \<and>
    pb_tcp_worker (ps_prob s1) = Some 7 \<and> pb_udt_worker (ps_prob s1) \<noteq> None"
proof -
  have th: "e_thread_join (demo_env []) t w = Some (0, w)" "snd (e_thread_cancel (demo_env []) t w) = w" for t w
    by (simp_all add: demo_env_def)
  let ?s = "demo_serving\<lparr>ps_world := ([], [byte_of P_RUN_M2M_UDT])\<rparr>"
  have stop: "stop_tcp_worker (demo_env []) demo_serving = Some demo_serving"
    by (simp add: stop_tcp_worker_def join_worker_def th)
  have sent: "server_reply (demo_env []) P_RUN_M2M_UDT demo_serving = Some (0, ?s)"
    by (simp add: server_reply_def probdata_ctrl_chan_send_ctrl_packet_def)
  obtain t where t: "probdata_server_udt_fastprof_run (demo_env []) ?s = Some (0, t)"
    using demo_start_udt [of ?s "[]"] by auto
  have run: "probdata_server_proc_ctrl_packet (demo_env []) demo_serving = Some (0, t)"
    using stop sent t by (simp add: server_proc_unfold status_defs)
  from server_udt_phase [OF run] run show ?thesis by auto
qed

lemma demo_iperf [simp]:
  "e_iperf_set (demo_env f) a b t w = (t, w)" "e_fopen (demo_env f) p w = (1, w)" "e_strdup (demo_env f) p w = (1, w)"
  "e_iperf_defaults (demo_env f) a t w = (0, t, w)" "e_iperf_test_reset (demo_env f) a t w = (t, w)"
  "e_iperf_new_test (demo_env f) w = (1, demo_test, w)" "e_iperf_free_test (demo_env f) a w = w"
  by (simp_all add: demo_env_def)

lemma demo_tcp_init:
  "h (tcp_prof p) = Some t \<Longrightarrow> fc_mss c = 1500 \<Longrightarrow> terminated (fc_remote_ip c) \<Longrightarrow>
   f_tcp_prof_init (demo_env f) p c (h, w) =
     Some (0, h(tcp_prof p \<mapsto> t\<lparr>it_mss := 1460, it_outfile := 1\<rparr>), w)"
  by (simp add: f_tcp_prof_init_def iperf_set_def iperf_member_def Let_def c_int_def c_simps)

text \<open>A worker that is cancelled after its first run.\<close>

definition demo_serve_env :: "net env" where
  "demo_serve_env = (demo_env [])\<lparr>e_iperf_run_server := \<lambda>a t w. (0, t, (fst w, ''served''))\<rparr>"

theorem tcp_worker_ends_cancelled_witness:
  "\<exists>t (v :: net tcp_worker). probdata_server_tcp_fastprof_worker demo_serve_env (\<lambda>w. snd w \<noteq> []) demo_serving = Some t \<and>
    snd (ps_world (tw_state v)) \<noteq> [] \<and>
    probdata_server_tcp_fastprof_cleanup_handler demo_serve_env (tw_state v) = Some t"
proof -
  let ?E = demo_serve_env
  have E: "e_iperf_run_server ?E a t w = (0, t, (fst w, ''served''))" "e_iperf_set ?E a b t w = (t, w)"
    "e_fopen ?E p w = (1, w)" "e_strdup ?E p w = (1, w)" "e_iperf_defaults ?E a t w = (0, t, w)"
    "e_iperf_test_reset ?E a t w = (t, w)" "e_iperf_free_test ?E a w = w" for a b t w p
    by (simp_all add: demo_serve_env_def)
  have h: "demo_heap (Suc 0) = Some demo_test" "tcp_prof demo_prof = Suc 0" "fc_mss demo_ctrl = 1500"
    by (simp_all add: demo_heap_def demo_prof_def demo_ctrl_def)
  obtain t where t: "probdata_server_tcp_fastprof_worker ?E (\<lambda>w. snd w \<noteq> []) demo_serving = Some t"
    by (simp add: probdata_server_tcp_fastprof_worker_def probdata_server_tcp_fastprof_cleanup_handler_def
        probdata_server_tcp_prof_reset_def probdata_server_tcp_prof_delete_def f_tcp_prof_delete_def
        tcp_worker_body_def Let_def E h f_tcp_prof_reset_def f_tcp_prof_init_def iperf_set_def
        iperf_member_def c_int_def run_loop_unfold [of "tcp_worker_body ?E (\<lambda>w. snd w \<noteq> [])"])
  from tcp_worker_ends_cancelled [OF t] t show ?thesis by blast
qed

definition demo_silent :: "net env" where
  "demo_silent = (demo_env [])\<lparr>e_dir_exists := \<lambda>_ _. False, e_thread_join := \<lambda>_ _. None\<rparr>"

lemma demo_silent_calls [simp]:
  "e_dir_exists demo_silent p w = False" "e_thread_join demo_silent t w = None"
  "e_iperf_set demo_silent a b u w = (u, w)" "e_fopen demo_silent p w = (1, w)" "e_strdup demo_silent p w = (1, w)"
  "e_iperf_defaults demo_silent a u w = (0, u, w)"
  "e_iperf_new_test demo_silent w = (1, demo_test, w)"
  "e_thread_create demo_silent k w = (0, 7, w)" "e_mkdir demo_silent p w = w"
  "f_udt_prof_default demo_silent q w e = (0, w, e)"
  "terminated (fc_remote_ip c) \<Longrightarrow> f_udt_prof_init demo_silent q c w = Some (0, w)"
  by (simp_all add: demo_silent_def f_udt_prof_default_def f_udt_prof_init_def Let_def c_simps)
     (simp_all add: demo_env_def)

lemma demo_silent_send [simp]:
  "send_bytes demo_silent bs s =
     Some (int (length bs), s\<lparr>ps_world := (fst (ps_world s), snd (ps_world s) @ bs)\<rparr>)"
proof -
  have "send_body demo_silent = send_body (demo_env [])"
    by (intro ext) (simp add: send_body_def demo_silent_def)
  then have "send_bytes demo_silent bs s = send_bytes (demo_env []) bs s"
    by (simp add: send_bytes_def probdata_ctrl_chan_send_Nbytes_def)
  then show ?thesis by simp
qed

definition demo_udt_only :: "net pstate" where
  "demo_udt_only = upd_prob (\<lambda>p. p\<lparr>pb_do_udt_only := 1, pb_tcp_worker := None\<rparr>) demo_serving"

lemma demo_udt_only_simps [simp]:
  "pb_do_udt_only (ps_prob demo_udt_only) = 1" "pb_control (ps_prob demo_udt_only) = demo_ctrl"
  "pb_remote_ip (ps_prob demo_udt_only) = ''10.0.0.1'' @ replicate 56 NUL"
  "ps_heap demo_udt_only = demo_heap" "ps_world demo_udt_only = ([], [])"
  "pb_role (ps_prob demo_udt_only) = P_SERVER"
  by (simp_all add: demo_udt_only_def upd_prob_def) 

theorem udt_only_session_hangs_witness:
  "\<exists>s1 s2. probdata_server_proc_ctrl_packet demo_silent (set_status P_RUN_M2M_TCP demo_udt_only) = Some (0, s1) \<and>
    probdata_server_proc_ctrl_packet demo_silent (set_status P_RUN_M2M_UDT s1) = Some (0, s2) \<and>
    probdata_server_proc_ctrl_packet demo_silent (set_status P_PROGRAM_DONE s2) = None"
proof -
  have mss: "fc_mss demo_ctrl = 1500" by (simp add: demo_ctrl_def)
  obtain s1 where s1: "probdata_server_proc_ctrl_packet demo_silent (set_status P_RUN_M2M_TCP demo_udt_only) = Some (0, s1)"
    "pb_do_udt_only (ps_prob s1) = 1" "pb_control (ps_prob s1) = demo_ctrl"
    "pb_remote_ip (ps_prob s1) = ''10.0.0.1'' @ replicate 56 NUL" "pb_role (ps_prob s1) = P_SERVER"
    by (simp add: server_proc_unfold set_status_def upd_prob_def Let_def status_defs
        probdata_server_tcp_fastprof_run_def probdata_server_tcp_prof_new_def f_tcp_prof_new_def
        probdata_server_tcp_prof_default_def f_tcp_prof_default_def probdata_server_tcp_prof_init_def
        f_tcp_prof_init_def iperf_set_def iperf_member_def c_int_def mss start_tcp_worker_def
        server_reply_def probdata_ctrl_chan_send_ctrl_packet_def)
  obtain y where "c_copy_str (fc_remote_ip demo_ctrl) (''10.0.0.1'' @ replicate 56 NUL) = Some y" "terminated y"
    using demo_remote_copy [of "fc_remote_ip demo_ctrl"] by auto
  with s1 obtain s2 where s2: "probdata_server_proc_ctrl_packet demo_silent (set_status P_RUN_M2M_UDT s1) = Some (0, s2)"
    by (simp add: server_proc_unfold set_status_def upd_prob_def Let_def status_defs
        server_reply_def probdata_ctrl_chan_send_ctrl_packet_def probdata_server_udt_fastprof_run_def
        probdata_server_udt_prof_new_def probdata_server_udt_prof_default_def case_prod_beta
        probdata_server_udt_prof_init_def start_udt_worker_def)
  have no: "\<not> history_found demo_silent mem_record_zero demo_udt_only"
    by (simp add: history_found_def probdata_client_search_m2m_def f_m2m_db_search_def Let_def)
  from udt_only_session_hangs [OF s1(1) _ s2 _ _ no] s1(1) s2 show ?thesis by auto
qed

end
