(* ===== verification/Setup.thy ===== *)
theory Setup
  imports Probdata
begin

text \<open>
  Starting the program: the strings of the state stay strings through the defaults and
  the command line, what the parser accepts, and what a number with a unit suffix means.
\<close>

subsection \<open>The strings of the state\<close>

text \<open>Every array has its declared size and holds a terminated string.\<close>

definition holds_string :: "nat \<Rightarrow> cbuf \<Rightarrow> bool" where
  "holds_string n b \<longleftrightarrow> length b = n \<and> terminated b"

definition strings_ok :: "probdata \<Rightarrow> bool" where
  "strings_ok p \<longleftrightarrow>
     holds_string P_HOSTADDR_LEN (pb_local_ip p) \<and> holds_string P_HOSTADDR_LEN (pb_remote_ip p) \<and>
     holds_string P_FILENAME_LEN (pb_src_file p) \<and> holds_string P_FILENAME_LEN (pb_dst_file p) \<and>
     holds_string P_IDPKT_SIZE (pb_id p)"

lemma holds_string_memset:
  "c_memset b NUL n = Some b' \<Longrightarrow> 0 < n \<Longrightarrow> length b = n \<Longrightarrow> holds_string n b'"
  by (auto simp: c_memset_def holds_string_def terminated_def split: if_splits)

lemma holds_string_copy:
  "c_copy_str b a = Some b' \<Longrightarrow> terminated a \<Longrightarrow> length b = n \<Longrightarrow>
   holds_string n b' \<and> c_str b' = c_str a"
  by (auto simp: c_copy_str_eq holds_string_def terminated_def split: if_splits)

lemma new_and_default_strings:
  assumes "probdata_new_and_default raw = Some (r, p)"
    and "length (pb_local_ip raw) = P_HOSTADDR_LEN" "length (pb_remote_ip raw) = P_HOSTADDR_LEN"
    "length (pb_src_file raw) = P_FILENAME_LEN" "length (pb_dst_file raw) = P_FILENAME_LEN"
    "length (pb_id raw) = P_IDPKT_SIZE"
  shows "strings_ok p \<and> pb_role p = P_UNKNOWN"
  using assms
  by (auto simp: probdata_new_and_default_def bind_eq_Some_conv strings_ok_def
      P_HOSTADDR_LEN_def P_FILENAME_LEN_def P_IDPKT_SIZE_def intro!: holds_string_memset)

lemma strings_numeric [simp]:
  "strings_ok (p\<lparr>pb_role := role\<rparr>) = strings_ok p"
  "strings_ok (p\<lparr>pb_ctrl_port := n\<rparr>) = strings_ok p"
  "strings_ok (p\<lparr>pb_do_udt_only := n\<rparr>) = strings_ok p"
  "strings_ok (p\<lparr>pb_prof_duration := n\<rparr>) = strings_ok p"
  "strings_ok (p\<lparr>pb_mss := n\<rparr>) = strings_ok p"
  "strings_ok (p\<lparr>pb_impeded_limit := n\<rparr>) = strings_ok p"
  "strings_ok (p\<lparr>pb_max_prof_limit := n\<rparr>) = strings_ok p"
  "strings_ok (p\<lparr>pb_bandwidth := x\<rparr>) = strings_ok p"
  "strings_ok (p\<lparr>pb_pgr := x\<rparr>) = strings_ok p"
  "strings_ok (p\<lparr>pb_rtt_ms := x\<rparr>) = strings_ok p"
  "strings_ok (p\<lparr>pb_spsa_a_val := x\<rparr>) = strings_ok p"
  "strings_ok (p\<lparr>pb_spsa_c_val := x\<rparr>) = strings_ok p"
  "strings_ok (p\<lparr>pb_spsa_a_scale := x\<rparr>) = strings_ok p"
  "strings_ok (p\<lparr>pb_spsa_c_scale := x\<rparr>) = strings_ok p"
  "strings_ok (p\<lparr>pb_instance := i\<rparr>) = strings_ok p"
  by (simp_all add: strings_ok_def)

subsection \<open>One option\<close>

text \<open>The setters copy their argument, when it fits.\<close>

lemma setters:
  "probdata_set_peer_addr (c_lit a) p = Some (r, q) \<Longrightarrow>
     strings_ok p \<longrightarrow> strings_ok q \<and> pb_role q = pb_role p \<and> c_str (pb_remote_ip q) = c_str (c_lit a)"
  "probdata_set_src_file (c_lit a) p = Some (r, q) \<Longrightarrow>
     strings_ok p \<longrightarrow> strings_ok q \<and> pb_role q = pb_role p \<and> c_str (pb_src_file q) = c_str (c_lit a)"
  "probdata_set_dst_file (c_lit a) p = Some (r, q) \<Longrightarrow>
     strings_ok p \<longrightarrow> strings_ok q \<and> pb_role q = pb_role p \<and> c_str (pb_dst_file q) = c_str (c_lit a)"
  by (auto simp: probdata_set_peer_addr_def probdata_set_src_file_def probdata_set_dst_file_def
      bind_eq_Some_conv strings_ok_def holds_string_def [of _ "pb_remote_ip p"]
      holds_string_def [of _ "pb_src_file p"] holds_string_def [of _ "pb_dst_file p"]
      dest: holds_string_copy [OF _ terminated_lit])

lemma setters_role:
  "probdata_set_peer_addr a p = Some (r, q) \<Longrightarrow> pb_role q = pb_role p"
  "probdata_set_src_file a p = Some (r, q) \<Longrightarrow> pb_role q = pb_role p"
  "probdata_set_dst_file a p = Some (r, q) \<Longrightarrow> pb_role q = pb_role p"
  by (auto simp: probdata_set_peer_addr_def probdata_set_src_file_def probdata_set_dst_file_def
      bind_eq_Some_conv)

lemma set_role_prob [simp]:
  "ps_prob (snd (probdata_set_role role s)) = (ps_prob s)\<lparr>pb_role := role\<rparr>"
  by (simp add: probdata_set_role_def upd_prob_def set_errno_def Let_def)

lemma set_opt_inl:
  "set_opt v f st = Some (Inl st') \<longleftrightarrow>
     (\<exists>x. v = Some x \<and> st' = (upd_prob (f x) (fst st), snd st))"
  "set_opt v f st \<noteq> Some (Inr res)"
  by (auto simp: set_opt_def bind_eq_Some_conv)

text \<open>An option that is accepted: the role it leaves, and the two flags for the files.\<close>

lemma cmd_option_accepts:
  assumes "cmd_option flag optarg (s, src, dst) = Some (Inl (t, src', dst'))"
  shows "src' = (src \<or> flag = CHR ''S'')" "dst' = (dst \<or> flag = CHR ''V'')"
    and "pb_role (ps_prob t) = (if flag = CHR ''s'' then P_SERVER
      else if flag = CHR ''c'' then P_CLIENT else pb_role (ps_prob s))"
    and "flag = CHR ''s'' \<Longrightarrow> pb_role (ps_prob s) \<noteq> P_CLIENT"
    and "flag = CHR ''c'' \<Longrightarrow> pb_role (ps_prob s) \<noteq> P_SERVER"
  using assms
  by (auto simp: cmd_option_def Let_def bind_eq_Some_conv set_opt_inl upd_prob_def dest: setters_role
      split: if_splits)

lemma cmd_option_strings:
  assumes "cmd_option flag optarg (s, src, dst) = Some (Inl (t, src', dst'))" "strings_ok (ps_prob s)"
  shows "strings_ok (ps_prob t)"
  using assms
  by (auto simp: cmd_option_def Let_def bind_eq_Some_conv set_opt_inl upd_prob_def dest: setters
      split: if_splits)

lemma cmd_option_stops:
  assumes "cmd_option flag optarg (s, src, dst) = Some (Inr (Parsed r t))"
  shows "r = - 1 \<and> t = set_errno P_ERR_SERV_CLIENT s \<and>
    (flag = CHR ''s'' \<and> pb_role (ps_prob s) = P_CLIENT \<or> flag = CHR ''c'' \<and> pb_role (ps_prob s) = P_SERVER)"
  using assms
  by (auto simp: cmd_option_def Let_def bind_eq_Some_conv set_opt_inl split: if_splits)

subsection \<open>The whole command line\<close>

lemma cmd_options_strings:
  "cmd_options opts (s, src, dst) = Some (Parsed r t) \<Longrightarrow> strings_ok (ps_prob s) \<Longrightarrow>
   strings_ok (ps_prob t)"
proof (induction opts arbitrary: s src dst)
  case Nil
  then show ?case
    by (auto simp: cmd_finish_def Let_def upd_prob_def set_errno_def split: if_splits)
next
  case (Cons opt opts)
  obtain flag optarg where opt: "opt = (flag, optarg)" by (cases opt)
  show ?case
    using Cons opt cmd_option_strings [of flag optarg s src dst] cmd_option_stops [of flag optarg s src dst]
    by (auto simp: set_errno_def split: option.splits sum.splits)
qed

text \<open>
  An argument that the program cannot take when it gets to it: a string that does not fit its
  array with its terminator, an \<open>int\<close> out of range, a number with a unit that is none.
\<close>

definition bad_argument :: "char \<Rightarrow> string \<Rightarrow> probdata \<Rightarrow> bool" where
  "bad_argument flag optarg p \<longleftrightarrow>
     flag = CHR ''c'' \<and> pb_role p \<noteq> P_SERVER \<and> P_HOSTADDR_LEN \<le> length (c_str (c_lit optarg)) \<or>
     flag \<in> set ''SV'' \<and> P_FILENAME_LEN \<le> length (c_str (c_lit optarg)) \<or>
     flag \<in> set ''pdMLN'' \<and> c_atoi optarg = None \<or>
     flag = CHR ''y'' \<and> probdata_unit_atof optarg = None \<or>
     flag \<in> set ''CTegox'' \<and> c_atof optarg = None"

lemma set_opt_None [simp]: "set_opt v f st = None \<longleftrightarrow> v = None"
  by (cases v) (simp_all add: set_opt_def)

lemma copy_lit_None: "c_copy_str b (c_lit a) = None \<longleftrightarrow> length b \<le> length (c_str (c_lit a))"
  by (auto simp: c_copy_str_eq)

lemma cmd_option_undefined:
  assumes "strings_ok (ps_prob s)"
  shows "cmd_option flag optarg (s, src, dst) = None \<longleftrightarrow> bad_argument flag optarg (ps_prob s)"
proof -
  have len: "length (pb_remote_ip (ps_prob s)) = P_HOSTADDR_LEN" "length (pb_src_file (ps_prob s)) = P_FILENAME_LEN"
    "length (pb_dst_file (ps_prob s)) = P_FILENAME_LEN"
    using assms by (simp_all add: strings_ok_def holds_string_def)
  show ?thesis
    unfolding cmd_option_def bad_argument_def Let_def prod.case
    by (simp add: bind_eq_None_conv probdata_set_peer_addr_def probdata_set_src_file_def
        probdata_set_dst_file_def copy_lit_None len case_prod_beta)
qed

text \<open>The state of the parser after the first options, when none of them ends it.\<close>

fun cmd_prefix :: "(char \<times> string) list \<Rightarrow> 'w parser \<Rightarrow> 'w parser option" where
  "cmd_prefix [] st = Some st"
| "cmd_prefix ((flag, optarg) # opts) st =
     (case cmd_option flag optarg st of Some (Inl st') \<Rightarrow> cmd_prefix opts st' | _ \<Rightarrow> None)"

definition meets_bad :: "(char \<times> string) list \<Rightarrow> 'w parser \<Rightarrow> bool" where
  "meets_bad opts st \<longleftrightarrow> (\<exists>pre flag optarg post u files. opts = pre @ (flag, optarg) # post \<and>
     cmd_prefix pre st = Some (u, files) \<and> bad_argument flag optarg (ps_prob u))"

lemma meets_bad_Nil [simp]: "\<not> meets_bad [] st"
  by (simp add: meets_bad_def)

lemma meets_bad_Cons:
  "meets_bad ((flag, optarg) # opts) st \<longleftrightarrow> bad_argument flag optarg (ps_prob (fst st)) \<or>
     (\<exists>st'. cmd_option flag optarg st = Some (Inl st') \<and> meets_bad opts st')" (is "_ \<longleftrightarrow> ?here \<or> ?there")
proof
  assume "meets_bad ((flag, optarg) # opts) st"
  then obtain pre f a post u files where *: "(flag, optarg) # opts = pre @ (f, a) # post"
    "cmd_prefix pre st = Some (u, files)" "bad_argument f a (ps_prob u)" unfolding meets_bad_def by blast
  show "?here \<or> ?there"
  proof (cases pre)
    case (Cons x pre')
    then have pre: "opts = pre' @ (f, a) # post" "pre = (flag, optarg) # pre'" using *(1) by simp_all
    then obtain st' where "cmd_option flag optarg st = Some (Inl st')" "cmd_prefix pre' st' = Some (u, files)"
      using *(2) by (auto split: option.splits sum.splits)
    then show ?thesis using pre(1) *(3) unfolding meets_bad_def by blast
  qed (use * in auto)
next
  assume "?here \<or> ?there"
  then show "meets_bad ((flag, optarg) # opts) st"
  proof
    assume ?here
    then show ?thesis unfolding meets_bad_def by (cases st) (intro exI [of _ "[]"], simp)
  next
    assume ?there
    then obtain st' pre f a post u files where *: "cmd_option flag optarg st = Some (Inl st')"
      "opts = pre @ (f, a) # post" "cmd_prefix pre st' = Some (u, files)" "bad_argument f a (ps_prob u)"
      unfolding meets_bad_def by blast
    then have "cmd_prefix ((flag, optarg) # pre) st = Some (u, files)" by simp
    then show ?thesis unfolding meets_bad_def using *(2,4) by (metis append_Cons)
  qed
qed

lemma cmd_options_undefined:
  "strings_ok (ps_prob s) \<Longrightarrow> cmd_options opts (s, src, dst) = None \<longleftrightarrow> meets_bad opts (s, src, dst)"
proof (induction opts arbitrary: s src dst)
  case (Cons opt opts)
  obtain flag optarg where opt: "opt = (flag, optarg)" by (cases opt)
  note bad = cmd_option_undefined [OF Cons.prems, of flag optarg src dst]
  show ?case
  proof (cases "\<exists>u src' dst'. cmd_option flag optarg (s, src, dst) = Some (Inl (u, src', dst'))")
    case True
    then obtain u src' dst' where st': "cmd_option flag optarg (s, src, dst) = Some (Inl (u, src', dst'))"
      by blast
    from Cons.IH [OF cmd_option_strings [OF st' Cons.prems], of src' dst'] show ?thesis
      using st' opt bad by (simp add: meets_bad_Cons)
  next
    case False
    then show ?thesis using opt bad
      by (cases "cmd_option flag optarg (s, src, dst)") (auto simp: meets_bad_Cons split: sum.splits)
  qed
qed simp

text \<open>The role that a list of options gives to a program that has one already, or none.\<close>

lemma cmd_options_accepts:
  "cmd_options opts (s, src, dst) = Some (Parsed 0 t) \<Longrightarrow>
   (let flags = fst ` set opts; role = pb_role (ps_prob t)
    in (CHR ''s'' \<in> flags \<longrightarrow> role = P_SERVER) \<and> (CHR ''c'' \<in> flags \<longrightarrow> role = P_CLIENT) \<and>
       (pb_role (ps_prob s) \<noteq> P_UNKNOWN \<longrightarrow> role = pb_role (ps_prob s)) \<and>
       (CHR ''s'' \<notin> flags \<and> CHR ''c'' \<notin> flags \<longrightarrow> role = pb_role (ps_prob s)) \<and>
       role \<noteq> P_UNKNOWN \<and>
       (dst \<or> CHR ''V'' \<in> flags \<longrightarrow> src \<or> CHR ''S'' \<in> flags) \<and>
       pb_instance (ps_prob t) = Some (if role = P_CLIENT then ProbdataClient else ProbdataServer))"
proof (induction opts arbitrary: s src dst)
  case Nil
  then show ?case
    by (cases "pb_role (ps_prob s)")
      (auto simp: cmd_finish_def Let_def upd_prob_def set_errno_def split: if_splits)
next
  case (Cons opt opts)
  obtain flag optarg where opt: "opt = (flag, optarg)" by (cases opt)
  from Cons.prems opt obtain u src' dst' where
    step: "cmd_option flag optarg (s, src, dst) = Some (Inl (u, src', dst'))"
    and rest: "cmd_options opts (u, src', dst') = Some (Parsed 0 t)"
    using cmd_option_stops [of flag optarg s src dst]
    by (auto split: option.splits sum.splits)
  note IH = Cons.IH [OF rest, unfolded Let_def]
  note acc = cmd_option_accepts [OF step]
  consider "flag = CHR ''s''" | "flag = CHR ''c''" | "flag \<noteq> CHR ''s''" "flag \<noteq> CHR ''c''"
    by blast
  then show ?case
  proof cases
    case 1
    then show ?thesis using IH acc opt
      by (simp add: Let_def) (metis p_program_role.distinct p_program_role.exhaust)
  next
    case 2
    then show ?thesis using IH acc opt
      by (simp add: Let_def) (metis p_program_role.distinct p_program_role.exhaust)
  next
    case 3
    then show ?thesis using IH acc opt by (simp add: Let_def) metis
  qed
qed

lemma cmd_options_result:
  "cmd_options opts (s, src, dst) = Some (Parsed r t) \<Longrightarrow>
   r = 0 \<or> r = - 1 \<and> (ps_p_errno t = P_ERR_SERV_CLIENT \<or>
     ps_p_errno t = P_ERR_DSTFILE_ONLY \<and> \<not> src \<and> CHR ''S'' \<notin> fst ` set opts)"
proof (induction opts arbitrary: s src dst)
  case Nil
  then show ?case by (auto simp: cmd_finish_def Let_def set_errno_def split: if_splits)
next
  case (Cons opt opts)
  obtain flag optarg where opt: "opt = (flag, optarg)" by (cases opt)
  from Cons.prems opt consider "r = - 1" "t = set_errno P_ERR_SERV_CLIENT s"
    | u src' dst' where "cmd_option flag optarg (s, src, dst) = Some (Inl (u, src', dst'))"
      "cmd_options opts (u, src', dst') = Some (Parsed r t)"
    using cmd_option_stops [of flag optarg s src dst]
    by (auto split: option.splits sum.splits)
  then show ?case
  proof cases
    case 1
    then show ?thesis by (simp add: set_errno_def)
  next
    case 2
    then show ?thesis using Cons.IH [OF 2(2)] cmd_option_accepts(1) [OF 2(1)] opt by auto
  qed
qed

subsection \<open>Numbers with a unit\<close>

lemma scan_lf_nat:
  assumes "r = [] \<or> r = [u] \<and> u \<in> set ''kKmMgG''"
  shows "scan_lf (show_nat n @ r) = Some (Some (signed_dbl False (of_nat n), r))"
proof -
  obtain c t where ct: "show_nat n = c # t" "c_isdigit c" using show_nat_hd by blast
  have sign: "split_sign (show_nat n @ r) = (False, show_nat n @ r)"
    using digit_not_sign [OF ct(2)] ct(1) by (simp add: split_sign_def)
  have r: "r = [] \<or> \<not> c_isdigit (hd r)"
    using assms by (auto simp: c_isdigit_def)
  have ip: "takeWhile c_isdigit (show_nat n @ r) = show_nat n" "dropWhile c_isdigit (show_nat n @ r) = r"
    using takeWhile_stop [OF show_nat_digits r] by simp_all
  have fp: "scan_fraction r = ([], r)" "scan_exponent r = Some (0, r)"
    using assms by (auto simp: scan_fraction_def scan_exponent_def)
  have w: "map c_lower (take 3 (show_nat n @ r)) \<noteq> ''nan''"
    "map c_lower (take 3 (show_nat n @ r)) \<noteq> ''inf''"
    using ct lower_digit [OF ct(2)] by (auto simp: c_isdigit_def numeral_3_eq_3)
  have x: "map c_lower (take 2 (show_nat n @ r)) \<noteq> ''0x''"
  proof (cases t)
    case Nil
    have "c_lower u \<noteq> CHR ''x''" if "u \<in> set ''kKmMgG''" for u
      using that by (auto simp: c_lower_def Let_def char_of_def)
    then have "map c_lower r \<noteq> ''x''" using assms by (elim disjE conjE) simp_all
    moreover have "show_nat n @ r = c # r" using ct Nil by simp
    moreover have "length r \<le> 1" using assms by auto
    ultimately show ?thesis by simp
  next
    case (Cons d v)
    then have "c_isdigit d" using show_nat_digits [of n] ct by simp
    then show ?thesis
      using ct Cons lower_digit [of d] by (auto simp: c_isdigit_def numeral_2_eq_2)
  qed
  have pw: "(10::rat) powi (0 - int 0) = 1" by simp
  show ?thesis
    unfolding scan_lf_def sign Let_def prod.case ip fp option.case
    by (simp only: w x show_nat_nonempty append_Nil2 digits_val_show_nat if_False simp_thms list.size pw mult_1_right)
qed

lemma signed_dbl_nat:
  "n \<le> 2 ^ 53 \<Longrightarrow> signed_dbl False (of_nat n) = Fin (of_nat n)"
  using round64_exact [of "int n" 0] by (auto simp: signed_dbl_def dzero_def)

lemma unit_factor_suffix: "u \<in> set ''kKmMgG'' \<Longrightarrow> unit_factor u \<in> {1000, 1000000, 1000000000}"
  by (auto simp: unit_factor_def P_KB_def P_MB_def P_GB_def)

lemma times_Fin_nat:
  assumes "int n * k \<le> 2 ^ 53" "0 \<le> k"
  shows "Fin (of_nat n) * Fin (of_int k) = Fin (of_nat n * of_int k)"
  using round64_exact [of "int n * k" 0] assms
  by (auto simp: times_dbl_def dmul_def Let_def dzero_def simp del: Fin_0_zero Fin_1_one)

lemma unit_atof_nat:
  assumes "u \<in> set ''kKmMgG''" "int n * unit_factor u \<le> 2 ^ 53"
  shows "probdata_unit_atof (show_nat n @ [u]) = Some (Fin (of_nat n * of_int (unit_factor u)))"
proof -
  obtain c t where ct: "show_nat n = c # t" "c_isdigit c" using show_nat_hd by blast
  have ws: "skip_ws (show_nat n @ [u]) = show_nat n @ [u]"
    using ct digit_not_sign [OF ct(2)] by (simp add: skip_ws_def)
  have f: "unit_factor u \<in> {1000, 1000000, 1000000000}" using unit_factor_suffix [OF assms(1)] .
  then have "int n \<le> 2 ^ 53" "d_of_int (unit_factor u) = Fin (of_int (unit_factor u))"
    using assms(2) round64_exact [of "unit_factor u" 0] by (auto simp: d_of_int_def)
  then show ?thesis
    using scan_lf_nat [of "[u]" u n] assms f ws signed_dbl_nat [of n] times_Fin_nat [OF assms(2)]
    by (auto simp: probdata_unit_atof_def)
qed

subsection \<open>Properties of the set-up\<close>


lemma cmd_parse_outcome:
  assumes "probdata_cmd_parse opts s = Some (Parsed r t)" "pb_role (ps_prob s) = P_UNKNOWN"
  shows "let flags = fst ` set opts in (r = 0 \<longrightarrow>
      (CHR ''s'' \<in> flags \<longleftrightarrow> CHR ''c'' \<notin> flags) \<and> (CHR ''V'' \<in> flags \<longrightarrow> CHR ''S'' \<in> flags) \<and>
      pb_role (ps_prob t) = (if CHR ''s'' \<in> flags then P_SERVER else P_CLIENT) \<and>
      pb_instance (ps_prob t) = Some (if CHR ''s'' \<in> flags then ProbdataServer else ProbdataClient)) \<and>
    (r \<noteq> 0 \<longrightarrow> r = - 1 \<and> (ps_p_errno t = P_ERR_SERV_CLIENT \<or>
      ps_p_errno t = P_ERR_DSTFILE_ONLY \<and> CHR ''S'' \<notin> flags))"
proof -
  let ?flags = "fst ` set opts"
  have run: "cmd_options opts (s, False, False) = Some (Parsed r t)"
    using assms(1) by (simp add: probdata_cmd_parse_def)
  show ?thesis
  proof (cases "r = 0")
    case True
    note acc = cmd_options_accepts [OF run [unfolded True], unfolded Let_def]
    then have "CHR ''s'' \<in> ?flags \<or> CHR ''c'' \<in> ?flags" using assms(2) by metis
    then show ?thesis using acc True unfolding Let_def by auto
  next
    case False
    then show ?thesis using cmd_options_result [OF run] unfolding Let_def by auto
  qed
qed

text \<open>
  C36. What the parser accepts: a command line with exactly one of the options \<open>-s\<close> and
  \<open>-c\<close> (each as often as one likes), which selects the program to run, and \<open>-V\<close> only
  together with \<open>-S\<close>. Everything else that does not leave the program is an error with one
  of two codes.
\<close>

theorem probdata_cmd_parse_result:
  assumes "probdata_cmd_parse opts s = Some (Parsed r t)" "pb_role (ps_prob s) = P_UNKNOWN"
  shows "let flags = fst ` set opts in (r = 0 \<longrightarrow>
      (CHR ''s'' \<in> flags \<longleftrightarrow> CHR ''c'' \<notin> flags) \<and> (CHR ''V'' \<in> flags \<longrightarrow> CHR ''S'' \<in> flags) \<and>
      pb_role (ps_prob t) = (if CHR ''s'' \<in> flags then P_SERVER else P_CLIENT) \<and>
      pb_instance (ps_prob t) = Some (if CHR ''s'' \<in> flags then ProbdataServer else ProbdataClient)) \<and>
    (r \<noteq> 0 \<longrightarrow> r = - 1 \<and> (ps_p_errno t = P_ERR_SERV_CLIENT \<or>
      ps_p_errno t = P_ERR_DSTFILE_ONLY \<and> CHR ''S'' \<notin> flags))"
  by (rule cmd_parse_outcome [OF assms])

text \<open>
  C38. A number with a unit: the decimal digits of \<open>n\<close> and one of the letters k, m, g of
  either case give \<open>n\<close> thousands, millions or thousand millions; the conversion to \<open>int\<close> is
  undefined from \<open>2 ^ 31\<close>, so for 3G.
\<close>

theorem probdata_unit_suffix:
  assumes "u \<in> set ''kKmMgG''" "int n * unit_factor u \<le> 2 ^ 53"
  shows "probdata_unit_atof (show_nat n @ [u]) = Some (Fin (of_int (int n * unit_factor u))) \<and>
    probdata_unit_atoi (show_nat n @ [u]) =
      (if int n * unit_factor u \<le> INT_MAX then Some (int n * unit_factor u) else None)"
proof -
  have "0 \<le> int n * unit_factor u" using unit_factor_suffix [OF assms(1)] by auto
  then have c: "c_int (int n * unit_factor u) =
      (if int n * unit_factor u \<le> INT_MAX then Some (int n * unit_factor u) else None)"
    by (auto simp: c_int_def in_int_def INT_MIN_def)
  have "\<lfloor>of_nat n * (of_int (unit_factor u) :: rat)\<rfloor> = int n * unit_factor u"
    using floor_of_int [of "int n * unit_factor u", where ?'a = rat] by simp
  then show ?thesis
    using unit_atof_nat [OF assms] c \<open>0 \<le> int n * unit_factor u\<close> unit_factor_suffix [OF assms(1)]
    by (auto simp: probdata_unit_atoi_def d_to_int_def)
qed

end
