(* ===== verification/Advice.thy ===== *)
theory Advice
  imports Client
begin

text \<open>
  What the user is told and what the program knows without being told: the recommendation
  at the end, the search without a capacity, the estimate of the round-trip time.
\<close>

subsection \<open>The recommendation\<close>

lemma advise_if_cases:
  "advise_if b m = Some as \<Longrightarrow> b \<and> (\<exists>x. m = Some x \<and> as = [x]) \<or> \<not> b \<and> as = []"
  by (auto simp: advise_if_def bind_eq_Some_conv split: if_splits)

lemma advise_kinds:
  "advise_udt E p x c w = Some a \<Longrightarrow> \<exists>u. a = AdviseUdt u \<and> ua_perf u = x"
  "advise_tcp h q c = Some a \<Longrightarrow> \<exists>t. a = AdviseTcp t \<and> ta_perf t = tp_perf_Mbps q"
  by (auto simp: advise_udt_def advise_tcp_def bind_eq_Some_conv)

lemma dbl_less_asym: "a < b \<Longrightarrow> \<not> b < a" for a :: dbl
  using dbl_less_trans dbl_less_irrefl by blast

text \<open>
  C33. A recommendation needs determinate performances of all three candidates. It names
  at most one of them, and that one is strictly better than the two others; when no one is,
  the client recommends nothing.
\<close>

theorem client_advice_best:
  assumes "client_advice E s = Some as"
  shows "\<exists>u x q h. pb_udt_prof_max (ps_prob s) = Some u \<and> up_perf_Mbps u = Some x \<and>
    pb_tcp_prof_max (ps_prob s) = Some q \<and> average_perf (pb_m2m_record_max (ps_prob s)) = Some h \<and>
    (let y = tp_perf_Mbps q in
     case as of
       [] \<Rightarrow> \<not> (y < x \<and> h < x) \<and> \<not> (x < y \<and> h < y) \<and> \<not> (y < h \<and> x < h)
     | [AdviseUdt a] \<Rightarrow> ua_perf a = x \<and> y < x \<and> h < x
     | [AdviseTcp a] \<Rightarrow> ta_perf a = y \<and> x < y \<and> h < y
     | [AdviseRecord a] \<Rightarrow>
         f_print_m2m_record (pb_m2m_record_max (ps_prob s)) = Some a \<and> y < h \<and> x < h
     | _ \<Rightarrow> False)"
proof -
  let ?c = "pb_control (ps_prob s)" and ?r = "pb_m2m_record_max (ps_prob s)"
  obtain u x q h a1 a2 a3 where parts: "pb_udt_prof_max (ps_prob s) = Some u" "up_perf_Mbps u = Some x"
      "pb_tcp_prof_max (ps_prob s) = Some q" "average_perf ?r = Some h"
    and a: "advise_if (x > tp_perf_Mbps q \<and> x > h) (advise_udt E u x ?c (ps_world s)) = Some a1"
      "advise_if (tp_perf_Mbps q > x \<and> tp_perf_Mbps q > h) (advise_tcp (ps_heap s) q ?c) = Some a2"
      "advise_if (h > tp_perf_Mbps q \<and> h > x) (map_option AdviseRecord (f_print_m2m_record ?r)) = Some a3"
    and as: "as = a1 @ a2 @ a3"
    using assms by (auto simp: client_advice_def Let_def bind_eq_Some_conv)
  let ?y = "tp_perf_Mbps q"
  consider "?y < x" "h < x" | "x < ?y" "h < ?y" | "?y < h" "x < h"
    | "\<not> (?y < x \<and> h < x)" "\<not> (x < ?y \<and> h < ?y)" "\<not> (?y < h \<and> x < h)" by blast
  then have "case as of
       [] \<Rightarrow> \<not> (?y < x \<and> h < x) \<and> \<not> (x < ?y \<and> h < ?y) \<and> \<not> (?y < h \<and> x < h)
     | [AdviseUdt a] \<Rightarrow> ua_perf a = x \<and> ?y < x \<and> h < x
     | [AdviseTcp a] \<Rightarrow> ta_perf a = ?y \<and> x < ?y \<and> h < ?y
     | [AdviseRecord a] \<Rightarrow> f_print_m2m_record ?r = Some a \<and> ?y < h \<and> x < h
     | _ \<Rightarrow> False"
  proof cases
    case 1
    then show ?thesis using a [THEN advise_if_cases] dbl_less_asym advise_kinds(1) as by fastforce
  next
    case 2
    then show ?thesis using a [THEN advise_if_cases] dbl_less_asym advise_kinds(2) as by fastforce
  next
    case 3
    then show ?thesis using a [THEN advise_if_cases] dbl_less_asym as by fastforce
  next
    case 4
    then show ?thesis using a [THEN advise_if_cases] as by auto
  qed
  then show ?thesis using parts by (intro exI conjI) (simp_all only: Let_def)
qed

subsection \<open>A search that does not know the capacity\<close>

lemma round64_not_pos: "x \<le> 0 \<Longrightarrow> \<not> 0 < round64 x"
  using round64_mono [of x 0] by simp

lemma round64_neg:
  assumes "x < 0"
  shows "round64 x = MInf \<or> round64 x = NegZero \<or> (\<exists>r<0. round64 x = Fin r)"
proof -
  have "rnd x \<le> rnd 0" using assms by (intro rnd_mono) simp
  then have "rnd x \<le> 0" by simp
  moreover from this have "\<not> 2 ^ 1024 \<le> rnd x" by (simp add: not_le le_less_trans)
  ultimately show ?thesis using assms by (auto simp: round64_def Let_def)
qed

lemma neg_div:
  assumes "b < 0" "0 < k"
  shows "b / Fin k = MInf \<or> b / Fin k = NegZero \<or> (\<exists>r<0. b / Fin k = Fin r)"
proof (cases b)
  case (Fin r)
  then have "r < 0" using assms(1) by (simp add: less_dbl_def zero_dbl_def del: Fin_0_zero Fin_1_one)
  then have "r / k < 0" using assms(2) by (simp add: divide_neg_pos)
  then show ?thesis using round64_neg [of "r / k"] Fin assms(2) \<open>r < 0\<close>
    by (simp add: divide_dbl_def ddiv_def Let_def del: Fin_0_zero Fin_1_one)
qed (use assms in \<open>simp_all add: less_dbl_def zero_dbl_def divide_dbl_def ddiv_def dinf_def
      del: Fin_0_zero Fin_1_one\<close>)

lemma div_neg_not_pos:
  assumes "\<not> y < 0" "d = MInf \<or> d = NegZero \<or> (\<exists>r<0. d = Fin r)"
  shows "\<not> 0 < y / d"
proof (cases y)
  case (Fin q)
  then have "0 \<le> q" using assms(1)
    by (simp add: less_dbl_def zero_dbl_def del: Fin_0_zero Fin_1_one)
  then show ?thesis
    using Fin assms(2) round64_not_pos [of "q / r" for r] divide_nonneg_neg [of q]
    by (auto simp: less_dbl_def zero_dbl_def divide_dbl_def ddiv_def Let_def dinf_def dzero_def
        simp del: Fin_0_zero Fin_1_one)
qed (use assms in \<open>auto simp: less_dbl_def zero_dbl_def divide_dbl_def ddiv_def Let_def dinf_def dzero_def
      simp del: Fin_0_zero Fin_1_one\<close>)

lemma dbl_less_le_trans: "a < b \<Longrightarrow> b \<le> c \<Longrightarrow> a < c" for a :: dbl
  by (cases a; cases b; cases c)
    (auto simp: less_dbl_def less_eq_dbl_def dle_def simp del: Fin_0_zero Fin_1_one)

text \<open>
  Without a capacity (the default is -1, not the 10 Gb/s of the usage text) the
  performance goal is never met: neither the check before an iteration nor a measurement
  ends the search for it, so only the two limits can.
\<close>

theorem no_capacity_no_goal:
  assumes "spsa_limits ctrl = Some L" "fc_bw_bps ctrl < 0" "0 < fc_pgr ctrl"
    and "\<And>s. r_max_perf_Gbps (save s) = r_max_perf_Gbps s" "\<not> r_max_perf_Gbps s < 0"
  shows "(\<forall>t. spsa_checks L s = Break t \<longrightarrow> r_flag t = 1 \<or> r_flag t = 2) \<and>
    (\<forall>t. spsa_keep_best save L y theta s \<noteq> Some (Break t))"
proof -
  have gb: "d_of_int F_GB = Fin 1000000000"
    using round64_exact [of 1000000000 0] by (simp add: d_of_int_def F_GB_def)
  have L: "l_perf_gain_ratio L = fc_pgr ctrl" "l_BW_Gbps L = fc_bw_bps ctrl / Fin 1000000000"
    using assms(1) dbl_less_asym [OF assms(3)] gb
    by (auto simp: spsa_limits_def Let_def bind_eq_Some_conv)
  have no: "\<not> spsa_goal L x" if "\<not> x < 0" for x
  proof
    assume "spsa_goal L x"
    then have "fc_pgr ctrl \<le> x / l_BW_Gbps L" by (simp add: spsa_goal_def L)
    moreover have "\<not> 0 < x / l_BW_Gbps L"
      using div_neg_not_pos [OF that neg_div [OF assms(2), of 1000000000]] by (simp add: L)
    ultimately show False using dbl_less_le_trans [OF assms(3)] by blast
  qed
  have y: "\<not> y < 0" if "r_max_perf_Gbps s < y"
    using that assms(5) dbl_less_trans by blast
  show ?thesis
    using no [OF assms(5)] no [OF y] assms(4)
    by (auto simp: spsa_checks_def spsa_keep_best_def Let_def spsa_goal_def bind_eq_Some_conv
        spsa_scale_gains_def)
qed

subsection \<open>The estimate of the round-trip time\<close>

lemma find_word_Some: "find_word p s = Some i \<Longrightarrow> \<exists>a b. s = a @ p @ b"
proof (induction p s arbitrary: i rule: find_word.induct)
  case (1 p)
  then show ?case by (simp split: if_splits)
next
  case (2 p c s)
  show ?case
  proof (cases "take (length p) (c # s) = p")
    case True
    then have "c # s = [] @ p @ drop (length p) (c # s)" by (metis append_Nil append_take_drop_id)
    then show ?thesis by blast
  next
    case False
    then obtain j where "find_word p s = Some j" using "2.prems" by (auto split: if_splits)
    then obtain a b where "s = a @ p @ b" using "2.IH" [OF False] by blast
    then have "c # s = (c # a) @ p @ b" by simp
    then show ?thesis by blast
  qed
qed

text \<open>
  The client cannot survive a \<open>ping\<close> whose output has no \<open>mdev\<close>, as when the host is
  down or unknown: the position \<open>npos\<close> loses its upper half before it is compared, and
  \<open>substr\<close> throws an exception that nothing catches.
\<close>

theorem client_estimate_rtt_no_mdev:
  assumes "pb_rtt_ms (ps_prob s) < 0" "terminated (pb_remote_ip (ps_prob s))"
    and "length (c_str (pb_remote_ip (ps_prob s))) \<le> 64"
    and "e_popen_output E (''/bin/ping -w 6 -c 5 '' @ c_str (pb_remote_ip (ps_prob s)) @ '' 2>&1'')
      (ps_world s) = (Some out, w)"
    and "\<nexists>a b. out = a @ ''mdev'' @ b" "length out < 2 ^ 32 - 1"
  shows "client_estimate_rtt E s = None"
proof -
  let ?host = "c_str (pb_remote_ip (ps_prob s))"
  let ?text = "''/bin/ping -w 6 -c 5 '' @ ?host"
  have puts: "c_puts (replicate 128 NUL) ?text = Some (?text @ NUL # drop (Suc (length ?text)) (replicate 128 NUL))"
    by (rule c_puts_eq) (use assms(3) in simp)
  have "NUL \<notin> set ?text" by (simp add: NUL_def [symmetric]) (simp add: NUL_def)
  then have str: "c_str (?text @ NUL # drop (Suc (length ?text)) (replicate 128 NUL)) = ?text"
    by (rule c_str_append_NUL)
  have none: "find_word ''mdev'' out = None"
    using find_word_Some [of "''mdev''" out] assms(5) by (cases "find_word ''mdev'' out") blast+
  have cmd: "?text @ '' 2>&1'' = ''/bin/ping -w 6 -c 5 '' @ ?host @ '' 2>&1''" by simp
  have "f_estimate_rtt E (pb_remote_ip (ps_prob s)) (ps_world s) = None"
    unfolding f_estimate_rtt_def c_strlen_terminated [OF assms(2)] puts bind.simps Let_def str cmd
      assms(4) prod.case option.case none
    using assms(6) by (simp add: npos_def)
  then show ?thesis using assms(1) by (simp add: client_estimate_rtt_def)
qed

end
