(* ===== verification/RecordTransfer.thy ===== *)
theory RecordTransfer
  imports Exchange Server
begin

text \<open>
  Sending a whole record of the data base over the control channel
  (\<open>probdata_client_m2m_record_send\<close>, \<open>probdata_server_m2m_record_recv\<close>): the packed
  structure \<open>mem_record\<close> travels as its 236 bytes. Nothing in the program calls the two yet.
\<close>

subsection \<open>The bytes of a record\<close>

definition long_bytes :: "int \<Rightarrow> string" where
  "long_bytes n = map (\<lambda>i. byte_of (n div 256 ^ i)) [0..<8]"

definition bytes_long :: "string \<Rightarrow> int" where
  "bytes_long bs =
     (let n = foldr (\<lambda>b n. of_byte b + 256 * n) bs 0 in if 2 ^ 63 \<le> n then n - 2 ^ 64 else n)"

lemma long_round_trip:
  assumes "- (2 ^ 63) \<le> n" "n < 2 ^ 63"
  shows "bytes_long (long_bytes n) = n"
proof -
  have v: "foldr (\<lambda>b n. of_byte b + 256 * n) (long_bytes n) 0 = n mod 2 ^ 64"
    using bytes_value [of n 8] by (simp add: long_bytes_def)
  show ?thesis
  proof (cases "0 \<le> n")
    case True
    then have "n mod 2 ^ 64 = n" using assms(2) by (intro mod_pos_pos_trivial) simp_all
    then show ?thesis using assms(2) by (simp only: bytes_long_def v Let_def) simp
  next
    case False
    have "n mod 2 ^ 64 = (n + 2 ^ 64) mod 2 ^ 64" by simp
    also have "\<dots> = n + 2 ^ 64" using False assms(1) by (intro mod_pos_pos_trivial) simp_all
    finally show ?thesis using assms(1) by (simp only: bytes_long_def v Let_def) simp
  qed
qed

definition mem_record_bytes :: "mem_record \<Rightarrow> string option" where
  "mem_record_bytes r = do {
     perf \<leftarrow> average_perf r;
     Some (src_ip r @ dst_ip r @ curr_time r @ protocol_name r @ toolkit_name r @
       int_bytes (num_streams r) @ int_bytes (mss_size r) @ int_bytes (buffer_size r) @
       buffer_size_unit r @ int_bytes (block_size r) @ block_size_unit r @ int_bytes (duration r) @
       duration_unit r @ long_bytes (trans_size r) @ trans_size_unit r @ dbl_bytes perf @
       average_perf_unit r)
   }"

definition bytes_mem_record :: "string \<Rightarrow> mem_record" where
  "bytes_mem_record bs = (let part = (\<lambda>from n. take n (drop from bs)) in \<lparr>
     src_ip = part 0 32, dst_ip = part 32 32, curr_time = part 64 32, protocol_name = part 96 32,
     toolkit_name = part 128 32, num_streams = bytes_int (part 160 4), mss_size = bytes_int (part 164 4),
     buffer_size = bytes_int (part 168 4), buffer_size_unit = part 172 8,
     block_size = bytes_int (part 180 4), block_size_unit = part 184 8,
     duration = bytes_int (part 192 4), duration_unit = part 196 8,
     trans_size = bytes_long (part 204 8), trans_size_unit = part 212 8,
     average_perf = Some (bytes_dbl (part 220 8)), average_perf_unit = part 228 8\<rparr>)"

definition MEM_RECORD_SIZE :: nat where
  "MEM_RECORD_SIZE = 236"

text \<open>A record as the structure holds it: arrays of their sizes, numbers of their widths.\<close>

definition sized_record :: "mem_record \<Rightarrow> bool" where
  "sized_record r \<longleftrightarrow>
     (\<forall>b \<in> {src_ip r, dst_ip r, curr_time r, protocol_name r, toolkit_name r}. length b = 32) \<and>
     (\<forall>b \<in> {buffer_size_unit r, block_size_unit r, duration_unit r, trans_size_unit r,
             average_perf_unit r}. length b = 8) \<and>
     (\<forall>n \<in> {num_streams r, mss_size r, buffer_size r, block_size r, duration r}. in_int n) \<and>
     - (2 ^ 63) \<le> trans_size r \<and> trans_size r < 2 ^ 63 \<and>
     (\<exists>x. average_perf r = Some x \<and> is_double x)"

lemma sizes [simp]: "length (long_bytes n) = 8" "length (dbl_bytes x) = 8"
  by (simp_all add: long_bytes_def dbl_bytes_def)

lemma record_bytes:
  assumes "sized_record r"
  obtains bs where "mem_record_bytes r = Some bs" "length bs = MEM_RECORD_SIZE" "bytes_mem_record bs = r"
proof -
  obtain x where x: "average_perf r = Some x" "is_double x" using assms by (auto simp: sized_record_def)
  then obtain bs where bs: "mem_record_bytes r = Some bs" by (simp add: mem_record_bytes_def)
  note s = assms [unfolded sized_record_def]
  have "length bs = MEM_RECORD_SIZE"
    using bs x s by (auto simp: mem_record_bytes_def MEM_RECORD_SIZE_def)
  moreover have "bytes_mem_record bs = r"
    using bs x s long_round_trip [of "trans_size r"] dbl_round_trip [OF x(2)]
    by (auto simp: mem_record_bytes_def bytes_mem_record_def Let_def bytes_int_bytes)
  ultimately show thesis using bs that by blast
qed

subsection \<open>Sending and receiving\<close>

definition probdata_client_m2m_record_send ::
    "'w env \<Rightarrow> mem_record \<Rightarrow> 'w pstate \<Rightarrow> (int \<times> 'w pstate) option" where
  "probdata_client_m2m_record_send E r s =
     (if pb_role (ps_prob s) = P_CLIENT then do {
        bs \<leftarrow> mem_record_bytes r;
        check (send_bytes E bs s) (set_errno P_ERR_UNKNOWN) (\<lambda>s. Some (0, s))
      }
      else Some (- 1, set_errno P_ERR_SERV_CLIENT s))"

text \<open>\<open>mem\<close> is the memory of the record that is received into.\<close>

definition probdata_server_m2m_record_recv ::
    "'w env \<Rightarrow> string \<Rightarrow> 'w pstate \<Rightarrow> (int \<times> string \<times> 'w pstate) option" where
  "probdata_server_m2m_record_recv E mem s =
     (if pb_role (ps_prob s) = P_SERVER then do {
        (r, bs, s) \<leftarrow> recv_bytes E (int MEM_RECORD_SIZE) s;
        Some (if r < 0 then (- 1, overlay bs mem, set_errno P_ERR_UNKNOWN s) else (0, overlay bs mem, s))
      }
      else Some (- 1, mem, set_errno P_ERR_SERV_CLIENT s))"

text \<open>
  C28. A record that the client sends over a working connection arrives at the server as the
  same record, whatever the memory it is received into held; neither party consumes or
  sends more than the record, and only a client sends and only a server receives.
\<close>

theorem m2m_record_transfer:
  assumes cli: "probdata_client_m2m_record_send Ec r c = Some (q, c')" "0 \<le> q"
      "stream_io Ec (pb_accept_sock (ps_prob c)) rxc txc"
    and srv: "probdata_server_m2m_record_recv Es mem s = Some (p, mem', s')" "0 \<le> p"
      "stream_io Es (pb_accept_sock (ps_prob s)) rxs txs"
    and connected: "txc (ps_world c') = txc (ps_world c) @ sent" "rxs (ps_world s) = sent @ rest"
    and r: "sized_record r" "length mem = MEM_RECORD_SIZE"
  shows "bytes_mem_record mem' = r \<and> rxs (ps_world s') = rest \<and>
    pb_role (ps_prob c) = P_CLIENT \<and> pb_role (ps_prob s) = P_SERVER"
proof -
  obtain bs where bs: "mem_record_bytes r = Some bs" "length bs = MEM_RECORD_SIZE" "bytes_mem_record bs = r"
    using record_bytes [OF r(1)] .
  have c: "pb_role (ps_prob c) = P_CLIENT"
    using cli(1,2) by (auto simp: probdata_client_m2m_record_send_def split: if_splits)
  obtain q' u where u: "send_bytes Ec bs c = Some (q', u)" "0 \<le> q'" "c' = u"
    using cli(1,2) c bs(1) by (auto simp: probdata_client_m2m_record_send_def elim!: check_zero)
  from send_bytes_stream [OF cli(3) u(1,2)] obtain w0 where
    w0: "u = c\<lparr>ps_world := w0\<rparr>" "txc w0 = txc (ps_world c) @ bs" .
  then have sent: "sent = bs" using connected(1) u(3) by simp
  have sv: "pb_role (ps_prob s) = P_SERVER"
    using srv(1,2) by (auto simp: probdata_server_m2m_record_recv_def split: if_splits)
  obtain p' got v where v: "recv_bytes Es (int MEM_RECORD_SIZE) s = Some (p', got, v)" "0 \<le> p'"
    "mem' = overlay got mem" "s' = v"
    using srv(1,2) sv by (auto simp: probdata_server_m2m_record_recv_def bind_eq_Some_conv split: if_splits)
  have "MEM_RECORD_SIZE \<le> length (rxs (ps_world s))" using connected(2) sent bs(2) by simp
  from recv_bytes_stream [OF srv(3) this v(1,2)] obtain w where
    w: "v = s\<lparr>ps_world := w\<rparr>" "got = take MEM_RECORD_SIZE (rxs (ps_world s))"
      "rxs w = drop MEM_RECORD_SIZE (rxs (ps_world s))" .
  then have "got = bs" "rxs (ps_world s') = rest" using connected(2) sent bs(2) v(4) by simp_all
  then show ?thesis using v(3) bs(2,3) r(2) c sv by (simp add: overlay_def)
qed

end
