(* ===== verification/Program.thy ===== *)
theory Program
  imports MainLoop Setup
begin

text \<open>
  The program as a whole (\<open>probdata_main.cpp\<close>): set-up, then the client or the server.
\<close>

subsection \<open>The end of the objects\<close>

text \<open>
  \<open>probdata_delete\<close>, which nothing calls: every object goes, and its pointer is null. The
  two records and the control block go with the state here.
\<close>

definition probdata_delete :: "probdata \<Rightarrow> int \<times> probdata" where
  "probdata_delete p =
     (0, p\<lparr>pb_udt_prof := None, pb_udt_prof_max := None, pb_tcp_prof := None, pb_tcp_prof_max := None,
           pb_udt_worker := None, pb_tcp_worker := None\<rparr>)"

definition probdata_load_conf :: "probdata \<Rightarrow> int" where
  "probdata_load_conf p = 0"

subsection \<open>The time\<close>

text \<open>
  What the program prints as the time it took, from two readings of the clock in seconds and
  microseconds. The quotients are those of C, which cut off towards zero.
\<close>

definition c_quot :: "int \<Rightarrow> int \<Rightarrow> int" where
  "c_quot a b = sgn a * sgn b * (\<bar>a\<bar> div \<bar>b\<bar>)"

definition time_elapsed :: "int \<times> int \<Rightarrow> int \<times> int \<Rightarrow> int \<times> int \<times> int" where
  "time_elapsed start stop =
     (let time_elapsed_sec =
        c_quot ((fst stop * 1000000 + snd stop) - (fst start * 1000000 + snd start)) 1000000;
        hours = c_quot time_elapsed_sec 3600;
        minutes = c_quot (time_elapsed_sec - hours * 3600) 60;
        seconds = time_elapsed_sec - hours * 3600 - minutes * 60
      in (hours, minutes, seconds))"

lemma time_elapsed_parts:
  assumes "fst start * 1000000 + snd start \<le> fst stop * 1000000 + snd stop"
  shows "case time_elapsed start stop of (h, m, s) \<Rightarrow>
    0 \<le> h \<and> 0 \<le> m \<and> m < 60 \<and> 0 \<le> s \<and> s < 60 \<and>
    h * 3600 + m * 60 + s =
      ((fst stop * 1000000 + snd stop) - (fst start * 1000000 + snd start)) div 1000000"
proof -
  define t where "t = ((fst stop * 1000000 + snd stop) - (fst start * 1000000 + snd start)) div 1000000"
  have q: "c_quot a b = a div b" if "0 \<le> a" "0 < b" for a b
    using that by (cases "a = 0") (simp_all add: c_quot_def sgn_if)
  have "0 \<le> t" using assms by (simp add: t_def pos_imp_zdiv_nonneg_iff)
  moreover have "time_elapsed start stop = (t div 3600, t mod 3600 div 60, t mod 3600 mod 60)"
  proof -
    have d: "c_quot ((fst stop * 1000000 + snd stop) - (fst start * 1000000 + snd start)) 1000000 = t"
      using q [of _ 1000000] assms by (simp add: t_def)
    have h: "c_quot t 3600 = t div 3600" using q [of t 3600] \<open>0 \<le> t\<close> by simp
    have r: "t - t div 3600 * 3600 = t mod 3600" by (simp add: minus_div_mult_eq_mod)
    have m: "c_quot (t mod 3600) 60 = t mod 3600 div 60" using q [of "t mod 3600" 60] by simp
    show ?thesis
      unfolding time_elapsed_def Let_def d h r m by (simp add: minus_div_mult_eq_mod)
  qed
  ultimately show ?thesis
    unfolding t_def [symmetric] by (simp add: pos_imp_zdiv_nonneg_iff)
qed

subsection \<open>The main program\<close>

text \<open>
  \<open>clock\<close> reads the wall clock; \<open>tmp\<close> is the uninitialised record of the client's search.
  The result is the exit code, with the recommendation of a client and the time when it
  comes to them, and the final state; the object is deleted by nobody.
\<close>

record 'w outcome =
  oc_code :: int
  oc_advice :: "advice list option"
  oc_time :: "(int \<times> int \<times> int) option"
  oc_state :: "'w pstate"

definition run_instance ::
    "'w env \<Rightarrow> mem_record \<Rightarrow> 'w pstate \<Rightarrow> (int \<times> advice list option \<times> 'w pstate) option" where
  "run_instance E tmp s =
     (case pb_instance (ps_prob s) of
        None \<Rightarrow> None
      | Some ProbdataClient \<Rightarrow> probdata_client E tmp s
      | Some ProbdataServer \<Rightarrow> do { (r, s) \<leftarrow> probdata_server E s; Some (r, None, s) })"

definition main ::
    "'w env \<Rightarrow> ('w \<Rightarrow> int \<times> int) \<Rightarrow> mem_record \<Rightarrow> (char \<times> string) list \<Rightarrow> 'w pstate \<Rightarrow> 'w outcome option" where
  "main E clock tmp opts s = do {
     let start = clock (ps_world s);
     (r, p) \<leftarrow> probdata_new_and_default (ps_prob s);
     let s = s\<lparr>ps_prob := p\<rparr>;
     if r < 0 then Some \<lparr>oc_code = 1, oc_advice = None, oc_time = None, oc_state = s\<rparr>
     else do {
       let _ = probdata_load_conf (ps_prob s);
       (_, s) \<leftarrow> probdata_get_max_buf E s;
       parsed \<leftarrow> probdata_cmd_parse opts s;
       (case parsed of
          Exited n \<Rightarrow> Some \<lparr>oc_code = n, oc_advice = None, oc_time = None, oc_state = s\<rparr>
        | Parsed r s \<Rightarrow>
            if r < 0 then Some \<lparr>oc_code = 1, oc_advice = None, oc_time = None, oc_state = s\<rparr>
            else do {
              (r, p) \<leftarrow> probdata_set_control (ps_prob s);
              let s = s\<lparr>ps_prob := p\<rparr>;
              if r < 0 then Some \<lparr>oc_code = 1, oc_advice = None, oc_time = None, oc_state = s\<rparr>
              else do {
                (r, advice, s) \<leftarrow> run_instance E tmp s;
                Some (if r < 0
                      then \<lparr>oc_code = - 1, oc_advice = None, oc_time = None, oc_state = s\<rparr>
                      else \<lparr>oc_code = 0, oc_advice = advice,
                             oc_time = Some (time_elapsed start (clock (ps_world s))), oc_state = s\<rparr>)
              }
            })
     }
   }"

lemma cmd_option_exit:
  "cmd_option flag optarg st = Some (Inr (Exited n)) \<Longrightarrow> n = 1 \<or> n = 0 \<and> flag = CHR ''v''"
  by (auto simp: cmd_option_def Let_def case_prod_beta bind_eq_Some_conv set_opt_inl split: if_splits)

lemma cmd_options_exit:
  "cmd_options opts st = Some (Exited n) \<Longrightarrow> n = 1 \<or> n = 0 \<and> CHR ''v'' \<in> fst ` set opts"
proof (induction opts arbitrary: st)
  case Nil
  then show ?case by (auto simp: cmd_finish_def Let_def case_prod_beta split: if_splits)
next
  case (Cons opt opts)
  obtain flag optarg where opt: "opt = (flag, optarg)" by (cases opt)
  show ?case
    using Cons opt cmd_option_exit [of flag optarg st]
    by (auto split: option.splits sum.splits)
qed

lemma new_and_default_result:
  "probdata_new_and_default raw = Some (r, p) \<Longrightarrow> r = 0 \<and> pb_role p = P_UNKNOWN"
  by (auto simp: probdata_new_and_default_def bind_eq_Some_conv)

lemma max_buf_role:
  "probdata_get_max_buf E s = Some (r, t) \<Longrightarrow> pb_role (ps_prob t) = pb_role (ps_prob s)"
proof (cases "get_max_mem E (ps_world s)")
  case (Some x)
  assume "probdata_get_max_buf E s = Some (r, t)"
  then show ?thesis
    using Some by (cases "fst x < 0") (auto simp: probdata_get_max_buf_def upd_prob_def case_prod_beta)
qed (simp add: probdata_get_max_buf_def)

lemma set_control_result:
  "probdata_set_control p = Some (r, q) \<Longrightarrow> r = 0 \<and> pb_instance q = pb_instance p"
  by (auto simp: probdata_set_control_def Let_def bind_eq_Some_conv)

text \<open>
  C30. The exit code tells how the program ended. With 0 it has printed its version, or it
  was a client, asked for with \<open>-c\<close>, that completed its session and recommends something,
  or a server, asked for with \<open>-s\<close>, whose session is over; only the two last print the time.
  The code is 1 for the usage text and errors of the set-up, and \<open>- 1\<close> when the client or
  the server failed.
\<close>

theorem main_outcome:
  assumes "main E clock tmp opts s = Some out"
  shows "let flags = fst ` set opts; status = pb_status (ps_prob (oc_state out)) in
    oc_code out = 1 \<and> oc_advice out = None \<and> oc_time out = None \<or>
    oc_code out = - 1 \<and> oc_advice out = None \<and> oc_time out = None \<and>
      (CHR ''s'' \<in> flags \<longleftrightarrow> CHR ''c'' \<notin> flags) \<or>
    oc_code out = 0 \<and>
      (oc_time out = None \<and> oc_advice out = None \<and> CHR ''v'' \<in> flags \<or>
       oc_time out \<noteq> None \<and> oc_advice out \<noteq> None \<and> CHR ''c'' \<in> flags \<and> CHR ''s'' \<notin> flags \<and>
         status = P_PROGRAM_DONE \<or>
       oc_time out \<noteq> None \<and> oc_advice out = None \<and> CHR ''s'' \<in> flags \<and> CHR ''c'' \<notin> flags \<and>
         server_done status)"
proof -
  let ?flags = "fst ` set opts"
  obtain x where x: "probdata_new_and_default (ps_prob s) = Some x"
    using assms by (cases "probdata_new_and_default (ps_prob s)") (simp_all add: main_def Let_def)
  obtain p where p: "probdata_new_and_default (ps_prob s) = Some (0, p)" "pb_role p = P_UNKNOWN"
    using new_and_default_result [of "ps_prob s"] x by (cases x) auto
  obtain y where y: "probdata_get_max_buf E (s\<lparr>ps_prob := p\<rparr>) = Some y"
    using assms p(1)
    by (cases "probdata_get_max_buf E (s\<lparr>ps_prob := p\<rparr>)") (simp_all add: main_def Let_def)
  obtain q s1 where s1: "probdata_get_max_buf E (s\<lparr>ps_prob := p\<rparr>) = Some (q, s1)"
    using y by (cases y) auto
  have role: "pb_role (ps_prob s1) = P_UNKNOWN" using max_buf_role [OF s1] p(2) by simp
  obtain parsed where parsed: "probdata_cmd_parse opts s1 = Some parsed"
    using assms p(1) s1 by (cases "probdata_cmd_parse opts s1") (simp_all add: main_def Let_def)
  show ?thesis
  proof (cases parsed)
    case (Exited n)
    then have out: "out = \<lparr>oc_code = n, oc_advice = None, oc_time = None, oc_state = s1\<rparr>"
      using assms p(1) s1 parsed by (simp add: main_def Let_def)
    have "n = 1 \<or> n = 0 \<and> CHR ''v'' \<in> ?flags"
      using cmd_options_exit [of opts "(s1, False, False)" n] parsed Exited
      by (simp add: probdata_cmd_parse_def)
    then show ?thesis unfolding out Let_def by auto
  next
    case (Parsed r t)
    note parse = cmd_parse_outcome [OF parsed [unfolded Parsed] role, unfolded Let_def]
    show ?thesis
    proof (cases "r < 0")
      case True
      then have "out = \<lparr>oc_code = 1, oc_advice = None, oc_time = None, oc_state = t\<rparr>"
        using assms p(1) s1 parsed Parsed by (simp add: main_def Let_def)
      then show ?thesis by simp
    next
      case False
      then have ok: "(CHR ''s'' \<in> ?flags \<longleftrightarrow> CHR ''c'' \<notin> ?flags)"
        "pb_instance (ps_prob t) = Some (if CHR ''s'' \<in> ?flags then ProbdataServer else ProbdataClient)"
        using parse by auto
      obtain z where z: "probdata_set_control (ps_prob t) = Some z"
        using assms p(1) s1 parsed Parsed False
        by (cases "probdata_set_control (ps_prob t)") (simp_all add: main_def Let_def)
      obtain p' where p': "probdata_set_control (ps_prob t) = Some (0, p')"
          "pb_instance p' = pb_instance (ps_prob t)"
        using set_control_result [of "ps_prob t"] z by (cases z) auto
      obtain r' adv u where run: "run_instance E tmp (t\<lparr>ps_prob := p'\<rparr>) = Some (r', adv, u)"
        using assms p(1) s1 parsed Parsed False p'(1)
        by (cases "run_instance E tmp (t\<lparr>ps_prob := p'\<rparr>)")
          (simp_all add: main_def Let_def split_paired_all)
      have out: "out = (if r' < 0 then \<lparr>oc_code = - 1, oc_advice = None, oc_time = None, oc_state = u\<rparr>
          else \<lparr>oc_code = 0, oc_advice = adv,
            oc_time = Some (time_elapsed (clock (ps_world s)) (clock (ps_world u))), oc_state = u\<rparr>)"
        using assms p(1) s1 parsed Parsed False p'(1) run by (simp add: main_def Let_def)
      show ?thesis
      proof (cases "CHR ''s'' \<in> ?flags")
        case True
        then have "probdata_server E (t\<lparr>ps_prob := p'\<rparr>) = Some (r', u)" "adv = None"
          using run p'(2) ok(2) by (auto simp: run_instance_def bind_eq_Some_conv)
        from server_outcome [OF this(1)] this(2) ok(1) True show ?thesis
          unfolding out Let_def by (elim disjE conjE) simp_all
      next
        case False
        then have "probdata_client E tmp (t\<lparr>ps_prob := p'\<rparr>) = Some (r', adv, u)"
          using run p'(2) ok(2) by (simp add: run_instance_def)
        from client_outcome [OF this] ok(1) False show ?thesis
          unfolding out Let_def by (elim disjE conjE) simp_all
      qed
    qed
  qed
qed

end
