(* ===== verification/SetupWitnesses.thy ===== *)
theory SetupWitnesses
  imports Demo History Identify Setup Advice RecordTransfer Program
begin

text \<open>
  The properties of the data base, of the identification, of the set-up and of what the user
  is told are applied here.
\<close>

subsection \<open>The history\<close>

definition demo_line_record :: mem_record where
  "demo_line_record = \<lparr>
     src_ip = c_lit ''10.0.0.2'', dst_ip = c_lit ''10.0.0.1'', curr_time = c_lit ''now'',
     protocol_name = c_lit ''TCP'', toolkit_name = c_lit ''iperf3'',
     num_streams = 0, mss_size = 0, buffer_size = 0, buffer_size_unit = c_lit ''B'',
     block_size = 0, block_size_unit = c_lit ''B'', duration = 0, duration_unit = c_lit ''sec'',
     trans_size = 0, trans_size_unit = c_lit ''B'',
     average_perf = Some (Fin 0), average_perf_unit = c_lit ''Mbps''\<rparr>"

lemma demo_words:
  "c_str (c_lit ''10.0.0.2'') = ''10.0.0.2''" "c_str (c_lit ''10.0.0.1'') = ''10.0.0.1''"
  "c_str (c_lit ''now'') = ''now''" "c_str (c_lit ''TCP'') = ''TCP''"
  "c_str (c_lit ''iperf3'') = ''iperf3''" "c_str (c_lit ''B'') = ''B''"
  "c_str (c_lit ''sec'') = ''sec''" "c_str (c_lit ''Mbps'') = ''Mbps''"
  by (simp_all add: c_lit_def c_str_def NUL_def)

lemma demo_wf: "wf_record demo_line_record"
  by (simp add: wf_record_def demo_line_record_def word_of_def demo_words c_isspace_def)

lemma demo_text:
  "\<exists>t. mem_record_text demo_line_record = Some t \<and> length t < 511"
proof -
  have z: "show_nat 0 = ''0''" by code_simp
  have i: "show_int 0 = ''0''" by (simp add: show_int_def z)
  have "rne 0 = 0" using rne_of_int [of 0] by simp
  then have lf: "length (show_lf (Fin 0)) = 8"
    by (simp add: show_lf_def show_lf_fin_def pad0_def z del: Fin_0_zero)
  show ?thesis
    by (simp add: mem_record_text_def demo_line_record_def c_strlen_terminated demo_words i lf del: Fin_0_zero)
qed

lemma demo_storable: "storable demo_line_record"
  using demo_wf demo_text by (auto simp: storable_def) (simp add: demo_line_record_def demo_words)

theorem mem_record_round_trip_witness:
  "\<exists>t vals. mem_record_text demo_line_record = Some t \<and> sscanf mem_record_format t = Some vals \<and>
    length vals = MEM_RECORD_NUM_ELEMENTS \<and> reads_as demo_line_record (mem_record_store mem_record_zero vals)"
proof -
  obtain t where t: "mem_record_text demo_line_record = Some t" using demo_text by blast
  have "stops []" by (simp add: stops_def)
  from mem_record_round_trip [OF demo_wf t this, of mem_record_zero] t show ?thesis by auto
qed

definition demo_lines :: db_lines where
  "demo_lines = [Inl ''# profiles'', Inr demo_line_record, Inl []]"

lemma demo_lines_ok: "\<forall>l \<in> set demo_lines. ok_line l" "db_records demo_lines = [demo_line_record]"
  using demo_storable by (simp_all add: demo_lines_def ok_line_def skipped_line_def)

theorem db_search_finds_best_witness:
  "\<exists>r m. db_search_text mem_record_zero (db_file demo_lines) mem_record_zero = Some (r, m) \<and>
    (\<exists>best. average_perf m = Some best \<and> \<not> read_perf demo_line_record > best)"
  using db_search_finds_best [OF demo_lines_ok(1), of mem_record_zero mem_record_zero]
  unfolding demo_lines_ok(2) by auto

theorem db_search_malformed_witness:
  "\<exists>m. db_search_text mem_record_zero (db_file demo_lines @ ''?'' @ newline # ''more'') mem_record_zero =
    Some (- 1, m)"
proof -
  have c: "c_str (''?'' @ [newline, NUL]) = ''?'' @ [newline]"
    by (simp add: c_str_def NUL_def)
  have s: "sscanf mem_record_format (''?'' @ [newline]) = Some [SStr ''?'']"
    by (simp add: mem_record_format_def skip_ws_def c_isspace_def Let_def)
  have "\<not> skipped_line (''?'' @ [newline])" by (simp add: skipped_line_def NUL_def)
  from db_search_malformed [OF demo_lines_ok(1) _ _ this, unfolded c, OF _ _ s, of mem_record_zero "''more''"
      mem_record_zero] show ?thesis
    by (auto simp: MEM_RECORD_NUM_ELEMENTS_def)
qed

theorem record_compose_addresses_witness:
  "\<exists>r. f_tcp_m2m_record_compose (demo_env []) demo_prof
      (demo_ctrl\<lparr>fc_local_ip := ''192.168.0.2'' @ replicate 53 NUL\<rparr>) demo_heap ([], []) =
      Some (0, r, ([], [])) \<and> c_str (src_ip r) = ''192.168.'' \<and> c_str (dst_ip r) = ''10.0.0.1''"
proof -
  let ?c = "demo_ctrl\<lparr>fc_local_ip := ''192.168.0.2'' @ replicate 53 NUL\<rparr>"
  let ?t = "\<lparr>tm_year = 119, tm_mon = 0, tm_mday = 1, tm_hour = 0, tm_min = 0, tm_sec = 0\<rparr>"
  have tm: "tm_text ?t = ''01:01:2019:00:00:00''" by code_simp
  have time: "e_localtime (demo_env []) w = (?t, w)" for w by (simp add: demo_env_def)
  have str: "c_str (''192.168.0.2'' @ replicate 53 NUL) = ''192.168.0.2''"
    "c_str (''10.0.0.1'' @ replicate 56 NUL) = ''10.0.0.1''"
    by (rule c_str_padded; simp add: NUL_def)+
  have t: "terminated (x @ replicate 53 NUL)" "terminated (x @ replicate 56 NUL)" for x
    by (simp_all add: terminated_def)
  have len: "c_strlen (''192.168.0.2'' @ replicate 53 NUL) = Some 11"
    "c_strlen (''10.0.0.1'' @ replicate 56 NUL) = Some 8"
    using c_strlen_terminated [OF t(1), of "''192.168.0.2''"] c_strlen_terminated [OF t(2), of "''10.0.0.1''"]
      str by simp_all
  have h: "demo_heap (Suc 0) = Some demo_test" "tcp_prof demo_prof = Suc 0"
    "fc_remote_ip demo_ctrl = ''10.0.0.1'' @ replicate 56 NUL"
    by (simp_all add: demo_heap_def demo_prof_def demo_ctrl_def)
  obtain r where r: "f_tcp_m2m_record_compose (demo_env []) demo_prof ?c demo_heap ([], []) =
      Some (0, r, ([], []))"
    using len [simplified] h [simplified]
    by (simp add: f_tcp_m2m_record_compose_def Let_def time tm c_memcpy_def c_store_def c_puts_def
        c_copy_str_eq demo_words mem_record_zero_def)
  have "length (c_str (fc_local_ip ?c)) < 32" "length (c_str (fc_remote_ip ?c)) < 32"
    using str h(3) by simp_all
  from record_compose_addresses [OF r this] r str h(3) show ?thesis by simp
qed

subsection \<open>Identification\<close>

theorem client_id_gen_defined_witness:
  "\<exists>ident' w'. probdata_client_id_gen (demo_env []) (replicate 32 NUL) ([], []) = Some (ident', w') \<and>
    length ident' = P_IDPKT_SIZE \<and> ident' ! 31 = NUL \<and> length (c_str ident') \<le> 31"
proof (rule client_id_gen_defined)
  show "length (replicate 32 NUL) = P_IDPKT_SIZE" by (simp add: P_IDPKT_SIZE_def)
qed (simp_all add: demo_env_def)

theorem client_learns_address_witness:
  "\<exists>s c. server_welcome (demo_env []) ''10.0.0.9'' (demo_state P_SERVER (replicate 32 (CHR ''i''))) = Some (0, s) \<and>
    client_recv_address (demo_env []) (demo_state P_CLIENT (snd (ps_world s))) = Some (0, c) \<and>
    c_str (pb_local_ip (ps_prob c)) = ''10.0.0.9''"
proof -
  let ?s = "demo_state P_SERVER (replicate 32 (CHR ''i''))"
  have loc: "pb_id (demo_prob role) = replicate 32 NUL" "pb_local_ip (demo_prob role) = replicate 64 NUL" for role
    by (simp_all add: demo_prob_def)
  obtain s where s: "server_welcome (demo_env []) ''10.0.0.9'' ?s = Some (0, s)"
    "snd (ps_world s) = int_bytes 8 @ ''10.0.0.9''"
    using demo_recv_bytes [of 32 _ "[]"]
    by (simp add: server_welcome_def P_IDPKT_SIZE_def recv_into_def loc upd_prob_def)
  let ?c = "demo_state P_CLIENT (int_bytes 8 @ ''10.0.0.9'')"
  have len: "bytes_int (int_bytes 8) = int 8" by (simp add: bytes_int_bytes)
  have ip: "overlay ''10.0.0.9'' (replicate 64 NUL) = ''10.0.0.9'' @ replicate 56 NUL"
    by (simp add: overlay_def)
  have n: "c_strlen (''10.0.0.9'' @ replicate 56 NUL) = Some 8"
    using c_strlen_terminated [of "''10.0.0.9'' @ replicate 56 NUL"] c_str_padded [of "''10.0.0.9''" 56]
    by (simp add: terminated_def NUL_def)
  have c: "c_memcpy (fc_local_ip demo_ctrl) (''10.0.0.9'' @ replicate 56 NUL) 8 = Some (''10.0.0.9'' @ replicate 56 NUL)"
    by (simp add: c_memcpy_def demo_ctrl_def)
  obtain c' where c': "client_recv_address (demo_env []) ?c = Some (0, c')"
    using demo_recv_bytes [of 4 _ "[]"] demo_recv_bytes [of 8 _ "[]"] len ip [simplified] n [simplified] c [simplified]
    by (simp add: client_recv_address_def upd_prob_def Let_def recv_into_def int_bytes_overlay loc)
  have "NUL \<notin> set ''10.0.0.9''" by (simp add: NUL_def)
  moreover have "length (fc_local_ip demo_ctrl) = 64" by (simp add: demo_ctrl_def)
  ultimately show ?thesis
    using client_learns_address [OF s(1) _ demo_connected _ c' _ demo_connected, of "int_bytes 8 @ ''10.0.0.9''" "[]"]
      s c' by (auto simp: loc)
qed

theorem client_address_overflow_witness:
  "client_recv_address (demo_env []) (demo_state P_CLIENT (int_bytes 65 @ replicate 65 (CHR ''9''))) = None"
proof -
  let ?s = "demo_state P_CLIENT (int_bytes 65 @ replicate 65 (CHR ''9''))"
  let ?u = "?s\<lparr>ps_world := (replicate 65 (CHR ''9''), [])\<rparr>"
  have loc: "pb_local_ip (demo_prob role) = replicate 64 NUL" for role
    by (simp_all add: demo_prob_def)
  have u: "recv_bytes (demo_env []) 4 ?s = Some (4, int_bytes (int (length (replicate 65 (CHR ''9'')))), ?u)"
    using demo_recv_bytes [of 4 ?s "[]"] by simp
  have v: "recv_bytes (demo_env []) (int (length (replicate 65 (CHR ''9'')))) ?u =
      Some (int (length (replicate 65 (CHR ''9''))), replicate 65 (CHR ''9''), ?u\<lparr>ps_world := ([], [])\<rparr>)"
    using demo_recv_bytes [of 65 ?u "[]"] by simp
  show ?thesis by (rule client_address_overflow [OF u v]) (simp_all add: loc)
qed

subsection \<open>Starting\<close>

definition demo_options :: "(char \<times> string) list" where
  "demo_options = [(CHR ''c'', ''10.0.0.1''), (CHR ''t'', [])]"

definition demo_started :: "net pstate" where
  "demo_started = demo_state P_UNKNOWN []"

lemma demo_parse:
  assumes "length (pb_remote_ip p) = 64" "pb_role p = P_UNKNOWN"
  shows "\<exists>t. probdata_cmd_parse demo_options (demo_started\<lparr>ps_prob := p\<rparr>) = Some (Parsed 0 t)"
proof -
  have "length (c_str (c_lit ''10.0.0.1'')) = 8" by (simp add: NUL_def)
  then show ?thesis
    using assms
    by (simp add: probdata_cmd_parse_def demo_options_def cmd_option_def Let_def probdata_set_role_def
        probdata_set_peer_addr_def c_copy_str_eq set_opt_def cmd_finish_def upd_prob_def)
qed

theorem probdata_cmd_parse_result_witness:
  "\<exists>t. probdata_cmd_parse demo_options demo_started = Some (Parsed 0 t) \<and>
    pb_role (ps_prob t) = P_CLIENT \<and> pb_instance (ps_prob t) = Some ProbdataClient"
proof -
  have p: "length (pb_remote_ip (demo_prob P_UNKNOWN)) = 64" "pb_role (demo_prob P_UNKNOWN) = P_UNKNOWN"
    "demo_started\<lparr>ps_prob := demo_prob P_UNKNOWN\<rparr> = demo_started" "pb_role (ps_prob demo_started) = P_UNKNOWN"
    by (simp_all add: demo_prob_def demo_started_def demo_state_def)
  obtain t where t: "probdata_cmd_parse demo_options demo_started = Some (Parsed 0 t)"
    using demo_parse [OF p(1,2)] unfolding p(3) by blast
  from probdata_cmd_parse_result [OF t p(4)] t show ?thesis by (simp add: demo_options_def Let_def)
qed


theorem probdata_unit_suffix_witness:
  "probdata_unit_atoi (show_nat 3 @ ''G'') = None \<and> probdata_unit_atoi (show_nat 20 @ ''M'') = Some 20000000"
  using probdata_unit_suffix [of "CHR ''G''" 3] probdata_unit_suffix [of "CHR ''M''" 20]
  by (simp add: unit_factor_def P_GB_def P_MB_def INT_MAX_def)

subsection \<open>What the user sees\<close>

definition demo_results :: "net pstate" where
  "demo_results = upd_prob (\<lambda>p. p\<lparr>pb_udt_prof_max := Some \<lparr>udt_prof = 2, up_perf_Mbps = Some (Fin 900)\<rparr>,
      pb_tcp_prof_max := Some (demo_prof\<lparr>tp_perf_Mbps := Fin 1000\<rparr>),
      pb_m2m_record_max := mem_record_zero\<lparr>average_perf := Some (- 1)\<rparr>\<rparr>)
    (demo_state P_CLIENT [])"

theorem client_advice_best_witness:
  "\<exists>a. client_advice (demo_env []) demo_results = Some [AdviseTcp a] \<and> ta_perf a = Fin 1000"
proof -
  have h: "demo_heap (Suc 0) = Some demo_test" "tcp_prof demo_prof = Suc 0"
    "terminated (fc_local_ip demo_ctrl)" "terminated (fc_remote_ip demo_ctrl)"
    by (simp_all add: demo_heap_def demo_prof_def demo_ctrl_def terminated_def)
  obtain a where a: "client_advice (demo_env []) demo_results = Some [AdviseTcp a]"
    using h by (simp add: client_advice_def demo_results_def upd_prob_def advise_if_def advise_tcp_def
        c_strlen_terminated)
  have q: "pb_tcp_prof_max (ps_prob demo_results) = Some (demo_prof\<lparr>tp_perf_Mbps := Fin 1000\<rparr>)"
    by (simp add: demo_results_def upd_prob_def)
  from client_advice_best [OF a] a show ?thesis by (auto simp: q Let_def)
qed

definition demo_blind :: "net search" where
  "demo_blind = (spsa_declare (demo_ctrl\<lparr>fc_bw_bps := - 1\<rparr>) F_ERR_NONE ([], []))\<lparr>r_profile_num := 60\<rparr>"

theorem no_capacity_no_goal_witness:
  "\<exists>L t. spsa_limits (demo_ctrl\<lparr>fc_bw_bps := - 1\<rparr>) = Some L \<and> spsa_checks L demo_blind = Break t \<and>
    r_flag t = 1 \<and> (\<forall>u. spsa_keep_best id L (Fin 10) (1, 1) demo_blind \<noteq> Some (Break u))"
proof -
  let ?c = "demo_ctrl\<lparr>fc_bw_bps := - 1\<rparr>"
  obtain L where L: "spsa_limits ?c = Some L" "l_max_prof_limit L = 1"
    by (simp add: spsa_limits_def demo_ctrl_def Let_def)
  have s: "r_profile_num demo_blind = 60" "r_max_perf_Gbps demo_blind = 0"
    by (simp_all add: demo_blind_def spsa_declare_def)
  obtain t where t: "spsa_checks L demo_blind = Break t" "r_flag t = 1"
    using L(2) s by (simp add: spsa_checks_def Let_def)
  have "fc_bw_bps ?c < 0" "0 < fc_pgr ?c" by (simp_all add: demo_ctrl_def)
  from no_capacity_no_goal [OF L(1) this, of id demo_blind "Fin 10" "(1, 1)"] s t L(1)
  show ?thesis by auto
qed

definition demo_ping :: "net env" where
  "demo_ping = (demo_env [])\<lparr>e_popen_output := \<lambda>_ w. (Some ''unknown host'', w)\<rparr>"

theorem client_estimate_rtt_no_mdev_witness:
  "client_estimate_rtt demo_ping (demo_state P_CLIENT []) = None"
proof (rule client_estimate_rtt_no_mdev)
  have r: "pb_remote_ip (demo_prob P_CLIENT) = ''10.0.0.1'' @ replicate 56 NUL" "pb_rtt_ms (demo_prob P_CLIENT) = - 1"
    by (simp_all add: demo_prob_def)
  show "pb_rtt_ms (ps_prob (demo_state P_CLIENT [])) < 0" by (simp add: r)
  show t: "terminated (pb_remote_ip (ps_prob (demo_state P_CLIENT [])))" by (simp add: r terminated_def)
  show "length (c_str (pb_remote_ip (ps_prob (demo_state P_CLIENT [])))) \<le> 64"
    using c_str_less [OF t] by (simp add: r)
  show "e_popen_output demo_ping (''/bin/ping -w 6 -c 5 '' @ c_str (pb_remote_ip (ps_prob (demo_state P_CLIENT []))) @
      '' 2>&1'') (ps_world (demo_state P_CLIENT [])) = (Some ''unknown host'', ([], []))"
    by (simp add: demo_ping_def)
  have "CHR ''m'' \<notin> set ''unknown host''" by simp
  moreover have "CHR ''m'' \<in> set (a @ ''mdev'' @ b)" for a b by simp
  ultimately show "\<nexists>a b. ''unknown host'' = a @ ''mdev'' @ b" by metis
qed simp

subsection \<open>Records on the control channel\<close>

lemma demo_sized: "sized_record mem_record_zero"
proof -
  have "rnd 0 = 0" by simp
  then have "is_double (Fin 0)" by (simp add: is_double_def del: Fin_0_zero)
  then show ?thesis by (simp add: sized_record_def mem_record_zero_def)
qed

theorem m2m_record_transfer_witness:
  "\<exists>c mem s. probdata_client_m2m_record_send (demo_env []) mem_record_zero (demo_state P_CLIENT []) = Some (0, c) \<and>
    probdata_server_m2m_record_recv (demo_env []) (replicate 236 NUL)
      (demo_state P_SERVER (snd (ps_world c))) = Some (0, mem, s) \<and>
    bytes_mem_record mem = mem_record_zero"
proof -
  obtain bs where bs: "mem_record_bytes mem_record_zero = Some bs" "length bs = MEM_RECORD_SIZE"
    using record_bytes [OF demo_sized] .
  obtain c where c: "probdata_client_m2m_record_send (demo_env []) mem_record_zero (demo_state P_CLIENT []) = Some (0, c)"
    "snd (ps_world c) = bs"
    by (simp add: probdata_client_m2m_record_send_def bs(1))
  obtain mem s where s: "probdata_server_m2m_record_recv (demo_env []) (replicate 236 NUL)
      (demo_state P_SERVER bs) = Some (0, mem, s)"
    using demo_recv_bytes [of MEM_RECORD_SIZE "demo_state P_SERVER bs" "[]"] bs(2)
    by (simp add: probdata_server_m2m_record_recv_def MEM_RECORD_SIZE_def)
  have "txc = bs \<Longrightarrow> snd (ps_world c) = snd (ps_world (demo_state P_CLIENT [])) @ txc" for txc
    using c(2) by simp
  from m2m_record_transfer [OF c(1) _ demo_connected s _ demo_connected this [OF refl], of "[]"]
  show ?thesis using c s demo_sized by (auto simp: MEM_RECORD_SIZE_def)
qed

subsection \<open>The program\<close>

theorem main_outcome_witness:
  "\<exists>out. main (demo_env []) (\<lambda>_. (0, 0)) mem_record_zero [(CHR ''v'', [])] demo_started = Some out \<and>
    oc_code out = 0 \<and> oc_time out = None \<and> oc_advice out = None"
proof -
  have len: "length (pb_local_ip (ps_prob demo_started)) = 64" "length (pb_remote_ip (ps_prob demo_started)) = 64"
    "length (pb_src_file (ps_prob demo_started)) = 128" "length (pb_dst_file (ps_prob demo_started)) = 128"
    "length (pb_id (ps_prob demo_started)) = 32"
    by (simp_all add: demo_started_def demo_state_def) (simp_all add: demo_prob_def)
  obtain p where p: "probdata_new_and_default (ps_prob demo_started) = Some (0, p)"
    using len by (simp add: probdata_new_and_default_def c_memset_def P_HOSTADDR_LEN_def P_FILENAME_LEN_def
        P_IDPKT_SIZE_def)
  have buf: "probdata_get_max_buf (demo_env []) s = Some (- 1, s)" for s :: "net pstate"
    by (simp add: probdata_get_max_buf_def get_max_mem_def demo_env_def Let_def scan_int_def split_sign_def
        skip_ws_def)
  obtain out where out: "main (demo_env []) (\<lambda>_. (0, 0)) mem_record_zero [(CHR ''v'', [])] demo_started = Some out"
    "oc_code out = 0"
    using p buf by (simp add: main_def Let_def probdata_cmd_parse_def cmd_option_def)
  from main_outcome [OF out(1)] out show ?thesis by (simp add: Let_def)
qed

end
