(* ===== verification/Logging.thy ===== *)
theory Logging
  imports Probdata Spsa Identify
begin

text \<open>
  The logs of the two parts of the program: \<open>probdata_log.h\<close>, \<open>probdata_log.cpp\<close>,
  \<open>fastprof_log.h\<close> and \<open>fastprof_log.cpp\<close>. The macros \<open>P_LOG\<close> and \<open>F_LOG\<close> as
  lists of output actions, opening and closing of the two log files, and the threads that
  log under the mutex of a log as a step relation, with the cancellation of a worker.
\<close>

subsection \<open>The macros\<close>

text \<open>The switches of the build, and their defaults.\<close>

record log_config =
  lc_keep_log :: int
  lc_as_toolkit :: int
  lc_debug_mode :: int

definition p_log_config :: log_config where
  "p_log_config = \<lparr>lc_keep_log = 0, lc_as_toolkit = 1, lc_debug_mode = 0\<rparr>"

definition f_log_config :: log_config where
  "f_log_config = \<lparr>lc_keep_log = 0, lc_as_toolkit = 1, lc_debug_mode = 0\<rparr>"

definition P_ERR :: int where "P_ERR = 1"
definition P_HINT :: int where "P_HINT = 2"
definition P_PERF :: int where "P_PERF = 3"

definition F_ERR :: int where "F_ERR = 1"
definition F_HINT :: int where "F_HINT = 2"
definition F_PERF :: int where "F_PERF = 3"

lemmas level_defs = P_ERR_def P_HINT_def P_PERF_def F_ERR_def F_HINT_def F_PERF_def

text \<open>
  A use of a macro: the level, the formatted arguments, and the place in the program that
  \<open>__FILE__\<close>, \<open>__LINE__\<close> and \<open>__FUNCTION__\<close> stand for.
\<close>

record log_call =
  lm_level :: int
  lm_text :: string
  lm_file :: string
  lm_line :: int
  lm_function :: string

definition log_place :: "log_call \<Rightarrow> string" where
  "log_place m = '' - '' @ lm_file m @ '':'' @ show_int (lm_line m) @ '':'' @ lm_function m @ ''()'' @
     [CHR 0x0A]"

datatype log_dest = LogFile | StandardOut

datatype log_act = Print log_dest string | Flush log_dest

text \<open>What the two macros do between taking and releasing the lock of their log.\<close>

definition P_LOG :: "log_config \<Rightarrow> bool \<Rightarrow> log_call \<Rightarrow> log_act list" where
  "P_LOG cfg file_open m =
     (if lc_keep_log cfg = 1 \<and> file_open
      then (if lm_level m = P_ERR then [Print LogFile ''[ERROR]  '']
            else if lm_level m = P_HINT then [Print LogFile ''[ HINT ] '']
            else if lm_level m = P_PERF then [Print LogFile ''[ INFO ] ''] else []) @
           [Print LogFile (lm_text m), Print LogFile (log_place m), Flush LogFile]
      else if lc_debug_mode cfg = 1 then [Print StandardOut [], Flush StandardOut] else []) @
     (if lc_as_toolkit cfg = 1
      then (if lm_level m = P_PERF
            then [Print StandardOut (lm_text m), Print StandardOut [CHR 0x0A], Flush StandardOut]
            else []) @
           (if lc_debug_mode cfg = 1
            then (if lm_level m = P_ERR then [Print StandardOut ''[ERROR]  '']
                  else if lm_level m = P_HINT then [Print StandardOut ''[ HINT ] '']
                  else if lm_level m = P_PERF then [Print StandardOut ''[ INFO ] ''] else []) @
                 [Print StandardOut (lm_text m), Print StandardOut (log_place m), Flush StandardOut]
            else [])
      else [])"

definition F_LOG :: "log_config \<Rightarrow> bool \<Rightarrow> log_call \<Rightarrow> log_act list" where
  "F_LOG cfg file_open m =
     (if lc_keep_log cfg = 1 \<and> file_open
      then (if lm_level m = F_ERR then [Print LogFile ''[ERROR]  '']
            else if lm_level m = F_HINT then [Print LogFile ''[ HINT ] '']
            else if lm_level m = F_PERF then [Print LogFile ''[ INFO ] ''] else []) @
           [Print LogFile (lm_text m), Print LogFile (log_place m), Flush LogFile]
      else if lc_debug_mode cfg = 1 then [Print StandardOut [], Flush StandardOut] else []) @
     (if lc_as_toolkit cfg = 1
      then (if lm_level m = F_PERF
            then [Print StandardOut (lm_text m), Print StandardOut [CHR 0x0A], Flush StandardOut]
            else []) @
           (if lc_debug_mode cfg = 1
            then (if lm_level m = F_ERR then [Print StandardOut ''[ERROR]  '']
                  else if lm_level m = F_HINT then [Print StandardOut ''[ HINT ] '']
                  else if lm_level m = F_PERF then [Print StandardOut ''[ INFO ] ''] else []) @
                 [Print StandardOut (lm_text m), Print StandardOut (log_place m), Flush StandardOut]
            else [])
      else [])"

lemma F_LOG_eq: "F_LOG = P_LOG"
  by (intro ext) (simp add: F_LOG_def P_LOG_def level_defs)

text \<open>In the default build only the messages for the user are written, and to the terminal.\<close>

lemma P_LOG_default:
  "P_LOG p_log_config file_open m =
     (if lm_level m = P_PERF
      then [Print StandardOut (lm_text m), Print StandardOut [CHR 0x0A], Flush StandardOut] else [])"
  by (simp add: P_LOG_def p_log_config_def)

text \<open>
  Something is written for every message by a build that debugs, and by one that keeps a log
  while its file is open. Nothing in the program opens the file of \<open>P_LOG\<close>.
\<close>

definition log_writes :: "log_config \<Rightarrow> bool \<Rightarrow> bool" where
  "log_writes cfg file_open \<longleftrightarrow> lc_keep_log cfg = 1 \<and> file_open \<or> lc_debug_mode cfg = 1"

lemma P_LOG_silent:
  "\<not> log_writes cfg file_open \<Longrightarrow> lm_level m \<noteq> P_PERF \<Longrightarrow> P_LOG cfg file_open m = []"
  by (auto simp: P_LOG_def log_writes_def)

lemma P_LOG_writes: "log_writes cfg file_open \<Longrightarrow> P_LOG cfg file_open m \<noteq> []"
  by (auto simp: P_LOG_def log_writes_def)

subsection \<open>The log files\<close>

text \<open>
  The handle of a log is 0 while its file is not open. A message on the way goes to the world
  as \<open>log_emit\<close> says.
\<close>

fun log_emit :: "'w env \<Rightarrow> addr \<Rightarrow> log_act list \<Rightarrow> 'w \<Rightarrow> 'w" where
  "log_emit E f [] w = w"
| "log_emit E f (Print LogFile s # as) w = log_emit E f as (e_fprintf E f s w)"
| "log_emit E f (Print StandardOut s # as) w = log_emit E f as (e_fprintf E (e_stdout E) s w)"
| "log_emit E f (Flush d # as) w = log_emit E f as w"

text \<open>The name of a log file, for an array of 128 bytes.\<close>

definition log_filename :: "string \<Rightarrow> tm \<Rightarrow> int \<Rightarrow> cbuf option" where
  "log_filename start t pid =
     c_puts (replicate 128 NUL) (start @ show_int (tm_year t + 1900) @ ''-'' @
       show_0d 2 (tm_mon t + 1) @ ''-'' @ show_0d 2 (tm_mday t) @ ''-'' @ show_0d 2 (tm_hour t) @ ''-'' @
       show_0d 2 (tm_min t) @ ''-'' @ show_0d 2 (tm_sec t) @ ''-'' @ show_int pid @ ''.log'')"

text \<open>The folders, which are made when they do not exist; the log is not open yet.\<close>

definition probdata_log_folder :: "'w env \<Rightarrow> log_config \<Rightarrow> 'w \<Rightarrow> 'w" where
  "probdata_log_folder E cfg w =
     (if e_dir_exists E ''./probdata_log'' w
      then log_emit E 0 (P_LOG cfg False
        \<lparr>lm_level = P_HINT, lm_text = ''probdata log folder '' @ [CHR 0x27] @
           ''./probdata_log'' @ [CHR 0x27] @ '' exists'',
         lm_file = ''probdata_log.cpp'', lm_line = 30, lm_function = ''probdata_open_log''\<rparr>) w
      else e_mkdir E ''./probdata_log'' w)"

definition f_log_folder :: "'w env \<Rightarrow> log_config \<Rightarrow> 'w \<Rightarrow> 'w" where
  "f_log_folder E cfg w =
     (if e_dir_exists E ''./f_log'' w
      then log_emit E 0 (F_LOG cfg False
        \<lparr>lm_level = F_HINT, lm_text = ''log folder '' @ [CHR 0x27] @ ''./f_log'' @ [CHR 0x27] @ '' exists'',
         lm_file = ''fastprof_log.cpp'', lm_line = 30, lm_function = ''f_open_log''\<rparr>) w
      else e_mkdir E ''./f_log'' w)"

definition probdata_open_log ::
    "'w env \<Rightarrow> log_config \<Rightarrow> p_program_role \<Rightarrow> addr \<Rightarrow> 'w \<Rightarrow> int \<Rightarrow> (int \<times> addr \<times> 'w \<times> int) option" where
  "probdata_open_log E cfg role f w p_errno =
     (let (r, w) = e_mutex_init E w
      in if r \<noteq> 0 then Some (- 1, f, w, P_ERR_FILE)
         else if lc_keep_log cfg \<noteq> 1 \<or> f \<noteq> 0 then Some (0, f, w, p_errno)
         else do {
           let w = probdata_log_folder E cfg w;
           let (t, w) = e_localtime E w;
           let pid = e_getpid E w;
           (case role of
              P_UNKNOWN \<Rightarrow> Some (- 1, f, w, P_ERR_FILE)
            | _ \<Rightarrow> do {
                name \<leftarrow> log_filename (if role = P_CLIENT then ''./probdata_log/client-''
                                 else ''./probdata_log/server-'') t pid;
                let (f, w) = e_fopen E (c_str name) w;
                if f = 0 then Some (- 1, 0, w, P_ERR_FILE) else Some (0, f, w, p_errno)
              })
         })"

definition f_open_log_file ::
    "'w env \<Rightarrow> log_config \<Rightarrow> addr \<Rightarrow> 'w \<Rightarrow> int \<Rightarrow> (int \<times> addr \<times> 'w \<times> int) option" where
  "f_open_log_file E cfg f w f_errno =
     (let (r, w) = e_mutex_init E w
      in if r \<noteq> 0 then Some (- 1, f, w, F_ERR_LOCK)
         else if lc_keep_log cfg \<noteq> 1 \<or> f \<noteq> 0 then Some (0, f, w, f_errno)
         else do {
           let w = f_log_folder E cfg w;
           let (t, w) = e_localtime E w;
           name \<leftarrow> log_filename ''./f_log/fp-'' t (e_getpid E w);
           let (f, w) = e_fopen E (c_str name) w;
           if f = 0 then Some (- 1, 0, w, F_ERR_FILE) else Some (0, f, w, f_errno)
         })"

text \<open>Closing; \<open>destroy\<close> is what \<open>pthread_mutex_destroy\<close> does.\<close>

definition probdata_close_log :: "'w env \<Rightarrow> ('w \<Rightarrow> 'w) \<Rightarrow> addr \<Rightarrow> 'w \<Rightarrow> addr \<times> 'w" where
  "probdata_close_log E destroy f w =
     (let (f, w) = (if f \<noteq> 0 then (0, e_fclose E f w) else (f, w)) in (f, destroy w))"

definition f_close_log :: "'w env \<Rightarrow> ('w \<Rightarrow> 'w) \<Rightarrow> addr \<Rightarrow> 'w \<Rightarrow> addr \<times> 'w" where
  "f_close_log E destroy f w =
     (let (f, w) = (if f \<noteq> 0 then (0, e_fclose E f w) else (f, w)) in (f, destroy w))"

text \<open>The search of the profilers opens its log in the default build.\<close>

lemma f_open_log_default:
  "f_open_log_file E f_log_config f (r_world s) (r_f_errno s) =
     (let (r, t) = f_open_log E s in Some (r, f, r_world t, r_f_errno t))"
  by (simp add: f_open_log_file_def f_log_config_def f_open_log_def Let_def split: prod.split)

text \<open>The names fit their arrays, whatever the clock says and the process is called.\<close>

lemma length_show_0d: "in_int n \<Longrightarrow> w \<le> 11 \<Longrightarrow> length (show_0d w n) \<le> 11"
proof -
  assume n: "in_int n" and w: "w \<le> 11"
  have "nat n < 10 ^ 10" "nat (- n) < 10 ^ 10"
    using n by (auto simp: in_int_def INT_MAX_def INT_MIN_def)
  then have "length (show_nat (nat n)) \<le> 10" "length (show_nat (nat (- n))) \<le> 10"
    using length_show_nat [of _ 10] by simp_all
  with w show ?thesis by (auto simp: show_0d_def pad0_def split: nat_diff_split)
qed

definition tm_ints :: "tm \<Rightarrow> bool" where
  "tm_ints t \<longleftrightarrow> in_int (tm_year t + 1900) \<and> in_int (tm_mon t + 1) \<and> in_int (tm_mday t) \<and>
     in_int (tm_hour t) \<and> in_int (tm_min t) \<and> in_int (tm_sec t)"

lemma log_filename_fits:
  assumes "tm_ints t" "in_int pid" "length start \<le> 22"
  shows "\<exists>name. log_filename start t pid = Some name"
  unfolding log_filename_def c_puts_def
  using assms(3) length_show_int [OF assms(2)] length_show_int [of "tm_year t + 1900"]
    length_show_0d [of "tm_mon t + 1" 2] length_show_0d [of "tm_mday t" 2] length_show_0d [of "tm_hour t" 2]
    length_show_0d [of "tm_min t" 2] length_show_0d [of "tm_sec t" 2] assms(1)
  by (simp add: tm_ints_def)

subsection \<open>Threads that log\<close>

text \<open>
  The threads of a program share one mutex for a log. A thread takes it when it is free,
  carries out the actions of the macro one by one and releases it. A worker can be
  cancelled while it runs outside the macro and at an output call, which is a cancellation
  point; the mutex does not take notice. \<open>macro\<close> is \<open>P_LOG\<close> or \<open>F_LOG\<close> in a
  build, \<open>logs t m\<close> says that thread \<open>t\<close> has the message \<open>m\<close>, and \<open>worker t\<close> that it
  may be cancelled. \<open>ls_calls\<close> lists the messages in the order in which the lock was taken
  for them; nothing reads it.
\<close>

datatype activity = Running | Inside "log_act list" | Cancelled

record log_sys =
  ls_owner :: "thread option"
  ls_act :: "thread \<Rightarrow> activity"
  ls_file :: string
  ls_out :: string
  ls_calls :: "log_call list"

fun log_do :: "log_act \<Rightarrow> log_sys \<Rightarrow> log_sys" where
  "log_do (Print LogFile x) s = s\<lparr>ls_file := ls_file s @ x\<rparr>"
| "log_do (Print StandardOut x) s = s\<lparr>ls_out := ls_out s @ x\<rparr>"
| "log_do (Flush d) s = s"

inductive log_step ::
    "(log_call \<Rightarrow> log_act list) \<Rightarrow> (thread \<Rightarrow> log_call \<Rightarrow> bool) \<Rightarrow> (thread \<Rightarrow> bool) \<Rightarrow> log_sys \<Rightarrow> log_sys \<Rightarrow> bool"
  for macro logs worker where
  lock: "log_step macro logs worker s
      (s\<lparr>ls_owner := Some t, ls_act := (ls_act s)(t := Inside (macro m)), ls_calls := ls_calls s @ [m]\<rparr>)"
    if "ls_act s t = Running" "ls_owner s = None" "logs t m"
| put: "log_step macro logs worker s ((log_do a s)\<lparr>ls_act := (ls_act s)(t := Inside as)\<rparr>)"
    if "ls_act s t = Inside (a # as)"
| unlock: "log_step macro logs worker s (s\<lparr>ls_owner := None, ls_act := (ls_act s)(t := Running)\<rparr>)"
    if "ls_act s t = Inside []"
| cancel: "log_step macro logs worker s (s\<lparr>ls_act := (ls_act s)(t := Cancelled)\<rparr>)"
    if "worker t" "ls_act s t = Running \<or> (\<exists>a as. ls_act s t = Inside (a # as))"

definition log_start :: "log_sys \<Rightarrow> bool" where
  "log_start s \<longleftrightarrow> ls_owner s = None \<and> (\<forall>t. ls_act s t = Running) \<and> ls_file s = [] \<and> ls_out s = [] \<and>
     ls_calls s = []"

text \<open>What a list of actions writes to a destination.\<close>

fun written :: "log_dest \<Rightarrow> log_act list \<Rightarrow> string" where
  "written d [] = []"
| "written d (Print d' x # as) = (if d' = d then x else []) @ written d as"
| "written d (Flush d' # as) = written d as"

lemma written_append [simp]: "written d (as @ bs) = written d as @ written d bs"
  by (induction d as rule: written.induct) simp_all

text \<open>
  The abstract log: the messages one after the other, each as a whole. The lock is what the
  real one needs to be an implementation of it.
\<close>

definition whole_log :: "(log_call \<Rightarrow> log_act list) \<Rightarrow> log_dest \<Rightarrow> log_call list \<Rightarrow> string" where
  "whole_log macro d ms = concat (map (\<lambda>m. written d (macro m)) ms)"

lemma whole_log_snoc [simp]:
  "whole_log macro d [] = []" "whole_log macro d (ms @ [m]) = whole_log macro d ms @ written d (macro m)"
  by (simp_all add: whole_log_def)

definition log_inv :: "(log_call \<Rightarrow> log_act list) \<Rightarrow> log_sys \<Rightarrow> bool" where
  "log_inv macro s \<longleftrightarrow>
     (\<forall>t as. ls_act s t = Inside as \<longrightarrow> ls_owner s = Some t) \<and>
     (case ls_owner s of
        None \<Rightarrow> whole_log macro LogFile (ls_calls s) = ls_file s \<and>
                whole_log macro StandardOut (ls_calls s) = ls_out s
      | Some t \<Rightarrow> ls_act s t \<noteq> Running \<and> (\<exists>as. (ls_act s t \<noteq> Cancelled \<longrightarrow> ls_act s t = Inside as) \<and>
          (ls_act s t = Cancelled \<longrightarrow> as \<noteq> []) \<and>
          whole_log macro LogFile (ls_calls s) = ls_file s @ written LogFile as \<and>
          whole_log macro StandardOut (ls_calls s) = ls_out s @ written StandardOut as))"

lemma log_inv_cases:
  assumes "log_inv macro s"
  obtains rest where "whole_log macro LogFile (ls_calls s) = ls_file s @ written LogFile rest"
    "whole_log macro StandardOut (ls_calls s) = ls_out s @ written StandardOut rest"
    "ls_owner s = None \<Longrightarrow> rest = []" "\<And>u as. ls_act s u = Inside as \<Longrightarrow> rest = as"
proof (cases "ls_owner s")
  case None
  then show ?thesis using assms by (intro that [of "[]"]) (simp_all add: log_inv_def)
next
  case (Some t)
  then obtain as where rest: "ls_act s t \<noteq> Cancelled \<longrightarrow> ls_act s t = Inside as"
    "whole_log macro LogFile (ls_calls s) = ls_file s @ written LogFile as"
    "whole_log macro StandardOut (ls_calls s) = ls_out s @ written StandardOut as"
    using assms unfolding log_inv_def by (auto simp del: append_eq_conv_conj)
  have "as = bs" if "ls_act s u = Inside bs" for u bs
  proof -
    have "ls_owner s = Some u" using assms that unfolding log_inv_def by blast
    then have "u = t" using Some by simp
    then show ?thesis using rest(1) that by simp
  qed
  then show ?thesis using Some by (intro that [OF rest(2,3)]) simp_all
qed

lemma log_do_other [simp]:
  "ls_owner (log_do a s) = ls_owner s" "ls_calls (log_do a s) = ls_calls s"
  by (induction a s rule: log_do.induct) simp_all

lemma log_do_written:
  "ls_file (log_do a s) = ls_file s @ written LogFile [a]"
  "ls_out (log_do a s) = ls_out s @ written StandardOut [a]"
  by (induction a s rule: log_do.induct) simp_all

lemma written_Cons: "written d (a # as) = written d [a] @ written d as"
  by (cases a) simp_all

lemma log_inv_start: "log_start s \<Longrightarrow> log_inv macro s"
  by (simp add: log_inv_def log_start_def)

lemma log_inv_step: "log_step macro logs worker s t \<Longrightarrow> log_inv macro s \<Longrightarrow> log_inv macro t"
proof (induction rule: log_step.induct)
  case (lock s t m)
  then show ?case by (auto simp: log_inv_def)
next
  case (put s t a as)
  then have "ls_owner s = Some t" by (auto simp: log_inv_def)
  then show ?case using put
    by (auto simp: log_inv_def log_do_written written_Cons [of _ a as])
next
  case (unlock s t)
  then have "ls_owner s = Some t" by (auto simp: log_inv_def)
  then show ?case using unlock by (auto simp: log_inv_def)
next
  case (cancel t s)
  then show ?case by (cases "ls_owner s") (auto simp: log_inv_def)
qed

abbreviation log_reaches ::
    "(log_call \<Rightarrow> log_act list) \<Rightarrow> (thread \<Rightarrow> log_call \<Rightarrow> bool) \<Rightarrow> (thread \<Rightarrow> bool) \<Rightarrow> log_sys \<Rightarrow> log_sys \<Rightarrow> bool" where
  "log_reaches macro logs worker \<equiv> (log_step macro logs worker)\<^sup>*\<^sup>*"

lemma log_inv_reaches: "log_reaches macro logs worker s t \<Longrightarrow> log_inv macro s \<Longrightarrow> log_inv macro t"
  by (induction rule: rtranclp_induct) (auto intro: log_inv_step)

subsection \<open>Opening a log\<close>

text \<open>
  Opening the log of ProbData never overflows the array for the file name: it succeeds
  in the default build when the mutex can be made, needs a known role and a file that opens
  in a build that keeps a log, and every failure is \<open>P_ERR_FILE\<close>.
\<close>

theorem probdata_open_log_result:
  assumes "\<And>w. tm_ints (fst (e_localtime E w))" "\<And>w. in_int (e_getpid E w)"
  shows "\<exists>r f' w' e'. probdata_open_log E cfg role f w e = Some (r, f', w', e') \<and>
    (r = 0 \<and> e' = e \<and> fst (e_mutex_init E w) = 0 \<and>
       (lc_keep_log cfg = 1 \<longrightarrow> f' \<noteq> 0 \<and> (f = 0 \<longrightarrow> role \<noteq> P_UNKNOWN)) \<and>
       (lc_keep_log cfg \<noteq> 1 \<longrightarrow> f' = f) \<or>
     r = - 1 \<and> e' = P_ERR_FILE)"
proof (cases "fst (e_mutex_init E w) = 0 \<and> lc_keep_log cfg = 1 \<and> f = 0 \<and> role \<noteq> P_UNKNOWN")
  case True
  obtain w1 where w1: "e_mutex_init E w = (0, w1)" using True by (cases "e_mutex_init E w") simp
  let ?w2 = "probdata_log_folder E cfg w1"
  obtain t w3 where w3: "e_localtime E ?w2 = (t, w3)" by (cases "e_localtime E ?w2")
  let ?start = "if role = P_CLIENT then ''./probdata_log/client-'' else ''./probdata_log/server-''"
  have "length ?start \<le> 22" by simp
  then obtain name where name: "log_filename ?start t (e_getpid E w3) = Some name"
    using log_filename_fits [of t "e_getpid E w3" ?start] assms(1) [of ?w2] assms(2) w3 by fastforce
  obtain g w4 where w4: "e_fopen E (c_str name) w3 = (g, w4)" by (cases "e_fopen E (c_str name) w3")
  have "probdata_open_log E cfg role f w e =
      (if g = 0 then Some (- 1, 0, w4, P_ERR_FILE) else Some (0, g, w4, e))"
    using True name w4
    by (cases role) (simp_all add: probdata_open_log_def w1 w3 Let_def)
  then show ?thesis using True w1 by auto
next
  case False
  obtain r w1 where w1: "e_mutex_init E w = (r, w1)" by (cases "e_mutex_init E w")
  show ?thesis using False
    by (cases role) (auto simp: probdata_open_log_def w1 Let_def case_prod_beta)
qed

subsection \<open>Whole lines, and who can spoil them\<close>

text \<open>
  C20. Whatever the threads do, only the owner of the lock is inside the macro, and the log
  file and the terminal hold the messages one after the other, each as a whole, in the order
  in which the threads got the lock; while one is inside, or was cancelled there, a part of
  the last message may be missing.
\<close>

theorem log_lines_whole:
  assumes "log_start s" "log_reaches (P_LOG cfg file_open) logs worker s t"
  shows "(\<forall>u as. ls_act t u = Inside as \<longrightarrow> ls_owner t = Some u) \<and>
    (\<exists>rest. whole_log (P_LOG cfg file_open) LogFile (ls_calls t) = ls_file t @ written LogFile rest \<and>
       whole_log (P_LOG cfg file_open) StandardOut (ls_calls t) = ls_out t @ written StandardOut rest \<and>
       (ls_owner t = None \<longrightarrow> rest = []) \<and> (\<forall>u as. ls_act t u = Inside as \<longrightarrow> rest = as))"
proof -
  have inv: "log_inv (P_LOG cfg file_open) t"
    using log_inv_reaches [OF assms(2)] log_inv_start [OF assms(1)] .
  obtain rest where "whole_log (P_LOG cfg file_open) LogFile (ls_calls t) = ls_file t @ written LogFile rest"
    "whole_log (P_LOG cfg file_open) StandardOut (ls_calls t) = ls_out t @ written StandardOut rest"
    "ls_owner t = None \<Longrightarrow> rest = []" "\<And>u as. ls_act t u = Inside as \<Longrightarrow> rest = as"
    using log_inv_cases [OF inv] by blast
  moreover have "ls_owner t = Some u" if "ls_act t u = Inside as" for u as
    using inv that by (simp add: log_inv_def)
  ultimately show ?thesis by (intro conjI exI [of _ rest] allI impI)
qed

text \<open>A worker whose messages write nothing is never cancelled with the lock.\<close>

definition owner_lives :: "(thread \<Rightarrow> bool) \<Rightarrow> log_sys \<Rightarrow> bool" where
  "owner_lives worker s \<longleftrightarrow> (\<forall>t. ls_owner s = Some t \<longrightarrow> ls_act s t \<noteq> Cancelled) \<and>
     (\<forall>t as. worker t \<longrightarrow> ls_act s t = Inside as \<longrightarrow> as = [])"

lemma owner_lives_step:
  assumes "log_step macro logs worker s t" "log_inv macro s" "owner_lives worker s"
    and silent: "\<And>t m. worker t \<Longrightarrow> logs t m \<Longrightarrow> macro m = []"
  shows "owner_lives worker t"
  using assms(1-3)
proof (induction rule: log_step.induct)
  case (lock s t m)
  then show ?case using silent by (auto simp: owner_lives_def)
next
  case (put s t a as)
  then show ?case by (auto simp: owner_lives_def)
next
  case (unlock s t)
  then show ?case by (auto simp: owner_lives_def)
next
  case (cancel t s)
  then show ?case by (auto simp: owner_lives_def log_inv_def split: option.splits)
qed

lemma owner_lives_reaches:
  assumes "log_reaches macro logs worker s t" "log_start s"
    and silent: "\<And>t m. worker t \<Longrightarrow> logs t m \<Longrightarrow> macro m = []"
  shows "owner_lives worker t"
  using assms(1)
proof (induction rule: rtranclp_induct)
  case base
  then show ?case using assms(2) by (simp add: owner_lives_def log_start_def)
next
  case (step u v)
  show ?case
    using owner_lives_step [OF step(2) log_inv_reaches [OF step(1) log_inv_start [OF assms(2)]] step.IH silent] .
qed

lemma log_finishes:
  "ls_act s t = Inside as \<Longrightarrow>
   \<exists>u. log_reaches macro logs worker s u \<and> ls_owner u = None \<and> ls_calls u = ls_calls s"
proof (induction as arbitrary: s)
  case Nil
  then show ?case using log_step.unlock [of s t macro logs worker]
    by (intro exI [of _ "s\<lparr>ls_owner := None, ls_act := (ls_act s)(t := Running)\<rparr>"]) auto
next
  case (Cons a as)
  let ?s = "(log_do a s)\<lparr>ls_act := (ls_act s)(t := Inside as)\<rparr>"
  obtain u where "log_reaches macro logs worker ?s u" "ls_owner u = None" "ls_calls u = ls_calls ?s"
    using Cons.IH [of ?s] by auto
  then show ?case using log_step.put [OF Cons.prems, of macro logs worker]
    by (intro exI [of _ u]) (auto intro: converse_rtranclp_into_rtranclp)
qed

text \<open>
  When the workers write nothing, a thread that got the lock can always come to its end.
\<close>

lemma log_not_blocked:
  assumes "log_start s" "log_reaches (P_LOG cfg file_open) logs worker s t" "\<not> log_writes cfg file_open"
    and "\<And>t m. worker t \<Longrightarrow> logs t m \<Longrightarrow> lm_level m \<noteq> P_PERF"
  shows "\<exists>u. log_reaches (P_LOG cfg file_open) logs worker t u \<and> ls_owner u = None \<and> ls_calls u = ls_calls t"
proof (cases "ls_owner t")
  case (Some u)
  have "owner_lives worker t"
    using assms(4) P_LOG_silent [OF assms(3)] by (intro owner_lives_reaches [OF assms(2,1)]) simp
  moreover have "log_inv (P_LOG cfg file_open) t"
    using log_inv_reaches [OF assms(2)] log_inv_start [OF assms(1)] .
  ultimately obtain as where "ls_act t u = Inside as"
    using Some by (auto simp: owner_lives_def log_inv_def)
  then show ?thesis by (rule log_finishes)
qed auto

lemma log_blocked_step:
  assumes "log_step macro logs worker s t" "log_inv macro s" "ls_owner s = Some u" "ls_act s u = Cancelled"
  shows "ls_owner t = Some u \<and> ls_act t u = Cancelled \<and> ls_file t = ls_file s \<and> ls_out t = ls_out s \<and>
    ls_calls t = ls_calls s"
  using assms by (induction rule: log_step.induct) (auto simp: log_inv_def)

lemma log_blocked_reaches:
  assumes "log_reaches macro logs worker s t" "log_inv macro s" "ls_owner s = Some u" "ls_act s u = Cancelled"
  shows "ls_owner t = Some u \<and> ls_act t u = Cancelled \<and> ls_file t = ls_file s \<and> ls_out t = ls_out s \<and>
    ls_calls t = ls_calls s"
  using assms(1)
proof (induction rule: rtranclp_induct)
  case (step v w)
  then show ?case
    using log_blocked_step [OF step(2) log_inv_reaches [OF step(1) assms(2)], of u] by simp
qed (use assms in simp)

text \<open>When every message is written, the cancellation can come while the worker writes its own.\<close>

lemma log_cancel_blocks:
  assumes "log_writes cfg file_open" "log_start s" "worker t" "logs t m"
  shows "\<exists>u. log_reaches (P_LOG cfg file_open) logs worker s u \<and> ls_owner u = Some t \<and> ls_act u t = Cancelled \<and>
    (\<forall>v. log_reaches (P_LOG cfg file_open) logs worker u v \<longrightarrow>
       ls_owner v = Some t \<and> ls_calls v = [m] \<and> ls_file v = [] \<and> ls_out v = [])"
proof -
  let ?u = "s\<lparr>ls_owner := Some t, ls_act := (ls_act s)(t := Inside (P_LOG cfg file_open m)), ls_calls := ls_calls s @ [m]\<rparr>"
  let ?v = "?u\<lparr>ls_act := (ls_act ?u)(t := Cancelled)\<rparr>"
  obtain a as where "P_LOG cfg file_open m = a # as" using P_LOG_writes [OF assms(1)] by (cases "P_LOG cfg file_open m") auto
  then have "log_step (P_LOG cfg file_open) logs worker ?u ?v"
    using assms(3) by (intro log_step.cancel) auto
  moreover have "log_step (P_LOG cfg file_open) logs worker s ?u"
    using assms(2,4) by (intro log_step.lock) (auto simp: log_start_def)
  ultimately have reach: "log_reaches (P_LOG cfg file_open) logs worker s ?v"
    by (meson converse_rtranclp_into_rtranclp r_into_rtranclp)
  have inv: "log_inv (P_LOG cfg file_open) ?v"
    using log_inv_reaches [OF reach] log_inv_start [OF assms(2)] .
  have "ls_owner v = Some t \<and> ls_calls v = [m] \<and> ls_file v = [] \<and> ls_out v = []"
    if "log_reaches (P_LOG cfg file_open) logs worker ?v v" for v
    using log_blocked_reaches [OF that inv, of t] assms(2) by (simp add: log_start_def)
  then show ?thesis using reach by (intro exI [of _ ?v] conjI) simp_all
qed

text \<open>
  C19. Cancelling a worker and the log. Whether it can stop the logging depends on whether
  every message is written: by a build that debugs, or by one that keeps a log if the file of
  the log is open. As nothing in the program opens that file, a build that keeps a log is in
  this respect like the default one, and only a build that debugs writes every message. If
  not every message is written and the workers that are cancelled log no message for the
  user, as the TCP worker of the server, then from every state that the threads reach the
  lock becomes free again without another message coming first. If every message is written,
  a worker that is cancelled while it writes one leaves the lock taken for ever: nobody logs
  anything any more, and every thread that comes to a \<open>P_LOG\<close> stays there, the one that
  cancelled the worker first.
\<close>

theorem log_cancellation:
  assumes "log_start s" "worker t" "logs t m"
  shows "if lc_debug_mode cfg = 1 \<or> lc_keep_log cfg = 1 \<and> file_open
    then \<exists>u. log_reaches (P_LOG cfg file_open) logs worker s u \<and>
        (\<forall>v. log_reaches (P_LOG cfg file_open) logs worker u v \<longrightarrow>
           ls_owner v = Some t \<and> ls_calls v = [m] \<and> ls_file v = [] \<and> ls_out v = [])
    else (\<forall>u n. worker u \<and> logs u n \<longrightarrow> lm_level n \<noteq> P_PERF) \<longrightarrow>
      (\<forall>u. log_reaches (P_LOG cfg file_open) logs worker s u \<longrightarrow>
        (\<exists>v. log_reaches (P_LOG cfg file_open) logs worker u v \<and> ls_owner v = None \<and> ls_calls v = ls_calls u))"
proof (cases "log_writes cfg file_open")
  case True
  from log_cancel_blocks [where worker = worker and logs = logs and t = t and m = m, OF this assms]
  show ?thesis using True by (auto simp: log_writes_def)
next
  case False
  then show ?thesis
    using log_not_blocked [OF assms(1) _ False, where worker = worker and logs = logs]
    by (auto simp: log_writes_def)
qed

end
