(* ===== verification/Reports.thy ===== *)
theory Reports
  imports Logging FastprofTcp FastprofUdt
begin

text \<open>
  The end of a profiling run: the texts that \<open>f_get_currtime_str\<close>,
  \<open>f_tcp_get_prof_name\<close> and \<open>f_udt_get_prof_name\<close> format fit their arrays, so that only what
  the report itself reads can make the end of a run undefined.
\<close>

subsection \<open>Texts of bounded length\<close>

text \<open>What \<open>localtime\<close> delivers, up to the year 9999.\<close>

definition sane_tm :: "tm \<Rightarrow> bool" where
  "sane_tm t \<longleftrightarrow>
     0 \<le> tm_year t + 1900 \<and> tm_year t + 1900 < 10000 \<and> 0 \<le> tm_mon t \<and> tm_mon t < 12 \<and>
     0 < tm_mday t \<and> tm_mday t < 32 \<and> 0 \<le> tm_hour t \<and> tm_hour t < 24 \<and>
     0 \<le> tm_min t \<and> tm_min t < 60 \<and> 0 \<le> tm_sec t \<and> tm_sec t < 61"

lemma length_show_0d2: "0 \<le> n \<Longrightarrow> n < 100 \<Longrightarrow> length (show_0d 2 n) = 2"
  using length_show_nat [of "nat n" 2] by (simp add: show_0d_def pad0_def)

lemma length_show_year: "0 \<le> n \<Longrightarrow> n < 10000 \<Longrightarrow> length (show_int n) \<le> 4"
  using length_show_nat [of "nat n" 4] by (simp add: show_int_def)

lemma sane_tm_lengths:
  assumes "sane_tm t"
  shows "length (show_int (tm_year t + 1900)) \<le> 4" "length (show_0d 2 (tm_mon t + 1)) = 2"
    "length (show_0d 2 (tm_mday t)) = 2" "length (show_0d 2 (tm_hour t)) = 2"
    "length (show_0d 2 (tm_min t)) = 2" "length (show_0d 2 (tm_sec t)) = 2"
  using assms by (simp_all add: sane_tm_def length_show_0d2 length_show_year)

lemma currtime_str_defined:
  assumes "\<And>w. sane_tm (fst (e_localtime E w))"
  shows "\<exists>b w'. f_get_currtime_str E (replicate 32 NUL) w = Some (0, b, w')"
  using sane_tm_lengths [OF assms [of w]]
  by (simp add: f_get_currtime_str_def tm_text_def c_puts_def Let_def case_prod_beta)

text \<open>The name of the list of visited points, for an array of 128 bytes.\<close>

lemma prof_name_defined:
  assumes "\<And>w. sane_tm (fst (e_localtime E w))" "\<And>w. in_int (e_getpid E w)"
    and "in_int a" "in_int b" "in_int c" "length folder \<le> 13" "length label \<le> 8"
  shows "\<exists>name w'. spsa_get_prof_name E folder a b c label w = Some (name, w')"
proof -
  let ?w = "if e_dir_exists E folder w then w else e_mkdir E folder w"
  show ?thesis
    using sane_tm_lengths [OF assms(1) [of ?w]] length_show_int [OF assms(2) [of "snd (e_localtime E ?w)"]]
      length_show_int [OF assms(3)] length_show_int [OF assms(4)] length_show_int [OF assms(5)] assms(6,7)
    by (simp add: spsa_get_prof_name_def c_puts_def Let_def case_prod_beta del: Nat.add_diff_assoc)
qed

lemma enabled_label: "length (if p then ''enabled'' else ''disabled'') \<le> 8"
  by simp

subsection \<open>The end of a run is defined\<close>

text \<open>What can make a report undefined.\<close>

lemma f_tcp_report_undefined:
  "f_tcp_report s = None \<longleftrightarrow>
     \<not> terminated (fc_local_ip (r_ctrl s)) \<or> \<not> terminated (fc_remote_ip (r_ctrl s)) \<or>
     (case r_prof_max s of None \<Rightarrow> True | Some p \<Rightarrow> r_heap s (tcp_prof p) = None)"
  by (auto simp: f_tcp_report_def bind_eq_None_conv split: option.splits)

lemma f_udt_report_undefined:
  "f_udt_report E s w = None \<longleftrightarrow>
     \<not> terminated (fc_local_ip (r_ctrl s)) \<or> \<not> terminated (fc_remote_ip (r_ctrl s)) \<or>
     (case u_prof_max s of None \<Rightarrow> True
      | Some p \<Rightarrow> up_perf_Mbps p = None \<or> \<not> in_int (e_tpg_get E (udt_prof p) UdtMss w - 44))"
  by (auto simp: f_udt_report_def Let_def bind_eq_None_conv c_int_def split: option.splits)

lemma tcp_end:
  assumes "\<And>w. sane_tm (fst (e_localtime E w))" "\<And>w. in_int (e_getpid E w)"
    and "in_int (l_no_imp_limit L)" "in_int (l_max_prof_limit L)"
    and "d_to_int (l_perf_gain_ratio L * Fin 100) = Some pgr" "in_int pgr"
  shows "\<exists>w. f_tcp_finish E L s =
    map_option (\<lambda>report. (0, s\<lparr>r_world := w\<rparr>, Some report)) (f_tcp_report s)"
proof -
  note name = prof_name_defined [OF assms(1-4,6), OF _ enabled_label]
  obtain b w1 where w1: "f_get_currtime_str E (replicate 32 NUL) (r_world s) = Some (0, b, w1)"
    using currtime_str_defined [OF assms(1)] by blast
  obtain n w2 where w2: "spsa_get_prof_name E ''./tcp_profile'' (l_no_imp_limit L) (l_max_prof_limit L) pgr
      (if fc_bw_bps (r_ctrl s) > 0 \<and> fc_rtt_ms (r_ctrl s) > 0 then ''enabled'' else ''disabled'') w1 =
      Some (n, w2)"
    using name [of "''./tcp_profile''" "fc_bw_bps (r_ctrl s) > 0 \<and> fc_rtt_ms (r_ctrl s) > 0" w1] by auto
  show ?thesis
    unfolding f_tcp_finish_def w1 assms(5) Let_def
    by (cases "f_tcp_report s") (simp_all add: w2 del: if_split, blast)
qed

lemma udt_end:
  assumes "\<And>w. sane_tm (fst (e_localtime E w))" "\<And>w. in_int (e_getpid E w)"
    and "in_int (l_no_imp_limit L)" "in_int (l_max_prof_limit L)"
    and "d_to_int (l_perf_gain_ratio L * Fin 100) = Some pgr" "in_int pgr"
  shows "\<exists>time now w. f_get_currtime_str E (replicate 32 NUL) (r_world u) = Some (0, time, now) \<and>
    f_udt_finish E L u = map_option (\<lambda>report. (0, u\<lparr>r_world := w\<rparr>, Some report)) (f_udt_report E u now)"
proof -
  note name = prof_name_defined [OF assms(1-4,6), OF _ enabled_label]
  obtain b w1 where w1: "f_get_currtime_str E (replicate 32 NUL) (r_world u) = Some (0, b, w1)"
    using currtime_str_defined [OF assms(1)] by blast
  obtain n w2 where w2: "spsa_get_prof_name E ''./udt_profile'' (l_no_imp_limit L) (l_max_prof_limit L) pgr
      (if fc_bw_bps (r_ctrl u) > 0 \<and> fc_rtt_ms (r_ctrl u) > 0 then ''enabled'' else ''disabled'') w1 =
      Some (n, w2)"
    using name [of "''./udt_profile''" "fc_bw_bps (r_ctrl u) > 0 \<and> fc_rtt_ms (r_ctrl u) > 0" w1] by auto
  show ?thesis
    unfolding f_udt_finish_def w1 assms(5) Let_def
    by (cases "f_udt_report E u w1") (simp_all add: w2 del: if_split, blast)
qed

text \<open>
  C24. When the clock and the limits are as they should be, the end of a profiling run returns
  0 and no text it formats overflows its array, except in these cases, in which its report is
  undefined: one of the two addresses it prints has no terminator, no measurement has set the
  best profile, for TCP the test object of the best profile has been freed, and for UDT the
  performance of the best profile is indeterminate or the library's segment size less 44 is
  no \<open>int\<close>.
\<close>

theorem run_end_defined:
  assumes "\<And>w. sane_tm (fst (e_localtime E w))" "\<And>w. in_int (e_getpid E w)"
    and "in_int (l_no_imp_limit L)" "in_int (l_max_prof_limit L)"
    and "d_to_int (l_perf_gain_ratio L * Fin 100) = Some pgr"
  shows "(case f_tcp_finish E L s of
       None \<Rightarrow> \<not> terminated (fc_local_ip (r_ctrl s)) \<or> \<not> terminated (fc_remote_ip (r_ctrl s)) \<or>
         (case r_prof_max s of None \<Rightarrow> True | Some p \<Rightarrow> r_heap s (tcp_prof p) = None)
     | Some (r, t, report) \<Rightarrow> r = 0 \<and> report = f_tcp_report s \<and> report \<noteq> None \<and> (\<exists>w. t = s\<lparr>r_world := w\<rparr>)) \<and>
    (\<exists>time now. f_get_currtime_str E (replicate 32 NUL) (r_world u) = Some (0, time, now) \<and>
     (case f_udt_finish E L u of
       None \<Rightarrow> \<not> terminated (fc_local_ip (r_ctrl u)) \<or> \<not> terminated (fc_remote_ip (r_ctrl u)) \<or>
         (case u_prof_max u of None \<Rightarrow> True
          | Some p \<Rightarrow> up_perf_Mbps p = None \<or> \<not> in_int (e_tpg_get E (udt_prof p) UdtMss now - 44))
     | Some (r, t, report) \<Rightarrow> r = 0 \<and> report = f_udt_report E u now \<and> report \<noteq> None \<and> (\<exists>w. t = u\<lparr>r_world := w\<rparr>)))"
proof
  have pgr: "in_int pgr" using assms(5) by (cases "l_perf_gain_ratio L * Fin 100")
    (auto simp: d_to_int_def split: if_splits)
  obtain w where tcp: "f_tcp_finish E L s =
      map_option (\<lambda>report. (0, s\<lparr>r_world := w\<rparr>, Some report)) (f_tcp_report s)"
    using tcp_end [OF assms pgr] by blast
  show "case f_tcp_finish E L s of
       None \<Rightarrow> \<not> terminated (fc_local_ip (r_ctrl s)) \<or> \<not> terminated (fc_remote_ip (r_ctrl s)) \<or>
         (case r_prof_max s of None \<Rightarrow> True | Some p \<Rightarrow> r_heap s (tcp_prof p) = None)
     | Some (r, t, report) \<Rightarrow> r = 0 \<and> report = f_tcp_report s \<and> report \<noteq> None \<and> (\<exists>w. t = s\<lparr>r_world := w\<rparr>)"
    unfolding tcp f_tcp_report_undefined [symmetric] by (cases "f_tcp_report s") auto
  obtain time now w' where udt: "f_get_currtime_str E (replicate 32 NUL) (r_world u) = Some (0, time, now)"
    "f_udt_finish E L u = map_option (\<lambda>report. (0, u\<lparr>r_world := w'\<rparr>, Some report)) (f_udt_report E u now)"
    using udt_end [OF assms pgr] by blast
  show "\<exists>time now. f_get_currtime_str E (replicate 32 NUL) (r_world u) = Some (0, time, now) \<and>
     (case f_udt_finish E L u of
       None \<Rightarrow> \<not> terminated (fc_local_ip (r_ctrl u)) \<or> \<not> terminated (fc_remote_ip (r_ctrl u)) \<or>
         (case u_prof_max u of None \<Rightarrow> True
          | Some p \<Rightarrow> up_perf_Mbps p = None \<or> \<not> in_int (e_tpg_get E (udt_prof p) UdtMss now - 44))
     | Some (r, t, report) \<Rightarrow> r = 0 \<and> report = f_udt_report E u now \<and> report \<noteq> None \<and> (\<exists>w. t = u\<lparr>r_world := w\<rparr>))"
    by (intro exI [of _ time] exI [of _ now], unfold udt f_udt_report_undefined [symmetric])
      (cases "f_udt_report E u now"; auto)
qed

end
