(* ===== verification/CommandLine.thy ===== *)
theory CommandLine
  imports Setup Spsa
begin

text \<open>
  What the command line means: a reference definition that reads the settings off the list
  of options, the last occurrence of each option counting, the equivalence of the parser
  with it, and how the settings reach the control block and the search.
\<close>

subsection \<open>The settings by name\<close>

fun last_arg :: "char \<Rightarrow> (char \<times> string) list \<Rightarrow> string option" where
  "last_arg flag [] = None"
| "last_arg flag ((f, a) # opts) =
     (case last_arg flag opts of Some b \<Rightarrow> Some b | None \<Rightarrow> if f = flag then Some a else None)"

lemma last_arg_None: "last_arg flag opts = None \<longleftrightarrow> flag \<notin> fst ` set opts"
  by (induction flag opts rule: last_arg.induct) (auto split: option.splits)

text \<open>The value of an option: that of its last argument, or the one the program has already.\<close>

definition option_value :: "char \<Rightarrow> (string \<Rightarrow> 'a option) \<Rightarrow> (char \<times> string) list \<Rightarrow> 'a \<Rightarrow> 'a" where
  "option_value flag read opts x = (case last_arg flag opts of None \<Rightarrow> x | Some a \<Rightarrow> the (read a))"

lemma option_value_Nil [simp]: "option_value flag read [] x = x"
  by (simp add: option_value_def)

lemma option_value_Cons:
  "option_value flag read ((f, a) # opts) x =
     option_value flag read opts (if f = flag then the (read a) else x)"
  by (simp add: option_value_def split: option.split)

record settings =
  sg_ctrl_port :: int
  sg_do_udt_only :: int
  sg_prof_duration :: int
  sg_mss :: int
  sg_impeded_limit :: int
  sg_max_prof_limit :: int
  sg_bandwidth :: dbl
  sg_pgr :: dbl
  sg_rtt_ms :: dbl
  sg_a_val :: dbl
  sg_c_val :: dbl
  sg_a_scale :: dbl
  sg_c_scale :: dbl
  sg_remote_ip :: string
  sg_src_file :: string
  sg_dst_file :: string

definition settings_of :: "probdata \<Rightarrow> settings" where
  "settings_of p = \<lparr>
     sg_ctrl_port = pb_ctrl_port p, sg_do_udt_only = pb_do_udt_only p,
     sg_prof_duration = pb_prof_duration p, sg_mss = pb_mss p,
     sg_impeded_limit = pb_impeded_limit p, sg_max_prof_limit = pb_max_prof_limit p,
     sg_bandwidth = pb_bandwidth p, sg_pgr = pb_pgr p, sg_rtt_ms = pb_rtt_ms p,
     sg_a_val = pb_spsa_a_val p, sg_c_val = pb_spsa_c_val p,
     sg_a_scale = pb_spsa_a_scale p, sg_c_scale = pb_spsa_c_scale p,
     sg_remote_ip = c_str (pb_remote_ip p), sg_src_file = c_str (pb_src_file p),
     sg_dst_file = c_str (pb_dst_file p)\<rparr>"

definition configured :: "(char \<times> string) list \<Rightarrow> settings \<Rightarrow> settings" where
  "configured opts d = \<lparr>
     sg_ctrl_port = option_value (CHR ''p'') c_atoi opts (sg_ctrl_port d),
     sg_do_udt_only = option_value (CHR ''t'') (\<lambda>_. Some 1) opts (sg_do_udt_only d),
     sg_prof_duration = option_value (CHR ''d'') c_atoi opts (sg_prof_duration d),
     sg_mss = option_value (CHR ''M'') c_atoi opts (sg_mss d),
     sg_impeded_limit = option_value (CHR ''L'') c_atoi opts (sg_impeded_limit d),
     sg_max_prof_limit = option_value (CHR ''N'') c_atoi opts (sg_max_prof_limit d),
     sg_bandwidth = option_value (CHR ''y'') probdata_unit_atof opts (sg_bandwidth d),
     sg_pgr = option_value (CHR ''C'') c_atof opts (sg_pgr d),
     sg_rtt_ms = option_value (CHR ''T'') c_atof opts (sg_rtt_ms d),
     sg_a_val = option_value (CHR ''e'') c_atof opts (sg_a_val d),
     sg_c_val = option_value (CHR ''g'') c_atof opts (sg_c_val d),
     sg_a_scale = option_value (CHR ''o'') c_atof opts (sg_a_scale d),
     sg_c_scale = option_value (CHR ''x'') c_atof opts (sg_c_scale d),
     sg_remote_ip = option_value (CHR ''c'') (\<lambda>a. Some (c_str (c_lit a))) opts (sg_remote_ip d),
     sg_src_file = option_value (CHR ''S'') (\<lambda>a. Some (c_str (c_lit a))) opts (sg_src_file d),
     sg_dst_file = option_value (CHR ''V'') (\<lambda>a. Some (c_str (c_lit a))) opts (sg_dst_file d)\<rparr>"

lemma setters_settings:
  "probdata_set_peer_addr (c_lit a) p = Some (r, q) \<Longrightarrow>
     settings_of q = (settings_of p)\<lparr>sg_remote_ip := c_str (c_lit a)\<rparr>"
  "probdata_set_src_file (c_lit a) p = Some (r, q) \<Longrightarrow>
     settings_of q = (settings_of p)\<lparr>sg_src_file := c_str (c_lit a)\<rparr>"
  "probdata_set_dst_file (c_lit a) p = Some (r, q) \<Longrightarrow>
     settings_of q = (settings_of p)\<lparr>sg_dst_file := c_str (c_lit a)\<rparr>"
  by (auto simp: probdata_set_peer_addr_def probdata_set_src_file_def probdata_set_dst_file_def
      bind_eq_Some_conv settings_of_def dest: holds_string_copy [OF _ terminated_lit])

lemma set_opt_settings:
  "set_opt v f st = Some (Inl (t, src', dst')) \<Longrightarrow> \<exists>x. v = Some x \<and> ps_prob t = f x (ps_prob (fst st))"
  by (auto simp: set_opt_def bind_eq_Some_conv upd_prob_def)

text \<open>One option does to the settings what its name says.\<close>

lemma cmd_option_letters:
  assumes "cmd_option flag optarg st = Some (Inl st')"
  shows "flag \<in> set ''pscSVtdMyCTLNegox''"
  using assms by (cases st) (auto simp: cmd_option_def Let_def split: if_splits)

lemmas one_option = cmd_option_def set_opt_settings bind_eq_Some_conv option_value_Cons

lemma cmd_option_settings:
  assumes "cmd_option flag optarg (s, src, dst) = Some (Inl (t, src', dst'))"
  shows "settings_of (ps_prob t) = configured [(flag, optarg)] (settings_of (ps_prob s))"
proof -
  have strings: "settings_of (ps_prob t) = configured [(flag, optarg)] (settings_of (ps_prob s))"
    if "flag \<in> set ''cSV''"
    using that assms
    by (auto simp: one_option dest!: setters_settings split: if_splits)
      (simp_all add: configured_def option_value_Cons settings_of_def)
  have numbers: "settings_of (ps_prob t) = configured [(flag, optarg)] (settings_of (ps_prob s))"
    if "flag \<in> set ''ptdMyCTLNegox''"
    using that assms
    unfolding list.set insert_iff empty_iff
    by (elim disjE; simp add: cmd_option_def)
      (drule set_opt_settings, elim exE conjE, simp add: configured_def option_value_Cons settings_of_def)+
  have server: "settings_of (ps_prob t) = configured [(flag, optarg)] (settings_of (ps_prob s))"
    if "flag = CHR ''s''"
  proof -
    have "t = snd (probdata_set_role P_SERVER s)"
      using that assms by (auto simp: cmd_option_def split: if_splits)
    then show ?thesis using that by (simp add: configured_def option_value_Cons settings_of_def)
  qed
  have "flag \<in> set ''cSV'' \<or> flag \<in> set ''ptdMyCTLNegox'' \<or> flag = CHR ''s''"
    using cmd_option_letters [OF assms] by auto
  then show ?thesis using strings numbers server by blast
qed

lemma configured_Cons: "configured (opt # opts) d = configured opts (configured [opt] d)"
  by (cases opt) (simp add: configured_def option_value_Cons)

lemma configured_Nil: "configured [] d = d"
  by (simp add: configured_def)

lemma cmd_options_settings:
  "cmd_options opts (s, src, dst) = Some (Parsed 0 t) \<Longrightarrow>
   settings_of (ps_prob t) = configured opts (settings_of (ps_prob s))"
proof (induction opts arbitrary: s src dst)
  case Nil
  then show ?case
    by (auto simp: cmd_finish_def Let_def upd_prob_def settings_of_def configured_Nil split: if_splits)
next
  case (Cons opt opts)
  obtain flag optarg where opt: "opt = (flag, optarg)" by (cases opt)
  from Cons.prems opt obtain u src' dst' where
    step: "cmd_option flag optarg (s, src, dst) = Some (Inl (u, src', dst'))"
    and rest: "cmd_options opts (u, src', dst') = Some (Parsed 0 t)"
    using cmd_option_stops [of flag optarg s src dst]
    by (auto split: option.splits sum.splits)
  show ?case
    using Cons.IH [OF rest] cmd_option_settings [OF step] by (simp add: configured_Cons [of "(flag, optarg)" opts] opt)
qed

text \<open>
  C31. The parser agrees with the reference definition: after a command line that it accepts,
  every setting of the program is that of the last occurrence of its option, and what it was
  before where the option does not occur; the order of the options does not matter otherwise.
\<close>

theorem cmd_parse_settings:
  assumes "probdata_cmd_parse opts s = Some (Parsed 0 t)"
  shows "settings_of (ps_prob t) = configured opts (settings_of (ps_prob s))"
  using cmd_options_settings assms by (simp add: probdata_cmd_parse_def)

subsection \<open>Ranges\<close>

text \<open>Every \<open>int\<close> of the state that the set-up gives a value is one.\<close>

definition numbers_ok :: "probdata \<Rightarrow> bool" where
  "numbers_ok p \<longleftrightarrow>
     in_int (pb_ctrl_port p) \<and> in_int (pb_tcp_port p) \<and> in_int (pb_udt_port p) \<and> in_int (pb_mss p) \<and>
     in_int (pb_prof_duration p) \<and> in_int (pb_max_prof_limit p) \<and> in_int (pb_impeded_limit p) \<and>
     in_int (pb_do_udt_only p) \<and> in_int (pb_host_max_buf p)"

lemma numbers_upd [simp]:
  "numbers_ok (p\<lparr>pb_role := role\<rparr>) = numbers_ok p"
  "numbers_ok (p\<lparr>pb_bandwidth := x\<rparr>) = numbers_ok p"
  "numbers_ok (p\<lparr>pb_pgr := x\<rparr>) = numbers_ok p"
  "numbers_ok (p\<lparr>pb_rtt_ms := x\<rparr>) = numbers_ok p"
  "numbers_ok (p\<lparr>pb_spsa_a_val := x\<rparr>) = numbers_ok p"
  "numbers_ok (p\<lparr>pb_spsa_c_val := x\<rparr>) = numbers_ok p"
  "numbers_ok (p\<lparr>pb_spsa_a_scale := x\<rparr>) = numbers_ok p"
  "numbers_ok (p\<lparr>pb_spsa_c_scale := x\<rparr>) = numbers_ok p"
  "numbers_ok (p\<lparr>pb_instance := i\<rparr>) = numbers_ok p"
  "numbers_ok (p\<lparr>pb_remote_ip := b\<rparr>) = numbers_ok p"
  "numbers_ok (p\<lparr>pb_src_file := b\<rparr>) = numbers_ok p"
  "numbers_ok (p\<lparr>pb_dst_file := b\<rparr>) = numbers_ok p"
  "numbers_ok p \<Longrightarrow> in_int n \<Longrightarrow> numbers_ok (p\<lparr>pb_ctrl_port := n\<rparr>)"
  "numbers_ok p \<Longrightarrow> in_int n \<Longrightarrow> numbers_ok (p\<lparr>pb_do_udt_only := n\<rparr>)"
  "numbers_ok p \<Longrightarrow> in_int n \<Longrightarrow> numbers_ok (p\<lparr>pb_prof_duration := n\<rparr>)"
  "numbers_ok p \<Longrightarrow> in_int n \<Longrightarrow> numbers_ok (p\<lparr>pb_mss := n\<rparr>)"
  "numbers_ok p \<Longrightarrow> in_int n \<Longrightarrow> numbers_ok (p\<lparr>pb_impeded_limit := n\<rparr>)"
  "numbers_ok p \<Longrightarrow> in_int n \<Longrightarrow> numbers_ok (p\<lparr>pb_max_prof_limit := n\<rparr>)"
  "numbers_ok p \<Longrightarrow> in_int n \<Longrightarrow> numbers_ok (p\<lparr>pb_host_max_buf := n\<rparr>)"
  by (simp_all add: numbers_ok_def)

lemma c_atoi_in_int: "c_atoi a = Some n \<Longrightarrow> in_int n"
  by (auto simp: c_atoi_def split: option.splits)

lemma setters_numbers:
  "probdata_set_peer_addr a p = Some (r, q) \<Longrightarrow> numbers_ok q = numbers_ok p"
  "probdata_set_src_file a p = Some (r, q) \<Longrightarrow> numbers_ok q = numbers_ok p"
  "probdata_set_dst_file a p = Some (r, q) \<Longrightarrow> numbers_ok q = numbers_ok p"
  by (auto simp: probdata_set_peer_addr_def probdata_set_src_file_def probdata_set_dst_file_def
      bind_eq_Some_conv)

lemma cmd_option_numbers:
  assumes "cmd_option flag optarg (s, src, dst) = Some (Inl (t, src', dst'))" "numbers_ok (ps_prob s)"
  shows "numbers_ok (ps_prob t)"
  using assms
  by (auto simp: cmd_option_def Let_def bind_eq_Some_conv dest!: set_opt_settings
      dest: setters_numbers c_atoi_in_int split: if_splits)

lemma cmd_options_numbers:
  "cmd_options opts (s, src, dst) = Some (Parsed r t) \<Longrightarrow> numbers_ok (ps_prob s) \<Longrightarrow> numbers_ok (ps_prob t)"
proof (induction opts arbitrary: s src dst)
  case Nil
  then show ?case
    by (auto simp: cmd_finish_def Let_def upd_prob_def set_errno_def split: if_splits)
next
  case (Cons opt opts)
  obtain flag optarg where opt: "opt = (flag, optarg)" by (cases opt)
  show ?case
    using Cons opt cmd_option_numbers [of flag optarg s src dst] cmd_option_stops [of flag optarg s src dst]
    by (auto simp: set_errno_def split: option.splits sum.splits)
qed

lemma get_max_mem_in_int: "get_max_mem E w = Some (n, w') \<Longrightarrow> in_int n"
  by (auto simp: get_max_mem_def Let_def bind_eq_Some_conv case_prod_beta
      split: if_splits option.splits list.splits sval.splits)

lemma get_max_buf_numbers:
  assumes "probdata_get_max_buf E s = Some (r, t)" "numbers_ok (ps_prob s)"
  shows "numbers_ok (ps_prob t)"
proof -
  obtain n w where n: "get_max_mem E (ps_world s) = Some (n, w)"
    using assms(1) by (auto simp: probdata_get_max_buf_def bind_eq_Some_conv)
  from assms n get_max_mem_in_int [OF n] show ?thesis
    by (auto simp: probdata_get_max_buf_def upd_prob_def Let_def split: if_splits)
qed

lemma new_and_default_numbers: "probdata_new_and_default raw = Some (r, p) \<Longrightarrow> numbers_ok p"
  by (auto simp: probdata_new_and_default_def bind_eq_Some_conv numbers_ok_def P_GB_def
      P_DEFAULT_PORT_def P_DEFAULT_TCP_PORT_def P_DEFAULT_UDT_PORT_def P_DEFAULT_PACKET_def
      P_DEFAULT_DURATION_def P_DEFAULT_MAX_PROF_LIMIT_def P_DEFAULT_IMPEDED_LIMIT_def)

subsection \<open>From the command line to the search\<close>

text \<open>The settings of a program that has been given no options.\<close>

definition default_settings :: settings where
  "default_settings = \<lparr>
     sg_ctrl_port = P_DEFAULT_PORT, sg_do_udt_only = - 1, sg_prof_duration = P_DEFAULT_DURATION,
     sg_mss = P_DEFAULT_PACKET, sg_impeded_limit = P_DEFAULT_IMPEDED_LIMIT,
     sg_max_prof_limit = P_DEFAULT_MAX_PROF_LIMIT, sg_bandwidth = - 1, sg_pgr = P_DEFAULT_PGR,
     sg_rtt_ms = - 1, sg_a_val = P_DEFAULT_SPSA_SMALL_A_VAL, sg_c_val = P_DEFAULT_SPSA_SMALL_C_VAL,
     sg_a_scale = P_DEFAULT_SCALE_FACTOR_A_VAL, sg_c_scale = P_DEFAULT_SCALE_FACTOR_C_VAL,
     sg_remote_ip = [], sg_src_file = [], sg_dst_file = []\<rparr>"

lemma c_str_memset: "c_memset b NUL n = Some b' \<Longrightarrow> 0 < n \<Longrightarrow> c_str b' = []"
  by (cases n) (auto simp: c_memset_def c_str_def split: if_splits)

lemma new_and_default_settings:
  "probdata_new_and_default raw = Some (r, p) \<Longrightarrow> settings_of p = default_settings"
  by (auto simp: probdata_new_and_default_def bind_eq_Some_conv settings_of_def default_settings_def
      P_HOSTADDR_LEN_def P_FILENAME_LEN_def dest: c_str_memset)

text \<open>What the command line cannot change.\<close>

definition fixed_of :: "probdata \<Rightarrow> cbuf \<times> int \<times> int \<times> int \<times> dbl \<times> dbl \<times> dbl" where
  "fixed_of p = (pb_local_ip p, pb_tcp_port p, pb_udt_port p, pb_host_max_buf p, pb_spsa_A_val p,
     pb_spsa_alpha_val p, pb_spsa_gamma_val p)"

lemma setters_fixed:
  "probdata_set_peer_addr a p = Some (r, q) \<Longrightarrow> fixed_of q = fixed_of p"
  "probdata_set_src_file a p = Some (r, q) \<Longrightarrow> fixed_of q = fixed_of p"
  "probdata_set_dst_file a p = Some (r, q) \<Longrightarrow> fixed_of q = fixed_of p"
  by (auto simp: probdata_set_peer_addr_def probdata_set_src_file_def probdata_set_dst_file_def
      bind_eq_Some_conv fixed_of_def)

lemma cmd_option_fixed:
  assumes "cmd_option flag optarg (s, src, dst) = Some (Inl (t, src', dst'))"
  shows "fixed_of (ps_prob t) = fixed_of (ps_prob s)"
  using assms
  by (auto simp: cmd_option_def Let_def bind_eq_Some_conv dest!: set_opt_settings setters_fixed
      split: if_splits) (simp_all add: fixed_of_def)

lemma cmd_options_fixed:
  "cmd_options opts (s, src, dst) = Some (Parsed r t) \<Longrightarrow> fixed_of (ps_prob t) = fixed_of (ps_prob s)"
proof (induction opts arbitrary: s src dst)
  case Nil
  then show ?case
    by (auto simp: cmd_finish_def Let_def upd_prob_def set_errno_def fixed_of_def split: if_splits)
next
  case (Cons opt opts)
  obtain flag optarg where opt: "opt = (flag, optarg)" by (cases opt)
  show ?case
    using Cons opt cmd_option_fixed [of flag optarg s src dst] cmd_option_stops [of flag optarg s src dst]
    by (auto simp: set_errno_def split: option.splits sum.splits)
qed

text \<open>
  The control block that stands for given settings: \<open>host_max_buf\<close> is the limit of the host.
\<close>

definition control_of :: "settings \<Rightarrow> f_program_role \<Rightarrow> int \<Rightarrow> fastprof_ctrl \<Rightarrow> bool" where
  "control_of g role host_max_buf c \<longleftrightarrow>
     fc_role c = role \<and> c_str (fc_local_ip c) = [] \<and> c_str (fc_remote_ip c) = sg_remote_ip g \<and>
     fc_tcp_port c = P_DEFAULT_TCP_PORT \<and> fc_udt_port c = P_DEFAULT_UDT_PORT \<and>
     fc_host_max_buf c = host_max_buf \<and> fc_mss c = sg_mss g \<and>
     fc_bw_bps c = sg_bandwidth g \<and> fc_rtt_ms c = sg_rtt_ms g \<and>
     fc_A_val c = P_DEFAULT_SPSA_BIG_A_VAL \<and> fc_a_val c = sg_a_val g \<and> fc_a_scale c = sg_a_scale g \<and>
     fc_c_val c = sg_c_val g \<and> fc_c_scale c = sg_c_scale g \<and>
     fc_alpha c = P_DEFAULT_SPSA_ALPHA \<and> fc_gamma c = P_DEFAULT_SPSA_GAMMA \<and>
     fc_pgr c = sg_pgr g \<and> fc_impeded_limit c = sg_impeded_limit g \<and>
     fc_max_limit c = sg_max_prof_limit g \<and> fc_duration c = sg_prof_duration g"

lemma c_copy_str_text:
  assumes "c_copy_str b a = Some b'"
  shows "c_str b' = c_str a"
proof -
  have "terminated a"
    using assms by (auto simp: c_copy_str_def bind_eq_Some_conv c_strlen_def terminated_def split: if_splits)
  then show ?thesis using holds_string_copy [OF assms] by simp
qed

lemma set_control_of:
  assumes "probdata_set_control p = Some (z, q)" "settings_of p = g" "pb_role p \<noteq> P_UNKNOWN"
    and "fixed_of p = (ip, P_DEFAULT_TCP_PORT, P_DEFAULT_UDT_PORT, n, P_DEFAULT_SPSA_BIG_A_VAL,
      P_DEFAULT_SPSA_ALPHA, P_DEFAULT_SPSA_GAMMA)" "c_str ip = []"
  shows "control_of g (if pb_role p = P_SERVER then F_SERVER else F_CLIENT) n (pb_control q)"
  using assms
  by (cases "pb_role p")
    (auto simp: probdata_set_control_def Let_def bind_eq_Some_conv control_of_def settings_of_def fixed_of_def
      dest!: c_copy_str_text)

lemma max_buf_setup:
  assumes "probdata_new_and_default raw = Some (r, p)" "ps_prob s = p" "probdata_get_max_buf E s = Some (m, u)"
    and "get_max_mem E (ps_world s) = Some (n, w)"
  shows "settings_of (ps_prob u) = default_settings" "pb_role (ps_prob u) = P_UNKNOWN" "numbers_ok (ps_prob u)"
    "\<exists>ip. fixed_of (ps_prob u) = (ip, P_DEFAULT_TCP_PORT, P_DEFAULT_UDT_PORT,
       (if n < 0 then 2 * P_GB else n), P_DEFAULT_SPSA_BIG_A_VAL, P_DEFAULT_SPSA_ALPHA,
       P_DEFAULT_SPSA_GAMMA) \<and> c_str ip = []"
proof -
  have u: "ps_prob u = (if n < 0 then p else p\<lparr>pb_host_max_buf := n\<rparr>)"
    using assms(2-4) by (auto simp: probdata_get_max_buf_def upd_prob_def split: if_splits)
  have "settings_of (ps_prob u) = settings_of p" by (simp add: u settings_of_def)
  then show "settings_of (ps_prob u) = default_settings" using new_and_default_settings [OF assms(1)] by simp
  show "numbers_ok (ps_prob u)"
    using get_max_buf_numbers [OF assms(3)] new_and_default_numbers [OF assms(1)] assms(2) by simp
  show "pb_role (ps_prob u) = P_UNKNOWN"
    using assms(1) by (auto simp: u probdata_new_and_default_def bind_eq_Some_conv)
  show "\<exists>ip. fixed_of (ps_prob u) = (ip, P_DEFAULT_TCP_PORT, P_DEFAULT_UDT_PORT,
       (if n < 0 then 2 * P_GB else n), P_DEFAULT_SPSA_BIG_A_VAL, P_DEFAULT_SPSA_ALPHA,
       P_DEFAULT_SPSA_GAMMA) \<and> c_str ip = []"
    using assms(1)
    by (auto simp: u fixed_of_def probdata_new_and_default_def bind_eq_Some_conv P_HOSTADDR_LEN_def
        dest: c_str_memset)
qed


end
