(* ===== verification/Usage.thy ===== *)
theory Usage
  imports Setup
begin

text \<open>
  The texts of \<open>probdata.cpp\<close> for the user, and what they say about the program: the defaults
  that the usage text prints and the long options that it names, beside those that the
  program has.
\<close>

subsection \<open>Formatted output\<close>

datatype arg = AInt int | AStr string | ADbl dbl

text \<open>\<open>%.2lf\<close>.\<close>

definition show_2lf_fin :: "bool \<Rightarrow> rat \<Rightarrow> string" where
  "show_2lf_fin neg r =
     (let m = nat (rne (\<bar>r\<bar> * 100))
      in (if neg then ''-'' else '''') @ show_nat (m div 100) @ ''.'' @ pad0 2 (show_nat (m mod 100)))"

definition show_2lf :: "dbl \<Rightarrow> string" where
  "show_2lf x =
     (case x of NaN \<Rightarrow> ''nan'' | PInf \<Rightarrow> ''inf'' | MInf \<Rightarrow> ''-inf''
      | NegZero \<Rightarrow> show_2lf_fin True 0 | Fin r \<Rightarrow> show_2lf_fin (r < 0) r)"

text \<open>
  \<open>printf\<close> for the conversions that the usage text has; a missing argument or one of another
  type is undefined behaviour.
\<close>

definition conversion :: "string \<Rightarrow> arg list \<Rightarrow> (nat \<times> string \<times> arg list) option" where
  "conversion f args =
     (case args of
        [] \<Rightarrow> None
      | AInt n # rest \<Rightarrow> if take 1 f = ''d'' then Some (1, show_int n, rest) else None
      | AStr s # rest \<Rightarrow> if take 1 f = ''s'' then Some (1, s, rest) else None
      | ADbl x # rest \<Rightarrow>
          if take 4 f = ''.2lf'' then Some (4, show_2lf x, rest)
          else if take 4 f = ''.3lf'' then Some (4, show_3lf x, rest) else None)"

function c_printf :: "string \<Rightarrow> arg list \<Rightarrow> string option" where
  "c_printf [] args = Some []"
| "c_printf (c # f) args =
     (if c = CHR ''%'' then
        (case conversion f args of
           None \<Rightarrow> None
         | Some (n, s, rest) \<Rightarrow> map_option ((@) s) (c_printf (drop n f) rest))
      else map_option ((#) c) (c_printf f args))"
  by pat_completeness auto
termination by (relation "measure (length \<circ> fst)") auto

subsection \<open>The texts\<close>

definition P_PROGRAM_VERSION :: string where "P_PROGRAM_VERSION = ''1.0''"
definition P_PROGRAM_VERSION_DATE :: string where "P_PROGRAM_VERSION_DATE = ''November 20, 2019''"
definition P_BUG_REPORT_EMAIL :: string where "P_BUG_REPORT_EMAIL = ''daqingyun@gmail.com''"

definition p_program_version :: string where
  "p_program_version = ''ProbData version '' @ P_PROGRAM_VERSION @ '' ('' @ P_PROGRAM_VERSION_DATE @ '')''"

definition p_bug_report_contact :: string where
  "p_bug_report_contact = ''<'' @ P_BUG_REPORT_EMAIL @ ''>''"

text \<open>A text is a list of lines, each with its newline.\<close>

definition text_of :: "string list \<Rightarrow> string" where
  "text_of ls = concat (map (\<lambda>l. l @ [CHR 0x0A]) ls)"

definition p_usage_shortstr :: "string list" where
  "p_usage_shortstr =
    ['''', ''Usage: probdata [-s|-c host] [options]'',
     ''Try `probdata --help'' @ [CHR 0x27] @ '' for more information.'']"

definition p_usage_longstr :: "string list" where
  "p_usage_longstr =
    [''Usage: probdata [-s|-c host] [options]'',
     ''       probdata [-h|--help] [-v|--version]'',
     '''',
     ''Server/Client:'',
     ''  -p, --port           # port to listen on/connect to default %d'',
     ''  -v, --version        # show version information and quit'',
     '''',
     ''Server specific:'',
     ''  -s, --server         # run in server mode'',
     '''',
     ''Client specific:'',
     ''  -c, --client <host>  # run in client mode, connecting to <host>'',
     ''  -t, --UDT            # use UDT only (default both UDT and %s)'',
     ''  -d, --time duration  # duration of the test by default %d seconds'',
     ''  -M, --set-mss        # set TCP/UDT maximum segment size (Bytes)'',
     ''                         MTU for UDT, (MTU-40) for TCP'',
     '''',
     ''FastProf specific:'',
     ''  -y  --capacity       # link capacity default %.2lfGb/s'',
     ''  -T  --RTT            # RTT in milliseconds'',
     ''  -C  --ratio          # PGR default %.2lf'',
     ''  -L  --limit          # max iteration# without improvement default %d'',
     ''  -N  --max limit      # max # of the total iterations default %d'',
     '''',
     ''ProbData specific:'',
     ''  -S  --src file       # source file (including path)'',
     ''  -V  --dst file       # destination file (including path) default %s'',
     ''  -e  --a factor       # a value default %.3lf'',
     ''  -g  --c factor       # c value default %.3lf'',
     ''  -o  --a factor scale # scaling factor for a value default %.3lf'',
     ''  -x  --c factor scale # scaling factor for c value default %.3lf'',
     '''',
     ''ProbData version %s.'',
     ''Please report bugs to %s.'',
     '''']"

definition usage_args :: "arg list" where
  "usage_args =
    [AInt P_DEFAULT_PORT, AStr ''TCP'', AInt P_DEFAULT_DURATION, ADbl P_DEFAULT_BW,
     ADbl P_DEFAULT_PGR, AInt P_DEFAULT_IMPEDED_LIMIT, AInt P_DEFAULT_MAX_PROF_LIMIT,
     AStr P_DEFAULT_DST_FILE,
     ADbl P_DEFAULT_SPSA_SMALL_A_VAL, ADbl P_DEFAULT_SPSA_SMALL_C_VAL,
     ADbl P_DEFAULT_SCALE_FACTOR_A_VAL, ADbl P_DEFAULT_SCALE_FACTOR_C_VAL,
     AStr P_PROGRAM_VERSION, AStr p_bug_report_contact]"

text \<open>\<open>stderr\<close> is the handle that the texts go to.\<close>

definition probdata_print_short_usage :: "'w env \<Rightarrow> addr \<Rightarrow> 'w \<Rightarrow> int \<times> 'w" where
  "probdata_print_short_usage E stderr w = (0, e_fprintf E stderr (text_of p_usage_shortstr) w)"

definition probdata_print_long_usage :: "'w env \<Rightarrow> addr \<Rightarrow> 'w \<Rightarrow> (int \<times> 'w) option" where
  "probdata_print_long_usage E stderr w = do {
     s \<leftarrow> c_printf (text_of p_usage_longstr) usage_args;
     Some (0, e_fprintf E stderr s w)
   }"

text \<open>The table of the long options: name, whether it takes an argument, the letter it stands for.\<close>

definition longopts :: "(string \<times> bool \<times> char) list" where
  "longopts =
    [(''Port'', True, CHR ''p''), (''Server'', False, CHR ''s''), (''Client'', True, CHR ''c''),
     (''Help'', False, CHR ''h''), (''SrcFile'', True, CHR ''S''), (''DstFile'', True, CHR ''V''),
     (''UDT'', False, CHR ''t''), (''Duration'', True, CHR ''d''), (''MSS'', True, CHR ''M''),
     (''Bandwidth'', True, CHR ''y''), (''PGR'', True, CHR ''C''), (''Delay'', True, CHR ''T''),
     (''ImpededLimit'', True, CHR ''L''), (''NaxLimit'', True, CHR ''N'')]"

subsection \<open>What they say\<close>

text \<open>Whether a format is defined depends on the kinds of the arguments only.\<close>

datatype kind = KInt | KStr | KDbl

fun kind_of :: "arg \<Rightarrow> kind" where
  "kind_of (AInt n) = KInt"
| "kind_of (AStr s) = KStr"
| "kind_of (ADbl x) = KDbl"

definition conversion_length :: "string \<Rightarrow> kind \<Rightarrow> nat option" where
  "conversion_length f k =
     (case k of
        KInt \<Rightarrow> if take 1 f = ''d'' then Some 1 else None
      | KStr \<Rightarrow> if take 1 f = ''s'' then Some 1 else None
      | KDbl \<Rightarrow> if take 4 f = ''.2lf'' \<or> take 4 f = ''.3lf'' then Some 4 else None)"

function fits :: "string \<Rightarrow> kind list \<Rightarrow> bool" where
  "fits [] ks = True"
| "fits (c # f) ks =
     (if c = CHR ''%'' then
        (case ks of
           [] \<Rightarrow> False
         | k # ks \<Rightarrow> (case conversion_length f k of None \<Rightarrow> False | Some n \<Rightarrow> fits (drop n f) ks))
      else fits f ks)"
  by pat_completeness auto
termination by (relation "measure (length \<circ> fst)") auto

lemma conversion_kind:
  "conversion f [] = None"
  "conversion_length f (kind_of a) = None \<Longrightarrow> conversion f (a # args) = None"
  "conversion_length f (kind_of a) = Some n \<Longrightarrow> \<exists>s. conversion f (a # args) = Some (n, s, args)"
  by (cases a; auto simp: conversion_def conversion_length_def split: if_splits)+

lemma c_printf_defined: "c_printf f args \<noteq> None \<longleftrightarrow> fits f (map kind_of args)"
proof (induction f args rule: c_printf.induct)
  case (2 c f args)
  show ?case
  proof (cases "c = CHR ''%''")
    case True
    show ?thesis
    proof (cases args)
      case (Cons a rest)
      show ?thesis
      proof (cases "conversion_length f (kind_of a)")
        case None
        then show ?thesis using True Cons conversion_kind(2) by simp
      next
        case (Some n)
        obtain s where s: "conversion f (a # rest) = Some (n, s, rest)"
          using conversion_kind(3) [OF Some] by blast
        then show ?thesis using True Cons Some "2.IH"(1) by simp
      qed
    qed (use True in \<open>simp add: conversion_kind(1)\<close>)
  qed (use "2.IH"(2) in simp)
qed simp

lemma usage_kinds: "map kind_of usage_args =
    [KInt, KStr, KInt, KDbl, KDbl, KInt, KInt, KStr, KDbl, KDbl, KDbl, KDbl, KStr, KStr]"
  by (simp add: usage_args_def)

lemma usage_fits:
  "fits (text_of p_usage_longstr)
     [KInt, KStr, KInt, KDbl, KDbl, KInt, KInt, KStr, KDbl, KDbl, KDbl, KDbl, KStr, KStr]"
  by code_simp

text \<open>The long options that the usage text names: the word after the dashes of an option's line.\<close>

fun after_dashes :: "string \<Rightarrow> string option" where
  "after_dashes (c # d # s) = (if c = CHR ''-'' \<and> d = CHR ''-'' then Some s else after_dashes (d # s))"
| "after_dashes s = None"

definition usage_long_options :: "string list" where
  "usage_long_options =
     List.map_filter (\<lambda>l. map_option (takeWhile (\<lambda>c. c \<noteq> CHR '' '')) (after_dashes l))
       (filter (\<lambda>l. take 3 l = ''  -'') p_usage_longstr)"

text \<open>\<open>getopt_long\<close> accepts a long option that is the name of an entry or the beginning of one.\<close>

definition known_long_option :: "string \<Rightarrow> bool" where
  "known_long_option w \<longleftrightarrow> (\<exists>(name, _, _) \<in> set longopts. take (length w) name = w)"

lemma usage_long_known:
  "filter known_long_option usage_long_options = [''UDT'']"
  by code_simp

text \<open>
  The usage text can be printed and gives the defaults that the program has, with two
  exceptions, the capacity of the link and the destination file, whose defaults are not the
  ones it names; and of the long options it names the program knows only \<open>--UDT\<close>, because
  the table has the others in another spelling.
\<close>

theorem usage_tells_defaults:
  assumes "probdata_new_and_default raw = Some (r, p)"
  shows "(\<exists>w'. probdata_print_long_usage E stderr w = Some (0, w')) \<and>
    usage_args =
      [AInt (pb_ctrl_port p), AStr ''TCP'', AInt (pb_prof_duration p), ADbl P_DEFAULT_BW,
       ADbl (pb_pgr p), AInt (pb_impeded_limit p), AInt (pb_max_prof_limit p),
       AStr P_DEFAULT_DST_FILE, ADbl (pb_spsa_a_val p), ADbl (pb_spsa_c_val p),
       ADbl (pb_spsa_a_scale p), ADbl (pb_spsa_c_scale p), AStr P_PROGRAM_VERSION,
       AStr p_bug_report_contact] \<and>
    P_DEFAULT_BW \<noteq> pb_bandwidth p \<and> P_DEFAULT_DST_FILE \<noteq> c_str (pb_dst_file p) \<and>
    filter known_long_option usage_long_options = [''UDT'']"
proof (intro conjI)
  have "c_printf (text_of p_usage_longstr) usage_args \<noteq> None"
    by (simp only: c_printf_defined usage_kinds usage_fits)
  then show "\<exists>w'. probdata_print_long_usage E stderr w = Some (0, w')"
    by (auto simp: probdata_print_long_usage_def)
  show "filter known_long_option usage_long_options = [''UDT'']"
    by (rule usage_long_known)
  show "P_DEFAULT_BW \<noteq> pb_bandwidth p"
    using assms by (auto simp: probdata_new_and_default_def bind_eq_Some_conv P_DEFAULT_BW_def uminus_dbl_def
        one_dbl_def simp del: Fin_1_one)
  show "P_DEFAULT_DST_FILE \<noteq> c_str (pb_dst_file p)"
  proof -
    obtain f where "c_memset (pb_dst_file raw) NUL P_FILENAME_LEN = Some f" "pb_dst_file p = f"
      using assms by (auto simp: probdata_new_and_default_def bind_eq_Some_conv)
    then have "pb_dst_file p = replicate 128 NUL @ drop 128 (pb_dst_file raw)"
      by (auto simp: c_memset_def P_FILENAME_LEN_def split: if_splits)
    then have "c_str (pb_dst_file p) = []"
      by (simp add: c_str_def takeWhile_eq_Nil_iff hd_append)
    then show ?thesis by (simp add: P_DEFAULT_DST_FILE_def)
  qed
qed (use assms in \<open>auto simp: probdata_new_and_default_def bind_eq_Some_conv usage_args_def
    P_DEFAULT_PORT_def P_DEFAULT_DURATION_def P_DEFAULT_PGR_def P_DEFAULT_IMPEDED_LIMIT_def
    P_DEFAULT_MAX_PROF_LIMIT_def P_DEFAULT_SPSA_SMALL_A_VAL_def P_DEFAULT_SPSA_SMALL_C_VAL_def
    P_DEFAULT_SCALE_FACTOR_A_VAL_def P_DEFAULT_SCALE_FACTOR_C_VAL_def\<close>)

end
