(* ===== verification/LogWitnesses.thy ===== *)
theory LogWitnesses
  imports DemoRun SetupWitnesses Logging Reports CommandLine Usage
begin

text \<open>
  The properties of the logs, of the end of a run, of the command line and of the usage text
  are applied here.
\<close>

subsection \<open>The logs\<close>

text \<open>The state at the start, and the message that the TCP worker of the server logs.\<close>

definition demo_log :: log_sys where
  "demo_log = \<lparr>ls_owner = None, ls_act = (\<lambda>_. Running), ls_file = [], ls_out = [], ls_calls = []\<rparr>"

definition worker_call :: log_call where
  "worker_call = \<lparr>lm_level = P_HINT, lm_text = ''FASTPROF TCP-BASED SERVER WORKER IS STARTED'',
     lm_file = ''probdata_server.cpp'', lm_line = 501,
     lm_function = ''probdata_server_tcp_fastprof_worker''\<rparr>"

definition user_call :: log_call where
  "user_call = worker_call\<lparr>lm_level := P_PERF, lm_text := ''done''\<rparr>"

lemma demo_log_start: "log_start demo_log"
  by (simp add: log_start_def demo_log_def)

text \<open>Thread 0 is in the middle of a message for the user.\<close>

theorem log_lines_whole_witness:
  "\<exists>s. log_reaches (P_LOG p_log_config False) (\<lambda>t m. m = user_call) (\<lambda>t. t = 7) demo_log s \<and>
    ls_out s = ''done'' \<and> ls_owner s = Some 0 \<and>
    (\<exists>rest. whole_log (P_LOG p_log_config False) StandardOut (ls_calls s) =
       ls_out s @ written StandardOut rest)"
proof -
  let ?macro = "P_LOG p_log_config False" and ?logs = "\<lambda>(t::thread) m. m = user_call"
  let ?step = "log_step ?macro ?logs (\<lambda>t. t = 7)"
  let ?s1 = "demo_log\<lparr>ls_owner := Some 0, ls_act := (ls_act demo_log)(0 := Inside (?macro user_call)),
    ls_calls := ls_calls demo_log @ [user_call]\<rparr>"
  let ?rest = "[Print StandardOut [CHR 0x0A], Flush StandardOut]"
  have m: "?macro user_call = Print StandardOut ''done'' # ?rest"
    by (simp add: P_LOG_default user_call_def)
  have 1: "?step demo_log ?s1"
    by (rule log_step.lock) (simp_all add: demo_log_def)
  have "ls_act ?s1 0 = Inside (Print StandardOut ''done'' # ?rest)" by (simp add: m)
  from log_step.put [OF this] obtain s2 where s2: "?step ?s1 s2"
    "s2 = (log_do (Print StandardOut ''done'') ?s1)\<lparr>ls_act := (ls_act ?s1)(0 := Inside ?rest)\<rparr>" by blast
  then have 2: "?step ?s1 s2" "ls_out s2 = ''done''" "ls_owner s2 = Some 0"
    by (simp_all add: demo_log_def)
  from 1 2(1) have reach: "?step\<^sup>*\<^sup>* demo_log s2" by (meson converse_rtranclp_into_rtranclp r_into_rtranclp)
  from log_lines_whole [OF demo_log_start reach] reach 2(2,3) show ?thesis by blast
qed

theorem log_cancellation_witness:
  "(\<exists>v. log_reaches (P_LOG p_log_config False) (\<lambda>t m. m = worker_call) (\<lambda>t. t = 7) demo_log v \<and>
      ls_owner v = None \<and> ls_calls v = []) \<and>
   (\<exists>u. log_reaches (P_LOG (p_log_config\<lparr>lc_debug_mode := 1\<rparr>) False) (\<lambda>t m. m = worker_call) (\<lambda>t. t = 7) demo_log u \<and>
      ls_owner u = Some 7 \<and> ls_calls u = [worker_call])"
proof -
  let ?logs = "\<lambda>(t::thread) m. m = worker_call" and ?worker = "\<lambda>t::thread. t = 7"
  let ?debug = "p_log_config\<lparr>lc_debug_mode := 1\<rparr>"
  have hint: "\<forall>u n. ?worker u \<and> ?logs u n \<longrightarrow> lm_level n \<noteq> P_PERF"
    by (simp add: worker_call_def level_defs)
  have calls: "ls_calls demo_log = []" by (simp add: demo_log_def)
  have debug: "lc_debug_mode ?debug = 1 \<or> lc_keep_log ?debug = 1 \<and> False" by simp
  have default: "\<not> (lc_debug_mode p_log_config = 1 \<or> lc_keep_log p_log_config = 1 \<and> False)"
    by (simp add: p_log_config_def)
  note log = log_cancellation [OF demo_log_start, of ?worker 7 ?logs worker_call, OF refl refl, where file_open = False]
  from log [where cfg = p_log_config, unfolded if_not_P [OF default]] hint
  have "\<exists>v. log_reaches (P_LOG p_log_config False) ?logs ?worker demo_log v \<and>
      ls_owner v = None \<and> ls_calls v = []"
    using calls by (metis (no_types, lifting) rtranclp.rtrancl_refl)
  moreover from log [where cfg = ?debug, unfolded if_P [OF debug]]
  have "\<exists>u. log_reaches (P_LOG ?debug False) ?logs ?worker demo_log u \<and> ls_owner u = Some 7 \<and> ls_calls u = [worker_call]"
    by (metis (no_types, lifting) rtranclp.rtrancl_refl)
  ultimately show ?thesis by blast
qed

subsection \<open>The end of a run\<close>

lemma demo_clock:
  "sane_tm (fst (e_localtime (demo_env f) w))" "in_int (e_getpid (demo_env f) w)"
  by (simp_all add: demo_env_def sane_tm_def)

definition demo_end :: "net tcp_run" where
  "demo_end = f_tcp_start (spsa_declare demo_ctrl F_ERR_NONE ([], [])) demo_heap demo_prof (Some demo_prof)"

text \<open>A run that has a best profile reports it; one whose local address has no terminator does not.\<close>

theorem run_end_defined_witness:
  "(\<exists>w report. f_tcp_finish (demo_env []) demo_limits demo_end = Some (0, demo_end\<lparr>r_world := w\<rparr>, Some report)) \<and>
   \<not> terminated (replicate 64 (CHR ''9'')) \<and>
   f_tcp_finish (demo_env []) demo_limits
     (demo_end\<lparr>r_ctrl := demo_ctrl\<lparr>fc_local_ip := replicate 64 (CHR ''9'')\<rparr>\<rparr>) = None"
proof (intro conjI)
  have limits: "in_int (l_no_imp_limit demo_limits)" "in_int (l_max_prof_limit demo_limits)"
    by (simp_all add: demo_finish)
  have sel: "r_ctrl demo_end = demo_ctrl" "r_prof_max demo_end = Some demo_prof"
    "r_heap demo_end (tcp_prof demo_prof) \<noteq> None"
    by (simp_all add: demo_end_def f_tcp_start_def search.defs tcp_run.defs demo_heap_def demo_prof_def)
  show "\<exists>w report. f_tcp_finish (demo_env []) demo_limits demo_end = Some (0, demo_end\<lparr>r_world := w\<rparr>, Some report)"
    using run_end_defined [where E = "demo_env []" and s = "demo_end", OF demo_clock limits demo_finish(4), THEN conjunct1] sel by (auto split: option.splits)
  show long: "\<not> terminated (replicate 64 (CHR ''9''))" by (simp add: terminated_def NUL_def)
  let ?s = "demo_end\<lparr>r_ctrl := demo_ctrl\<lparr>fc_local_ip := replicate 64 (CHR ''9'')\<rparr>\<rparr>"
  have "f_tcp_report ?s = None" using long by (simp add: f_tcp_report_undefined)
  then show "f_tcp_finish (demo_env []) demo_limits ?s = None"
    using run_end_defined [where E = "demo_env []" and s = "?s", OF demo_clock limits demo_finish(4), THEN conjunct1] by (auto split: option.splits)
qed

subsection \<open>The command line and the texts\<close>

lemma demo_defaults:
  "\<exists>p. probdata_new_and_default (demo_prob P_UNKNOWN) = Some (0, p) \<and>
    length (pb_remote_ip p) = 64 \<and> pb_role p = P_UNKNOWN \<and> pb_control p = demo_ctrl \<and> strings_ok p"
proof -
  have len: "length (pb_local_ip (demo_prob P_UNKNOWN)) = P_HOSTADDR_LEN"
    "length (pb_remote_ip (demo_prob P_UNKNOWN)) = P_HOSTADDR_LEN"
    "length (pb_src_file (demo_prob P_UNKNOWN)) = P_FILENAME_LEN"
    "length (pb_dst_file (demo_prob P_UNKNOWN)) = P_FILENAME_LEN"
    "length (pb_id (demo_prob P_UNKNOWN)) = P_IDPKT_SIZE"
    by (simp_all add: demo_prob_def P_HOSTADDR_LEN_def P_FILENAME_LEN_def P_IDPKT_SIZE_def)
  obtain p where p: "probdata_new_and_default (demo_prob P_UNKNOWN) = Some (0, p)"
    "length (pb_remote_ip p) = 64" "pb_role p = P_UNKNOWN" "pb_control p = demo_ctrl"
    using len by (simp add: probdata_new_and_default_def c_memset_def) (simp add: P_HOSTADDR_LEN_def)
  then show ?thesis using new_and_default_strings [OF p(1) len] by blast
qed

theorem cmd_parse_settings_witness:
  "\<exists>t. probdata_cmd_parse demo_options demo_started = Some (Parsed 0 t) \<and>
    sg_do_udt_only (settings_of (ps_prob t)) = 1 \<and>
    sg_remote_ip (settings_of (ps_prob t)) = c_str (c_lit ''10.0.0.1'')"
proof -
  have p: "length (pb_remote_ip (demo_prob P_UNKNOWN)) = 64" "pb_role (demo_prob P_UNKNOWN) = P_UNKNOWN"
    "demo_started\<lparr>ps_prob := demo_prob P_UNKNOWN\<rparr> = demo_started"
    by (simp_all add: demo_prob_def demo_started_def demo_state_def)
  obtain t where t: "probdata_cmd_parse demo_options demo_started = Some (Parsed 0 t)"
    using demo_parse [OF p(1,2)] unfolding p(3) by blast
  from cmd_parse_settings [OF t] t show ?thesis
    by (simp add: configured_def demo_options_def option_value_Cons)
qed


end
