(* ===== verification/ServerThreads.thy ===== *)
theory ServerThreads
  imports Workers
begin

text \<open>
  The three threads of the server as one transition system: the thread of \<open>main\<close>, which polls
  the control channel and handles its packets, and the workers it starts, cancels and joins.
  They share the state of the program. A step is what a thread does between two points where
  it can have to wait; the steps of the threads follow each other in any order.

  The sequential model of \<open>Server\<close> leaves starting, cancelling and joining to the environment.
  Here they have their meaning: a thread is joined when it has ended, a cancelled worker leaves
  through its clean-up handler, and cancelling or joining a thread that is there no more is
  undefined.
\<close>

subsection \<open>Where the threads are\<close>

text \<open>
  The main thread: at the head of its loop, with a packet just read, in the middle of one of
  the three packets that concern the workers, in the clean-up, or back from
  \<open>probdata_server\<close>.
\<close>

datatype main_pc =
    Polling
  | Handling int
  | AskedTcp
  | JoinCancelled thread
  | AskedUdt
  | StartUdt
  | JoinUdt
  | JoinTcp
  | LastReply
  | Leaving
  | Returned int

text \<open>
  A worker: the TCP worker at \<open>pthread_testcancel\<close>, in a run of \<open>libiperf\<close>, after its loop
  and in its clean-up handler, with the errors it has counted; the UDT worker at the head of
  its loop, with its two counters; a thread that has ended and was not joined.
\<close>

datatype worker_pc =
    TcpLoop int
  | TcpServing int
  | TcpLeaving
  | TcpCleaning
  | UdtLoop int int
  | Ended

record 'w server_sys =
  sv_state :: "'w pstate"
  sv_main :: main_pc
  sv_threads :: "thread \<rightharpoonup> worker_pc"
  sv_pending :: "thread set"
  sv_packets :: "int list"

text \<open>\<open>sv_pending\<close>: the threads that were cancelled; \<open>sv_packets\<close>: the packets read so far.\<close>

subsection \<open>The workers\<close>

definition put_worker :: "thread \<Rightarrow> worker_pc \<Rightarrow> 'w pstate \<Rightarrow> 'w server_sys \<Rightarrow> 'w server_sys" where
  "put_worker t pc s S = S\<lparr>sv_state := s, sv_threads := (sv_threads S)(t \<mapsto> pc)\<rparr>"

definition worker_next :: "'w env \<Rightarrow> thread \<Rightarrow> worker_pc \<Rightarrow> 'w server_sys \<Rightarrow> 'w server_sys option" where
  "worker_next E t pc S =
     (let s = sv_state S
      in case pc of
        TcpLoop n \<Rightarrow>
          Some (put_worker t (if t \<in> sv_pending S then TcpCleaning else TcpServing n) s S)
      | TcpServing n \<Rightarrow> do {
          c \<leftarrow> tcp_worker_body E (\<lambda>_. False) \<lparr>tw_err_cnt = n, tw_state = s\<rparr>;
          Some (put_worker t (case c of Next v \<Rightarrow> TcpLoop (tw_err_cnt v) | Break _ \<Rightarrow> TcpLeaving
                                      | Return _ _ \<Rightarrow> TcpCleaning) (tw_state (ctl_state c)) S)
        }
      | TcpLeaving \<Rightarrow> do {
          (_, s) \<leftarrow> probdata_server_tcp_prof_delete E s;
          s \<leftarrow> probdata_server_tcp_fastprof_cleanup_handler E s;
          Some (put_worker t Ended s S)
        }
      | TcpCleaning \<Rightarrow> do {
          s \<leftarrow> probdata_server_tcp_fastprof_cleanup_handler E s;
          Some (put_worker t Ended s S)
        }
      | UdtLoop e k \<Rightarrow> do {
          c \<leftarrow> udt_worker_body E id \<lparr>uw_err_cnt = e, uw_ok_cnt = k, uw_state = s\<rparr>;
          Some (put_worker t (case c of Next v \<Rightarrow> UdtLoop (uw_err_cnt v) (uw_ok_cnt v) | _ \<Rightarrow> Ended)
                  (uw_state (ctl_state c)) S)
        }
      | Ended \<Rightarrow> Some S)"

subsection \<open>The main thread\<close>

definition main_goes :: "main_pc \<Rightarrow> 'w pstate \<Rightarrow> 'w server_sys \<Rightarrow> 'w server_sys" where
  "main_goes pc s S = S\<lparr>sv_main := pc, sv_state := s\<rparr>"

text \<open>A failing handler makes \<open>probdata_server\<close> return -1 without the clean-up.\<close>

definition main_fails :: "'w pstate \<Rightarrow> 'w server_sys \<Rightarrow> 'w server_sys" where
  "main_fails s = main_goes (Returned (- 1)) (set_errno P_ERR_UNKNOWN s)"

definition main_replies :: "'w env \<Rightarrow> int \<Rightarrow> main_pc \<Rightarrow> 'w server_sys \<Rightarrow> 'w server_sys option" where
  "main_replies E packet pc S = do {
     (r, s) \<leftarrow> server_reply E packet (sv_state S);
     Some (if r < 0 then main_fails s S else main_goes pc s S)
   }"

definition main_starts ::
    "(int \<times> 'w pstate) option \<Rightarrow> ('w pstate \<Rightarrow> thread option) \<Rightarrow> worker_pc \<Rightarrow> main_pc \<Rightarrow>
     'w server_sys \<Rightarrow> 'w server_sys option" where
  "main_starts run worker wpc pc S = do {
     (r, s) \<leftarrow> run;
     if r < 0 then Some (main_fails s S)
     else do {
       t \<leftarrow> worker s;
       Some ((main_goes pc s S)\<lparr>sv_threads := (sv_threads S)(t \<mapsto> wpc)\<rparr>)
     }
   }"

definition main_joins :: "thread option \<Rightarrow> main_pc \<Rightarrow> 'w server_sys \<Rightarrow> 'w server_sys option" where
  "main_joins worker pc S =
     (case worker of
        None \<Rightarrow> Some (main_goes pc (sv_state S) S)
      | Some t \<Rightarrow>
          if sv_threads S t = None then None
          else Some ((main_goes pc (sv_state S) S)
                 \<lparr>sv_threads := (sv_threads S)(t := None), sv_pending := sv_pending S - {t}\<rparr>))"

definition main_next :: "'w env \<Rightarrow> 'w server_sys \<Rightarrow> 'w server_sys option" where
  "main_next E S =
     (let s = sv_state S
      in case sv_main S of
        Polling \<Rightarrow>
          if server_done (pb_status (ps_prob s)) then Some (main_goes Leaving s S)
          else do {
            (ret, s) \<leftarrow> probdata_server_poll_ctrl_channel E s;
            Some (if ret < 0 then main_fails s S
                  else if ret = 0 then main_goes Polling s S
                  else (main_goes (Handling (pb_status (ps_prob s))) s S)
                         \<lparr>sv_packets := sv_packets S @ [pb_status (ps_prob s)]\<rparr>)
          }
      | Handling packet \<Rightarrow>
          if packet = P_RUN_M2M_TCP then
            main_starts (probdata_server_tcp_fastprof_run E s) (\<lambda>s. pb_tcp_worker (ps_prob s))
              (TcpLoop 0) AskedTcp S
          else if packet = P_RUN_M2M_UDT then
            (if 0 < pb_do_udt_only (ps_prob s) then Some (main_goes AskedUdt s S)
             else do {
               t \<leftarrow> pb_tcp_worker (ps_prob s);
               if sv_threads S t = None then None
               else Some ((main_goes (JoinCancelled t)
                             (s\<lparr>ps_world := snd (e_thread_cancel E t (ps_world s))\<rparr>) S)
                           \<lparr>sv_pending := insert t (sv_pending S)\<rparr>)
             })
          else if packet = P_PROGRAM_DONE then Some (main_goes JoinUdt s S)
          else do {
            (r, s) \<leftarrow> probdata_server_proc_ctrl_packet E s;
            Some (if r < 0 then main_fails s S else main_goes Polling s S)
          }
      | AskedTcp \<Rightarrow> main_replies E P_RUN_M2M_TCP Polling S
      | JoinCancelled t \<Rightarrow> main_joins (Some t) AskedUdt S
      | AskedUdt \<Rightarrow> main_replies E P_RUN_M2M_UDT StartUdt S
      | StartUdt \<Rightarrow>
          main_starts (probdata_server_udt_fastprof_run E s) (\<lambda>s. pb_udt_worker (ps_prob s))
            (UdtLoop 0 0) Polling S
      | JoinUdt \<Rightarrow> main_joins (pb_udt_worker (ps_prob s)) JoinTcp S
      | JoinTcp \<Rightarrow> main_joins (pb_tcp_worker (ps_prob s)) LastReply S
      | LastReply \<Rightarrow> main_replies E P_PROGRAM_DONE Polling S
      | Leaving \<Rightarrow> do {
          (r, s) \<leftarrow> probdata_server_clean_up E s;
          Some (if r < 0 then main_goes (Returned (- 1)) s S
                else main_goes (Returned 0) (s\<lparr>ps_world := snd (e_system E ''date'' (ps_world s))\<rparr>) S)
        }
      | Returned r \<Rightarrow> Some S)"

text \<open>The thread that the main thread waits for, and whether it has to go on waiting.\<close>

definition waits_for :: "'w server_sys \<Rightarrow> thread option" where
  "waits_for S =
     (case sv_main S of
        JoinCancelled t \<Rightarrow> Some t
      | JoinUdt \<Rightarrow> pb_udt_worker (ps_prob (sv_state S))
      | JoinTcp \<Rightarrow> pb_tcp_worker (ps_prob (sv_state S))
      | _ \<Rightarrow> None)"

definition main_ready :: "'w server_sys \<Rightarrow> bool" where
  "main_ready S \<longleftrightarrow> (\<forall>r. sv_main S \<noteq> Returned r) \<and>
     (case waits_for S of None \<Rightarrow> True | Some t \<Rightarrow> sv_threads S t \<in> {None, Some Ended})"

subsection \<open>The steps\<close>

text \<open>
  The thread that a step of the main thread has started. It has an identifier that no thread
  has which is still there; this is what \<open>pthread_create\<close> promises.
\<close>

definition started :: "'w server_sys \<Rightarrow> 'w server_sys \<Rightarrow> thread option" where
  "started S S' =
     (if sv_main S = Handling P_RUN_M2M_TCP \<and> sv_main S' = AskedTcp then pb_tcp_worker (ps_prob (sv_state S'))
      else if sv_main S = StartUdt \<and> sv_main S' = Polling then pb_udt_worker (ps_prob (sv_state S'))
      else None)"

definition fresh_thread :: "'w server_sys \<Rightarrow> 'w server_sys option \<Rightarrow> bool" where
  "fresh_thread S R =
     (case R of None \<Rightarrow> True
      | Some S' \<Rightarrow> (case started S S' of None \<Rightarrow> True | Some t \<Rightarrow> sv_threads S t = None))"

text \<open>
  The step of a system; \<open>None\<close> is undefined behaviour. A worker that is cancelled in a run of
  \<open>libiperf\<close> leaves it with any test object and any world.
\<close>

inductive server_step :: "'w env \<Rightarrow> 'w server_sys \<Rightarrow> 'w server_sys option \<Rightarrow> bool" for E where
  main: "server_step E S (main_next E S)"
    if "main_ready S" "fresh_thread S (main_next E S)"
| worker: "server_step E S (worker_next E t pc S)"
    if "sv_threads S t = Some pc" "pc \<noteq> Ended"
| cancelled: "server_step E S (Some (put_worker t TcpCleaning
      ((sv_state S)\<lparr>ps_heap := (ps_heap (sv_state S))(tcp_prof prof \<mapsto> test), ps_world := w\<rparr>) S))"
    if "sv_threads S t = Some (TcpServing n)" "t \<in> sv_pending S"
      "pb_tcp_prof (ps_prob (sv_state S)) = Some prof"

inductive server_reaches :: "'w env \<Rightarrow> 'w server_sys \<Rightarrow> 'w server_sys \<Rightarrow> bool" for E S where
  start: "server_reaches E S S"
| step: "server_reaches E S T \<Longrightarrow> server_step E T (Some U) \<Longrightarrow> server_reaches E S U"

text \<open>The system when the main loop begins.\<close>

definition server_start :: "'w server_sys \<Rightarrow> bool" where
  "server_start S \<longleftrightarrow> sv_main S = Polling \<and> sv_threads S = Map.empty \<and> sv_pending S = {} \<and>
     sv_packets S = [] \<and> pb_tcp_worker (ps_prob (sv_state S)) = None \<and>
     pb_udt_worker (ps_prob (sv_state S)) = None"

end
