(* ===== verification/ThreadProtocol.thy ===== *)
theory ThreadProtocol
  imports ServerThreads "HOL-Library.Sublist"
begin

text \<open>
  The protocol of the server's threads as an abstract specification: what is left of the
  system of \<open>ServerThreads\<close> when the state of the program is forgotten but for the three
  things that decide about the workers. The system refines it, and the properties of the
  workers are invariants of it.
\<close>

subsection \<open>The specification\<close>

record threads_view =
  tv_main :: main_pc
  tv_udt_only :: bool
  tv_tcp :: "thread option"
  tv_udt :: "thread option"
  tv_threads :: "thread \<rightharpoonup> worker_pc"
  tv_pending :: "thread set"
  tv_packets :: "int list"

definition view :: "'w server_sys \<Rightarrow> threads_view" where
  "view S = \<lparr>tv_main = sv_main S, tv_udt_only = (0 < pb_do_udt_only (ps_prob (sv_state S))),
     tv_tcp = pb_tcp_worker (ps_prob (sv_state S)), tv_udt = pb_udt_worker (ps_prob (sv_state S)),
     tv_threads = sv_threads S, tv_pending = sv_pending S, tv_packets = sv_packets S\<rparr>"

text \<open>A worker; one that has left its loop by itself goes nowhere.\<close>

inductive worker_moves :: "bool \<Rightarrow> worker_pc \<Rightarrow> worker_pc \<Rightarrow> bool" where
  "worker_moves False (TcpLoop n) (TcpServing n)"
| "worker_moves True (TcpLoop n) TcpCleaning"
| "worker_moves b (TcpServing n) (TcpLoop m)"
| "worker_moves b (TcpServing n) TcpLeaving"
| "worker_moves True (TcpServing n) TcpCleaning"
| "worker_moves b TcpCleaning Ended"
| "worker_moves b (UdtLoop e k) (UdtLoop e' k')"
| "worker_moves b (UdtLoop e k) Ended"

inductive_cases worker_movesE: "worker_moves b pc pc'"

text \<open>The packets that do not concern the workers, and where the main thread can fail.\<close>

definition plain_packet :: "int \<Rightarrow> bool" where
  "plain_packet p \<longleftrightarrow> p \<notin> {P_RUN_M2M_TCP, P_RUN_M2M_UDT, P_PROGRAM_DONE}"

definition can_fail :: "main_pc \<Rightarrow> bool" where
  "can_fail pc \<longleftrightarrow> pc \<in> {Polling, AskedTcp, AskedUdt, StartUdt, LastReply} \<or>
     (\<exists>p. pc = Handling p \<and> p \<notin> {P_RUN_M2M_UDT, P_PROGRAM_DONE})"

inductive view_step :: "threads_view \<Rightarrow> threads_view \<Rightarrow> bool" where
  idle: "view_step V V"
| packet: "view_step V (V\<lparr>tv_main := Handling p, tv_packets := tv_packets V @ [p]\<rparr>)"
    if "tv_main V = Polling"
| failed: "view_step V (V\<lparr>tv_main := Returned (- 1), tv_udt_only := b, tv_tcp := t, tv_udt := u\<rparr>)"
    if "can_fail (tv_main V)" "b = tv_udt_only V \<or> tv_main V = Handling P_TWOWAY_HANDSHAKE"
| plain: "view_step V (V\<lparr>tv_main := Polling, tv_udt_only := b\<rparr>)"
    if "tv_main V = Handling p" "plain_packet p" "b = tv_udt_only V \<or> p = P_TWOWAY_HANDSHAKE"
| start_tcp: "view_step V (V\<lparr>tv_main := AskedTcp, tv_tcp := Some t, tv_threads := (tv_threads V)(t \<mapsto> TcpLoop 0)\<rparr>)"
    if "tv_main V = Handling P_RUN_M2M_TCP" "tv_threads V t = None"
| asked_tcp: "view_step V (V\<lparr>tv_main := Polling\<rparr>)"
    if "tv_main V = AskedTcp"
| no_cancel: "view_step V (V\<lparr>tv_main := AskedUdt\<rparr>)"
    if "tv_main V = Handling P_RUN_M2M_UDT" "tv_udt_only V"
| cancel: "view_step V (V\<lparr>tv_main := JoinCancelled t, tv_pending := insert t (tv_pending V)\<rparr>)"
    if "tv_main V = Handling P_RUN_M2M_UDT" "\<not> tv_udt_only V" "tv_tcp V = Some t" "tv_threads V t \<noteq> None"
| join: "view_step V (V\<lparr>tv_main := AskedUdt, tv_threads := (tv_threads V)(t := None), tv_pending := tv_pending V - {t}\<rparr>)"
    if "tv_main V = JoinCancelled t" "tv_threads V t = Some Ended"
| asked_udt: "view_step V (V\<lparr>tv_main := StartUdt\<rparr>)"
    if "tv_main V = AskedUdt"
| start_udt: "view_step V (V\<lparr>tv_main := Polling, tv_udt := Some t, tv_threads := (tv_threads V)(t \<mapsto> UdtLoop 0 0)\<rparr>)"
    if "tv_main V = StartUdt" "tv_threads V t = None"
| asked_done: "view_step V (V\<lparr>tv_main := JoinUdt\<rparr>)"
    if "tv_main V = Handling P_PROGRAM_DONE"
| no_udt: "view_step V (V\<lparr>tv_main := JoinTcp\<rparr>)"
    if "tv_main V = JoinUdt" "tv_udt V = None"
| join_udt: "view_step V (V\<lparr>tv_main := JoinTcp, tv_threads := (tv_threads V)(t := None), tv_pending := tv_pending V - {t}\<rparr>)"
    if "tv_main V = JoinUdt" "tv_udt V = Some t" "tv_threads V t = Some Ended"
| no_tcp: "view_step V (V\<lparr>tv_main := LastReply\<rparr>)"
    if "tv_main V = JoinTcp" "tv_tcp V = None"
| join_tcp: "view_step V (V\<lparr>tv_main := LastReply, tv_threads := (tv_threads V)(t := None), tv_pending := tv_pending V - {t}\<rparr>)"
    if "tv_main V = JoinTcp" "tv_tcp V = Some t" "tv_threads V t = Some Ended"
| replied: "view_step V (V\<lparr>tv_main := Polling\<rparr>)"
    if "tv_main V = LastReply"
| leave: "view_step V (V\<lparr>tv_main := Leaving\<rparr>)"
    if "tv_main V = Polling"
| left: "view_step V (V\<lparr>tv_main := Returned 0, tv_tcp := None, tv_udt := None\<rparr>)"
    if "tv_main V = Leaving"
| worker: "view_step V (V\<lparr>tv_threads := (tv_threads V)(t \<mapsto> pc')\<rparr>)"
    if "tv_threads V t = Some pc" "worker_moves (t \<in> tv_pending V) pc pc'"

definition view_start :: "threads_view \<Rightarrow> bool" where
  "view_start V \<longleftrightarrow> tv_main V = Polling \<and> tv_threads V = Map.empty \<and> tv_pending V = {} \<and>
     tv_packets V = [] \<and> tv_tcp V = None \<and> tv_udt V = None"

subsection \<open>The packets come in the order of the protocol\<close>

definition requests :: "flow \<Rightarrow> bool \<Rightarrow> int list" where
  "requests flow straight = concat (map (\<lambda>m. case m of ToServer p \<Rightarrow> [p] | ToClient _ \<Rightarrow> []) (conversation flow straight))"

definition on_course :: "int list \<Rightarrow> bool" where
  "on_course ps \<longleftrightarrow> (\<exists>flow straight. prefix ps (requests flow straight))"

lemmas request_defs = requests_def conversation_def round_trip_def

lemma requests_cases:
  "requests flow straight \<in> {
     [P_TWOWAY_HANDSHAKE, P_RUN_D2D_DB, P_RUN_D2D_TCP, P_RUN_D2D_UDT, P_PROGRAM_DONE],
     [P_TWOWAY_HANDSHAKE, P_CLIENT_TERMINATE],
     [P_TWOWAY_HANDSHAKE, P_RUN_M2M_DB, P_RUN_M2M_UDT, P_PROGRAM_DONE],
     [P_TWOWAY_HANDSHAKE, P_RUN_M2M_DB, P_RUN_M2M_TCP, P_RUN_M2M_UDT, P_PROGRAM_DONE]}"
  by (cases flow; cases straight) (simp_all add: request_defs)

lemma on_course_snoc:
  assumes "on_course (ps @ [p])"
  shows "on_course ps" "p \<notin> set ps" "P_PROGRAM_DONE \<notin> set ps" "p = P_TWOWAY_HANDSHAKE \<longrightarrow> ps = []"
    "P_RUN_M2M_UDT \<in> set ps \<longrightarrow> p = P_PROGRAM_DONE"
    "P_RUN_M2M_TCP \<in> set ps \<longrightarrow> p \<in> {P_RUN_M2M_UDT, P_PROGRAM_DONE}"
    "P_RUN_M2M_TCP \<in> set ps \<longrightarrow> p = P_PROGRAM_DONE \<longrightarrow> P_RUN_M2M_UDT \<in> set ps"
proof -
  obtain flow straight where pre: "prefix (ps @ [p]) (requests flow straight)"
    using assms by (auto simp: on_course_def)
  then show "on_course ps" by (auto simp: on_course_def dest: append_prefixD)
  have "p \<notin> set ps \<and> P_PROGRAM_DONE \<notin> set ps \<and> (p = P_TWOWAY_HANDSHAKE \<longrightarrow> ps = []) \<and>
    (P_RUN_M2M_UDT \<in> set ps \<longrightarrow> p = P_PROGRAM_DONE) \<and>
    (P_RUN_M2M_TCP \<in> set ps \<longrightarrow> p \<in> {P_RUN_M2M_UDT, P_PROGRAM_DONE}) \<and>
    (P_RUN_M2M_TCP \<in> set ps \<longrightarrow> p = P_PROGRAM_DONE \<longrightarrow> P_RUN_M2M_UDT \<in> set ps)"
    using pre requests_cases [of flow straight]
    by (auto simp: prefix_Cons append_eq_Cons_conv Cons_eq_append_conv status_defs)
  then show "p \<notin> set ps" "P_PROGRAM_DONE \<notin> set ps" "p = P_TWOWAY_HANDSHAKE \<longrightarrow> ps = []"
    "P_RUN_M2M_UDT \<in> set ps \<longrightarrow> p = P_PROGRAM_DONE"
    "P_RUN_M2M_TCP \<in> set ps \<longrightarrow> p \<in> {P_RUN_M2M_UDT, P_PROGRAM_DONE}"
    "P_RUN_M2M_TCP \<in> set ps \<longrightarrow> p = P_PROGRAM_DONE \<longrightarrow> P_RUN_M2M_UDT \<in> set ps"
    by blast+
qed

subsection \<open>What the handlers do to the workers\<close>

definition same_workers :: "'w pstate \<Rightarrow> 'w pstate \<Rightarrow> bool" where
  "same_workers s t \<longleftrightarrow> pb_tcp_worker (ps_prob t) = pb_tcp_worker (ps_prob s) \<and>
     pb_udt_worker (ps_prob t) = pb_udt_worker (ps_prob s) \<and>
     pb_do_udt_only (ps_prob t) = pb_do_udt_only (ps_prob s)"

lemma same_workers_prob: "ps_prob t = ps_prob s \<Longrightarrow> same_workers s t"
  by (simp add: same_workers_def)

lemma set_errno_prob [simp]: "ps_prob (set_errno e s) = ps_prob s"
  by (simp add: set_errno_def)

lemma poll_workers:
  assumes "probdata_server_poll_ctrl_channel E s = Some (r, t)"
  shows "same_workers s t"
proof -
  have "same_workers s t" if "poll_ctrl_channel E a b s = Some (r, t)" for a b r t
    using that unfolding poll_ctrl_channel_def
    by (auto simp: recv_bytes_def upd_prob_def same_workers_def bind_eq_Some_conv Let_def split: prod.splits
        if_split_asm option.split_asm list.split_asm)
  then show ?thesis using assms
    by (auto simp: probdata_server_poll_ctrl_channel_def same_workers_def upd_prob_def bind_eq_Some_conv)
qed

lemma tcp_run_workers:
  assumes "probdata_server_tcp_fastprof_run E s = Some (r, t)"
  shows "pb_udt_worker (ps_prob t) = pb_udt_worker (ps_prob s) \<and>
    pb_do_udt_only (ps_prob t) = pb_do_udt_only (ps_prob s)"
  using assms unfolding probdata_server_tcp_fastprof_run_def
  by (auto elim!: check_cases simp: probdata_server_tcp_prof_new_def probdata_server_tcp_prof_default_def
      probdata_server_tcp_prof_init_def start_tcp_worker_def upd_prob_def Let_def bind_eq_Some_conv
      case_prod_beta split: if_splits)

lemma udt_run_workers:
  assumes "probdata_server_udt_fastprof_run E s = Some (r, t)"
  shows "pb_tcp_worker (ps_prob t) = pb_tcp_worker (ps_prob s) \<and>
    pb_do_udt_only (ps_prob t) = pb_do_udt_only (ps_prob s)"
  using assms unfolding probdata_server_udt_fastprof_run_def
  by (auto elim!: check_cases simp: probdata_server_udt_prof_new_def probdata_server_udt_prof_default_def
      probdata_server_udt_prof_init_def start_udt_worker_def upd_prob_def Let_def bind_eq_Some_conv
      case_prod_beta split: if_splits)

lemma exchange_workers:
  assumes "probdata_ctrl_chan_ctrlmsg_exchange E s = Some (r, t)"
  shows "pb_tcp_worker (ps_prob t) = pb_tcp_worker (ps_prob s) \<and>
    pb_udt_worker (ps_prob t) = pb_udt_worker (ps_prob s)"
  using assms unfolding probdata_ctrl_chan_ctrlmsg_exchange_def
  by (auto elim!: check_cases simp: probdata_ctrl_chan_ctrlmsg_exchange_cli_def
      probdata_ctrl_chan_ctrlmsg_exchange_srv_def send_bytes_def recv_bytes_def merge_max_buf_def upd_prob_def
      Let_def bind_eq_Some_conv split: if_splits)

lemma plain_proc_workers:
  assumes "probdata_server_proc_ctrl_packet E s = Some (r, t)" "plain_packet (pb_status (ps_prob s))"
  shows "pb_tcp_worker (ps_prob t) = pb_tcp_worker (ps_prob s) \<and>
    pb_udt_worker (ps_prob t) = pb_udt_worker (ps_prob s) \<and>
    (pb_status (ps_prob s) \<noteq> P_TWOWAY_HANDSHAKE \<longrightarrow> pb_do_udt_only (ps_prob t) = pb_do_udt_only (ps_prob s))"
proof (cases "pb_status (ps_prob s) = P_TWOWAY_HANDSHAKE")
  case True
  then have "check (server_reply E P_TWOWAY_HANDSHAKE s) id
             (\<lambda>s. check (probdata_ctrl_chan_ctrlmsg_exchange E s) id (\<lambda>s. Some (0, s))) = Some (r, t)"
    using assms(1) by (simp add: server_proc_unfold)
  then show ?thesis using True
    by (auto elim!: check_cases dest!: server_reply_prob exchange_workers)
next
  case False
  then have "ps_prob t = ps_prob s"
    using assms by (auto simp: server_proc_unfold plain_packet_def Let_def probdata_server_dw_xdd_tcp_def
        probdata_server_dw_xdd_udt_def split: if_splits dest: server_reply_prob)
  then show ?thesis by simp
qed

lemma clean_up_workers:
  "probdata_server_clean_up E s = Some (r, t) \<Longrightarrow> r = 0 \<and> pb_tcp_worker (ps_prob t) = None \<and>
    pb_udt_worker (ps_prob t) = None \<and> pb_do_udt_only (ps_prob t) = pb_do_udt_only (ps_prob s)"
  by (auto simp: probdata_server_clean_up_def forget_strings_def bind_eq_Some_conv split: if_splits)

lemma worker_parts_prob:
  "probdata_server_tcp_prof_reset E s = Some (r, t) \<Longrightarrow> ps_prob t = ps_prob s"
  "probdata_server_tcp_prof_delete E s = Some (r, t) \<Longrightarrow> ps_prob t = ps_prob s"
  "probdata_server_udt_prof_reset E s = Some (r, t) \<Longrightarrow> ps_prob t = ps_prob s"
  by (auto simp: probdata_server_tcp_prof_reset_def probdata_server_tcp_prof_delete_def
      probdata_server_udt_prof_reset_def bind_eq_Some_conv case_prod_beta)

lemma cleanup_handler_prob:
  "probdata_server_tcp_fastprof_cleanup_handler E s = Some t \<Longrightarrow> ps_prob t = ps_prob s"
  by (auto simp: probdata_server_tcp_fastprof_cleanup_handler_def bind_eq_Some_conv dest!: worker_parts_prob)

lemma tcp_body_runs:
  assumes "tcp_worker_body E (\<lambda>_. False) v = Some c"
  shows "ps_prob (tw_state (ctl_state c)) = ps_prob (tw_state v) \<and> (\<forall>r u. c \<noteq> Return r u)"
  using assms
  by (auto simp: tcp_worker_body_def Let_def bind_eq_Some_conv case_prod_beta split: if_splits
      dest!: worker_parts_prob)

lemma udt_body_prob:
  assumes "udt_worker_body E id v = Some c"
  shows "ps_prob (uw_state (ctl_state c)) = ps_prob (uw_state v)"
  using assms
  by (auto simp: udt_worker_body_def Let_def bind_eq_Some_conv case_prod_beta split: if_splits
      dest!: worker_parts_prob)

text \<open>Deleting the test object and cleaning up after it is undefined.\<close>

lemma deleted_twice:
  assumes "probdata_server_tcp_prof_delete E s = Some (r, u)"
  shows "probdata_server_tcp_fastprof_cleanup_handler E u = None"
proof -
  obtain prof where prof: "pb_tcp_prof (ps_prob s) = Some prof"
    using assms by (auto simp: probdata_server_tcp_prof_delete_def bind_eq_Some_conv)
  have "probdata_server_tcp_prof_reset E u = None"
    using tcp_worker_deleted [OF assms prof]
    by (simp add: probdata_server_tcp_prof_reset_def f_tcp_prof_reset_def Let_def)
  then show ?thesis by (simp add: probdata_server_tcp_fastprof_cleanup_handler_def)
qed

subsection \<open>The system refines the specification\<close>

lemma view_sel [simp]:
  "tv_main (view S) = sv_main S" "tv_threads (view S) = sv_threads S" "tv_pending (view S) = sv_pending S"
  "tv_packets (view S) = sv_packets S" "tv_tcp (view S) = pb_tcp_worker (ps_prob (sv_state S))"
  "tv_udt (view S) = pb_udt_worker (ps_prob (sv_state S))"
  "tv_udt_only (view S) = (0 < pb_do_udt_only (ps_prob (sv_state S)))"
  by (simp_all add: view_def)

lemma view_eqI:
  assumes "sv_main T = tv_main V" "sv_threads T = tv_threads V" "sv_pending T = tv_pending V"
    "sv_packets T = tv_packets V" "pb_tcp_worker (ps_prob (sv_state T)) = tv_tcp V"
    "pb_udt_worker (ps_prob (sv_state T)) = tv_udt V"
    "(0 < pb_do_udt_only (ps_prob (sv_state T))) = tv_udt_only V"
  shows "view T = V"
  using assms by (simp add: view_def)

text \<open>The packet that is handled is the status, also while the UDT worker is joined.\<close>

definition handles_status :: "'w server_sys \<Rightarrow> bool" where
  "handles_status S \<longleftrightarrow> (\<forall>p. sv_main S = Handling p \<longrightarrow> pb_status (ps_prob (sv_state S)) = p) \<and>
     (sv_main S = JoinUdt \<longrightarrow> pb_status (ps_prob (sv_state S)) = P_PROGRAM_DONE)"

lemma main_goes_sel [simp]:
  "sv_main (main_goes pc s S) = pc" "sv_state (main_goes pc s S) = s"
  "sv_threads (main_goes pc s S) = sv_threads S" "sv_pending (main_goes pc s S) = sv_pending S"
  "sv_packets (main_goes pc s S) = sv_packets S"
  by (simp_all add: main_goes_def)

lemma fails_step:
  assumes "can_fail (sv_main S)"
    and "pb_do_udt_only (ps_prob s) = pb_do_udt_only (ps_prob (sv_state S)) \<or> sv_main S = Handling P_TWOWAY_HANDSHAKE"
  shows "view_step (view S) (view (main_fails s S))"
proof -
  have "view (main_fails s S) = (view S)\<lparr>tv_main := Returned (- 1), tv_udt_only := 0 < pb_do_udt_only (ps_prob s),
      tv_tcp := pb_tcp_worker (ps_prob s), tv_udt := pb_udt_worker (ps_prob s)\<rparr>"
    by (rule view_eqI) (simp_all add: main_fails_def)
  then show ?thesis using assms by (auto intro!: view_step.failed)
qed

lemma goes_step:
  assumes "view_step (view S) ((view S)\<lparr>tv_main := pc\<rparr>)" "ps_prob s = ps_prob (sv_state S)"
  shows "view_step (view S) (view (main_goes pc s S))"
proof -
  have eq: "view (main_goes pc s S) = (view S)\<lparr>tv_main := pc\<rparr>" by (rule view_eqI) (simp_all add: assms(2))
  show ?thesis unfolding eq by (rule assms(1))
qed

lemma replies_step:
  assumes "main_replies E p pc S = Some T" "can_fail (sv_main S)" "pc \<noteq> Handling q"
    and "view_step (view S) ((view S)\<lparr>tv_main := pc\<rparr>)"
  shows "view_step (view S) (view T)"
proof -
  obtain r s where s: "server_reply E p (sv_state S) = Some (r, s)"
    and T: "T = (if r < 0 then main_fails s S else main_goes pc s S)"
    using assms(1) by (auto simp: main_replies_def bind_eq_Some_conv)
  have prob: "ps_prob s = ps_prob (sv_state S)" using server_reply_prob [OF s] .
  show ?thesis using fails_step [OF assms(2), of s] goes_step [OF assms(4) prob] prob by (simp add: T)
qed

lemma joins_step:
  assumes "main_joins (Some t) pc S = Some T"
  shows "view T = (view S)\<lparr>tv_main := pc, tv_threads := (sv_threads S)(t := None), tv_pending := sv_pending S - {t}\<rparr>"
    "sv_threads S t \<noteq> None"
  using assms by (auto simp: main_joins_def split: if_splits intro!: view_eqI)

lemma starts_cases:
  assumes "main_starts run worker wpc pc S = Some T"
  obtains r s where "run = Some (r, s)" "r < 0" "T = main_fails s S"
  | r s t where "run = Some (r, s)" "0 \<le> r" "worker s = Some t"
    "T = (main_goes pc s S)\<lparr>sv_threads := (sv_threads S)(t \<mapsto> wpc)\<rparr>"
proof -
  obtain r s where rs: "run = Some (r, s)" using assms(1) by (auto simp: main_starts_def bind_eq_Some_conv)
  show thesis
  proof (cases "r < 0")
    case True
    then show thesis using assms(1) rs that(1) by (simp add: main_starts_def)
  next
    case False
    then obtain t where "worker s = Some t" "T = (main_goes pc s S)\<lparr>sv_threads := (sv_threads S)(t \<mapsto> wpc)\<rparr>"
      using assms(1) rs by (auto simp: main_starts_def bind_eq_Some_conv)
    then show thesis using rs False that(2) by simp
  qed
qed

text \<open>The steps of the main thread, one place after the other.\<close>

lemma tcp_start_step:
  assumes "main_starts (probdata_server_tcp_fastprof_run E (sv_state S)) (\<lambda>s. pb_tcp_worker (ps_prob s))
      (TcpLoop 0) AskedTcp S = Some T"
    and "sv_main S = Handling P_RUN_M2M_TCP" "fresh_thread S (Some T)"
  shows "view_step (view S) (view T)"
proof (rule starts_cases [OF assms(1)])
  fix r s assume run: "probdata_server_tcp_fastprof_run E (sv_state S) = Some (r, s)" and T: "T = main_fails s S"
  show ?thesis unfolding T
    by (rule fails_step) (use tcp_run_workers [OF run] assms(2) in \<open>simp_all add: can_fail_def status_defs\<close>)
next
  fix r s t assume run: "probdata_server_tcp_fastprof_run E (sv_state S) = Some (r, s)"
    and t: "pb_tcp_worker (ps_prob s) = Some t"
    and T: "T = (main_goes AskedTcp s S)\<lparr>sv_threads := (sv_threads S)(t \<mapsto> TcpLoop 0)\<rparr>"
  have "view T = (view S)\<lparr>tv_main := AskedTcp, tv_tcp := Some t, tv_threads := (tv_threads (view S))(t \<mapsto> TcpLoop 0)\<rparr>"
    using tcp_run_workers [OF run] t by (intro view_eqI) (simp_all add: T)
  moreover have "sv_threads S t = None" using assms(2,3) t by (simp add: T fresh_thread_def started_def)
  ultimately show ?thesis using assms(2) by (simp only:) (rule view_step.start_tcp; simp)
qed

lemma udt_start_step:
  assumes "main_starts (probdata_server_udt_fastprof_run E (sv_state S)) (\<lambda>s. pb_udt_worker (ps_prob s))
      (UdtLoop 0 0) Polling S = Some T"
    and "sv_main S = StartUdt" "fresh_thread S (Some T)"
  shows "view_step (view S) (view T)"
proof (rule starts_cases [OF assms(1)])
  fix r s assume run: "probdata_server_udt_fastprof_run E (sv_state S) = Some (r, s)" and T: "T = main_fails s S"
  show ?thesis unfolding T
    by (rule fails_step) (use udt_run_workers [OF run] assms(2) in \<open>simp_all add: can_fail_def\<close>)
next
  fix r s t assume run: "probdata_server_udt_fastprof_run E (sv_state S) = Some (r, s)"
    and t: "pb_udt_worker (ps_prob s) = Some t"
    and T: "T = (main_goes Polling s S)\<lparr>sv_threads := (sv_threads S)(t \<mapsto> UdtLoop 0 0)\<rparr>"
  have "view T = (view S)\<lparr>tv_main := Polling, tv_udt := Some t, tv_threads := (tv_threads (view S))(t \<mapsto> UdtLoop 0 0)\<rparr>"
    using udt_run_workers [OF run] t by (intro view_eqI) (simp_all add: T)
  moreover have "sv_threads S t = None" using assms(2,3) t by (simp add: T fresh_thread_def started_def)
  ultimately show ?thesis using assms(2) by (simp only:) (rule view_step.start_udt; simp)
qed

lemma poll_step:
  assumes "main_next E S = Some T" "sv_main S = Polling"
  shows "view_step (view S) (view T) \<and> handles_status T"
proof (cases "server_done (pb_status (ps_prob (sv_state S)))")
  case True
  then have T: "T = main_goes Leaving (sv_state S) S" using assms by (simp add: main_next_def)
  have "view_step (view S) (view T)" unfolding T
    by (rule goes_step) (use assms(2) in \<open>auto intro: view_step.leave\<close>)
  then show ?thesis by (simp add: T handles_status_def)
next
  case False
  then obtain r s where s: "probdata_server_poll_ctrl_channel E (sv_state S) = Some (r, s)"
    and T: "T = (if r < 0 then main_fails s S else if r = 0 then main_goes Polling s S
      else (main_goes (Handling (pb_status (ps_prob s))) s S)\<lparr>sv_packets := sv_packets S @ [pb_status (ps_prob s)]\<rparr>)"
    using assms by (auto simp: main_next_def bind_eq_Some_conv)
  note same = poll_workers [OF s, unfolded same_workers_def]
  let ?p = "pb_status (ps_prob s)"
  have fail: "view_step (view S) (view (main_fails s S))"
    by (rule fails_step) (use assms(2) same in \<open>simp_all add: can_fail_def\<close>)
  have idle: "view (main_goes Polling s S) = view S" by (rule view_eqI) (simp_all add: same assms(2))
  have "view ((main_goes (Handling ?p) s S)\<lparr>sv_packets := sv_packets S @ [?p]\<rparr>) =
      (view S)\<lparr>tv_main := Handling ?p, tv_packets := tv_packets (view S) @ [?p]\<rparr>"
    by (rule view_eqI) (simp_all add: same)
  then have packet: "view_step (view S) (view ((main_goes (Handling ?p) s S)\<lparr>sv_packets := sv_packets S @ [?p]\<rparr>))"
    using assms(2) by (simp only:) (rule view_step.packet; simp)
  show ?thesis using fail idle packet view_step.idle [of "view S"]
    by (auto simp: T handles_status_def main_fails_def)
qed

lemma handle_step:
  assumes "main_next E S = Some T" "sv_main S = Handling p" "fresh_thread S (Some T)" "handles_status S"
  shows "view_step (view S) (view T) \<and> handles_status T"
proof -
  let ?s = "sv_state S"
  have p: "pb_status (ps_prob ?s) = p" using assms(2,4) by (simp add: handles_status_def)
  consider "p = P_RUN_M2M_TCP" | "p = P_RUN_M2M_UDT" "0 < pb_do_udt_only (ps_prob ?s)"
    | "p = P_RUN_M2M_UDT" "\<not> 0 < pb_do_udt_only (ps_prob ?s)" | "p = P_PROGRAM_DONE" | "plain_packet p"
    by (auto simp: plain_packet_def)
  then show ?thesis
  proof cases
    case 1
    then have run: "main_starts (probdata_server_tcp_fastprof_run E ?s) (\<lambda>s. pb_tcp_worker (ps_prob s))
        (TcpLoop 0) AskedTcp S = Some T" using assms(1,2) by (simp add: main_next_def)
    have "view_step (view S) (view T)" by (rule tcp_start_step [OF run]) (use assms(2,3) 1 in simp_all)
    then show ?thesis using run by (auto simp: handles_status_def main_fails_def elim!: starts_cases)
  next
    case 2
    then have T: "T = main_goes AskedUdt ?s S" using assms(1,2) by (simp add: main_next_def status_defs)
    have "view_step (view S) (view T)" unfolding T
      by (rule goes_step) (use assms(2) 2 in \<open>auto intro: view_step.no_cancel\<close>)
    then show ?thesis by (simp add: T handles_status_def)
  next
    case 3
    then obtain t where t: "pb_tcp_worker (ps_prob ?s) = Some t" "sv_threads S t \<noteq> None"
      and T: "T = (main_goes (JoinCancelled t) (?s\<lparr>ps_world := snd (e_thread_cancel E t (ps_world ?s))\<rparr>) S)
          \<lparr>sv_pending := insert t (sv_pending S)\<rparr>"
      using assms(1,2) by (auto simp: main_next_def status_defs bind_eq_Some_conv Let_def split: if_splits)
    have eq: "view T = (view S)\<lparr>tv_main := JoinCancelled t, tv_pending := insert t (tv_pending (view S))\<rparr>"
      by (rule view_eqI) (simp_all add: T)
    have "view_step (view S) (view T)" unfolding eq
      by (rule view_step.cancel) (use assms(2) 3 t in simp_all)
    then show ?thesis by (simp add: T handles_status_def)
  next
    case 4
    then have T: "T = main_goes JoinUdt ?s S" using assms(1,2) by (simp add: main_next_def status_defs)
    have "view_step (view S) (view T)" unfolding T
      by (rule goes_step) (use assms(2) 4 in \<open>auto intro: view_step.asked_done\<close>)
    then show ?thesis using p 4 by (simp add: T handles_status_def)
  next
    case 5
    then obtain r s where s: "probdata_server_proc_ctrl_packet E ?s = Some (r, s)"
      and T: "T = (if r < 0 then main_fails s S else main_goes Polling s S)"
      using assms(1,2) by (auto simp: main_next_def plain_packet_def bind_eq_Some_conv)
    note same = plain_proc_workers [OF s, unfolded p, OF 5]
    have eq: "view (main_goes Polling s S) =
        (view S)\<lparr>tv_main := Polling, tv_udt_only := 0 < pb_do_udt_only (ps_prob s)\<rparr>"
      by (rule view_eqI) (simp_all add: same)
    have "view_step (view S) (view (main_goes Polling s S))" unfolding eq
      by (rule view_step.plain) (use assms(2) same 5 in auto)
    moreover have "view_step (view S) (view (main_fails s S))"
      by (rule fails_step) (use assms(2) same 5 in \<open>auto simp: can_fail_def plain_packet_def\<close>)
    ultimately show ?thesis by (auto simp: T handles_status_def main_fails_def)
  qed
qed

lemma main_next_view:
  assumes "main_next E S = Some T" "main_ready S" "fresh_thread S (Some T)" "handles_status S"
  shows "view_step (view S) (view T) \<and> handles_status T"
proof -
  let ?s = "sv_state S"
  have keeps: "handles_status T" if "\<And>p. sv_main T \<noteq> Handling p" "sv_main T \<noteq> JoinUdt" using that by (simp add: handles_status_def)
  have goes: "view_step (view S) (view T)" "handles_status T"
    if "T = main_goes pc ?s S" "view_step (view S) ((view S)\<lparr>tv_main := pc\<rparr>)" "\<And>p. pc \<noteq> Handling p"
      "pc \<noteq> JoinUdt" for pc
  proof -
    show "view_step (view S) (view T)" unfolding that(1) by (rule goes_step [OF that(2)]) simp
    show "handles_status T" using that by (intro keeps) simp_all
  qed
  have replies: "view_step (view S) (view T) \<and> handles_status T"
    if "main_replies E p pc S = Some T" "can_fail (sv_main S)" "view_step (view S) ((view S)\<lparr>tv_main := pc\<rparr>)"
      "\<And>p. pc \<noteq> Handling p" "pc \<noteq> JoinUdt" for p pc
  proof
    show "view_step (view S) (view T)" using replies_step that by blast
    show "handles_status T" using that(1,4,5)
      by (intro keeps) (auto simp: main_replies_def main_fails_def bind_eq_Some_conv split: if_splits)
  qed
  have starts: "handles_status T" if "main_starts run w wpc pc S = Some T" "\<And>p. pc \<noteq> Handling p" "pc \<noteq> JoinUdt" for run w wpc pc
    using that by (intro keeps) (auto simp: main_fails_def elim!: starts_cases)
  have joins: "handles_status T" if "main_joins w pc S = Some T" "\<And>p. pc \<noteq> Handling p" "pc \<noteq> JoinUdt" for w pc
    using that by (intro keeps) (auto simp: main_joins_def split: option.splits if_splits)
  show ?thesis
  proof (cases "sv_main S")
    case Polling
    then show ?thesis using poll_step assms(1) by blast
  next
    case (Handling p)
    then show ?thesis using handle_step [OF assms(1) Handling assms(3,4)] by blast
  next
    case AskedTcp
    then show ?thesis using assms(1)
      by (intro replies [of P_RUN_M2M_TCP Polling]) (auto simp: main_next_def can_fail_def intro: view_step.asked_tcp)
  next
    case (JoinCancelled t)
    then have j: "main_joins (Some t) AskedUdt S = Some T" using assms(1) by (simp add: main_next_def)
    have "sv_threads S t = Some Ended"
      using assms(2) joins_step(2) [OF j] JoinCancelled by (auto simp: main_ready_def waits_for_def)
    then show ?thesis using joins_step(1) [OF j] joins [OF j] JoinCancelled view_step.join [of "view S" t] by simp
  next
    case AskedUdt
    then show ?thesis using assms(1)
      by (intro replies [of P_RUN_M2M_UDT StartUdt]) (auto simp: main_next_def can_fail_def intro: view_step.asked_udt)
  next
    case StartUdt
    then have "main_starts (probdata_server_udt_fastprof_run E ?s) (\<lambda>s. pb_udt_worker (ps_prob s))
        (UdtLoop 0 0) Polling S = Some T" using assms(1) by (simp add: main_next_def)
    then show ?thesis using udt_start_step [OF _ StartUdt assms(3)] starts by simp
  next
    case JoinUdt
    then have j: "main_joins (pb_udt_worker (ps_prob ?s)) JoinTcp S = Some T" using assms(1) by (simp add: main_next_def)
    show ?thesis
    proof (cases "pb_udt_worker (ps_prob ?s)")
      case None
      then show ?thesis using j JoinUdt by (intro conjI goes [of JoinTcp])
        (auto simp: main_joins_def intro: view_step.no_udt)
    next
      case (Some t)
      note j = j [unfolded Some]
      have "sv_threads S t = Some Ended"
        using assms(2) joins_step(2) [OF j] JoinUdt Some by (auto simp: main_ready_def waits_for_def)
      then show ?thesis
        using joins_step(1) [OF j] joins [OF j] JoinUdt Some view_step.join_udt [of "view S" t] by simp
    qed
  next
    case JoinTcp
    then have j: "main_joins (pb_tcp_worker (ps_prob ?s)) LastReply S = Some T" using assms(1) by (simp add: main_next_def)
    show ?thesis
    proof (cases "pb_tcp_worker (ps_prob ?s)")
      case None
      then show ?thesis using j JoinTcp by (intro conjI goes [of LastReply])
        (auto simp: main_joins_def intro: view_step.no_tcp)
    next
      case (Some t)
      note j = j [unfolded Some]
      have "sv_threads S t = Some Ended"
        using assms(2) joins_step(2) [OF j] JoinTcp Some by (auto simp: main_ready_def waits_for_def)
      then show ?thesis
        using joins_step(1) [OF j] joins [OF j] JoinTcp Some view_step.join_tcp [of "view S" t] by simp
    qed
  next
    case LastReply
    then show ?thesis using assms(1)
      by (intro replies [of P_PROGRAM_DONE Polling]) (auto simp: main_next_def can_fail_def intro: view_step.replied)
  next
    case Leaving
    then obtain r s where s: "probdata_server_clean_up E ?s = Some (r, s)"
      and T: "T = (if r < 0 then main_goes (Returned (- 1)) s S
        else main_goes (Returned 0) (s\<lparr>ps_world := snd (e_system E ''date'' (ps_world s))\<rparr>) S)"
      using assms(1) by (auto simp: main_next_def bind_eq_Some_conv)
    have eq: "view T = (view S)\<lparr>tv_main := Returned 0, tv_tcp := None, tv_udt := None\<rparr>"
      by (rule view_eqI) (use clean_up_workers [OF s] in \<open>simp_all add: T\<close>)
    have "view_step (view S) (view T)" unfolding eq using Leaving by (auto intro: view_step.left)
    then show ?thesis using clean_up_workers [OF s] by (simp add: T handles_status_def)
  next
    case (Returned r)
    then show ?thesis using assms(2) by (simp add: main_ready_def)
  qed
qed

lemma put_worker_view:
  assumes "ps_prob s = ps_prob (sv_state S)"
  shows "view (put_worker t pc s S) = (view S)\<lparr>tv_threads := (tv_threads (view S))(t \<mapsto> pc)\<rparr>"
  by (rule view_eqI) (simp_all add: put_worker_def assms)

lemma worker_next_moves:
  assumes "worker_next E t pc S = Some T" "pc \<noteq> Ended"
  obtains pc' s where "T = put_worker t pc' s S" "ps_prob s = ps_prob (sv_state S)"
    "worker_moves (t \<in> sv_pending S) pc pc'"
proof (cases pc)
  case (TcpLoop n)
  then show thesis using assms(1) that [of _ "sv_state S"]
    by (cases "t \<in> sv_pending S") (auto simp: worker_next_def intro: worker_moves.intros)
next
  case (TcpServing n)
  then obtain c where c: "tcp_worker_body E (\<lambda>_. False) \<lparr>tw_err_cnt = n, tw_state = sv_state S\<rparr> = Some c"
    and T: "T = put_worker t (case c of Next v \<Rightarrow> TcpLoop (tw_err_cnt v) | Break _ \<Rightarrow> TcpLeaving
        | Return _ _ \<Rightarrow> TcpCleaning) (tw_state (ctl_state c)) S"
    using assms(1) by (auto simp: worker_next_def bind_eq_Some_conv)
  show thesis using tcp_body_runs [OF c] TcpServing that [OF T]
    by (cases c) (auto intro: worker_moves.intros)
next
  case TcpLeaving
  then obtain r u s where "probdata_server_tcp_prof_delete E (sv_state S) = Some (r, u)"
    "probdata_server_tcp_fastprof_cleanup_handler E u = Some s"
    using assms(1) by (auto simp: worker_next_def bind_eq_Some_conv)
  then show thesis using deleted_twice by fastforce
next
  case TcpCleaning
  then obtain s where s: "probdata_server_tcp_fastprof_cleanup_handler E (sv_state S) = Some s"
    and T: "T = put_worker t Ended s S"
    using assms(1) by (auto simp: worker_next_def bind_eq_Some_conv)
  show thesis using that [OF T cleanup_handler_prob [OF s]] TcpCleaning by (auto intro: worker_moves.intros)
next
  case (UdtLoop e k)
  then obtain c where c: "udt_worker_body E id \<lparr>uw_err_cnt = e, uw_ok_cnt = k, uw_state = sv_state S\<rparr> = Some c"
    and T: "T = put_worker t (case c of Next v \<Rightarrow> UdtLoop (uw_err_cnt v) (uw_ok_cnt v) | _ \<Rightarrow> Ended)
        (uw_state (ctl_state c)) S"
    using assms(1) by (auto simp: worker_next_def bind_eq_Some_conv)
  show thesis using udt_body_prob [OF c] UdtLoop that [OF T]
    by (cases c) (auto intro: worker_moves.intros)
qed (use assms(2) in simp)

lemma put_worker_step:
  assumes "sv_threads S t = Some pc" "worker_moves (t \<in> sv_pending S) pc pc'"
    "ps_prob s = ps_prob (sv_state S)" "handles_status S"
  shows "view_step (view S) (view (put_worker t pc' s S)) \<and> handles_status (put_worker t pc' s S)"
proof
  show "view_step (view S) (view (put_worker t pc' s S))"
    unfolding put_worker_view [OF assms(3)] by (rule view_step.worker) (use assms in simp_all)
  show "handles_status (put_worker t pc' s S)"
    using assms(3,4) by (simp add: handles_status_def put_worker_def)
qed

lemma server_step_view:
  assumes "server_step E S (Some T)" "handles_status S"
  shows "view_step (view S) (view T) \<and> handles_status T"
  using assms(1)
proof cases
  case main
  then show ?thesis using main_next_view [of E S T] assms(2) by simp
next
  case (worker t pc)
  then show ?thesis using worker_next_moves [of E t pc S T] put_worker_step assms(2) by metis
next
  case (cancelled t n prof test w)
  show ?thesis unfolding cancelled(1)
    by (rule put_worker_step) (use cancelled assms(2) worker_moves.intros(5) in simp_all)
qed

lemma start_handles_status: "server_start S \<Longrightarrow> handles_status S"
  by (simp add: server_start_def handles_status_def)

interpretation threads_sim: simulation "\<lambda>S T. server_step E S (Some T)" view_step view handles_status for E
  by unfold_locales (auto dest: server_step_view)

lemma server_reaches_steps: "server_reaches E S T \<Longrightarrow> (\<lambda>S T. server_step E S (Some T))\<^sup>*\<^sup>* S T"
  by (induction rule: server_reaches.induct) (auto intro: rtranclp.rtrancl_into_rtrancl)

lemma server_reaches_view:
  assumes "server_reaches E S T" "handles_status S"
  shows "view_step\<^sup>*\<^sup>* (view S) (view T)" "handles_status T"
  using threads_sim.reaches [OF server_reaches_steps [OF assms(1)] assms(2)] by auto

text \<open>
  C14. The threads of the server implement the protocol of the specification: from the start
  of the main loop on, whatever the threads do in whatever order is, as far as the workers are
  concerned, a sequence of steps of the specification, and so is every further step.
\<close>

theorem server_threads_refine:
  assumes "server_start S" "server_reaches E S T"
  shows "view_start (view S) \<and> view_step\<^sup>*\<^sup>* (view S) (view T) \<and>
    (\<forall>U. server_step E T (Some U) \<longrightarrow> view_step (view T) (view U))"
proof -
  have "view_start (view S)" using assms(1) by (simp add: server_start_def view_start_def)
  then show ?thesis
    using server_reaches_view [OF assms(2) start_handles_status [OF assms(1)]] server_step_view by blast
qed

end
