(* ===== verification/WorkerPhases.thy ===== *)
theory WorkerPhases
  imports ThreadProtocol
begin

text \<open>
  The phases of the two workers: an invariant of the specification of \<open>ThreadProtocol\<close> for
  sessions whose packets come in the order of the protocol, and what it says about the server:
  which workers can be there together, that the TCP worker of a session is joined twice, or
  never stopped, and that the UDT worker leaves when it is joined.
\<close>

subsection \<open>The invariant\<close>

text \<open>Whether the TCP worker and the UDT worker were not started yet, and whether they are there.\<close>

definition before_tcp :: "threads_view \<Rightarrow> bool" where
  "before_tcp V \<longleftrightarrow> P_RUN_M2M_TCP \<notin> set (tv_packets V) \<or> tv_main V = Handling P_RUN_M2M_TCP"

definition stopping :: "main_pc \<Rightarrow> bool" where
  "stopping pc \<longleftrightarrow> pc = Handling P_RUN_M2M_UDT \<or> (\<exists>t. pc = JoinCancelled t)"

definition before_udt :: "threads_view \<Rightarrow> bool" where
  "before_udt V \<longleftrightarrow> P_RUN_M2M_UDT \<notin> set (tv_packets V) \<or> stopping (tv_main V) \<or>
     tv_main V \<in> {AskedUdt, StartUdt}"

definition tcp_live :: "threads_view \<Rightarrow> bool" where
  "tcp_live V \<longleftrightarrow> \<not> before_tcp V \<and>
     (P_RUN_M2M_UDT \<in> set (tv_packets V) \<longrightarrow> tv_udt_only V \<or> stopping (tv_main V)) \<and>
     (P_PROGRAM_DONE \<in> set (tv_packets V) \<longrightarrow> tv_main V \<in> {Handling P_PROGRAM_DONE, JoinUdt, JoinTcp})"

definition udt_live :: "threads_view \<Rightarrow> bool" where
  "udt_live V \<longleftrightarrow> \<not> before_udt V \<and>
     (P_PROGRAM_DONE \<in> set (tv_packets V) \<longrightarrow> tv_main V \<in> {Handling P_PROGRAM_DONE, JoinUdt})"

fun handled :: "main_pc \<Rightarrow> int option" where
  "handled (Handling p) = Some p"
| "handled AskedTcp = Some P_RUN_M2M_TCP"
| "handled (JoinCancelled _) = Some P_RUN_M2M_UDT"
| "handled AskedUdt = Some P_RUN_M2M_UDT"
| "handled StartUdt = Some P_RUN_M2M_UDT"
| "handled JoinUdt = Some P_PROGRAM_DONE"
| "handled JoinTcp = Some P_PROGRAM_DONE"
| "handled LastReply = Some P_PROGRAM_DONE"
| "handled _ = None"

fun tcp_runs :: "worker_pc \<Rightarrow> bool" where
  "tcp_runs (TcpLoop _) = True"
| "tcp_runs (TcpServing _) = True"
| "tcp_runs TcpLeaving = True"
| "tcp_runs _ = False"

fun udt_runs :: "worker_pc \<Rightarrow> bool" where
  "udt_runs (UdtLoop _ _) = True"
| "udt_runs Ended = True"
| "udt_runs _ = False"

definition orderly_threads :: "threads_view \<Rightarrow> bool" where
  "orderly_threads V \<longleftrightarrow>
     (tv_tcp V = None \<longleftrightarrow> before_tcp V) \<and> (tv_udt V = None \<longleftrightarrow> before_udt V) \<and>
     (\<forall>t. tcp_live V \<longrightarrow> tv_tcp V = Some t \<longrightarrow>
        (\<exists>pc. tv_threads V t = Some pc \<and> (t \<in> tv_pending V \<or> tcp_runs pc))) \<and>
     (\<forall>u. udt_live V \<longrightarrow> tv_udt V = Some u \<longrightarrow> (\<exists>pc. tv_threads V u = Some pc \<and> udt_runs pc)) \<and>
     dom (tv_threads V) \<subseteq> {t. tcp_live V \<and> tv_tcp V = Some t} \<union> {t. udt_live V \<and> tv_udt V = Some t}"

definition orderly :: "threads_view \<Rightarrow> bool" where
  "orderly V \<longleftrightarrow>
     (\<forall>p. handled (tv_main V) = Some p \<longrightarrow> (\<exists>ps. tv_packets V = ps @ [p])) \<and>
     (\<forall>t. tv_main V = JoinCancelled t \<longrightarrow> tv_tcp V = Some t \<and> \<not> tv_udt_only V) \<and>
     tv_pending V = (case tv_main V of JoinCancelled t \<Rightarrow> {t} | _ \<Rightarrow> {}) \<and>
     (P_RUN_M2M_TCP \<in> set (tv_packets V) \<longrightarrow> P_PROGRAM_DONE \<in> set (tv_packets V) \<longrightarrow>
        tv_main V \<in> {Handling P_PROGRAM_DONE, JoinUdt, JoinTcp}) \<and>
     (\<exists>t u. dom (tv_threads V) \<subseteq> {t, u} \<and> (\<not> tv_udt_only V \<longrightarrow> t = u)) \<and>
     ((\<forall>r. tv_main V \<noteq> Returned r) \<longrightarrow> orderly_threads V)"

lemmas live_defs = before_tcp_def before_udt_def tcp_live_def udt_live_def stopping_def

lemma orderly_start: "view_start V \<Longrightarrow> orderly V"
  by (simp add: view_start_def orderly_def orderly_threads_def live_defs status_defs)

lemma threads_few:
  assumes "orderly_threads V"
  shows "\<exists>t u. dom (tv_threads V) \<subseteq> {t, u} \<and> (\<not> tv_udt_only V \<longrightarrow> t = u)"
proof (cases "tcp_live V")
  case True
  then have "tv_udt_only V \<or> \<not> udt_live V" by (auto simp: live_defs)
  then show ?thesis using assms
    by (intro exI [of _ "the (tv_tcp V)"] exI [of _ "if udt_live V then the (tv_udt V) else the (tv_tcp V)"])
      (auto simp: orderly_threads_def)
next
  case False
  then show ?thesis using assms
    by (intro exI [of _ "the (tv_udt V)"]) (auto simp: orderly_threads_def)
qed

text \<open>The parts of the invariant.\<close>

lemma orderlyD:
  assumes "orderly V"
  shows "(\<forall>r. tv_main V \<noteq> Returned r) \<Longrightarrow> orderly_threads V"
    and "handled (tv_main V) = Some p \<Longrightarrow> \<exists>ps. tv_packets V = ps @ [p]"
    and "tv_main V = JoinCancelled t \<Longrightarrow> tv_tcp V = Some t \<and> \<not> tv_udt_only V"
    and "tv_pending V = (case tv_main V of JoinCancelled t \<Rightarrow> {t} | _ \<Rightarrow> {})"
    and "P_RUN_M2M_TCP \<in> set (tv_packets V) \<Longrightarrow> P_PROGRAM_DONE \<in> set (tv_packets V) \<Longrightarrow>
        tv_main V = Handling P_PROGRAM_DONE \<or> tv_main V = JoinUdt \<or> tv_main V = JoinTcp"
    and "\<exists>t u. dom (tv_threads V) \<subseteq> {t, u} \<and> (\<not> tv_udt_only V \<longrightarrow> t = u)"
  using assms by (simp_all add: orderly_def)

lemma orderlyI:
  assumes "orderly_threads V" "\<And>p. handled (tv_main V) = Some p \<Longrightarrow> \<exists>ps. tv_packets V = ps @ [p]"
    "\<And>t. tv_main V = JoinCancelled t \<Longrightarrow> tv_tcp V = Some t \<and> \<not> tv_udt_only V"
    "tv_pending V = (case tv_main V of JoinCancelled t \<Rightarrow> {t} | _ \<Rightarrow> {})"
    "P_RUN_M2M_TCP \<in> set (tv_packets V) \<Longrightarrow> P_PROGRAM_DONE \<in> set (tv_packets V) \<Longrightarrow>
        tv_main V = Handling P_PROGRAM_DONE \<or> tv_main V = JoinUdt \<or> tv_main V = JoinTcp"
  shows "orderly V"
  using assms threads_few [OF assms(1)] by (simp add: orderly_def)

lemma orderly_same:
  assumes "orderly_threads V"
    and "tv_threads W = tv_threads V" "tv_tcp W = tv_tcp V" "tv_udt W = tv_udt V" "tv_pending V \<subseteq> tv_pending W"
    and "before_tcp W = before_tcp V" "before_udt W = before_udt V"
    "tcp_live W = tcp_live V" "udt_live W = udt_live V"
  shows "orderly_threads W"
  using assms(1,5) unfolding orderly_threads_def assms(2-4,6-) by blast

text \<open>A new packet.\<close>

lemma orderly_packet:
  assumes "orderly V" "tv_main V = Polling" "on_course (tv_packets V @ [p])"
  shows "orderly (V\<lparr>tv_main := Handling p, tv_packets := tv_packets V @ [p]\<rparr>)" (is "orderly ?W")
proof -
  note c = on_course_snoc(2-) [OF assms(3)]
  have live: "before_tcp ?W = before_tcp V" "before_udt ?W = before_udt V"
    using assms(2) c(1) by (auto simp: live_defs)
  moreover have "tcp_live ?W = tcp_live V" using live(1) c(1,2) assms(2) by (auto simp: tcp_live_def stopping_def)
  moreover have "udt_live ?W = udt_live V" using live(2) c(2) assms(2) by (auto simp: udt_live_def)
  ultimately have "orderly_threads ?W"
    using assms(2) by (intro orderly_same [OF orderlyD(1) [OF assms(1)]]) simp_all
  then show ?thesis
    using orderlyD(4) [OF assms(1)] assms(2) c(2) by (intro orderlyI) auto
qed

text \<open>A step of the main thread in the middle of a packet that does not touch the threads.\<close>

lemma orderly_move:
  assumes "orderly V" "\<forall>r. tv_main V \<noteq> Returned r" "\<forall>r. pc \<noteq> Returned r"
    and "\<forall>t. tv_main V \<noteq> JoinCancelled t" "\<forall>t. pc \<noteq> JoinCancelled t"
    and "handled pc \<in> {None, handled (tv_main V)}"
    and "P_RUN_M2M_TCP \<in> set (tv_packets V) \<Longrightarrow> P_PROGRAM_DONE \<in> set (tv_packets V) \<Longrightarrow>
        pc = Handling P_PROGRAM_DONE \<or> pc = JoinUdt \<or> pc = JoinTcp"
    and "W = V\<lparr>tv_main := pc, tv_udt_only := b\<rparr>"
    and "before_tcp W = before_tcp V" "before_udt W = before_udt V"
    "tcp_live W = tcp_live V" "udt_live W = udt_live V"
  shows "orderly W"
proof (rule orderlyI)
  show "orderly_threads W"
    by (rule orderly_same [OF orderlyD(1) [OF assms(1,2)]]) (use assms(8-) in simp_all)
  show "\<exists>ps. tv_packets W = ps @ [p]" if "handled (tv_main W) = Some p" for p
    using that orderlyD(2) [OF assms(1)] assms(6,8) by auto
  show "tv_pending W = (case tv_main W of JoinCancelled t \<Rightarrow> {t} | _ \<Rightarrow> {})"
    using orderlyD(4) [OF assms(1)] assms(4,5,8) by (auto split: main_pc.splits)
qed (use assms(5,7,8) in simp_all)

text \<open>A packet that does not concern the workers.\<close>

lemma orderly_plain:
  assumes "orderly V" "on_course (tv_packets V)" "tv_main V = Handling p" "plain_packet p"
    and "b = tv_udt_only V \<or> p = P_TWOWAY_HANDSHAKE"
  shows "orderly (V\<lparr>tv_main := Polling, tv_udt_only := b\<rparr>)" (is "orderly ?W")
proof -
  obtain ps where ps: "tv_packets V = ps @ [p]" using orderlyD(2) [OF assms(1)] assms(3) by auto
  note c = on_course_snoc(2-) [OF assms(2) [unfolded ps]]
  have p: "p \<noteq> P_RUN_M2M_TCP" "p \<noteq> P_RUN_M2M_UDT" "p \<noteq> P_PROGRAM_DONE"
    using assms(4) by (simp_all add: plain_packet_def)
  have udt: "P_RUN_M2M_UDT \<notin> set (tv_packets V)" and d: "P_PROGRAM_DONE \<notin> set (tv_packets V)"
    using c(2,4) p by (auto simp: ps)
  have "before_tcp ?W = before_tcp V" "before_udt ?W = before_udt V"
    using p assms(3) by (auto simp: live_defs)
  then show ?thesis using assms(3) d udt
    by (intro orderly_move [OF assms(1)]) (auto simp: tcp_live_def udt_live_def)
qed

text \<open>The packets that concern the workers.\<close>

lemma orderly_asked:
  assumes "orderly V" "on_course (tv_packets V)"
  shows "tv_main V = AskedTcp \<Longrightarrow> orderly (V\<lparr>tv_main := Polling\<rparr>)"
    and "tv_main V = Handling P_RUN_M2M_UDT \<Longrightarrow> tv_udt_only V \<Longrightarrow> orderly (V\<lparr>tv_main := AskedUdt\<rparr>)"
    and "tv_main V = AskedUdt \<Longrightarrow> orderly (V\<lparr>tv_main := StartUdt\<rparr>)"
    and "tv_main V = Handling P_PROGRAM_DONE \<Longrightarrow> orderly (V\<lparr>tv_main := JoinUdt\<rparr>)"
proof -
  have move: "orderly (V\<lparr>tv_main := pc\<rparr>)"
    if "\<forall>r. tv_main V \<noteq> Returned r" "\<forall>r. pc \<noteq> Returned r"
    "\<forall>t. tv_main V \<noteq> JoinCancelled t" "\<forall>t. pc \<noteq> JoinCancelled t"
    "handled pc \<in> {None, handled (tv_main V)}"
    "P_RUN_M2M_TCP \<in> set (tv_packets V) \<Longrightarrow> P_PROGRAM_DONE \<in> set (tv_packets V) \<Longrightarrow>
        pc = Handling P_PROGRAM_DONE \<or> pc = JoinUdt \<or> pc = JoinTcp"
    "before_tcp (V\<lparr>tv_main := pc\<rparr>) = before_tcp V" "before_udt (V\<lparr>tv_main := pc\<rparr>) = before_udt V"
    "tcp_live (V\<lparr>tv_main := pc\<rparr>) = tcp_live V" "udt_live (V\<lparr>tv_main := pc\<rparr>) = udt_live V" for pc
    by (rule orderly_move [OF assms(1) that(1-6), of _ "tv_udt_only V"]) (use that in simp_all)
  note last = orderlyD(2) [OF assms(1)] and d = orderlyD(5) [OF assms(1)]
  show "orderly (V\<lparr>tv_main := Polling\<rparr>)" if m: "tv_main V = AskedTcp"
    using d by (intro move) (auto simp: m live_defs)
  show "orderly (V\<lparr>tv_main := AskedUdt\<rparr>)" if m: "tv_main V = Handling P_RUN_M2M_UDT" "tv_udt_only V"
    using d by (intro move) (auto simp: m live_defs status_defs)
  show "orderly (V\<lparr>tv_main := StartUdt\<rparr>)" if m: "tv_main V = AskedUdt"
    using d by (intro move) (auto simp: m live_defs)
  show "orderly (V\<lparr>tv_main := JoinUdt\<rparr>)" if m: "tv_main V = Handling P_PROGRAM_DONE"
    using d by (intro move) (auto simp: m live_defs status_defs)
qed

text \<open>The two workers are started.\<close>

lemma orderly_start_tcp:
  assumes "orderly V" "on_course (tv_packets V)" "tv_main V = Handling P_RUN_M2M_TCP"
  shows "orderly (V\<lparr>tv_main := AskedTcp, tv_tcp := Some t, tv_threads := (tv_threads V)(t \<mapsto> TcpLoop 0)\<rparr>)"
    (is "orderly ?W")
proof -
  obtain ps where ps: "tv_packets V = ps @ [P_RUN_M2M_TCP]" using orderlyD(2) [OF assms(1)] assms(3) by auto
  note c = on_course_snoc(2-) [OF assms(2) [unfolded ps]]
  have udt: "P_RUN_M2M_UDT \<notin> set (tv_packets V)" and d: "P_PROGRAM_DONE \<notin> set (tv_packets V)"
    using c(2,4) by (auto simp: ps status_defs)
  have V: "before_tcp V" "before_udt V" "\<not> tcp_live V" "\<not> udt_live V"
    using assms(3) udt by (auto simp: live_defs)
  have W: "\<not> before_tcp ?W" "before_udt ?W" "tcp_live ?W" "\<not> udt_live ?W"
    using udt d by (auto simp: live_defs ps)
  have "orderly_threads V" using orderlyD(1) [OF assms(1)] assms(3) by simp
  then have "orderly_threads ?W" using V W by (auto simp: orderly_threads_def)
  then show ?thesis
    using orderlyD(4) [OF assms(1)] assms(3) d by (intro orderlyI) (auto simp: ps)
qed

lemma orderly_start_udt:
  assumes "orderly V" "on_course (tv_packets V)" "tv_main V = StartUdt" "tv_threads V t = None"
  shows "orderly (V\<lparr>tv_main := Polling, tv_udt := Some t, tv_threads := (tv_threads V)(t \<mapsto> UdtLoop 0 0)\<rparr>)"
    (is "orderly ?W")
proof -
  obtain ps where ps: "tv_packets V = ps @ [P_RUN_M2M_UDT]" using orderlyD(2) [OF assms(1)] assms(3) by auto
  note c = on_course_snoc(2-) [OF assms(2) [unfolded ps]]
  have d: "P_PROGRAM_DONE \<notin> set (tv_packets V)" using c(2) by (auto simp: ps status_defs)
  have V: "before_udt V" "\<not> udt_live V" using assms(3) by (auto simp: live_defs)
  have W: "before_tcp ?W = before_tcp V" "\<not> before_udt ?W" "tcp_live ?W = tcp_live V" "udt_live ?W"
    using assms(3) d by (auto simp: live_defs ps)
  have "orderly_threads V" using orderlyD(1) [OF assms(1)] assms(3) by simp
  then have "orderly_threads ?W" using V W assms(4) by (auto simp: orderly_threads_def)
  then show ?thesis
    using orderlyD(4) [OF assms(1)] assms(3) d by (intro orderlyI) auto
qed

text \<open>The TCP worker is cancelled and joined, and the UDT worker is joined.\<close>

lemma orderly_cancel:
  assumes "orderly V" "on_course (tv_packets V)" "tv_main V = Handling P_RUN_M2M_UDT" "\<not> tv_udt_only V"
    "tv_tcp V = Some t"
  shows "orderly (V\<lparr>tv_main := JoinCancelled t, tv_pending := insert t (tv_pending V)\<rparr>)" (is "orderly ?W")
proof -
  have "before_tcp ?W = before_tcp V" "before_udt ?W = before_udt V" "tcp_live ?W = tcp_live V"
    "udt_live ?W = udt_live V"
    using assms(3) by (auto simp: live_defs status_defs)
  then have "orderly_threads ?W"
    using assms(3) by (intro orderly_same [OF orderlyD(1) [OF assms(1)]]) auto
  then show ?thesis
    using orderlyD(2,4,5) [OF assms(1)] assms(3-5) by (intro orderlyI) (auto simp: status_defs)
qed

lemma orderly_join:
  assumes "orderly V" "on_course (tv_packets V)" "tv_main V = JoinCancelled t"
  shows "orderly (V\<lparr>tv_main := AskedUdt, tv_threads := (tv_threads V)(t := None), tv_pending := tv_pending V - {t}\<rparr>)"
    (is "orderly ?W")
proof -
  have t: "tv_tcp V = Some t" "\<not> tv_udt_only V" using orderlyD(3) [OF assms(1,3)] by auto
  obtain ps where ps: "tv_packets V = ps @ [P_RUN_M2M_UDT]" using orderlyD(2) [OF assms(1)] assms(3) by auto
  have d: "P_PROGRAM_DONE \<notin> set (tv_packets V)"
    using on_course_snoc(3) [OF assms(2) [unfolded ps]] by (auto simp: ps status_defs)
  have V: "before_udt V" "\<not> udt_live V" using assms(3) by (auto simp: live_defs)
  have W: "before_tcp ?W = before_tcp V" "before_udt ?W" "\<not> tcp_live ?W" "\<not> udt_live ?W"
    using assms(3) t(2) by (auto simp: live_defs ps)
  have "orderly_threads V" using orderlyD(1) [OF assms(1)] assms(3) by simp
  then have "orderly_threads ?W" using V W t(1) by (auto simp: orderly_threads_def)
  then show ?thesis
    using orderlyD(4) [OF assms(1)] assms(3) d by (intro orderlyI) (auto simp: ps)
qed

lemma orderly_join_udt:
  assumes "orderly V" "tv_main V = JoinUdt" "tv_udt V = Some t"
  shows "orderly (V\<lparr>tv_main := JoinTcp, tv_threads := (tv_threads V)(t := None), tv_pending := tv_pending V - {t}\<rparr>)"
    (is "orderly ?W")
proof -
  obtain ps where ps: "tv_packets V = ps @ [P_PROGRAM_DONE]" using orderlyD(2) [OF assms(1)] assms(2) by auto
  have o: "orderly_threads V" using orderlyD(1) [OF assms(1)] assms(2) by simp
  have pend: "tv_pending V = {}" using orderlyD(4) [OF assms(1)] assms(2) by simp
  have W: "before_tcp ?W = before_tcp V" "before_udt ?W = before_udt V" "tcp_live ?W = tcp_live V" "\<not> udt_live ?W"
    using assms(2) by (auto simp: live_defs ps)
  have V: "udt_live V"
    using o assms(2,3) by (auto simp: orderly_threads_def udt_live_def)
  have "tcp_live V \<Longrightarrow> tv_tcp V \<noteq> Some t"
  proof
    assume "tcp_live V" "tv_tcp V = Some t"
    then obtain pc where "tv_threads V t = Some pc" "tcp_runs pc" "udt_runs pc"
      using o V assms(3) pend by (fastforce simp: orderly_threads_def)
    then show False by (cases pc) auto
  qed
  then have "orderly_threads ?W" using o W V assms(3) pend by (auto simp: orderly_threads_def)
  then show ?thesis
    using pend orderlyD(5) [OF assms(1)] assms(2) by (intro orderlyI) (auto simp: ps)
qed

lemma orderly_no_worker:
  assumes "orderly V"
  shows "tv_main V = JoinUdt \<Longrightarrow> tv_udt V = None \<Longrightarrow> orderly (V\<lparr>tv_main := JoinTcp\<rparr>)"
    and "tv_main V = JoinTcp \<Longrightarrow> tv_tcp V = None \<Longrightarrow> orderly (V\<lparr>tv_main := LastReply\<rparr>)"
    and "tv_main V = LastReply \<Longrightarrow> orderly (V\<lparr>tv_main := Polling\<rparr>)"
    and "tv_main V = Polling \<Longrightarrow> orderly (V\<lparr>tv_main := Leaving\<rparr>)"
proof -
  note last = orderlyD(2) [OF assms] and d = orderlyD(5) [OF assms] and o = orderlyD(1) [OF assms]
  have move: "orderly (V\<lparr>tv_main := pc\<rparr>)"
    if "\<forall>r. tv_main V \<noteq> Returned r" "\<forall>r. pc \<noteq> Returned r"
    "\<forall>t. tv_main V \<noteq> JoinCancelled t" "\<forall>t. pc \<noteq> JoinCancelled t"
    "handled pc \<in> {None, handled (tv_main V)}"
    "P_RUN_M2M_TCP \<in> set (tv_packets V) \<Longrightarrow> P_PROGRAM_DONE \<in> set (tv_packets V) \<Longrightarrow>
        pc = Handling P_PROGRAM_DONE \<or> pc = JoinUdt \<or> pc = JoinTcp"
    "before_tcp (V\<lparr>tv_main := pc\<rparr>) = before_tcp V" "before_udt (V\<lparr>tv_main := pc\<rparr>) = before_udt V"
    "tcp_live (V\<lparr>tv_main := pc\<rparr>) = tcp_live V" "udt_live (V\<lparr>tv_main := pc\<rparr>) = udt_live V" for pc
    by (rule orderly_move [OF assms that(1-6), of _ "tv_udt_only V"]) (use that in simp_all)
  show "orderly (V\<lparr>tv_main := JoinTcp\<rparr>)" if m: "tv_main V = JoinUdt" "tv_udt V = None"
  proof -
    have "before_udt V" using o m by (simp add: orderly_threads_def)
    then show ?thesis using d by (intro move) (auto simp: m live_defs)
  qed
  show "orderly (V\<lparr>tv_main := LastReply\<rparr>)" if m: "tv_main V = JoinTcp" "tv_tcp V = None"
  proof -
    have "before_tcp V" using o m by (simp add: orderly_threads_def)
    then have "P_RUN_M2M_TCP \<notin> set (tv_packets V)" using m(1) by (simp add: before_tcp_def)
    then show ?thesis by (intro move) (auto simp: m live_defs)
  qed
  show "orderly (V\<lparr>tv_main := Polling\<rparr>)" if m: "tv_main V = LastReply"
    using d last by (intro move) (auto simp: m live_defs)
  show "orderly (V\<lparr>tv_main := Leaving\<rparr>)" if m: "tv_main V = Polling"
    using d by (intro move) (auto simp: m live_defs)
qed

lemma orderly_left:
  assumes "orderly V" "tv_main V = Leaving"
  shows "orderly (V\<lparr>tv_main := Returned 0, tv_tcp := None, tv_udt := None\<rparr>)"
  using orderlyD(4-6) [OF assms(1)] assms(2) by (simp add: orderly_def) blast

text \<open>
  The TCP worker cannot be joined at the end of the session: it was joined before, or nobody
  has cancelled it.
\<close>

lemma no_second_join:
  assumes "orderly V" "on_course (tv_packets V)" "tv_main V = JoinTcp" "tv_tcp V = Some t"
  shows "if tv_udt_only V then \<exists>pc. tv_threads V t = Some pc \<and> tcp_runs pc \<and> t \<notin> tv_pending V
    else tv_threads V t = None"
proof -
  obtain ps where ps: "tv_packets V = ps @ [P_PROGRAM_DONE]" using orderlyD(2) [OF assms(1)] assms(3) by auto
  have o: "orderly_threads V" using orderlyD(1) [OF assms(1)] assms(3) by simp
  have pend: "tv_pending V = {}" using orderlyD(4) [OF assms(1)] assms(3) by simp
  have tcp: "\<not> before_tcp V" using o assms(4) by (auto simp: orderly_threads_def)
  then have "P_RUN_M2M_UDT \<in> set (tv_packets V)"
    using on_course_snoc(7) [OF assms(2) [unfolded ps]] by (auto simp: ps before_tcp_def status_defs)
  then have live: "tcp_live V = tv_udt_only V" "\<not> udt_live V"
    using tcp assms(3) by (auto simp: tcp_live_def udt_live_def stopping_def ps)
  show ?thesis
  proof (cases "tv_udt_only V")
    case True
    then show ?thesis using o live assms(4) pend by (auto simp: orderly_threads_def)
  next
    case False
    then have "dom (tv_threads V) = {}" using o live by (auto simp: orderly_threads_def)
    then show ?thesis using False by auto
  qed
qed

lemma orderly_worker:
  assumes "orderly V" "tv_threads V t = Some pc" "worker_moves (t \<in> tv_pending V) pc pc'"
  shows "orderly (V\<lparr>tv_threads := (tv_threads V)(t \<mapsto> pc')\<rparr>)" (is "orderly ?W")
proof -
  have runs: "udt_runs pc \<Longrightarrow> udt_runs pc'" "tcp_runs pc \<Longrightarrow> t \<in> tv_pending V \<or> tcp_runs pc'"
    using assms(3) by (auto elim!: worker_movesE)
  have dom: "dom (tv_threads ?W) = dom (tv_threads V)" using assms(2) by auto
  have live: "before_tcp ?W = before_tcp V" "before_udt ?W = before_udt V" "tcp_live ?W = tcp_live V"
    "udt_live ?W = udt_live V"
    by (simp_all add: live_defs)
  have "orderly_threads ?W" if "orderly_threads V"
    using that runs assms(2) unfolding orderly_threads_def live dom by auto
  then show ?thesis
    using assms(1) unfolding orderly_def dom by simp
qed

lemma orderly_step:
  assumes "view_step V W" "on_course (tv_packets W)" "orderly V"
  shows "orderly W"
  using assms(1)
proof cases
  case idle
  then show ?thesis using assms(3) by simp
next
  case (packet p)
  then show ?thesis using orderly_packet assms(2,3) by simp
next
  case (failed b t u)
  have "\<exists>t u. dom (tv_threads V) \<subseteq> {t, u} \<and> (\<not> b \<longrightarrow> t = u)"
  proof (cases "b = tv_udt_only V")
    case True
    then show ?thesis using orderlyD(6) [OF assms(3)] by simp
  next
    case False
    then have m: "tv_main V = Handling P_TWOWAY_HANDSHAKE" using failed by simp
    obtain ps where ps: "tv_packets V = ps @ [P_TWOWAY_HANDSHAKE]" using orderlyD(2) [OF assms(3)] m by auto
    then have "ps = []" using on_course_snoc(4) [of ps P_TWOWAY_HANDSHAKE] assms(2) failed by simp
    then have "dom (tv_threads V) = {}"
      using orderlyD(1) [OF assms(3)] m ps by (auto simp: orderly_threads_def live_defs status_defs)
    then show ?thesis by auto
  qed
  then show ?thesis using orderlyD(4,5) [OF assms(3)] failed(1,2) by (auto simp: orderly_def can_fail_def)
next
  case (plain p b)
  then show ?thesis using orderly_plain assms(2,3) by simp
next
  case (start_tcp t)
  then show ?thesis using orderly_start_tcp assms(2,3) by simp
next
  case asked_tcp
  then show ?thesis using orderly_asked(1) assms(2,3) by simp
next
  case no_cancel
  then show ?thesis using orderly_asked(2) assms(2,3) by simp
next
  case (cancel t)
  then show ?thesis using orderly_cancel assms(2,3) by simp
next
  case (join t)
  then show ?thesis using orderly_join assms(2,3) by simp
next
  case asked_udt
  then show ?thesis using orderly_asked(3) assms(2,3) by simp
next
  case (start_udt t)
  then show ?thesis using orderly_start_udt assms(2,3) by simp
next
  case asked_done
  then show ?thesis using orderly_asked(4) assms(2,3) by simp
next
  case no_udt
  then show ?thesis using orderly_no_worker(1) assms(3) by simp
next
  case (join_udt t)
  then show ?thesis using orderly_join_udt assms(3) by simp
next
  case no_tcp
  then show ?thesis using orderly_no_worker(2) assms(3) by simp
next
  case (join_tcp t)
  have "on_course (tv_packets V)" using assms(2) join_tcp(1) by simp
  from no_second_join [OF assms(3) this join_tcp(2,3)] join_tcp(4) show ?thesis
    by (auto split: if_splits)
next
  case replied
  then show ?thesis using orderly_no_worker(3) assms(3) by simp
next
  case leave
  then show ?thesis using orderly_no_worker(4) assms(3) by simp
next
  case left
  then show ?thesis using orderly_left assms(3) by simp
next
  case (worker t pc pc')
  then show ?thesis using orderly_worker assms(3) by simp
qed

subsection \<open>What it says about the server\<close>

lemma packets_extend: "view_step V W \<Longrightarrow> \<exists>ps. tv_packets W = tv_packets V @ ps"
  by (erule view_step.cases) auto

lemma orderly_on_course_step:
  assumes "on_course (tv_packets V) \<longrightarrow> orderly V" "view_step V W"
  shows "on_course (tv_packets W) \<longrightarrow> orderly W"
proof
  assume W: "on_course (tv_packets W)"
  have "\<exists>ps. tv_packets W = tv_packets V @ ps" by (rule packets_extend [OF assms(2)])
  then have "on_course (tv_packets V)" using W append_prefixD by (fastforce simp: on_course_def)
  then show "orderly W" using assms W orderly_step by blast
qed

lemma server_orderly:
  assumes "server_start S" "server_reaches E S T" "prefix (sv_packets T) (requests flow straight)"
  shows "orderly (view T)" "on_course (tv_packets (view T))" "handles_status T"
proof -
  have start: "view_start (view S)" using assms(1) by (simp add: server_start_def view_start_def)
  show c: "on_course (tv_packets (view T))" using assms(3) by (auto simp: on_course_def)
  show "orderly (view T)"
    using threads_sim.invariant [OF server_reaches_steps [OF assms(2)] start_handles_status [OF assms(1)],
        where P = "\<lambda>V. on_course (tv_packets V) \<longrightarrow> orderly V"]
      orderly_start [OF start] orderly_on_course_step c by blast
  show "handles_status T"
    by (rule server_reaches_view(2) [OF assms(2) start_handles_status [OF assms(1)]])
qed

text \<open>
  C12. In a session that follows the protocol there is never more than one worker, ended or
  not, unless the client wants UDT only, and then there are at most two. When the UDT run is
  set up no worker is there that could use the control block, except for the TCP worker of a
  session with UDT only, which still runs.
\<close>

theorem workers_exclusive:
  assumes "server_start S" "server_reaches E S T" "prefix (sv_packets T) (requests flow straight)"
  shows "(\<exists>t u. dom (sv_threads T) \<subseteq> {t, u} \<and> (\<not> 0 < pb_do_udt_only (ps_prob (sv_state T)) \<longrightarrow> t = u)) \<and>
    (sv_main T = StartUdt \<longrightarrow>
      (if 0 < pb_do_udt_only (ps_prob (sv_state T)) \<and> P_RUN_M2M_TCP \<in> set (sv_packets T)
       then \<exists>t pc. pb_tcp_worker (ps_prob (sv_state T)) = Some t \<and> sv_threads T t = Some pc \<and> tcp_runs pc
       else sv_threads T = Map.empty))"
proof (intro conjI impI)
  note o = server_orderly [OF assms]
  show "\<exists>t u. dom (sv_threads T) \<subseteq> {t, u} \<and> (\<not> 0 < pb_do_udt_only (ps_prob (sv_state T)) \<longrightarrow> t = u)"
    using orderlyD(6) [OF o(1)] by simp
  assume m: "sv_main T = StartUdt"
  obtain ps where ps: "sv_packets T = ps @ [P_RUN_M2M_UDT]" using orderlyD(2) [OF o(1)] m by auto
  have th: "orderly_threads (view T)" and pend: "sv_pending T = {}"
    using orderlyD(1,4) [OF o(1)] m by simp_all
  have d: "P_PROGRAM_DONE \<notin> set (sv_packets T)"
    using on_course_snoc(3) [of ps P_RUN_M2M_UDT] o(2) by (auto simp: ps status_defs)
  have live: "tcp_live (view T) \<longleftrightarrow> 0 < pb_do_udt_only (ps_prob (sv_state T)) \<and> P_RUN_M2M_TCP \<in> set (sv_packets T)"
    "before_tcp (view T) \<longleftrightarrow> P_RUN_M2M_TCP \<notin> set (sv_packets T)" "\<not> udt_live (view T)"
    using m d by (auto simp: live_defs ps)
  show "if 0 < pb_do_udt_only (ps_prob (sv_state T)) \<and> P_RUN_M2M_TCP \<in> set (sv_packets T)
       then \<exists>t pc. pb_tcp_worker (ps_prob (sv_state T)) = Some t \<and> sv_threads T t = Some pc \<and> tcp_runs pc
       else sv_threads T = Map.empty"
    using th live pend by (auto simp: orderly_threads_def)
qed

text \<open>
  Without UDT only, a TCP worker that is recorded after the request for UDT was dealt with has
  been joined: there was a step that waited for it and took it away.
\<close>

definition joined_before :: "'w env \<Rightarrow> 'w server_sys \<Rightarrow> thread \<Rightarrow> 'w server_sys \<Rightarrow> bool" where
  "joined_before E S t T \<longleftrightarrow> (\<exists>U V. server_reaches E S U \<and> waits_for U = Some t \<and>
     sv_threads U t = Some Ended \<and> server_step E U (Some V) \<and> sv_threads V t = None \<and> server_reaches E V T)"

lemma joined_before_step:
  "joined_before E S t T \<Longrightarrow> server_step E T (Some T') \<Longrightarrow> joined_before E S t T'"
  unfolding joined_before_def using server_reaches.step by metis

definition past_stop :: "threads_view \<Rightarrow> bool" where
  "past_stop V \<longleftrightarrow> P_RUN_M2M_UDT \<in> set (tv_packets V) \<and> \<not> tv_udt_only V \<and> \<not> stopping (tv_main V) \<and>
     (\<forall>r. tv_main V \<noteq> Returned r)"

lemma past_stop_step:
  assumes "view_step V W" "orderly V" "on_course (tv_packets W)" "past_stop W" "tv_tcp W = Some t"
  shows "past_stop V \<and> tv_tcp V = Some t \<or>
    tv_main V = JoinCancelled t \<and> tv_threads V t = Some Ended \<and> tv_threads W t = None"
  using assms(1)
proof cases
  case (plain p b)
  have "b = tv_udt_only V"
  proof (rule ccontr)
    assume "b \<noteq> tv_udt_only V"
    then have p: "p = P_TWOWAY_HANDSHAKE" using plain by simp
    obtain ps where ps: "tv_packets V = ps @ [p]" using orderlyD(2) [OF assms(2)] plain by auto
    then have "ps = []" using on_course_snoc(4) [of ps p] assms(3) plain(1) p by simp
    then show False using assms(4) ps p plain(1) by (simp add: past_stop_def status_defs)
  qed
  then show ?thesis using plain assms(4,5) by (auto simp: past_stop_def stopping_def plain_packet_def)
next
  case (start_tcp u)
  obtain ps where ps: "tv_packets V = ps @ [P_RUN_M2M_TCP]" using orderlyD(2) [OF assms(2)] start_tcp by auto
  then have "P_RUN_M2M_UDT \<notin> set ps" using on_course_snoc(5) [of ps P_RUN_M2M_TCP] assms(3) start_tcp(1)
    by (auto simp: P_RUN_M2M_TCP_def P_PROGRAM_DONE_def)
  then show ?thesis using assms(4) ps start_tcp(1) by (simp add: past_stop_def status_defs)
next
  case (join u)
  then show ?thesis using orderlyD(3) [OF assms(2)] assms(5) by auto
qed (use assms(4,5) in \<open>auto simp: past_stop_def stopping_def status_defs\<close>)

lemma tcp_worker_joined:
  assumes "server_reaches E S T" "server_start S" "on_course (sv_packets T)" "past_stop (view T)"
    "pb_tcp_worker (ps_prob (sv_state T)) = Some t"
  shows "joined_before E S t T"
  using assms
proof (induction rule: server_reaches.induct)
  case start
  then show ?case by (simp add: server_start_def)
next
  case (step U T)
  have start: "handles_status S" "view_start (view S)"
    using step.prems(1) by (simp_all add: start_handles_status server_start_def view_start_def)
  note view = server_step_view [OF step.hyps(2) server_reaches_view(2) [OF step.hyps(1) start(1)]]
  have "\<exists>ps. sv_packets T = sv_packets U @ ps" using packets_extend [OF conjunct1 [OF view]] by simp
  then have course: "on_course (sv_packets U)" using step.prems(2) append_prefixD by (fastforce simp: on_course_def)
  then have "orderly (view U)" using server_orderly(1) [OF step.prems(1) step.hyps(1)] by (auto simp: on_course_def)
  from past_stop_step [OF conjunct1 [OF view] this] step.prems(2-4)
  consider "past_stop (view U)" "pb_tcp_worker (ps_prob (sv_state U)) = Some t"
    | "sv_main U = JoinCancelled t" "sv_threads U t = Some Ended" "sv_threads T t = None" by auto
  then show ?case
  proof cases
    case 1
    then show ?thesis using step.IH [OF step.prems(1) course] joined_before_step [OF _ step.hyps(2)] by blast
  next
    case 2
    then have "waits_for U = Some t" by (simp add: waits_for_def)
    then show ?thesis unfolding joined_before_def using step.hyps 2 server_reaches.start by metis
  qed
qed

text \<open>
  C13. When the main thread, at the end of a session in which the client has asked for TCP,
  comes to join the TCP worker, that is wrong in either case: with UDT only the worker still
  runs and nobody has cancelled it; otherwise it is the worker that the main thread joined
  when it stopped it, which is there no more. POSIX leaves a second join undefined; where it is
  an error that is returned, the code logs it and answers the packet all the same.
\<close>

theorem tcp_worker_joined_twice:
  assumes "server_start S" "server_reaches E S T" "prefix (sv_packets T) (requests flow straight)"
    and "P_RUN_M2M_TCP \<in> set (sv_packets T)" "sv_main T = JoinTcp"
  shows "\<exists>t. waits_for T = Some t \<and>
    (if 0 < pb_do_udt_only (ps_prob (sv_state T))
     then (\<exists>pc. sv_threads T t = Some pc \<and> tcp_runs pc) \<and> t \<notin> sv_pending T \<and> \<not> main_ready T
     else sv_threads T t = None \<and> (\<exists>U V. server_reaches E S U \<and> waits_for U = Some t \<and>
       sv_threads U t = Some Ended \<and> server_step E U (Some V) \<and> sv_threads V t = None \<and> server_reaches E V T))"
proof -
  note o = server_orderly [OF assms(1-3)] and m = assms(5)
  have "orderly_threads (view T)" using orderlyD(1) [OF o(1)] m by simp
  then obtain t where t: "pb_tcp_worker (ps_prob (sv_state T)) = Some t"
    using assms(4) m by (auto simp: orderly_threads_def before_tcp_def)
  then have waits: "waits_for T = Some t" using m by (simp add: waits_for_def)
  note nj = no_second_join [OF o(1,2), of t]
  show ?thesis
  proof (cases "0 < pb_do_udt_only (ps_prob (sv_state T))")
    case True
    then obtain pc where pc: "sv_threads T t = Some pc" "tcp_runs pc" "t \<notin> sv_pending T" using nj m t by auto
    then have "\<not> main_ready T" using waits by (cases pc) (auto simp: main_ready_def)
    then show ?thesis using True waits pc by auto
  next
    case False
    then have "sv_threads T t = None" using nj m t by auto
    obtain ps where ps: "sv_packets T = ps @ [P_PROGRAM_DONE]" using orderlyD(2) [OF o(1)] m by auto
    then have "P_RUN_M2M_TCP \<in> set ps" using assms(4) by (auto simp: status_defs)
    then have "P_RUN_M2M_UDT \<in> set (sv_packets T)" using on_course_snoc(7) [of ps] o(2) by (auto simp: ps)
    then have "past_stop (view T)" using m False by (simp add: past_stop_def stopping_def)
    from tcp_worker_joined [OF assms(2,1) _ this t] o(2) have "joined_before E S t T" by simp
    then show ?thesis using False waits \<open>sv_threads T t = None\<close> unfolding joined_before_def by auto
  qed
qed

text \<open>
  C16. When the client has ended the session the UDT worker leaves with its next step,
  whatever it has counted, and the main thread can join it and go on.
\<close>

theorem udt_worker_joined:
  assumes "server_start S" "server_reaches E S T" "prefix (sv_packets T) (requests flow straight)"
    and "sv_main T = JoinUdt" "pb_udt_worker (ps_prob (sv_state T)) = Some u"
  shows "(\<exists>pc. sv_threads T u = Some pc \<and>
      (pc = Ended \<or> worker_next E u pc T = Some (put_worker u Ended (sv_state T) T))) \<and>
    (\<exists>U. server_reaches E T U \<and> sv_main U = JoinTcp \<and> sv_state U = sv_state T \<and> sv_threads U u = None)"
proof -
  note o = server_orderly [OF assms(1-3)]
  have status: "pb_status (ps_prob (sv_state T)) = P_PROGRAM_DONE" using o(3) assms(4) by (simp add: handles_status_def)
  have th: "orderly_threads (view T)" using orderlyD(1) [OF o(1)] assms(4) by simp
  have "udt_live (view T)" using th assms(4,5) by (auto simp: orderly_threads_def udt_live_def)
  then obtain pc where pc: "sv_threads T u = Some pc" "udt_runs pc"
    using th assms(5) by (auto simp: orderly_threads_def)
  have ends: "worker_next E u pc T = Some (put_worker u Ended (sv_state T) T)" if "pc \<noteq> Ended"
    using pc(2) that status by (cases pc) (auto simp: worker_next_def udt_worker_body_def status_defs)
  have join: "\<exists>U. server_step E W (Some U) \<and> sv_main U = JoinTcp \<and> sv_state U = sv_state T \<and> sv_threads U u = None"
    if "sv_threads W u = Some Ended" "sv_main W = JoinUdt" "sv_state W = sv_state T" for W
  proof -
    let ?U = "(main_goes JoinTcp (sv_state W) W)\<lparr>sv_threads := (sv_threads W)(u := None), sv_pending := sv_pending W - {u}\<rparr>"
    have next_W: "main_next E W = Some ?U" using that assms(5) by (simp add: main_next_def main_joins_def)
    have "server_step E W (main_next E W)"
      by (rule server_step.main) (use that assms(5) in \<open>simp_all add: next_W main_ready_def waits_for_def
        fresh_thread_def started_def\<close>)
    then show ?thesis using that by (intro exI [of _ ?U]) (simp add: next_W)
  qed
  have "\<exists>U. server_reaches E T U \<and> sv_main U = JoinTcp \<and> sv_state U = sv_state T \<and> sv_threads U u = None"
  proof (cases "pc = Ended")
    case True
    then show ?thesis using join [of T] pc assms(4) by (blast intro: server_reaches.intros)
  next
    case False
    let ?W = "put_worker u Ended (sv_state T) T"
    have "server_step E T (Some ?W)"
      using server_step.worker [OF pc(1) False] ends [OF False] by metis
    then have "server_reaches E T ?W" by (blast intro: server_reaches.intros)
    moreover have "sv_threads ?W u = Some Ended" "sv_main ?W = JoinUdt" "sv_state ?W = sv_state T"
      using assms(4) by (simp_all add: put_worker_def)
    ultimately show ?thesis using join [of ?W] by (blast intro: server_reaches.step)
  qed
  then show ?thesis using pc(1) ends by blast
qed

end
