(* ===== verification/ServerSchedules.thy ===== *)
theory ServerSchedules
  imports ThreadProtocol
begin

text \<open>
  The sequential handler of \<open>Server\<close> is a schedule of the system of \<open>ServerThreads\<close>: where the
  handler joins a worker, the worker does what it still has to do, and then the main thread
  goes on. What is proved of the handler therefore holds of these runs of the system.
\<close>

lemma reaches_main:
  assumes "main_ready S" "main_next E S = Some T" "fresh_thread S (Some T)" "server_reaches E T U"
  shows "server_reaches E S U"
proof -
  have "server_step E S (Some T)" using server_step.main [of S E] assms(1-3) by simp
  then show ?thesis using assms(4)
    by (induction rule: server_reaches.induct [OF assms(4)]) (auto intro: server_reaches.intros)
qed

text \<open>Where a handler that returned \<open>r\<close> with the state \<open>s\<close> leaves the main thread.\<close>

definition handled_as :: "int \<Rightarrow> 'w pstate \<Rightarrow> 'w server_sys \<Rightarrow> bool" where
  "handled_as r s T \<longleftrightarrow>
     (if r < 0 then sv_main T = Returned (- 1) \<and> sv_state T = set_errno P_ERR_UNKNOWN s
      else sv_main T = Polling \<and> sv_state T = s)"

lemma set_errno_twice [simp]: "set_errno e (set_errno d s) = set_errno e s"
  by (simp add: set_errno_def)

lemma main_pc_sel [simp]:
  "sv_main (main_goes pc s S) = pc" "sv_state (main_goes pc s S) = s"
  "sv_threads (main_goes pc s S) = sv_threads S"
  by (simp_all add: main_goes_def)

lemma fails_as: "r < 0 \<Longrightarrow> handled_as r s (main_fails s S)"
  by (simp add: handled_as_def main_fails_def)

text \<open>An answer that fails, and one that goes on.\<close>

lemma reply_schedule:
  assumes "main_next E S = main_replies E p pc S" "main_ready S" "started S = (\<lambda>_. None)"
    and "check (server_reply E p (sv_state S)) id rest = Some (r, s)"
    and "\<And>u. rest u = Some (r, s) \<Longrightarrow> \<exists>T. server_reaches E (main_goes pc u S) T \<and> handled_as r s T"
  shows "\<exists>T. server_reaches E S T \<and> handled_as r s T"
  using assms(4)
proof (cases rule: check_cases)
  case (1 q u)
  have "main_next E S = Some (main_fails u S)" using 1 assms(1) by (simp add: main_replies_def)
  then have "server_reaches E S (main_fails u S)"
    using assms(2,3) by (intro reaches_main [OF _ _ _ server_reaches.start]) (simp_all add: fresh_thread_def)
  then show ?thesis using 1 fails_as [of r u S] by auto
next
  case (2 q u)
  have "main_next E S = Some (main_goes pc u S)" using 2 assms(1) by (simp add: main_replies_def)
  then show ?thesis using assms(2,3,5) 2 reaches_main [of S E "main_goes pc u S"] by (fastforce simp: fresh_thread_def)
qed

text \<open>Starting a worker that gets a fresh identifier.\<close>

lemma start_schedule:
  assumes "main_next E S = main_starts run worker wpc pc S" "main_ready S"
    and "check run (set_errno P_ERR_UNKNOWN) rest = Some (r, s)"
    and "\<And>q u. run = Some (q, u) \<Longrightarrow> 0 \<le> q \<Longrightarrow> \<exists>t. worker u = Some t \<and> sv_threads S t = None"
    and "\<And>T. pc = sv_main T \<Longrightarrow> started S T = worker (sv_state T)" "\<And>T x. sv_main T = Returned x \<Longrightarrow> started S T = None"
    and "\<And>u t. rest u = Some (r, s) \<Longrightarrow> worker u = Some t \<Longrightarrow>
      \<exists>T. server_reaches E ((main_goes pc u S)\<lparr>sv_threads := (sv_threads S)(t \<mapsto> wpc)\<rparr>) T \<and> handled_as r s T"
  shows "\<exists>T. server_reaches E S T \<and> handled_as r s T"
  using assms(3)
proof (cases rule: check_cases)
  case (1 q u)
  have "main_next E S = Some (main_fails u S)" using 1 assms(1) by (simp add: main_starts_def)
  then have "server_reaches E S (main_fails u S)"
    using assms(2,6) by (intro reaches_main [OF _ _ _ server_reaches.start]) (simp_all add: fresh_thread_def main_fails_def)
  then show ?thesis using 1 fails_as [of r u S] by (auto simp: handled_as_def)
next
  case (2 q u)
  obtain t where t: "worker u = Some t" "sv_threads S t = None" using assms(4) 2 by blast
  let ?T = "(main_goes pc u S)\<lparr>sv_threads := (sv_threads S)(t \<mapsto> wpc)\<rparr>"
  have "main_next E S = Some ?T" using 2 t assms(1) by (simp add: main_starts_def)
  moreover have "fresh_thread S (Some ?T)" using t assms(5) [of ?T] by (simp add: fresh_thread_def)
  moreover obtain T where "server_reaches E ?T T" "handled_as r s T" using assms(7) [OF 2(3) t(1)] by blast
  ultimately show ?thesis using reaches_main [OF assms(2)] by blast
qed

lemma tcp_run_thread:
  assumes "probdata_server_tcp_fastprof_run E s = Some (q, u)" "0 \<le> q"
  shows "\<exists>w. pb_tcp_worker (ps_prob u) = Some (fst (snd (e_thread_create E TcpWorker w)))"
  using assms unfolding probdata_server_tcp_fastprof_run_def
  by (auto elim!: check_zero simp: start_tcp_worker_def upd_prob_def Let_def case_prod_beta set_errno_def
      split: if_splits) blast

lemma udt_run_thread:
  assumes "probdata_server_udt_fastprof_run E s = Some (q, u)" "0 \<le> q"
  shows "\<exists>w. pb_udt_worker (ps_prob u) = Some (fst (snd (e_thread_create E UdtWorker w)))"
  using assms unfolding probdata_server_udt_fastprof_run_def
  by (auto elim!: check_zero simp: start_udt_worker_def upd_prob_def Let_def case_prod_beta set_errno_def
      split: if_splits) blast

lemma reply_then_end:
  "server_reply E p s = check (server_reply E p s) id (\<lambda>s. Some (0, s))"
  by (cases "probdata_ctrl_chan_send_ctrl_packet E p s") (auto simp: server_reply_def)

lemma polling_as: "handled_as 0 s (main_goes Polling s S)"
  by (simp add: handled_as_def)

text \<open>The three packets that concern the workers.\<close>

lemma tcp_schedule:
  assumes "sv_main S = Handling P_RUN_M2M_TCP"
    and "check (probdata_server_tcp_fastprof_run E (sv_state S)) (set_errno P_ERR_UNKNOWN)
      (server_reply E P_RUN_M2M_TCP) = Some (r, s)"
    and "\<And>k w. sv_threads S (fst (snd (e_thread_create E k w))) = None"
  shows "\<exists>T. server_reaches E S T \<and> handled_as r s T"
proof (rule start_schedule [where worker = "\<lambda>s. pb_tcp_worker (ps_prob s)" and wpc = "TcpLoop 0" and pc = AskedTcp, OF _ _ assms(2)])
  show "main_next E S = main_starts (probdata_server_tcp_fastprof_run E (sv_state S))
      (\<lambda>s. pb_tcp_worker (ps_prob s)) (TcpLoop 0) AskedTcp S"
    using assms(1) by (simp add: main_next_def Let_def)
  show "main_ready S" using assms(1) by (simp add: main_ready_def waits_for_def)
  show "\<exists>t. pb_tcp_worker (ps_prob u) = Some t \<and> sv_threads S t = None"
    if "probdata_server_tcp_fastprof_run E (sv_state S) = Some (q, u)" "0 \<le> q" for q u
    using tcp_run_thread [OF that] assms(3) by auto
  show "started S T = pb_tcp_worker (ps_prob (sv_state T))" if "AskedTcp = sv_main T" for T
    using assms(1) that by (simp add: started_def)
  show "started S T = None" if "sv_main T = Returned x" for T x
    using assms(1) that by (simp add: started_def)
  fix u t assume reply: "server_reply E P_RUN_M2M_TCP u = Some (r, s)"
  let ?S = "(main_goes AskedTcp u S)\<lparr>sv_threads := (sv_threads S)(t \<mapsto> TcpLoop 0)\<rparr>"
  show "\<exists>T. server_reaches E ?S T \<and> handled_as r s T"
  proof (rule reply_schedule [where S = ?S and p = P_RUN_M2M_TCP and pc = Polling and rest = "\<lambda>s. Some (0, s)"])
    show "check (server_reply E P_RUN_M2M_TCP (sv_state ?S)) id (\<lambda>s. Some (0, s)) = Some (r, s)"
      using reply reply_then_end [of E P_RUN_M2M_TCP u] by simp
    show "main_next E ?S = main_replies E P_RUN_M2M_TCP Polling ?S" by (simp add: main_next_def Let_def)
    show "main_ready ?S" by (simp add: main_ready_def waits_for_def)
    show "started ?S = (\<lambda>_. None)" by (rule ext) (simp add: started_def)
    show "\<exists>T. server_reaches E (main_goes Polling v ?S) T \<and> handled_as r s T" if "Some (0, v) = Some (r, s)" for v
      using that polling_as by (fastforce intro: server_reaches.start)
  qed
qed

lemma udt_schedule:
  assumes "sv_main S = AskedUdt"
    and "check (server_reply E P_RUN_M2M_UDT (sv_state S)) id
      (\<lambda>s. check (probdata_server_udt_fastprof_run E s) (set_errno P_ERR_UNKNOWN) (\<lambda>s. Some (0, s))) = Some (r, s)"
    and "\<And>k w. sv_threads S (fst (snd (e_thread_create E k w))) = None"
  shows "\<exists>T. server_reaches E S T \<and> handled_as r s T"
proof (rule reply_schedule [where pc = StartUdt, OF _ _ _ assms(2)])
  show "main_next E S = main_replies E P_RUN_M2M_UDT StartUdt S" using assms(1) by (simp add: main_next_def Let_def)
  show "main_ready S" using assms(1) by (simp add: main_ready_def waits_for_def)
  show "started S = (\<lambda>_. None)" using assms(1) by (intro ext) (simp add: started_def)
  fix u assume run: "check (probdata_server_udt_fastprof_run E u) (set_errno P_ERR_UNKNOWN) (\<lambda>s. Some (0, s)) = Some (r, s)"
  let ?S = "main_goes StartUdt u S"
  show "\<exists>T. server_reaches E ?S T \<and> handled_as r s T"
  proof (rule start_schedule [where worker = "\<lambda>s. pb_udt_worker (ps_prob s)" and wpc = "UdtLoop 0 0" and pc = Polling, OF _ _ run])
    show "main_next E ?S = main_starts (probdata_server_udt_fastprof_run E u)
        (\<lambda>s. pb_udt_worker (ps_prob s)) (UdtLoop 0 0) Polling ?S" by (simp add: main_next_def Let_def)
    show "main_ready ?S" by (simp add: main_ready_def waits_for_def)
    show "\<exists>t. pb_udt_worker (ps_prob v) = Some t \<and> sv_threads ?S t = None"
      if "probdata_server_udt_fastprof_run E u = Some (q, v)" "0 \<le> q" for q v
      using udt_run_thread [OF that] assms(3) by auto
    show "started ?S T = pb_udt_worker (ps_prob (sv_state T))" if "Polling = sv_main T" for T
      using that by (simp add: started_def)
    show "started ?S T = None" if "sv_main T = Returned x" for T x
      using that by (simp add: started_def)
    show "\<exists>T. server_reaches E ((main_goes Polling v ?S)\<lparr>sv_threads := (sv_threads ?S)(t \<mapsto> UdtLoop 0 0)\<rparr>) T \<and>
        handled_as r s T" if "Some (0, v) = Some (r, s)" for v t
    proof (intro exI conjI)
      show "server_reaches E ((main_goes Polling v ?S)\<lparr>sv_threads := (sv_threads ?S)(t \<mapsto> UdtLoop 0 0)\<rparr>)
          ((main_goes Polling v ?S)\<lparr>sv_threads := (sv_threads ?S)(t \<mapsto> UdtLoop 0 0)\<rparr>)"
        by (rule server_reaches.start)
    qed (use that in \<open>simp add: handled_as_def\<close>)
  qed
qed

subsection \<open>Joining a worker\<close>

text \<open>
  The handler of control packets with the joins as a parameter: \<open>J cancelled t s\<close> is the state
  after the join of \<open>t\<close> that begins in \<open>s\<close>, and \<open>cancelled\<close> whether the handler has cancelled
  the thread before. With \<open>join_worker\<close>, which leaves it to the environment, it is the handler.
\<close>

type_synonym 'w joining = "bool \<Rightarrow> thread \<Rightarrow> 'w pstate \<Rightarrow> 'w pstate option"

definition stop_by :: "'w joining \<Rightarrow> 'w env \<Rightarrow> 'w pstate \<Rightarrow> 'w pstate option" where
  "stop_by J E s = do {
     t \<leftarrow> pb_tcp_worker (ps_prob s);
     J True t (s\<lparr>ps_world := snd (e_thread_cancel E t (ps_world s))\<rparr>)
   }"

definition join_by :: "'w joining \<Rightarrow> thread option \<Rightarrow> 'w pstate \<Rightarrow> 'w pstate option" where
  "join_by J w s = (case w of None \<Rightarrow> Some s | Some t \<Rightarrow> J False t s)"

definition handler_by :: "'w joining \<Rightarrow> 'w env \<Rightarrow> 'w pstate \<Rightarrow> (int \<times> 'w pstate) option" where
  "handler_by J E s =
     (if pb_status (ps_prob s) = P_RUN_M2M_UDT then do {
        s \<leftarrow> (if 0 < pb_do_udt_only (ps_prob s) then Some s else stop_by J E s);
        check (server_reply E P_RUN_M2M_UDT s) id
          (\<lambda>s. check (probdata_server_udt_fastprof_run E s) (set_errno P_ERR_UNKNOWN) (\<lambda>s. Some (0, s)))
      }
      else if pb_status (ps_prob s) = P_PROGRAM_DONE then do {
        s \<leftarrow> join_by J (pb_udt_worker (ps_prob s)) s;
        s \<leftarrow> join_by J (pb_tcp_worker (ps_prob s)) s;
        server_reply E P_PROGRAM_DONE s
      }
      else probdata_server_proc_ctrl_packet E s)"

lemma handler_by_join_worker: "handler_by (\<lambda>_. join_worker E) E = probdata_server_proc_ctrl_packet E"
proof
  fix s
  have "stop_by (\<lambda>_. join_worker E) E s = stop_tcp_worker E s" for s
    by (simp add: stop_by_def stop_tcp_worker_def)
  moreover have "join_by (\<lambda>_. join_worker E) w s = join_if_started E w s" for w s
    by (simp add: join_by_def join_if_started_def)
  ultimately show "handler_by (\<lambda>_. join_worker E) E s = probdata_server_proc_ctrl_packet E s"
    by (simp add: handler_by_def server_proc_unfold status_defs Let_def)
qed

text \<open>
  What a worker still does until it has ended, wherever it is: nothing when it has; the clean-up
  handler when it was cancelled, which ends a run of \<open>libiperf\<close> that it is in; the UDT worker
  one look at the status. \<open>None\<close> when it may go on for ever, or what it does is undefined.
\<close>

definition still_does :: "'w env \<Rightarrow> 'w server_sys \<Rightarrow> 'w joining" where
  "still_does E S cancelled t s =
     (case sv_threads S t of
        None \<Rightarrow> None
      | Some pc \<Rightarrow> (case pc of
          TcpLoop n \<Rightarrow> if cancelled then probdata_server_tcp_fastprof_cleanup_handler E s else None
        | TcpServing n \<Rightarrow> if cancelled then probdata_server_tcp_fastprof_cleanup_handler E s else None
        | TcpLeaving \<Rightarrow> do {
            (_, s) \<leftarrow> probdata_server_tcp_prof_delete E s;
            probdata_server_tcp_fastprof_cleanup_handler E s
          }
        | TcpCleaning \<Rightarrow> probdata_server_tcp_fastprof_cleanup_handler E s
        | UdtLoop e k \<Rightarrow> do {
            c \<leftarrow> udt_worker_body E id \<lparr>uw_err_cnt = e, uw_ok_cnt = k, uw_state = s\<rparr>;
            (case c of Next _ \<Rightarrow> None | _ \<Rightarrow> Some (uw_state (ctl_state c)))
          }
        | Ended \<Rightarrow> Some s))"

lemma still_does_present: "still_does E S c t s = Some s' \<Longrightarrow> sv_threads S t \<noteq> None"
  by (auto simp: still_does_def split: option.splits)

lemma still_does_cong: "sv_threads S' t = sv_threads S t \<Longrightarrow> still_does E S' c t s = still_does E S c t s"
  by (simp add: still_does_def)

lemma still_does_prob:
  assumes "still_does E S c t s = Some s'"
  shows "ps_prob s' = ps_prob s"
proof -
  obtain pc where pc: "sv_threads S t = Some pc" using still_does_present [OF assms] by blast
  show ?thesis
  proof (cases pc)
    case (UdtLoop e k)
    then obtain v where v: "udt_worker_body E id \<lparr>uw_err_cnt = e, uw_ok_cnt = k, uw_state = s\<rparr> = Some v"
      and s': "(case v of Next _ \<Rightarrow> None | _ \<Rightarrow> Some (uw_state (ctl_state v))) = Some s'"
      using assms pc by (auto simp: still_does_def bind_eq_Some_conv)
    then show ?thesis using udt_body_prob [OF v] by (cases v) auto
  qed (use assms pc in \<open>auto simp: still_does_def bind_eq_Some_conv split: if_splits
      dest!: cleanup_handler_prob worker_parts_prob\<close>)
qed

lemma cleanup_needs:
  assumes "probdata_server_tcp_fastprof_cleanup_handler E s = Some u"
  obtains prof test where "pb_tcp_prof (ps_prob s) = Some prof" "ps_heap s (tcp_prof prof) = Some test"
proof -
  obtain prof where prof: "pb_tcp_prof (ps_prob s) = Some prof" and
    reset: "f_tcp_prof_reset E prof (pb_control (ps_prob s)) (ps_heap s, ps_world s) (ps_f_errno s) \<noteq> None"
    using assms by (auto simp: probdata_server_tcp_fastprof_cleanup_handler_def
        probdata_server_tcp_prof_reset_def bind_eq_Some_conv)
  then show thesis using that
    by (cases "ps_heap s (tcp_prof prof)") (auto simp: f_tcp_prof_reset_def)
qed

lemma put_worker_twice [simp]: "put_worker t pc' s' (put_worker t pc s S) = put_worker t pc' s' S"
  by (simp add: put_worker_def)

lemma put_worker_same: "sv_threads S t = Some pc \<Longrightarrow> put_worker t pc (sv_state S) S = S"
  by (simp add: put_worker_def fun_upd_idem)

lemma reaches_step: "server_step E S (Some T) \<Longrightarrow> server_reaches E T U \<Longrightarrow> server_reaches E S U"
  by (rotate_tac 1, induction rule: server_reaches.induct) (auto intro: server_reaches.intros)

lemma cleaning_ends:
  assumes "sv_threads S t = Some TcpCleaning" "probdata_server_tcp_fastprof_cleanup_handler E (sv_state S) = Some s"
  shows "server_reaches E S (put_worker t Ended s S)"
proof -
  have "worker_next E t TcpCleaning S = Some (put_worker t Ended s S)" using assms(2) by (simp add: worker_next_def)
  then show ?thesis using server_step.worker [OF assms(1), of E] by (auto intro: server_reaches.intros)
qed

lemma worker_finishes:
  assumes "still_does E S c t (sv_state S) = Some s" "c \<Longrightarrow> t \<in> sv_pending S"
  shows "server_reaches E S (put_worker t Ended s S)"
proof -
  let ?s = "sv_state S"
  obtain pc where pc: "sv_threads S t = Some pc" using still_does_present [OF assms(1)] by blast
  have step: "server_reaches E S (put_worker t Ended s S)"
    if "worker_next E t pc S = Some (put_worker t Ended s S)" "pc \<noteq> Ended"
    using server_step.worker [OF pc that(2), of E] that(1) by (auto intro: server_reaches.intros)
  have clean: "server_reaches E S (put_worker t Ended s S)"
    if "server_step E S (Some (put_worker t TcpCleaning ?s S))"
      "probdata_server_tcp_fastprof_cleanup_handler E ?s = Some s"
    using reaches_step [OF that(1) cleaning_ends [of _ t]] that(2) by (simp add: put_worker_def)
  show ?thesis
  proof (cases pc)
    case (TcpLoop n)
    then have c: "c" "probdata_server_tcp_fastprof_cleanup_handler E ?s = Some s"
      using assms(1) pc by (auto simp: still_does_def split: if_splits)
    have "worker_next E t pc S = Some (put_worker t TcpCleaning ?s S)"
      using assms(2) c(1) TcpLoop by (simp add: worker_next_def)
    then show ?thesis using clean c(2) server_step.worker [OF pc, of E] TcpLoop by simp
  next
    case (TcpServing n)
    then have c: "c" "probdata_server_tcp_fastprof_cleanup_handler E ?s = Some s"
      using assms(1) pc by (auto simp: still_does_def split: if_splits)
    obtain prof test where prof: "pb_tcp_prof (ps_prob ?s) = Some prof" "ps_heap ?s (tcp_prof prof) = Some test"
      using cleanup_needs [OF c(2)] .
    have "?s\<lparr>ps_heap := (ps_heap ?s)(tcp_prof prof \<mapsto> test), ps_world := ps_world ?s\<rparr> = ?s"
      using prof(2) by (simp add: fun_upd_idem)
    then show ?thesis
      using clean c assms(2) server_step.cancelled [where S = S and t = t and n = n and prof = prof and test = test and w = "ps_world ?s" and E = E] pc TcpServing prof(1) by simp
  next
    case TcpLeaving
    then show ?thesis using assms(1) pc
      by (intro step) (auto simp: still_does_def worker_next_def bind_eq_Some_conv)
  next
    case TcpCleaning
    then show ?thesis using assms(1) pc by (intro cleaning_ends) (auto simp: still_does_def)
  next
    case (UdtLoop e k)
    then show ?thesis using assms(1) pc
      by (intro step) (auto simp: still_does_def worker_next_def bind_eq_Some_conv split: ctl.splits)
  next
    case Ended
    then have "s = ?s" using assms(1) pc by (simp add: still_does_def)
    then show ?thesis using put_worker_same [of S t Ended] pc Ended by (simp add: server_reaches.start)
  qed
qed

lemma server_reaches_trans:
  assumes "server_reaches E T U" "server_reaches E S T"
  shows "server_reaches E S U"
  using assms by induction (auto intro: server_reaches.step)

text \<open>The system after the join, and the schedule that leads there.\<close>

definition joined :: "main_pc \<Rightarrow> thread \<Rightarrow> 'w pstate \<Rightarrow> 'w server_sys \<Rightarrow> 'w server_sys" where
  "joined pc t s S = (main_goes pc s S)
     \<lparr>sv_threads := (sv_threads S)(t := None), sv_pending := sv_pending S - {t}\<rparr>"

lemma joined_sel [simp]:
  "sv_main (joined pc t s S) = pc" "sv_state (joined pc t s S) = s"
  "sv_threads (joined pc t s S) = (sv_threads S)(t := None)"
  by (simp_all add: joined_def main_goes_def)

lemma join_schedule:
  assumes "still_does E S c t (sv_state S) = Some s" "c \<Longrightarrow> t \<in> sv_pending S"
    and "main_next E (put_worker t Ended s S) = main_joins (Some t) pc (put_worker t Ended s S)"
      "waits_for (put_worker t Ended s S) = Some t"
    and "server_reaches E (joined pc t s S) T"
  shows "server_reaches E S T"
proof -
  let ?W = "put_worker t Ended s S"
  have W: "main_next E ?W = Some (joined pc t s S)"
    unfolding assms(3) by (simp add: main_joins_def joined_def put_worker_def main_goes_def)
  have "\<not> (\<exists>r. sv_main ?W = Returned r)" using assms(4) by (auto simp: waits_for_def)
  then have ready: "main_ready ?W" unfolding main_ready_def assms(4) by (simp add: put_worker_def)
  have "fresh_thread ?W (Some (joined pc t s S))"
    using assms(4) by (auto simp: fresh_thread_def started_def waits_for_def split: main_pc.splits)
  then have "server_reaches E ?W T" using reaches_main [OF ready W] assms(5) by blast
  moreover have "server_reaches E S ?W" by (rule worker_finishes [OF assms(1,2)])
  ultimately show ?thesis by (rule server_reaches_trans)
qed

lemma stop_schedule:
  assumes "sv_main S = Handling P_RUN_M2M_UDT" "\<not> 0 < pb_do_udt_only (ps_prob (sv_state S))"
    and "stop_by (still_does E S) E (sv_state S) = Some u"
  obtains U t where "pb_tcp_worker (ps_prob (sv_state S)) = Some t" "sv_main U = AskedUdt" "sv_state U = u"
    "sv_threads U = (sv_threads S)(t := None)" "\<And>T. server_reaches E U T \<Longrightarrow> server_reaches E S T"
proof -
  let ?s = "sv_state S"
  obtain t where t: "pb_tcp_worker (ps_prob ?s) = Some t"
    and u: "still_does E S True t (?s\<lparr>ps_world := snd (e_thread_cancel E t (ps_world ?s))\<rparr>) = Some u"
    using assms(3) by (auto simp: stop_by_def bind_eq_Some_conv)
  let ?v = "?s\<lparr>ps_world := snd (e_thread_cancel E t (ps_world ?s))\<rparr>"
  let ?C = "(main_goes (JoinCancelled t) ?v S)\<lparr>sv_pending := insert t (sv_pending S)\<rparr>"
  let ?U = "joined AskedUdt t u ?C"
  have C: "main_next E S = Some ?C" "main_ready S"
    using assms(1,2) t still_does_present [OF u]
    by (simp_all add: main_next_def Let_def status_defs main_ready_def waits_for_def)
  have "still_does E ?C True t (sv_state ?C) = Some u" using u still_does_cong [of ?C t S] by simp
  then have CU: "server_reaches E ?C T" if "server_reaches E ?U T" for T
    by (rule join_schedule [where S = ?C and c = True and t = t and s = u and pc = AskedUdt])
      (use that \<open>still_does E ?C True t (sv_state ?C) = Some u\<close> in
        \<open>simp_all add: main_next_def waits_for_def put_worker_def\<close>)
  show thesis
  proof (rule that [of t ?U])
    show "server_reaches E S T" if "server_reaches E ?U T" for T
      using reaches_main [OF C(2,1) _ CU [OF that]] by (simp add: fresh_thread_def started_def assms(1))
  qed (simp_all add: t)
qed

lemma no_worker_schedule:
  assumes "main_next E S = main_joins None pc S" "sv_main S \<in> {JoinUdt, JoinTcp}" "waits_for S = None"
    and "server_reaches E (main_goes pc (sv_state S) S) T"
  shows "server_reaches E S T"
  using assms
  by (intro reaches_main [OF _ _ _ assms(4)]) (auto simp: main_joins_def main_ready_def fresh_thread_def started_def)

text \<open>A join of the last packet, with or without a worker to be joined.\<close>

lemma last_join_schedule:
  assumes "sv_main S \<in> {JoinUdt, JoinTcp}" "join_by (still_does E S) w (sv_state S) = Some s"
    and "\<And>W. sv_main W = sv_main S \<Longrightarrow> ps_prob (sv_state W) = ps_prob (sv_state S) \<Longrightarrow>
      main_next E W = main_joins w pc W \<and> waits_for W = w"
  obtains U where "sv_main U = pc" "sv_state U = s" "\<And>t. w \<noteq> Some t \<Longrightarrow> sv_threads U t = sv_threads S t"
    "\<And>T. server_reaches E U T \<Longrightarrow> server_reaches E S T"
proof (cases w)
  case None
  then have s: "s = sv_state S" using assms(2) by (simp add: join_by_def)
  show thesis
    using no_worker_schedule [of E S pc] assms(1) assms(3) [of S] None
    by (intro that [of "main_goes pc s S"]) (simp_all add: s)
next
  case (Some t)
  then have J: "still_does E S False t (sv_state S) = Some s" using assms(2) by (simp add: join_by_def)
  have W: "main_next E (put_worker t Ended s S) = main_joins w pc (put_worker t Ended s S) \<and>
      waits_for (put_worker t Ended s S) = w"
    by (rule assms(3)) (use still_does_prob [OF J] in \<open>simp_all add: put_worker_def\<close>)
  show thesis
    using join_schedule [OF J] W Some by (intro that [of "joined pc t s S"]) auto
qed

lemma finish_schedule:
  assumes "sv_main S = Handling P_PROGRAM_DONE"
    and "join_by (still_does E S) (pb_udt_worker (ps_prob (sv_state S))) (sv_state S) = Some u"
      "join_by (still_does E S) (pb_tcp_worker (ps_prob u)) u = Some v"
      "server_reply E P_PROGRAM_DONE v = Some (r, s)"
    and "\<And>t. pb_tcp_worker (ps_prob (sv_state S)) = Some t \<Longrightarrow> pb_udt_worker (ps_prob (sv_state S)) \<noteq> Some t"
  shows "\<exists>T. server_reaches E S T \<and> handled_as r s T"
proof -
  let ?s = "sv_state S"
  have keeps: "ps_prob y = ps_prob x" if "join_by (still_does E S) w x = Some y" for w x y
    using that still_does_prob by (fastforce simp: join_by_def split: option.splits)
  let ?A = "main_goes JoinUdt ?s S"
  have A: "main_next E S = Some ?A" "main_ready S"
    using assms(1) by (simp_all add: main_next_def Let_def status_defs main_ready_def waits_for_def)
  have cong: "join_by (still_does E W) w x = join_by (still_does E S) w x"
    if "\<And>t. w = Some t \<Longrightarrow> sv_threads W t = sv_threads S t" for W w x
    using that still_does_cong [of W _ S] by (cases w) (simp_all add: join_by_def)
  obtain B where B: "sv_main B = JoinTcp" "sv_state B = u"
      "\<And>t. pb_udt_worker (ps_prob ?s) \<noteq> Some t \<Longrightarrow> sv_threads B t = sv_threads S t"
      "\<And>T. server_reaches E B T \<Longrightarrow> server_reaches E ?A T"
  proof (rule last_join_schedule [of ?A E "pb_udt_worker (ps_prob ?s)" u JoinTcp])
    show "join_by (still_does E ?A) (pb_udt_worker (ps_prob ?s)) (sv_state ?A) = Some u"
      using assms(2) cong [of _ ?A] by simp
    show "main_next E W = main_joins (pb_udt_worker (ps_prob ?s)) JoinTcp W \<and> waits_for W = pb_udt_worker (ps_prob ?s)"
      if "sv_main W = sv_main ?A" "ps_prob (sv_state W) = ps_prob (sv_state ?A)" for W
      using that by (simp add: main_next_def waits_for_def)
  qed (use that in simp_all)
  obtain C where C: "sv_main C = LastReply" "sv_state C = v" "\<And>T. server_reaches E C T \<Longrightarrow> server_reaches E B T"
  proof (rule last_join_schedule [of B E "pb_tcp_worker (ps_prob u)" v LastReply])
    have "sv_threads B t = sv_threads S t" if "pb_tcp_worker (ps_prob u) = Some t" for t
      using B(3) assms(5) that keeps [OF assms(2)] by simp
    then show "join_by (still_does E B) (pb_tcp_worker (ps_prob u)) (sv_state B) = Some v"
      using assms(3) cong [of _ B] B(2) by simp
    show "main_next E W = main_joins (pb_tcp_worker (ps_prob u)) LastReply W \<and> waits_for W = pb_tcp_worker (ps_prob u)"
      if "sv_main W = sv_main B" "ps_prob (sv_state W) = ps_prob (sv_state B)" for W
      using that B(1,2) by (simp add: main_next_def waits_for_def)
  qed (use that B(1) in simp_all)
  have "\<exists>T. server_reaches E C T \<and> handled_as r s T"
  proof (rule reply_schedule [where S = C and p = P_PROGRAM_DONE and pc = Polling and rest = "\<lambda>s. Some (0, s)"])
    show "check (server_reply E P_PROGRAM_DONE (sv_state C)) id (\<lambda>s. Some (0, s)) = Some (r, s)"
      using assms(4) reply_then_end [of E P_PROGRAM_DONE v] C(2) by simp
    show "main_next E C = main_replies E P_PROGRAM_DONE Polling C" using C(1) by (simp add: main_next_def Let_def)
    show "main_ready C" using C(1) by (simp add: main_ready_def waits_for_def)
    show "started C = (\<lambda>_. None)" using C(1) by (intro ext) (simp add: started_def)
    show "\<exists>T. server_reaches E (main_goes Polling v C) T \<and> handled_as r s T" if "Some (0, v) = Some (r, s)" for v
      using that polling_as by (fastforce intro: server_reaches.start)
  qed
  then obtain T where "server_reaches E ?A T" "handled_as r s T" using B(4) C(3) by blast
  then show ?thesis
    using reaches_main [OF A(2,1)] assms(1) by (auto simp: fresh_thread_def started_def)
qed


end
