(* ===== verification/ThreadWitnesses.thy ===== *)
theory ThreadWitnesses
  imports SessionWitnesses WorkerPhases ServerSchedules
begin

text \<open>
  The properties of the server's threads are applied here, to a session of the demonstration
  with a TCP run and a UDT run: the packets arrive one after the other, the TCP worker is
  cancelled before it serves a run, and the UDT worker ends when the client is done.
\<close>

definition demo_session :: string where
  "demo_session = byte_of P_TWOWAY_HANDSHAKE # int_bytes (- 1) @ int_bytes 1000000 @
     map byte_of [P_RUN_M2M_DB, P_RUN_M2M_TCP, P_RUN_M2M_UDT, P_PROGRAM_DONE]"

definition demo_server :: "net server_sys" where
  "demo_server = \<lparr>sv_state = demo_state P_SERVER demo_session, sv_main = Polling, sv_threads = Map.empty,
     sv_pending = {}, sv_packets = []\<rparr>"

text \<open>What is known of a state on the way.\<close>

definition demo_at ::
    "main_pc \<Rightarrow> string \<Rightarrow> (thread \<rightharpoonup> worker_pc) \<Rightarrow> thread set \<Rightarrow> int list \<Rightarrow> net server_sys \<Rightarrow> bool" where
  "demo_at pc rx th pend ps S \<longleftrightarrow>
     sv_main S = pc \<and> sv_threads S = th \<and> sv_pending S = pend \<and> sv_packets S = ps \<and>
     (let s = sv_state S; p = ps_prob s
      in fst (ps_world s) = rx \<and> pb_accept_sock p = 5 \<and> pb_role p = P_SERVER \<and> pb_do_udt_only p = - 1 \<and>
         pb_status p = (if ps = [] then P_PROGRAM_START else last ps) \<and>
         pb_remote_ip p = ''10.0.0.1'' @ replicate 56 NUL \<and> length (fc_remote_ip (pb_control p)) = 64 \<and>
         terminated (fc_remote_ip (pb_control p)) \<and> fc_mss (pb_control p) = 1500)"

definition demo_tcp :: "net server_sys \<Rightarrow> bool" where
  "demo_tcp S \<longleftrightarrow> pb_tcp_worker (ps_prob (sv_state S)) = Some 7 \<and>
     (\<exists>q t. pb_tcp_prof (ps_prob (sv_state S)) = Some q \<and> ps_heap (sv_state S) (tcp_prof q) = Some t)"

lemma demo_server_at: "demo_at Polling demo_session Map.empty {} [] demo_server" "server_start demo_server"
  by (simp_all add: demo_at_def demo_server_def server_start_def Let_def)
    (simp_all add: demo_prob_def demo_ctrl_def)

lemma demo_poll_next:
  assumes "demo_at Polling (byte_of p # rx) th pend ps S" "- 128 \<le> p" "p \<le> 127"
    and "\<not> server_done (if ps = [] then P_PROGRAM_START else last ps)"
  shows "\<exists>T. server_reaches (demo_env []) S T \<and> demo_at (Handling p) rx th pend (ps @ [p]) T \<and>
    (demo_tcp S \<longrightarrow> demo_tcp T) \<and>
    pb_udt_worker (ps_prob (sv_state T)) = pb_udt_worker (ps_prob (sv_state S))"
proof -
  let ?s = "sv_state S"
  have acc: "pb_accept_sock (ps_prob ?s) = 5" using assms(1) by (simp add: demo_at_def Let_def)
  obtain tx where w: "ps_world ?s = (byte_of p # rx, tx)"
    using assms(1) by (cases "ps_world ?s") (simp add: demo_at_def Let_def)
  let ?u = "?s\<lparr>ps_world := (rx, tx), ps_prob := (ps_prob ?s)\<lparr>pb_max_sock := - 1, pb_status := p\<rparr>\<rparr>"
  let ?T = "(main_goes (Handling p) ?u S)\<lparr>sv_packets := ps @ [p]\<rparr>"
  have "poll_ctrl_channel (demo_env []) a b ?s = Some (1, ?s\<lparr>ps_world := (rx, tx),
      ps_prob := (ps_prob ?s)\<lparr>pb_max_sock := max (pb_max_sock (ps_prob ?s)) 5, pb_status := p\<rparr>\<rparr>)" for a b
    by (subst demo_poll [OF acc]) (simp add: w schar_byte assms(2,3))
  then have poll: "probdata_server_poll_ctrl_channel (demo_env []) ?s = Some (1, ?u)"
    by (simp add: probdata_server_poll_ctrl_channel_def upd_prob_def)
  have "main_next (demo_env []) S = Some ?T"
    using assms(1,4) poll by (simp add: main_next_def demo_at_def Let_def)
  then have "server_reaches (demo_env []) S ?T"
    using assms(1) by (intro reaches_main [OF _ _ _ server_reaches.start])
      (simp_all add: main_ready_def waits_for_def fresh_thread_def started_def demo_at_def)
  moreover have "demo_at (Handling p) rx th pend (ps @ [p]) ?T"
    using assms(1) by (simp add: demo_at_def Let_def main_goes_def)
  ultimately show ?thesis by (intro exI [of _ ?T]) (simp add: demo_tcp_def main_goes_def)
qed

lemma demo_reply [simp]:
  "server_reply (demo_env f) p s = Some (0, s\<lparr>ps_world := (fst (ps_world s), snd (ps_world s) @ [byte_of p])\<rparr>)"
  by (simp add: server_reply_def probdata_ctrl_chan_send_ctrl_packet_def)

lemma demo_status:
  "demo_at pc rx th pend (ps @ [p]) S \<Longrightarrow> pb_status (ps_prob (sv_state S)) = p"
  by (simp add: demo_at_def Let_def)

text \<open>A step of the main thread to a state that is given.\<close>

lemma demo_main:
  assumes "main_next (demo_env []) S = Some T" "sv_main S \<notin> range Returned" "waits_for S = None" "started S T = None"
  shows "server_reaches (demo_env []) S T"
  using assms by (intro reaches_main [OF _ _ _ server_reaches.start])
    (auto simp: main_ready_def fresh_thread_def)

lemma demo_handshake:
  assumes "demo_at (Handling P_TWOWAY_HANDSHAKE) (int_bytes (- 1) @ int_bytes 1000000 @ rx) th pend [P_TWOWAY_HANDSHAKE] S"
  shows "\<exists>T. server_reaches (demo_env []) S T \<and> demo_at Polling rx th pend [P_TWOWAY_HANDSHAKE] T \<and>
    pb_udt_worker (ps_prob (sv_state T)) = pb_udt_worker (ps_prob (sv_state S))"
proof -
  let ?s = "sv_state S"
  have st: "pb_status (ps_prob ?s) = P_TWOWAY_HANDSHAKE" "pb_role (ps_prob ?s) = P_SERVER"
    using assms by (simp_all add: demo_at_def Let_def)
  obtain tx where w: "ps_world ?s = (int_bytes (- 1) @ int_bytes 1000000 @ rx, tx)"
    using assms by (cases "ps_world ?s") (simp add: demo_at_def Let_def)
  let ?p = "merge_max_buf 1000000 ((ps_prob ?s)\<lparr>pb_do_udt_only := - 1\<rparr>)"
  have bs: "bytes_ctrlmsg (int_bytes (- 1) @ int_bytes 1000000) = \<lparr>cm_do_udt_only = - 1, cm_host_max_buf = 1000000\<rparr>"
    by (simp add: bytes_ctrlmsg_def bytes_int_bytes)
  obtain tx' where run: "probdata_server_proc_ctrl_packet (demo_env []) ?s = Some (0, ?s\<lparr>ps_prob := ?p, ps_world := (rx, tx')\<rparr>)"
    using demo_recv_bytes [of 8 "?s\<lparr>ps_world := (int_bytes (- 1) @ int_bytes 1000000 @ rx, tx @ [byte_of P_TWOWAY_HANDSHAKE])\<rparr>" "[]"] bs
    by (simp add: server_proc_unfold st w probdata_ctrl_chan_ctrlmsg_exchange_def upd_prob_def
        probdata_ctrl_chan_ctrlmsg_exchange_srv_def)
  let ?T = "main_goes Polling (?s\<lparr>ps_prob := ?p, ps_world := (rx, tx')\<rparr>) S"
  have "main_next (demo_env []) S = Some ?T"
    using assms run by (simp add: main_next_def demo_at_def Let_def status_defs)
  then have "server_reaches (demo_env []) S ?T"
    using assms by (intro demo_main) (auto simp: waits_for_def started_def demo_at_def)
  moreover have "demo_at Polling rx th pend [P_TWOWAY_HANDSHAKE] ?T"
    using assms by (simp add: demo_at_def Let_def main_goes_def merge_max_buf_def)
  ultimately show ?thesis by (intro exI [of _ ?T]) (simp add: merge_max_buf_def Let_def)
qed

lemma demo_history:
  assumes "demo_at (Handling P_RUN_M2M_DB) rx th pend (ps @ [P_RUN_M2M_DB]) S"
  shows "\<exists>T. server_reaches (demo_env []) S T \<and> demo_at Polling rx th pend (ps @ [P_RUN_M2M_DB]) T \<and>
    pb_udt_worker (ps_prob (sv_state T)) = pb_udt_worker (ps_prob (sv_state S))"
proof -
  let ?s = "sv_state S"
  have st: "pb_status (ps_prob ?s) = P_RUN_M2M_DB" using demo_status [OF assms] .
  have run: "probdata_server_proc_ctrl_packet (demo_env []) ?s =
      Some (0, ?s\<lparr>ps_world := (fst (ps_world ?s), snd (ps_world ?s) @ [byte_of P_RUN_M2M_DB])\<rparr>)"
    by (simp add: server_proc_unfold st Let_def) (simp add: status_defs)
  let ?T = "main_goes Polling (?s\<lparr>ps_world := (fst (ps_world ?s), snd (ps_world ?s) @ [byte_of P_RUN_M2M_DB])\<rparr>) S"
  have "main_next (demo_env []) S = Some ?T"
    using assms run by (simp add: main_next_def demo_at_def Let_def) (simp add: status_defs)
  then have "server_reaches (demo_env []) S ?T"
    using assms by (intro demo_main) (auto simp: waits_for_def started_def demo_at_def)
  then show ?thesis using assms by (intro exI [of _ ?T]) (simp add: demo_at_def Let_def main_goes_def)
qed

text \<open>An answer in the middle of a packet.\<close>

lemma demo_answer:
  assumes "demo_at pc rx th pend ps S" "(pc, pc', p) \<in> {(AskedTcp, Polling, P_RUN_M2M_TCP), (AskedUdt, StartUdt, P_RUN_M2M_UDT)}"
  shows "\<exists>T. server_reaches (demo_env []) S T \<and> demo_at pc' rx th pend ps T \<and> (demo_tcp S \<longrightarrow> demo_tcp T) \<and>
    pb_udt_worker (ps_prob (sv_state T)) = pb_udt_worker (ps_prob (sv_state S))"
proof -
  let ?s = "sv_state S"
  let ?T = "main_goes pc' (?s\<lparr>ps_world := (fst (ps_world ?s), snd (ps_world ?s) @ [byte_of p])\<rparr>) S"
  have "main_next (demo_env []) S = Some ?T"
    using assms by (auto simp: main_next_def demo_at_def Let_def main_replies_def)
  then have "server_reaches (demo_env []) S ?T"
    using assms by (intro demo_main) (auto simp: waits_for_def started_def demo_at_def)
  then show ?thesis using assms by (intro exI [of _ ?T]) (simp add: demo_at_def Let_def main_goes_def demo_tcp_def)
qed

text \<open>The TCP worker is started, cancelled and joined.\<close>

lemma demo_start_tcp:
  assumes "demo_at (Handling P_RUN_M2M_TCP) rx Map.empty pend (ps @ [P_RUN_M2M_TCP]) S"
  shows "\<exists>T. server_reaches (demo_env []) S T \<and>
    demo_at AskedTcp rx [7 \<mapsto> TcpLoop 0] pend (ps @ [P_RUN_M2M_TCP]) T \<and> demo_tcp T \<and>
    pb_udt_worker (ps_prob (sv_state T)) = pb_udt_worker (ps_prob (sv_state S))"
proof -
  let ?s = "sv_state S"
  have mss: "fc_mss (pb_control (ps_prob ?s)) = 1500"
    and ip: "c_text (fc_remote_ip (pb_control (ps_prob ?s))) = Some (c_str (fc_remote_ip (pb_control (ps_prob ?s))))"
    using assms by (simp_all add: demo_at_def Let_def c_simps)
  have create: "e_thread_create (demo_env []) k w = (0, 7, w)" for k w by (simp add: demo_env_def)
  let ?q = "\<lparr>tcp_prof = 1, total_sent = 0, tp_perf_Mbps = - 1\<rparr>"
  let ?p = "(ps_prob ?s)\<lparr>pb_tcp_prof := Some ?q, pb_tcp_worker := Some 7\<rparr>"
  have "\<exists>h. probdata_server_tcp_fastprof_run (demo_env []) ?s = Some (0, ?s\<lparr>ps_prob := ?p, ps_heap := h\<rparr>) \<and>
      (\<exists>t. h 1 = Some t)"
    by (intro exI [of _ "(ps_heap ?s)(1 \<mapsto> demo_test\<lparr>it_mss := 1460, it_outfile := 1\<rparr>)"]) (simp add: probdata_server_tcp_fastprof_run_def probdata_server_tcp_prof_new_def f_tcp_prof_new_def
        probdata_server_tcp_prof_default_def f_tcp_prof_default_def probdata_server_tcp_prof_init_def
        f_tcp_prof_init_def iperf_set_def iperf_member_def c_int_def mss ip start_tcp_worker_def create upd_prob_def Let_def)
  then obtain h t where run: "probdata_server_tcp_fastprof_run (demo_env []) ?s =
      Some (0, ?s\<lparr>ps_prob := ?p, ps_heap := h\<rparr>)" and t: "h 1 = Some t" by blast
  define s where "s = ?s\<lparr>ps_prob := ?p, ps_heap := h\<rparr>"
  have s: "probdata_server_tcp_fastprof_run (demo_env []) ?s = Some (0, s)" "ps_world s = ps_world ?s" "ps_prob s = ?p"
    "ps_heap s = h" using run by (simp_all add: s_def)
  let ?T = "(main_goes AskedTcp s S)\<lparr>sv_threads := [7 \<mapsto> TcpLoop 0]\<rparr>"
  have "main_next (demo_env []) S = Some ?T"
    using assms s by (simp add: main_next_def demo_at_def Let_def main_starts_def)
  then have "server_reaches (demo_env []) S ?T"
    using assms by (intro reaches_main [OF _ _ _ server_reaches.start])
      (auto simp: main_ready_def waits_for_def fresh_thread_def started_def demo_at_def split: option.splits)
  then show ?thesis using assms s t
    by (intro exI [of _ ?T]) (simp add: demo_at_def Let_def main_goes_def demo_tcp_def)
qed

lemma reaches_worker:
  assumes "sv_threads S t = Some pc" "pc \<noteq> Ended" "worker_next E t pc S = Some T"
  shows "server_reaches E S T"
  using server_step.worker [OF assms(1,2), of E] assms(3) by (auto intro: server_reaches.intros)

lemma demo_clean:
  assumes "pb_tcp_prof (ps_prob s) = Some q" "ps_heap s (tcp_prof q) = Some t" "fc_mss (pb_control (ps_prob s)) = 1500"
    "terminated (fc_remote_ip (pb_control (ps_prob s)))"
  shows "\<exists>h. probdata_server_tcp_fastprof_cleanup_handler (demo_env []) s = Some (s\<lparr>ps_heap := h\<rparr>)"
  using assms
  by (simp add: probdata_server_tcp_fastprof_cleanup_handler_def probdata_server_tcp_prof_reset_def
      probdata_server_tcp_prof_delete_def f_tcp_prof_delete_def f_tcp_prof_reset_def f_tcp_prof_init_def
      iperf_set_def iperf_member_def c_int_def Let_def c_simps) blast

lemma demo_stop_tcp:
  assumes "demo_at (Handling P_RUN_M2M_UDT) rx [7 \<mapsto> TcpLoop 0] {} (ps @ [P_RUN_M2M_UDT]) S" "demo_tcp S"
  shows "\<exists>T. server_reaches (demo_env []) S T \<and> demo_at AskedUdt rx Map.empty {} (ps @ [P_RUN_M2M_UDT]) T \<and>
    pb_tcp_worker (ps_prob (sv_state T)) = Some 7 \<and>
    pb_udt_worker (ps_prob (sv_state T)) = pb_udt_worker (ps_prob (sv_state S))"
proof -
  let ?s = "sv_state S"
  obtain q t where q: "pb_tcp_prof (ps_prob ?s) = Some q" "ps_heap ?s (tcp_prof q) = Some t"
    "pb_tcp_worker (ps_prob ?s) = Some 7"
    using assms(2) by (auto simp: demo_tcp_def)
  have cancel: "snd (e_thread_cancel (demo_env []) u w) = w" for u w by (simp add: demo_env_def)
  let ?C = "(main_goes (JoinCancelled 7) ?s S)\<lparr>sv_pending := {7}\<rparr>"
  have "main_next (demo_env []) S = Some ?C"
    using assms(1) q(3) by (simp add: main_next_def demo_at_def Let_def cancel) (simp add: status_defs)
  then have 1: "server_reaches (demo_env []) S ?C"
    using assms(1) by (intro demo_main) (auto simp: waits_for_def started_def demo_at_def)
  let ?D = "put_worker 7 TcpCleaning ?s ?C"
  have 2: "server_reaches (demo_env []) ?C ?D"
    using assms(1) by (intro reaches_worker [of _ 7 "TcpLoop 0"]) (simp_all add: demo_at_def worker_next_def)
  obtain h where "probdata_server_tcp_fastprof_cleanup_handler (demo_env []) ?s = Some (?s\<lparr>ps_heap := h\<rparr>)"
    using demo_clean [OF q(1,2)] assms(1) by (auto simp: demo_at_def Let_def)
  then have 3: "server_reaches (demo_env []) ?D (put_worker 7 Ended (?s\<lparr>ps_heap := h\<rparr>) ?D)" (is "server_reaches _ _ ?F")
    by (intro reaches_worker [of _ 7 TcpCleaning]) (simp_all add: worker_next_def put_worker_def)
  let ?T = "(main_goes AskedUdt (?s\<lparr>ps_heap := h\<rparr>) ?F)\<lparr>sv_threads := (sv_threads ?F)(7 := None), sv_pending := {}\<rparr>"
  have "main_next (demo_env []) ?F = Some ?T"
    by (simp add: main_next_def main_joins_def put_worker_def main_goes_def)
  then have 4: "server_reaches (demo_env []) ?F ?T"
    by (intro reaches_main [OF _ _ _ server_reaches.start])
      (simp_all add: main_ready_def waits_for_def fresh_thread_def started_def put_worker_def main_goes_def)
  have "server_reaches (demo_env []) S ?T" by (rule server_reaches_trans [OF 4 server_reaches_trans [OF 3 server_reaches_trans [OF 2 1]]])
  then show ?thesis using assms(1) q(3)
    by (intro exI [of _ ?T]) (simp add: demo_at_def Let_def main_goes_def put_worker_def)
qed

text \<open>The UDT worker is started; at the end it leaves and is joined.\<close>

lemma demo_run_udt:
  assumes "demo_at StartUdt rx Map.empty pend ps S"
  shows "\<exists>T. server_reaches (demo_env []) S T \<and> demo_at Polling rx [7 \<mapsto> UdtLoop 0 0] pend ps T \<and>
    pb_tcp_worker (ps_prob (sv_state T)) = pb_tcp_worker (ps_prob (sv_state S)) \<and>
    pb_udt_worker (ps_prob (sv_state T)) = Some 7"
proof -
  let ?s = "sv_state S"
  obtain y where y: "c_copy_str (fc_remote_ip (pb_control (ps_prob ?s))) (''10.0.0.1'' @ replicate 56 NUL) = Some y"
    and y0: "terminated y"
    using demo_remote_copy assms by (auto simp: demo_at_def Let_def)
  then have len: "length y = 64"
    using assms by (auto simp: demo_at_def Let_def c_copy_str_def bind_eq_Some_conv c_memcpy_def c_store_def split: if_splits)
  have create: "e_thread_create (demo_env []) k w = (0, 7, w)" for k w by (simp add: demo_env_def)
  have ip: "pb_remote_ip (ps_prob ?s) = ''10.0.0.1'' @ replicate 56 NUL" using assms by (simp add: demo_at_def Let_def)
  have new: "f_udt_prof_new (demo_env []) w = (\<lparr>udt_prof = 2, up_perf_Mbps = None\<rparr>, w)" for w
    by (simp add: f_udt_prof_new_def demo_env_def)
  have "\<exists>q c. probdata_server_udt_fastprof_run (demo_env []) ?s = Some (0, ?s\<lparr>ps_prob := (ps_prob ?s)\<lparr>pb_udt_prof := q,
      pb_control := c, pb_udt_worker := Some 7\<rparr>\<rparr>) \<and> fc_remote_ip c = y \<and> fc_mss c = fc_mss (pb_control (ps_prob ?s))"
    using y [simplified] ip [simplified] y0 assms
    by (intro exI [of _ "Some \<lparr>udt_prof = 2, up_perf_Mbps = None\<rparr>"] exI [of _ "(pb_control (ps_prob ?s))
        \<lparr>fc_role := F_SERVER, fc_remote_ip := y, fc_udt_port := pb_udt_port (ps_prob ?s),
          fc_duration := pb_prof_duration (ps_prob ?s), fc_max_limit := pb_max_prof_limit (ps_prob ?s),
          fc_impeded_limit := pb_impeded_limit (ps_prob ?s), fc_pgr := pb_pgr (ps_prob ?s)\<rparr>"])
      (simp add: demo_at_def probdata_server_udt_fastprof_run_def probdata_server_udt_prof_new_def new
        probdata_server_udt_prof_default_def probdata_server_udt_prof_init_def start_udt_worker_def create
        Let_def case_prod_beta upd_prob_def)
  then obtain q c where run: "probdata_server_udt_fastprof_run (demo_env []) ?s = Some (0, ?s\<lparr>ps_prob :=
      (ps_prob ?s)\<lparr>pb_udt_prof := q, pb_control := c, pb_udt_worker := Some 7\<rparr>\<rparr>)"
    and c: "fc_remote_ip c = y" "fc_mss c = fc_mss (pb_control (ps_prob ?s))" by blast
  define s where "s = ?s\<lparr>ps_prob := (ps_prob ?s)\<lparr>pb_udt_prof := q, pb_control := c, pb_udt_worker := Some 7\<rparr>\<rparr>"
  have s: "probdata_server_udt_fastprof_run (demo_env []) ?s = Some (0, s)" "ps_world s = ps_world ?s"
    "ps_prob s = (ps_prob ?s)\<lparr>pb_udt_prof := q, pb_control := c, pb_udt_worker := Some 7\<rparr>"
    using run by (simp_all add: s_def)
  let ?T = "(main_goes Polling s S)\<lparr>sv_threads := [7 \<mapsto> UdtLoop 0 0]\<rparr>"
  have "main_next (demo_env []) S = Some ?T"
    using assms s by (simp add: main_next_def demo_at_def Let_def main_starts_def)
  then have "server_reaches (demo_env []) S ?T"
    using assms by (intro reaches_main [OF _ _ _ server_reaches.start])
      (auto simp: main_ready_def waits_for_def fresh_thread_def started_def demo_at_def split: option.splits)
  then show ?thesis using assms s c len y0
    by (intro exI [of _ ?T]) (simp add: demo_at_def Let_def main_goes_def)
qed

lemma demo_asked_done:
  assumes "demo_at (Handling P_PROGRAM_DONE) rx th pend (ps @ [P_PROGRAM_DONE]) S"
  shows "\<exists>T. server_reaches (demo_env []) S T \<and> demo_at JoinUdt rx th pend (ps @ [P_PROGRAM_DONE]) T \<and>
    sv_state T = sv_state S"
proof -
  let ?T = "main_goes JoinUdt (sv_state S) S"
  have "main_next (demo_env []) S = Some ?T"
    using assms by (simp add: main_next_def demo_at_def Let_def) (simp add: status_defs)
  then have "server_reaches (demo_env []) S ?T"
    using assms by (intro demo_main) (auto simp: waits_for_def started_def demo_at_def)
  then show ?thesis using assms by (intro exI [of _ ?T]) (simp add: demo_at_def Let_def main_goes_def)
qed

lemma demo_join_udt:
  assumes "demo_at JoinUdt rx [7 \<mapsto> UdtLoop 0 0] {} (ps @ [P_PROGRAM_DONE]) S"
    "pb_udt_worker (ps_prob (sv_state S)) = Some 7"
  shows "\<exists>T. server_reaches (demo_env []) S T \<and> demo_at JoinTcp rx Map.empty {} (ps @ [P_PROGRAM_DONE]) T"
proof -
  let ?W = "put_worker 7 Ended (sv_state S) S"
  have 1: "server_reaches (demo_env []) S ?W"
    using assms(1) demo_status [OF assms(1)]
    by (intro reaches_worker [of _ 7 "UdtLoop 0 0"])
      (simp_all add: demo_at_def worker_next_def udt_worker_body_def status_defs)
  let ?T = "(main_goes JoinTcp (sv_state S) ?W)\<lparr>sv_threads := (sv_threads ?W)(7 := None), sv_pending := {}\<rparr>"
  have "main_next (demo_env []) ?W = Some ?T"
    using assms by (simp add: main_next_def main_joins_def put_worker_def main_goes_def demo_at_def)
  then have 2: "server_reaches (demo_env []) ?W ?T"
    using assms by (intro reaches_main [OF _ _ _ server_reaches.start])
      (simp_all add: main_ready_def waits_for_def fresh_thread_def started_def put_worker_def demo_at_def)
  show ?thesis using server_reaches_trans [OF 2 1] assms(1)
    by (intro exI [of _ ?T]) (simp add: demo_at_def Let_def main_goes_def put_worker_def)
qed

text \<open>The whole session.\<close>

lemma demo_not_done:
  "\<not> server_done P_PROGRAM_START" "\<not> server_done P_TWOWAY_HANDSHAKE" "\<not> server_done P_RUN_M2M_DB"
  "\<not> server_done P_RUN_M2M_TCP" "\<not> server_done P_RUN_M2M_UDT"
  by (simp_all add: server_done_def status_defs)

lemma demo_byte_range:
  "- 128 \<le> P_TWOWAY_HANDSHAKE \<and> P_TWOWAY_HANDSHAKE \<le> 127" "- 128 \<le> P_RUN_M2M_DB \<and> P_RUN_M2M_DB \<le> 127"
  "- 128 \<le> P_RUN_M2M_TCP \<and> P_RUN_M2M_TCP \<le> 127" "- 128 \<le> P_RUN_M2M_UDT \<and> P_RUN_M2M_UDT \<le> 127"
  "- 128 \<le> P_PROGRAM_DONE \<and> P_PROGRAM_DONE \<le> 127"
  by (simp_all add: status_defs)

lemma demo_until_tcp:
  "\<exists>T. server_reaches (demo_env []) demo_server T \<and> demo_tcp T \<and>
    demo_at Polling (map byte_of [P_RUN_M2M_UDT, P_PROGRAM_DONE]) [7 \<mapsto> TcpLoop 0] {}
      [P_TWOWAY_HANDSHAKE, P_RUN_M2M_DB, P_RUN_M2M_TCP] T"
proof -
  let ?r3 = "map byte_of [P_RUN_M2M_UDT, P_PROGRAM_DONE]"
  let ?r2 = "byte_of P_RUN_M2M_TCP # ?r3" and ?E = "demo_env []"
  let ?r1 = "byte_of P_RUN_M2M_DB # ?r2"
  obtain T1 where 1: "server_reaches ?E demo_server T1"
    "demo_at (Handling P_TWOWAY_HANDSHAKE) (int_bytes (- 1) @ int_bytes 1000000 @ ?r1) Map.empty {} [P_TWOWAY_HANDSHAKE] T1"
    using demo_poll_next [of P_TWOWAY_HANDSHAKE "int_bytes (- 1) @ int_bytes 1000000 @ ?r1" Map.empty "{}" "[]" demo_server]
      demo_server_at(1) demo_not_done(1) demo_byte_range(1) by (auto simp: demo_session_def)
  obtain T2 where 2: "server_reaches ?E T1 T2" "demo_at Polling ?r1 Map.empty {} [P_TWOWAY_HANDSHAKE] T2"
    using demo_handshake [OF 1(2)] by blast
  obtain T3 where 3: "server_reaches ?E T2 T3"
    "demo_at (Handling P_RUN_M2M_DB) ?r2 Map.empty {} ([P_TWOWAY_HANDSHAKE] @ [P_RUN_M2M_DB]) T3"
    using demo_poll_next [OF 2(2)] demo_not_done(2) demo_byte_range(2) by auto
  obtain T4 where 4: "server_reaches ?E T3 T4" "demo_at Polling ?r2 Map.empty {} [P_TWOWAY_HANDSHAKE, P_RUN_M2M_DB] T4"
    using demo_history [OF 3(2)] by auto
  obtain T5 where 5: "server_reaches ?E T4 T5"
    "demo_at (Handling P_RUN_M2M_TCP) ?r3 Map.empty {} ([P_TWOWAY_HANDSHAKE, P_RUN_M2M_DB] @ [P_RUN_M2M_TCP]) T5"
    using demo_poll_next [OF 4(2)] demo_not_done(3) demo_byte_range(3) by auto
  obtain T6 where 6: "server_reaches ?E T5 T6" "demo_tcp T6"
    "demo_at AskedTcp ?r3 [7 \<mapsto> TcpLoop 0] {} ([P_TWOWAY_HANDSHAKE, P_RUN_M2M_DB] @ [P_RUN_M2M_TCP]) T6"
    using demo_start_tcp [OF 5(2)] by blast
  obtain T7 where 7: "server_reaches ?E T6 T7" "demo_tcp T7"
    "demo_at Polling ?r3 [7 \<mapsto> TcpLoop 0] {} ([P_TWOWAY_HANDSHAKE, P_RUN_M2M_DB] @ [P_RUN_M2M_TCP]) T7"
    using demo_answer [OF 6(3), of Polling P_RUN_M2M_TCP] 6(2) by auto
  have "server_reaches ?E demo_server T7"
    using server_reaches_trans [OF 7(1) server_reaches_trans [OF 6(1) server_reaches_trans [OF 5(1) server_reaches_trans [OF 4(1)
      server_reaches_trans [OF 3(1) server_reaches_trans [OF 2(1) 1(1)]]]]]] .
  then show ?thesis using 7(2,3) by auto
qed

lemma demo_course:
  "\<exists>A B C. server_reaches (demo_env []) demo_server A \<and> server_reaches (demo_env []) demo_server B \<and>
    server_reaches (demo_env []) demo_server C \<and>
    demo_at StartUdt [byte_of P_PROGRAM_DONE] Map.empty {} (butlast (requests MemToMem False)) A \<and>
    demo_at JoinUdt [] [7 \<mapsto> UdtLoop 0 0] {} (requests MemToMem False) B \<and>
    pb_udt_worker (ps_prob (sv_state B)) = Some 7 \<and>
    demo_at JoinTcp [] Map.empty {} (requests MemToMem False) C"
proof -
  let ?E = "demo_env []" and ?r = "[byte_of P_PROGRAM_DONE]"
  let ?ps = "[P_TWOWAY_HANDSHAKE, P_RUN_M2M_DB, P_RUN_M2M_TCP]"
  obtain T where T: "server_reaches ?E demo_server T" "demo_tcp T"
    "demo_at Polling (byte_of P_RUN_M2M_UDT # ?r) [7 \<mapsto> TcpLoop 0] {} ?ps T"
    using demo_until_tcp by auto
  obtain U where U: "server_reaches ?E T U" "demo_tcp U"
    "demo_at (Handling P_RUN_M2M_UDT) ?r [7 \<mapsto> TcpLoop 0] {} (?ps @ [P_RUN_M2M_UDT]) U"
    using demo_poll_next [OF T(3)] T(2) demo_not_done(4) demo_byte_range(4) by auto
  obtain V where V: "server_reaches ?E U V" "demo_at AskedUdt ?r Map.empty {} (?ps @ [P_RUN_M2M_UDT]) V"
    using demo_stop_tcp [OF U(3,2)] by blast
  obtain A where A: "server_reaches ?E V A" "demo_at StartUdt ?r Map.empty {} (?ps @ [P_RUN_M2M_UDT]) A"
    using demo_answer [OF V(2), of StartUdt P_RUN_M2M_UDT] by auto
  obtain X where X: "server_reaches ?E A X" "demo_at Polling ?r [7 \<mapsto> UdtLoop 0 0] {} (?ps @ [P_RUN_M2M_UDT]) X"
    "pb_udt_worker (ps_prob (sv_state X)) = Some 7"
    using demo_run_udt [OF A(2)] by blast
  obtain Y where Y: "server_reaches ?E X Y" "pb_udt_worker (ps_prob (sv_state Y)) = Some 7"
    "demo_at (Handling P_PROGRAM_DONE) [] [7 \<mapsto> UdtLoop 0 0] {} ((?ps @ [P_RUN_M2M_UDT]) @ [P_PROGRAM_DONE]) Y"
    using demo_poll_next [OF X(2)] X(3) demo_not_done(5) demo_byte_range(5) by auto
  obtain B where B: "server_reaches ?E Y B" "sv_state B = sv_state Y"
    "demo_at JoinUdt [] [7 \<mapsto> UdtLoop 0 0] {} ((?ps @ [P_RUN_M2M_UDT]) @ [P_PROGRAM_DONE]) B"
    using demo_asked_done [OF Y(3)] by blast
  obtain C where C: "server_reaches ?E B C" "demo_at JoinTcp [] Map.empty {} ((?ps @ [P_RUN_M2M_UDT]) @ [P_PROGRAM_DONE]) C"
    using demo_join_udt [OF B(3)] B(2) Y(2) by auto
  have rq: "requests MemToMem False = (?ps @ [P_RUN_M2M_UDT]) @ [P_PROGRAM_DONE]" by (simp add: request_defs)
  have rA: "server_reaches ?E demo_server A"
    using server_reaches_trans [OF A(1) server_reaches_trans [OF V(1) server_reaches_trans [OF U(1) T(1)]]] .
  have rB: "server_reaches ?E demo_server B"
    using server_reaches_trans [OF B(1) server_reaches_trans [OF Y(1) server_reaches_trans [OF X(1) rA]]] .
  have "demo_at StartUdt ?r Map.empty {} (butlast (requests MemToMem False)) A" using A(2) by (simp add: rq)
  moreover have "demo_at JoinUdt [] [7 \<mapsto> UdtLoop 0 0] {} (requests MemToMem False) B" using B(3) by (simp add: rq)
  moreover have "demo_at JoinTcp [] Map.empty {} (requests MemToMem False) C" using C(2) by (simp add: rq)
  ultimately show ?thesis using rA rB server_reaches_trans [OF C(1) rB] B(2) Y(2) by metis
qed

subsection \<open>The witnesses\<close>

lemma demo_at_sel:
  assumes "demo_at pc rx th pend ps S"
  shows "sv_main S = pc" "sv_threads S = th" "sv_pending S = pend" "sv_packets S = ps"
    "pb_do_udt_only (ps_prob (sv_state S)) = - 1"
  using assms by (simp_all add: demo_at_def Let_def)

lemma requests_tcp: "P_RUN_M2M_TCP \<in> set (requests MemToMem False)"
  by (simp add: request_defs)

theorem server_threads_refine_witness:
  "\<exists>T :: net server_sys. sv_main T = JoinTcp \<and> view_step\<^sup>*\<^sup>* (view demo_server) (view T)"
proof -
  obtain T where T: "server_reaches (demo_env []) demo_server T"
    "demo_at JoinTcp [] Map.empty {} (requests MemToMem False) T" using demo_course by blast
  from server_threads_refine [OF demo_server_at(2) T(1)] demo_at_sel(1) [OF T(2)] show ?thesis by blast
qed

theorem workers_exclusive_witness:
  "\<exists>T. server_reaches (demo_env []) demo_server T \<and> sv_main T = StartUdt \<and>
    P_RUN_M2M_TCP \<in> set (sv_packets T) \<and> sv_threads T = Map.empty"
proof -
  obtain T where T: "server_reaches (demo_env []) demo_server T"
    "demo_at StartUdt [byte_of P_PROGRAM_DONE] Map.empty {} (butlast (requests MemToMem False)) T"
    using demo_course by blast
  note sel = demo_at_sel [OF T(2)]
  have "prefix (sv_packets T) (requests MemToMem False)" by (simp add: sel(4) prefixeq_butlast)
  from workers_exclusive [OF demo_server_at(2) T(1) this] T(1) sel show ?thesis
    by (auto simp: request_defs)
qed

theorem tcp_worker_joined_twice_witness:
  "\<exists>T U V t. server_reaches (demo_env []) demo_server T \<and> sv_main T = JoinTcp \<and> waits_for T = Some t \<and>
    sv_threads T t = None \<and> server_reaches (demo_env []) demo_server U \<and> waits_for U = Some t \<and>
    server_step (demo_env []) U (Some V) \<and> sv_threads V t = None \<and> server_reaches (demo_env []) V T"
proof -
  obtain T where T: "server_reaches (demo_env []) demo_server T"
    "demo_at JoinTcp [] Map.empty {} (requests MemToMem False) T" using demo_course by blast
  note sel = demo_at_sel [OF T(2)]
  have "prefix (sv_packets T) (requests MemToMem False)" "P_RUN_M2M_TCP \<in> set (sv_packets T)"
    by (simp_all add: sel(4) requests_tcp)
  from tcp_worker_joined_twice [OF demo_server_at(2) T(1) this sel(1)] sel(5) obtain t U V where
    "waits_for T = Some t" "sv_threads T t = None" "server_reaches (demo_env []) demo_server U"
    "waits_for U = Some t" "server_step (demo_env []) U (Some V)" "sv_threads V t = None"
    "server_reaches (demo_env []) V T" by auto
  then show ?thesis using T(1) sel(1) by blast
qed

theorem udt_worker_joined_witness:
  "\<exists>T U. server_reaches (demo_env []) demo_server T \<and> sv_main T = JoinUdt \<and>
    sv_threads T 7 = Some (UdtLoop 0 0) \<and> server_reaches (demo_env []) T U \<and> sv_main U = JoinTcp \<and>
    sv_threads U 7 = None"
proof -
  obtain T where T: "server_reaches (demo_env []) demo_server T" "pb_udt_worker (ps_prob (sv_state T)) = Some 7"
    "demo_at JoinUdt [] [7 \<mapsto> UdtLoop 0 0] {} (requests MemToMem False) T" using demo_course by blast
  note sel = demo_at_sel [OF T(3)]
  have "prefix (sv_packets T) (requests MemToMem False)" by (simp add: sel(4))
  from udt_worker_joined [OF demo_server_at(2) T(1) this sel(1) T(2)] T(1) sel(1,2) show ?thesis by auto
qed

text \<open>
  In the session of the demonstration, the request for the UDT run: the TCP worker is in its
  loop, is cancelled, leaves through its clean-up handler and is joined.
\<close>

lemma demo_at_udt_request:
  "\<exists>S rx ps. server_reaches (demo_env []) demo_server S \<and> demo_tcp S \<and>
    demo_at (Handling P_RUN_M2M_UDT) rx [7 \<mapsto> TcpLoop 0] {} (ps @ [P_RUN_M2M_UDT]) S"
proof -
  obtain T where T: "server_reaches (demo_env []) demo_server T" "demo_tcp T"
    "demo_at Polling (byte_of P_RUN_M2M_UDT # [byte_of P_PROGRAM_DONE]) [7 \<mapsto> TcpLoop 0] {}
      [P_TWOWAY_HANDSHAKE, P_RUN_M2M_DB, P_RUN_M2M_TCP] T"
    using demo_until_tcp by auto
  obtain S where "server_reaches (demo_env []) T S" "demo_tcp S"
    "demo_at (Handling P_RUN_M2M_UDT) [byte_of P_PROGRAM_DONE] [7 \<mapsto> TcpLoop 0] {}
      ([P_TWOWAY_HANDSHAKE, P_RUN_M2M_DB, P_RUN_M2M_TCP] @ [P_RUN_M2M_UDT]) S"
    using demo_poll_next [OF T(3)] T(2) demo_not_done(4) demo_byte_range(4) by auto
  then show ?thesis using server_reaches_trans T(1) by blast
qed


end
