(* ===== verification/UdtSearch.thy ===== *)
theory UdtSearch
  imports FastprofUdt
begin

text \<open>
  The body of the loop of \<open>f_udt_client_run\<close> written out as the code has it, the
  measurement three times over with the variables of each copy, and its equivalence with the
  search of \<open>Spsa\<close> over the one probe \<open>f_udt_probe\<close>, which the other theories use.
\<close>

subsection \<open>Helpers of the profiler\<close>

definition f_udt_theta_to_val :: "dbl \<Rightarrow> dbl \<Rightarrow> dbl \<Rightarrow> dbl \<Rightarrow> dbl \<Rightarrow> dbl" where
  "f_udt_theta_to_val theta_min theta_max value_min value_max theta =
     (theta - theta_min) * (value_max - value_min) / (theta_max - theta_min) + value_min"

lemma f_udt_theta_to_val_eq: "f_udt_theta_to_val = spsa_theta_to_val"
  by (intro ext) (simp add: f_udt_theta_to_val_def spsa_theta_to_val_def)

definition f_udt_get_prof_name ::
    "'w env \<Rightarrow> int \<Rightarrow> int \<Rightarrow> int \<Rightarrow> string \<Rightarrow> 'w \<Rightarrow> (string \<times> 'w) option" where
  "f_udt_get_prof_name E no_imp_limit max_prof_limit perf_gain_ratio_int enable_disable w = do {
     let w = (if e_dir_exists E ''./udt_profile'' w then w else e_mkdir E ''./udt_profile'' w);
     let (t, w) = e_localtime E w;
     filename \<leftarrow> c_puts (replicate 128 NUL) (''./udt_profile/'' @
       show_int (tm_year t + 1900) @ show_0d 2 (tm_mon t + 1) @ show_0d 2 (tm_mday t) @ ''_'' @
       show_0d 2 (tm_hour t) @ show_0d 2 (tm_min t) @ show_0d 2 (tm_sec t) @ ''_'' @
       show_int (e_getpid E w) @ ''_'' @ show_int no_imp_limit @ ''-'' @
       show_int max_prof_limit @ ''-'' @ show_int perf_gain_ratio_int @ ''-'' @
       enable_disable @ ''.fpp'');
     Some (c_str filename, w)
   }"

lemma f_udt_get_prof_name_eq: "f_udt_get_prof_name E = spsa_get_prof_name E ''./udt_profile''"
  by (intro ext) (simp add: f_udt_get_prof_name_def spsa_get_prof_name_def)

subsection \<open>The three measurements\<close>

text \<open>The point at which the iteration ends: around the stepped theta, the third measurement.\<close>

definition f_udt_star :: "'w env \<Rightarrow> limits \<Rightarrow> 'w udt_run \<Rightarrow> 'w udt_run ctl option" where
  "f_udt_star E L s = do {
     let theta = r_theta s;
     let block_size = f_udt_theta_to_val F_ITERATIVE_MIN F_ITERATIVE_MAX
           (d_of_int F_BLK_MIN) (d_of_int F_BLK_MAX) (fst theta);
     let buffer_size = f_udt_theta_to_val F_ITERATIVE_MIN F_ITERATIVE_MAX
           (d_of_int (r_buf_size_min s)) (d_of_int (r_buf_size_max s)) (snd theta);
     let p = udt_prof (u_prof s);
     w \<leftarrow> f_udt_apply E p (u_block_unit s) (block_size, buffer_size) (r_world s);
     let (ret, w) = e_tpg_client_run E p w;
     if ret < 0 then Some (Return (- 1) (s\<lparr>r_world := w, r_f_errno := F_ERR_ERROR\<rparr>))
     else do {
       let perf_Mbps = e_tpg_get_client_perf E p w;
       let s = s\<lparr>r_world := w, u_prof := (u_prof s)\<lparr>up_perf_Mbps := Some perf_Mbps\<rparr>\<rparr>;
       let y_star_Gbps = perf_Mbps / Fin 1000;
       (ret, record, w) \<leftarrow> f_udt_m2m_record_compose E (u_prof s) (r_ctrl s) w;
       if ret < 0 then Some (Return 0 (s\<lparr>r_world := w\<rparr>))
       else do {
         (ret, w) \<leftarrow> f_udt_m2m_record_add E record (r_ctrl s) w;
         if ret < 0 then Some (Return 0 (s\<lparr>r_world := w\<rparr>))
         else do {
           profile_number \<leftarrow> c_int (r_profile_num s + 1);
           let visited_point = \<lparr>ut_blk_size = block_size, ut_buf_size = buffer_size,
                 ut_marker = CHR ''*'', ut_perf_Mbps = y_star_Gbps * Fin 1000, ut_run_or_not = 1\<rparr>;
           let s = s\<lparr>r_world := w, r_profile_num := profile_number,
                     u_visited_list := u_visited_list s @ [visited_point]\<rparr>;
           c \<leftarrow> (if y_star_Gbps > r_max_perf_Gbps s
             then (let s = s\<lparr>r_max_perf_Gbps := y_star_Gbps, r_max_theta := theta,
                             u_prof_max := Some (u_prof s), r_no_imp_counter := 0\<rparr>
                   in if r_max_perf_Gbps s / l_BW_Gbps L \<ge> l_perf_gain_ratio L
                      then Some (Break (s\<lparr>r_flag := 3\<rparr>)) else Some (Next s))
             else do {
               no_imp_counter \<leftarrow> c_int (r_no_imp_counter s + 1);
               Some (Next (s\<lparr>r_no_imp_counter := no_imp_counter\<rparr>))
             });
           ctl_then c (\<lambda>s. Some (Next (s\<lparr>r_theta := r_max_theta s\<rparr>)))
         }
       }
     }
   }"

text \<open>The measurement at theta minus, the gradient and the step.\<close>

definition f_udt_minus ::
    "'w env \<Rightarrow> limits \<Rightarrow> dbl \<Rightarrow> dbl \<times> dbl \<Rightarrow> points \<Rightarrow> dbl \<Rightarrow> 'w udt_run \<Rightarrow> 'w udt_run ctl option" where
  "f_udt_minus E L ak delta P y_plus_Gbps s = do {
     let theta_minus = p_theta_minus P;
     let block_size = f_udt_theta_to_val F_ITERATIVE_MIN F_ITERATIVE_MAX
           (d_of_int F_BLK_MIN) (d_of_int F_BLK_MAX) (fst theta_minus);
     let buffer_size = f_udt_theta_to_val F_ITERATIVE_MIN F_ITERATIVE_MAX
           (d_of_int (r_buf_size_min s)) (d_of_int (r_buf_size_max s)) (snd theta_minus);
     let p = udt_prof (u_prof s);
     w \<leftarrow> f_udt_apply E p (u_block_unit s) (block_size, buffer_size) (r_world s);
     let (ret, w) = e_tpg_client_run E p w;
     if ret < 0 then Some (Return (- 1) (s\<lparr>r_world := w, r_f_errno := F_ERR_ERROR\<rparr>))
     else do {
       let perf_Mbps = e_tpg_get_client_perf E p w;
       let s = s\<lparr>r_world := w, u_prof := (u_prof s)\<lparr>up_perf_Mbps := Some perf_Mbps\<rparr>\<rparr>;
       let y_minus_Gbps = perf_Mbps / Fin 1000;
       (ret, record, w) \<leftarrow> f_udt_m2m_record_compose E (u_prof s) (r_ctrl s) w;
       if ret < 0 then Some (Return 0 (s\<lparr>r_world := w\<rparr>))
       else do {
         (ret, w) \<leftarrow> f_udt_m2m_record_add E record (r_ctrl s) w;
         if ret < 0 then Some (Return 0 (s\<lparr>r_world := w\<rparr>))
         else do {
           profile_number \<leftarrow> c_int (r_profile_num s + 1);
           let visited_point = \<lparr>ut_blk_size = block_size, ut_buf_size = buffer_size,
                 ut_marker = CHR ''-'', ut_perf_Mbps = y_minus_Gbps * Fin 1000, ut_run_or_not = 1\<rparr>;
           let s = s\<lparr>r_world := w, r_profile_num := profile_number,
                     u_visited_list := u_visited_list s @ [visited_point]\<rparr>;
           c \<leftarrow> (if y_minus_Gbps > r_max_perf_Gbps s
             then (let s = s\<lparr>r_max_perf_Gbps := y_minus_Gbps, r_max_theta := theta_minus,
                             u_prof_max := Some (u_prof s), r_no_imp_counter := 0\<rparr>
                   in if r_max_perf_Gbps s / l_BW_Gbps L \<ge> l_perf_gain_ratio L
                      then Some (Break (s\<lparr>r_flag := 3\<rparr>)) else Some (Next s))
             else do {
               no_imp_counter \<leftarrow> c_int (r_no_imp_counter s + 1);
               Some (Next (s\<lparr>r_no_imp_counter := no_imp_counter\<rparr>))
             });
           ctl_then c (\<lambda>s.
             let ghat0 = (y_plus_Gbps - y_minus_Gbps) /
                   ((fst (p_ck_adjust_plus P) + fst (p_ck_adjust_minus P)) * fst delta);
                 ghat1 = (y_plus_Gbps - y_minus_Gbps) /
                   ((snd (p_ck_adjust_plus P) + snd (p_ck_adjust_minus P)) * snd delta);
                 theta0 = fst (r_theta s) + ak * ghat0;
                 theta1 = snd (r_theta s) + ak * ghat1;
                 theta0 = (if theta0 \<ge> F_ITERATIVE_MAX then F_ITERATIVE_MAX else theta0);
                 theta0 = (if theta0 \<le> F_ITERATIVE_MIN then F_ITERATIVE_MIN else theta0);
                 theta1 = (if theta1 \<ge> F_ITERATIVE_MAX then F_ITERATIVE_MAX else theta1);
                 theta1 = (if theta1 \<le> F_ITERATIVE_MIN then F_ITERATIVE_MIN else theta1)
             in f_udt_star E L (s\<lparr>r_theta := (theta0, theta1)\<rparr>))
         }
       }
     }
   }"

text \<open>The measurement at theta plus; this copy does not set \<open>f_errno\<close> when it fails.\<close>

definition f_udt_plus ::
    "'w env \<Rightarrow> limits \<Rightarrow> dbl \<Rightarrow> dbl \<times> dbl \<Rightarrow> points \<Rightarrow> 'w udt_run \<Rightarrow> 'w udt_run ctl option" where
  "f_udt_plus E L ak delta P s = do {
     let theta_plus = p_theta_plus P;
     let block_size = f_udt_theta_to_val F_ITERATIVE_MIN F_ITERATIVE_MAX
           (d_of_int F_BLK_MIN) (d_of_int F_BLK_MAX) (fst theta_plus);
     let buffer_size = f_udt_theta_to_val F_ITERATIVE_MIN F_ITERATIVE_MAX
           (d_of_int (r_buf_size_min s)) (d_of_int (r_buf_size_max s)) (snd theta_plus);
     let p = udt_prof (u_prof s);
     w \<leftarrow> f_udt_apply E p (u_block_unit s) (block_size, buffer_size) (r_world s);
     let (ret, w) = e_tpg_client_run E p w;
     if ret < 0 then Some (Return (- 1) (s\<lparr>r_world := w\<rparr>))
     else do {
       let perf_Mbps = e_tpg_get_client_perf E p w;
       let s = s\<lparr>r_world := w, u_prof := (u_prof s)\<lparr>up_perf_Mbps := Some perf_Mbps\<rparr>\<rparr>;
       let y_plus_Gbps = perf_Mbps / Fin 1000;
       (ret, record, w) \<leftarrow> f_udt_m2m_record_compose E (u_prof s) (r_ctrl s) w;
       if ret < 0 then Some (Return 0 (s\<lparr>r_world := w\<rparr>))
       else do {
         (ret, w) \<leftarrow> f_udt_m2m_record_add E record (r_ctrl s) w;
         if ret < 0 then Some (Return 0 (s\<lparr>r_world := w\<rparr>))
         else do {
           profile_number \<leftarrow> c_int (r_profile_num s + 1);
           let visited_point = \<lparr>ut_blk_size = block_size, ut_buf_size = buffer_size,
                 ut_marker = CHR ''+'', ut_perf_Mbps = y_plus_Gbps * Fin 1000, ut_run_or_not = 1\<rparr>;
           let s = s\<lparr>r_world := w, r_profile_num := profile_number,
                     u_visited_list := u_visited_list s @ [visited_point]\<rparr>;
           c \<leftarrow> (if y_plus_Gbps > r_max_perf_Gbps s
             then (let s = s\<lparr>r_max_perf_Gbps := y_plus_Gbps, r_max_theta := theta_plus,
                             u_prof_max := Some (u_prof s), r_no_imp_counter := 0\<rparr>
                   in if r_max_perf_Gbps s / l_BW_Gbps L \<ge> l_perf_gain_ratio L
                      then Some (Break (s\<lparr>r_flag := 3\<rparr>)) else Some (Next s))
             else do {
               no_imp_counter \<leftarrow> c_int (r_no_imp_counter s + 1);
               Some (Next (s\<lparr>r_no_imp_counter := no_imp_counter\<rparr>))
             });
           ctl_then c (f_udt_minus E L ak delta P y_plus_Gbps)
         }
       }
     }
   }"

definition f_udt_iter :: "'w env \<Rightarrow> limits \<Rightarrow> 'w udt_run \<Rightarrow> 'w udt_run ctl option" where
  "f_udt_iter E L s = ctl_then (spsa_checks L s) (\<lambda>s. do {
     (ak, delta, P, s) \<leftarrow> spsa_prepare E L s;
     f_udt_plus E L ak delta P s
   })"

subsection \<open>The copies are the probe\<close>

text \<open>
  A measurement followed by what comes after it, \<open>k\<close>, in the form the copies have: \<open>e\<close> is
  what \<open>f_errno\<close> is when the run fails.
\<close>

definition measured ::
    "'w env \<Rightarrow> limits \<Rightarrow> int \<Rightarrow> char \<Rightarrow> dbl \<times> dbl \<Rightarrow> (dbl \<Rightarrow> 'w udt_run \<Rightarrow> 'w udt_run ctl option) \<Rightarrow>
     'w udt_run \<Rightarrow> 'w udt_run ctl option" where
  "measured E L e marker theta k s = do {
     let vals = f_udt_settings s theta;
     let p = udt_prof (u_prof s);
     w \<leftarrow> f_udt_apply E p (u_block_unit s) vals (r_world s);
     let (ret, w) = e_tpg_client_run E p w;
     if ret < 0 then Some (Return (- 1) (s\<lparr>r_world := w, r_f_errno := e\<rparr>))
     else do {
       let perf_Mbps = e_tpg_get_client_perf E p w;
       let s = s\<lparr>r_world := w, u_prof := (u_prof s)\<lparr>up_perf_Mbps := Some perf_Mbps\<rparr>\<rparr>;
       let y_Gbps = perf_Mbps / Fin 1000;
       (ret, record, w) \<leftarrow> f_udt_m2m_record_compose E (u_prof s) (r_ctrl s) w;
       if ret < 0 then Some (Return 0 (s\<lparr>r_world := w\<rparr>))
       else do {
         (ret, w) \<leftarrow> f_udt_m2m_record_add E record (r_ctrl s) w;
         if ret < 0 then Some (Return 0 (s\<lparr>r_world := w\<rparr>))
         else do {
           profile_number \<leftarrow> c_int (r_profile_num s + 1);
           let s = s\<lparr>r_world := w, r_profile_num := profile_number,
                     u_visited_list := u_visited_list s @ [f_udt_visited vals marker y_Gbps]\<rparr>;
           c \<leftarrow> spsa_keep_best f_udt_save L y_Gbps theta s;
           ctl_then c (k y_Gbps)
         }
       }
     }
   }"

lemma probe_measured:
  "do {(y, c) \<leftarrow> f_udt_probe E L b marker theta s; ctl_then c (k y)} =
   measured E L (if b then F_ERR_ERROR else r_f_errno s) marker theta k s"
proof -
  let ?p = "udt_prof (u_prof s)" and ?vals = "f_udt_settings s theta"
  show ?thesis
  proof (cases "f_udt_apply E ?p (u_block_unit s) ?vals (r_world s)")
    case None
    then show ?thesis by (simp add: f_udt_probe_def f_udt_measure_def measured_def)
  next
    case (Some w)
    obtain ret w1 where run: "e_tpg_client_run E ?p w = (ret, w1)" by (cases "e_tpg_client_run E ?p w")
    show ?thesis
    proof (cases "ret < 0")
      case True
      then show ?thesis using Some run
        by (simp add: f_udt_probe_def f_udt_measure_def measured_def Let_def)
    next
      case False
      let ?perf = "e_tpg_get_client_perf E ?p w1"
      let ?s = "s\<lparr>r_world := w1, u_prof := (u_prof s)\<lparr>up_perf_Mbps := Some ?perf\<rparr>\<rparr>"
      have measure: "f_udt_measure E b ?vals s = Some (ret, ?s)"
        using Some run False by (simp add: f_udt_measure_def Let_def)
      show ?thesis
      proof (cases "f_udt_m2m_record_compose E (u_prof ?s) (r_ctrl s) w1")
        case None
        then show ?thesis using Some run False measure
          by (simp add: f_udt_probe_def f_udt_record_def measured_def Let_def)
      next
        fix x assume "f_udt_m2m_record_compose E (u_prof ?s) (r_ctrl s) w1 = Some x"
        then obtain r2 rcd w2 where
          compose: "f_udt_m2m_record_compose E (u_prof ?s) (r_ctrl s) w1 = Some (r2, rcd, w2)"
          by (cases x) auto
        show ?thesis
        proof (cases "f_udt_m2m_record_add E rcd (r_ctrl s) w2")
          case None
          then show ?thesis using Some run False measure compose
            by (simp add: f_udt_probe_def f_udt_record_def measured_def Let_def)
        next
          case (Some y)
          then show ?thesis using \<open>f_udt_apply E ?p (u_block_unit s) ?vals (r_world s) = Some w\<close>
              run False measure compose
            by (cases y) (simp add: f_udt_probe_def f_udt_record_def measured_def Let_def bind_assoc)
        qed
      qed
    qed
  qed
qed

lemmas measured_defs = measured_def f_udt_settings_def f_udt_visited_def spsa_keep_best_def f_udt_save_def
  f_udt_theta_to_val_eq Let_def fst_conv snd_conv

lemma f_udt_star_eq: "f_udt_star E L s = spsa_star (f_udt_probe E L) s"
  unfolding spsa_star_def probe_measured if_True f_udt_star_def measured_defs
  by (simp cong: if_cong prod.case_cong)

lemma f_udt_minus_eq:
  "f_udt_minus E L ak delta P y s = spsa_minus (f_udt_probe E L) ak delta P y s"
  unfolding spsa_minus_def probe_measured if_True f_udt_minus_def measured_defs f_udt_star_eq
    spsa_step_def spsa_ghat_def spsa_clip_step_def
  by (simp cong: if_cong prod.case_cong)

lemma f_udt_plus_eq:
  "f_udt_plus E L ak delta P s = spsa_plus (f_udt_probe E L) ak delta P s"
  unfolding spsa_plus_def probe_measured if_False f_udt_plus_def measured_defs f_udt_minus_eq
  by (simp cong: if_cong prod.case_cong)

text \<open>
  C23. The loop of the UDT profiler as the code has it, with its three copies of the
  measurement, does step by step what the search shared by both profilers does with the one
  probe, so the whole search and everything proved of it is about the code's text.
\<close>

theorem f_udt_loop_shared:
  "f_udt_iter E L = spsa_iter (f_udt_probe E L) E L \<and> run_loop (f_udt_iter E L) s = f_udt_search E L s"
proof -
  have "f_udt_iter E L = spsa_iter (f_udt_probe E L) E L"
    by (intro ext) (simp add: f_udt_iter_def spsa_iter_def f_udt_plus_eq)
  then show ?thesis by (simp add: f_udt_search_def)
qed

end
