(* ===== verification/EmulTable.thy ===== *)
theory EmulTable
  imports ProfileDb
begin

text \<open>
  \<open>emul_load_2d_tab\<close> of \<open>fastprof_udt.cpp\<close>: a table of performances read from a file, and
  what is in the table afterwards. A cell that was never written is \<open>None\<close>.
\<close>

subsection \<open>Reading the table\<close>

text \<open>
  \<open>fscanf\<close> with \<open>%lf\<close>: the value, if one was converted, and the rest of the stream. A text
  that begins like a number and is none is left outside the model (\<open>None\<close>), as the other
  corners of \<open>%lf\<close> are in \<open>scan_lf\<close>.
\<close>

definition fscanf_lf :: "string \<Rightarrow> (dbl option \<times> string) option" where
  "fscanf_lf s =
     (let s = skip_ws s
      in case scan_lf s of
           None \<Rightarrow> None
         | Some (Some (x, r)) \<Rightarrow> Some (Some x, r)
         | Some None \<Rightarrow> if s = [] \<or> hd s \<notin> set ''+-.iInN'' then Some (None, s) else None)"

text \<open>The inner loop and the outer one; a pointer outside the table is undefined.\<close>

fun emul_load_row :: "nat list \<Rightarrow> string \<Rightarrow> dbl option list \<Rightarrow> (string \<times> dbl option list) option" where
  "emul_load_row [] s t = Some (s, t)"
| "emul_load_row (j # js) s t =
     (if j < length t
      then do {
        (x, s) \<leftarrow> fscanf_lf s;
        emul_load_row js s (case x of None \<Rightarrow> t | Some _ \<Rightarrow> t[j := x])
      }
      else None)"

fun emul_load_rows ::
    "nat list \<Rightarrow> nat list \<Rightarrow> string \<Rightarrow> dbl option list list \<Rightarrow> (string \<times> dbl option list list) option" where
  "emul_load_rows [] js s T = Some (s, T)"
| "emul_load_rows (i # is) js s T =
     (if js = [] then emul_load_rows is js s T
      else if i < length T
      then do {
        (s, t) \<leftarrow> emul_load_row js s (T ! i);
        emul_load_rows is js s (T[i := t])
      }
      else None)"

definition emul_load_2d_tab ::
    "'w env \<Rightarrow> dbl option list list \<Rightarrow> int \<Rightarrow> int \<Rightarrow> int \<Rightarrow> 'w \<Rightarrow>
     (int \<times> dbl option list list \<times> int \<times> 'w) option" where
  "emul_load_2d_tab E two_d_table row col f_errno w = do {
     let (fp, w) = e_fopen E ''../conf/fastprof_2d_table.dat'' w;
     if fp = 0 then Some (- 1, two_d_table, F_ERR_FILE, w)
     else do {
       (_, two_d_table) \<leftarrow> emul_load_rows [0..<nat row] [0..<nat col] (e_fread_all E fp w) two_d_table;
       Some (0, two_d_table, f_errno, e_fclose E fp w)
     }
   }"

subsection \<open>The text of a table\<close>

text \<open>Numbers, each with the white space before it, and white space at the end.\<close>

fun numbers_text :: "(string \<times> dbl) list \<Rightarrow> string \<Rightarrow> string" where
  "numbers_text [] e = e"
| "numbers_text ((ws, x) # ys) e = ws @ show_lf x @ numbers_text ys e"

definition blanks :: "string \<Rightarrow> bool" where
  "blanks s \<longleftrightarrow> (\<forall>c \<in> set s. c_isspace c)"

definition separated :: "(string \<times> dbl) list \<Rightarrow> bool" where
  "separated ys \<longleftrightarrow> (\<forall>(ws, x) \<in> set ys. blanks ws) \<and> (\<forall>(ws, x) \<in> set (tl ys). ws \<noteq> [])"

lemma separated_Cons: "separated ((ws, x) # ys) \<Longrightarrow> blanks ws \<and> separated ys"
  by (cases ys) (auto simp: separated_def)

lemma numbers_text_stops: "separated ((ws, x) # ys) \<Longrightarrow> blanks e \<Longrightarrow> stops (numbers_text ys e)"
proof (cases ys)
  case Nil
  assume "blanks e"
  then show ?thesis using Nil by (cases e) (auto simp: stops_def blanks_def)
next
  case (Cons y zs)
  assume "separated ((ws, x) # ys)"
  moreover obtain v z where "y = (v, z)" by (cases y)
  ultimately show ?thesis using Cons by (cases v) (auto simp: stops_def separated_def blanks_def)
qed

lemma skip_ws_blanks: "blanks v \<Longrightarrow> skip_ws (v @ s) = skip_ws s"
  by (induction v) (auto simp: skip_ws_def blanks_def)

lemma skip_ws_all: "blanks v \<Longrightarrow> skip_ws v = []"
  by (simp add: skip_ws_def blanks_def)

text \<open>A number is read, and white space to the end of the file leaves nothing to read.\<close>

lemma fscanf_lf_Cons:
  assumes "separated ((ws, x) # ys)" "blanks e"
  shows "fscanf_lf (numbers_text ((ws, x) # ys) e) = Some (Some (lf6 x), numbers_text ys e)"
proof -
  let ?r = "numbers_text ys e"
  have "skip_ws (show_lf x @ ?r) = show_lf x @ ?r"
    using show_lf_hd [of x] by (simp add: skip_ws_word)
  then show ?thesis
    using separated_Cons [OF assms(1)] scan_lf_show_lf [OF numbers_text_stops [OF assms], of x]
    by (simp add: fscanf_lf_def skip_ws_blanks)
qed

lemma fscanf_lf_end:
  assumes "blanks e"
  shows "fscanf_lf e = Some (None, [])"
proof -
  have "scan_lf [] = Some None" by (simp add: scan_lf_def split_sign_def scan_fraction_def)
  then show ?thesis using skip_ws_all [OF assms] by (simp add: fscanf_lf_def)
qed

subsection \<open>What is in the table\<close>

text \<open>The cells are overwritten in the order of the rows as long as there are numbers.\<close>

definition read_cells :: "(string \<times> dbl) list \<Rightarrow> dbl option list" where
  "read_cells ys = map (\<lambda>(ws, x). Some (lf6 x)) ys"

fun table_with :: "(string \<times> dbl) list \<Rightarrow> dbl option list list \<Rightarrow> dbl option list list" where
  "table_with ys [] = []"
| "table_with ys (t # T) =
     (read_cells (take (length t) ys) @ drop (length ys) t) # table_with (drop (length t) ys) T"

lemma concat_table_with:
  "concat (table_with ys T) = read_cells (take (length (concat T)) ys) @ drop (length ys) (concat T)"
proof (induction ys T rule: table_with.induct)
  case (2 ys t T)
  show ?case
  proof (cases "length ys \<le> length t")
    case True
    then show ?thesis using 2 by (simp add: read_cells_def)
  next
    case False
    then have "take (length t + n) ys = take (length t) ys @ take n (drop (length t) ys)" for n
      by (simp add: take_add)
    then show ?thesis using 2 False by (simp add: read_cells_def)
  qed
qed (simp add: read_cells_def)

lemma lengths_table_with: "map length (table_with ys T) = map length T"
  by (induction ys T rule: table_with.induct) (auto simp: read_cells_def)

lemma emul_load_row_text:
  assumes "separated ys" "blanks e"
  shows "\<exists>e'. blanks e' \<and> emul_load_row [length a..<length a + length b] (numbers_text ys e) (a @ b) =
    Some (numbers_text (drop (length b) ys) e', a @ read_cells (take (length b) ys) @ drop (length ys) b)"
  using assms
proof (induction b arbitrary: a ys e)
  case Nil
  then show ?case by (auto simp: read_cells_def)
next
  case (Cons c b)
  have upt: "[length a..<length a + length (c # b)] = length a # [length (a @ [d])..<length (a @ [d]) + length b]" for d
    by (subst upt_conv_Cons) (simp_all del: upt_Suc)
  show ?case
  proof (cases ys)
    case Nil
    obtain e' where "blanks e'" "emul_load_row [length (a @ [c])..<length (a @ [c]) + length b]
        (numbers_text [] []) ((a @ [c]) @ b) = Some (numbers_text [] e', (a @ [c]) @ b)"
      using Cons.IH [of "[]" "[]" "a @ [c]"] by (auto simp: separated_def blanks_def read_cells_def)
    then show ?thesis
      unfolding upt [of c] using Nil fscanf_lf_end [OF Cons.prems(2)] by (auto simp: read_cells_def)
  next
    case (Cons y zs)
    obtain ws x where y: "y = (ws, x)" by (cases y)
    note sep = Cons.prems(1) [unfolded Cons y]
    let ?d = "Some (lf6 x)"
    obtain e' where "blanks e'" "emul_load_row [length (a @ [?d])..<length (a @ [?d]) + length b]
        (numbers_text zs e) ((a @ [?d]) @ b) = Some (numbers_text (drop (length b) zs) e',
          (a @ [?d]) @ read_cells (take (length b) zs) @ drop (length zs) b)"
      using Cons.IH [of zs e "a @ [?d]"] separated_Cons [OF sep] Cons.prems(2) by blast
    then show ?thesis
      unfolding upt [of ?d] Cons y using fscanf_lf_Cons [OF sep Cons.prems(2)]
      by (auto simp: read_cells_def simp del: numbers_text.simps)
  qed
qed

lemma separated_drop: "separated ys \<Longrightarrow> separated (drop n ys)"
proof (induction n arbitrary: ys)
  case (Suc n)
  then show ?case by (cases ys) (auto dest: separated_Cons)
qed simp

lemma emul_load_rows_text:
  assumes "separated ys" "blanks e" "\<forall>t \<in> set B. length t = n"
  shows "\<exists>s. emul_load_rows [length A..<length A + length B] [0..<n] (numbers_text ys e) (A @ B) =
    Some (s, A @ table_with ys B)"
  using assms
proof (induction B arbitrary: A ys e)
  case (Cons t B)
  have upt: "[length A..<length A + length (t # B)] = length A # [length (A @ [u])..<length (A @ [u]) + length B]" for u
    by (subst upt_conv_Cons) (simp_all del: upt_Suc)
  let ?u = "read_cells (take n ys) @ drop (length ys) t"
  have n: "length t = n" using Cons.prems by simp
  obtain e' where e': "blanks e'"
    "emul_load_row [0..<n] (numbers_text ys e) t = Some (numbers_text (drop n ys) e', ?u)"
    using emul_load_row_text [OF Cons.prems(1,2), of "[]" t] n by auto
  obtain s where s: "emul_load_rows [length (A @ [?u])..<length (A @ [?u]) + length B] [0..<n]
      (numbers_text (drop n ys) e') ((A @ [?u]) @ B) = Some (s, (A @ [?u]) @ table_with (drop n ys) B)"
    using Cons.IH [of "drop n ys" e' "A @ [?u]"] separated_drop [OF Cons.prems(1)] e'(1) Cons.prems(3) by auto
  show ?case
  proof (cases "n = 0")
    case True
    have "\<exists>s. emul_load_rows [length (A @ [t])..<length (A @ [t]) + length B] [0..<n]
        (numbers_text ys e) ((A @ [t]) @ B) = Some (s, (A @ [t]) @ table_with ys B)"
      using Cons.IH [of ys e "A @ [t]"] Cons.prems by auto
    then show ?thesis unfolding upt [of t] using True n by (auto simp: read_cells_def)
  next
    case False
    then show ?thesis unfolding upt [of ?u] using s e'(2) n by auto
  qed
qed simp

text \<open>
  The table after a call: the cells in the order of the rows have the numbers of the file,
  rounded to the six decimals they are written with; where the file has fewer numbers than the
  table has cells the rest is as it was, and the function returns 0 all the same.
\<close>

theorem emul_load_2d_tab_result:
  assumes "e_fopen E ''../conf/fastprof_2d_table.dat'' w = (fp, v)" "fp \<noteq> 0"
    and "e_fread_all E fp v = numbers_text ys e" "separated ys" "blanks e"
    and "map length T = replicate (nat row) (nat col)"
  shows "\<exists>T'. emul_load_2d_tab E T row col f_errno w = Some (0, T', f_errno, e_fclose E fp v) \<and>
    map length T' = map length T \<and>
    concat T' = read_cells (take (length (concat T)) ys) @ drop (length ys) (concat T)"
proof -
  have len: "length T = nat row" "\<forall>t \<in> set T. length t = nat col"
    using arg_cong [OF assms(6), of length] arg_cong [OF assms(6), of set] by (auto split: if_splits)
  obtain s where "emul_load_rows [0..<nat row] [0..<nat col] (numbers_text ys e) T = Some (s, table_with ys T)"
    using emul_load_rows_text [OF assms(4,5) len(2), of "[]"] len(1) by auto
  then show ?thesis
    using assms(1-3) by (auto simp: emul_load_2d_tab_def lengths_table_with concat_table_with)
qed

text \<open>Two numbers for a table of two by two: the second row stays as it was.\<close>

lemma emul_load_rows_short_file:
  "\<exists>s. emul_load_rows [0..<2] [0..<2] (numbers_text [([], x), ('' '', y)] []) [[c, d], [f, g]] =
     Some (s, [[Some (lf6 x), Some (lf6 y)], [f, g]])"
  using emul_load_rows_text [of "[([], x), ('' '', y)]" "[]" "[[c, d], [f, g]]" 2 "[]"]
  by (simp add: separated_def blanks_def c_isspace_def read_cells_def numeral_2_eq_2)

end
