(* ===== verification/Spec2Isabelle.thy ===== *)
theory Spec2Isabelle
  imports Witnesses SessionWitnesses SetupWitnesses LogWitnesses ThreadWitnesses UdtSearch EmulTable
begin

text \<open>
  ProbData: a verification development.

  ProbData (\<open>src/src/probdata\<close>) finds the settings with which data moves fastest between
  two hosts. A client and a server talk over a TCP control channel; over it the client
  leads the server through a sequence of phases. If the profile data base has a record for
  the pair of hosts its settings are used, otherwise both sides run FastProf
  (\<open>src/src/fastprof\<close>), which searches for the best settings of a TCP (iperf3) and of a
  UDT (TPG) transfer with stochastic approximation, and the client prints advice.

  \<^bold>\<open>The theories\<close>, in the order in which they build on each other:
  \<^item> \<open>Prelude\<close>: effects (\<open>option\<close> for undefined behaviour and for calls that never return),
    the 32-bit \<open>int\<close>, control flow in loops, \<open>run_loop\<close> and the locales
    \<open>decreasing_loop\<close> and \<open>terminating_loop\<close>, the contract of a loop with a variant;
    the locale \<open>simulation\<close>, the contract of a system that implements an abstract one.
  \<^item> \<open>Double\<close>: binary64 arithmetic, rounding to nearest even, comparisons, conversion to \<open>int\<close>.
  \<^item> \<open>CString\<close>, \<open>CScan\<close>: C character arrays with checked writes; \<open>sprintf\<close> and
    \<open>sscanf\<close> conversions and their round trips.
  \<^item> \<open>Env\<close>: the data of \<open>fastprof.h\<close>; the interface \<open>'w env\<close> of everything that is not in
    the repository (operating system, \<open>libm\<close>, \<open>libiperf\<close>, \<open>libtpg\<close>).
  \<^item> \<open>Status\<close>: protocol states, error numbers and their texts (\<open>probdata.h\<close>,
    \<open>probdata_error.*\<close>, \<open>fastprof_error.*\<close>).
  \<^item> \<open>Fastprof\<close>: helpers of \<open>fastprof.cpp\<close>: control block, random numbers, time, RTT estimate.
  \<^item> \<open>ProfileDb\<close>: the profile data base: record format, and \<open>f_m2m_db_search\<close>.
  \<^item> \<open>Spsa\<close>: the search both profilers share, with the measurement as a parameter whose
    contract is the locale \<open>spsa_probe\<close>; \<open>FastprofTcp\<close> and \<open>FastprofUdt\<close>
    (\<open>fastprof_tcp.cpp\<close>, \<open>fastprof_udt.cpp\<close>) interpret it on their own probes.
  \<^item> \<open>UdtSearch\<close>: the loop of \<open>f_udt_client_run\<close> a second time, with its three copies of the
    measurement as the code has them. \<open>EmulTable\<close>: the table of performances that
    \<open>emul_load_2d_tab\<close> reads; nothing in the repository calls it.
  \<^item> \<open>Probdata\<close>: the program's state \<open>struct probdata\<close>, defaults, setters, command line,
    unit suffixes (\<open>probdata.cpp\<close>).
  \<^item> \<open>Channel\<close>, \<open>Exchange\<close>: the control channel (\<open>probdata_control.cpp\<close>): reading and
    writing, sockets, messages, polling; what two connected parties agree on.
  \<^item> \<open>Client\<close>, \<open>Server\<close>: \<open>probdata_client.cpp\<close> and \<open>probdata_server.cpp\<close>: the packet
    handlers, the main loops, the worker threads, clean-up.
  \<^item> \<open>RecordTransfer\<close>: sending a record of the data base as its 236 bytes.
  \<^item> \<open>Session\<close>, \<open>Wire\<close>, \<open>Dialogue\<close>: the protocol as an abstract specification (which packet
    answers which); what the server's operations put on the wire (the contract \<open>sends\<close>) and what
    a poll takes from it; that the two handlers implement the protocol, and the state machine
    \<open>conv_step\<close> of a whole conversation with its course and its end. \<open>talk\<close> is the conversation of
    the two programs: each turn is a poll and a call of a handler, and the answer is the byte
    that the call transmitted. It refines \<open>conv_step\<close>.
  \<^item> \<open>MainLoop\<close>, \<open>Workers\<close>: the shape of both main loops as the locale \<open>control_loop\<close>, what the
    results of client and server say; how the worker threads start, run, stop and are joined.
  \<^item> \<open>ServerThreads\<close>: the main thread of the server and its workers as one transition system,
    with the meaning of starting, cancelling and joining a thread; \<open>ThreadProtocol\<close>: the abstract
    protocol of the threads that the system refines; \<open>WorkerPhases\<close>: its invariant and what
    follows for the sessions that keep to the course of \<open>Dialogue\<close>; \<open>ServerSchedules\<close>: the
    sequential handler of \<open>Server\<close> as a schedule of the system, in which a joined worker does
    what it still has to do (\<open>still_does\<close>).
  \<^item> \<open>History\<close>, \<open>Identify\<close>, \<open>Setup\<close>, \<open>Advice\<close>: properties of the data base, of the
    identification of a client, of defaults and command line, of what the user is told.
  \<^item> \<open>CommandLine\<close>: a reference definition of what the command line means, and that the search
    gets the settings it asks for.
  \<^item> \<open>Logging\<close>, \<open>Reports\<close>: the macros \<open>P_LOG\<close> and \<open>F_LOG\<close>, opening and closing of the logs,
    the threads that log (\<open>probdata_log.*\<close>, \<open>fastprof_log.*\<close>); the texts at the end of a run.
  \<^item> \<open>Usage\<close>: the usage texts and the table of long options (\<open>probdata.cpp\<close>).
  \<^item> \<open>Program\<close>: the main program (\<open>probdata_main.cpp\<close>) and its exit code.
  \<^item> \<open>Demo\<close>, \<open>DemoRun\<close>, \<open>Witnesses\<close>, \<open>SessionWitnesses\<close>, \<open>SetupWitnesses\<close>,
    \<open>LogWitnesses\<close>, \<open>ThreadWitnesses\<close>: a concrete environment, whole runs of both
    profilers, of the client and of the server in it, and each property with hypotheses
    applied to it.

  \<^bold>\<open>What the properties show.\<close> The search of both profilers returns within its limits, visits
  settings within their ranges only and keeps the best point it visited (\<open>FastprofTcp\<close>,
  \<open>FastprofUdt\<close>, \<open>Spsa\<close>), although the TCP report prints the settings of the last one. The
  parties agree on the exchanged parameters (\<open>Exchange\<close>); the handlers transmit
  what the protocol prescribes, their conversation follows its course and is finite, and the
  session does not change its link (\<open>Dialogue\<close>,
  \<open>MainLoop\<close>). There is at most one worker at a time, but in sessions with UDT only, and the UDT
  worker leaves when the session ends (\<open>WorkerPhases\<close>). At the end
  of a session with a TCP run the server joins its TCP worker a second time (which POSIX leaves
  undefined), or with UDT only one that nobody has cancelled. The workers by themselves end as stated in \<open>Workers\<close>. The literal
  loop of the UDT profiler is equivalent to the search of \<open>Spsa\<close>, and the accepted command
  line to its reference definition. Under the lock the logs hold whole messages in the order in which the
  lock was taken; the default build cannot lose the lock to a cancelled worker, a build that
  debugs can, and so could one that keeps a log if anything opened its file. The end of a run is
  undefined exactly where its report reads an address without a terminator, a best profile that
  was never set or whose object is gone, or a number that is indeterminate or out of range. The
  other theories state round trips of records, numbers and addresses, the invariant on the strings of the state
  and the arguments that break it, the acceptance of command lines, the choice of the recommendation and the exit code.

  \<^bold>\<open>How the model corresponds to the code.\<close> A C++ function is a HOL function of the same
  name; a \<open>struct\<close> is a record, an \<open>enum\<close> a datatype or the integers of its constants. The
  state is passed explicitly: \<open>'w pstate\<close> is the program's object together with the
  \<open>iperf_test\<close> objects (a heap from addresses, because the code copies pointers to them),
  the two error globals and the outside world \<open>'w\<close>. A failing call returns the code's \<open>-1\<close>;
  \<open>None\<close> is undefined behaviour, an uncaught exception, or a call that never returns.
  Blocks that the code repeats (the three probes of an iteration, the search in both
  profilers, the replies of the handlers) are one definition with the differences as
  parameters.

  \<^bold>\<open>Loops.\<close> Loops that may fail to end are \<open>run_loop\<close>; its result is \<open>None\<close> for a run
  that goes on forever, so every statement that a run returns includes termination. The
  variants: bytes still to be transferred for the socket loops, the characters left for the
  data base, and for the search the limits on measurements and on those without improvement.

  \<^bold>\<open>Threads.\<close> The model of a handler in \<open>Server\<close> is sequential: joining a thread is a call
  of the environment that may not return, and a worker is a function of its own, the TCP
  worker with the predicate that tells when a cancellation is pending, the UDT worker with a
  function for what the handler does to the shared state between two of its runs.
  \<open>ServerThreads\<close> interleaves the steps of the main thread and of the workers, which are made
  of the same functions, in any order; a step is what a thread does between two points where
  it can have to wait for another. A run of a library in a worker and the reset after it are
  one step, so what other threads do during a run is not interleaved with it, except that a
  cancelled TCP worker may leave a run in any state. The second join of a thread is \<open>None\<close>.
  Threads that log are
  interleaved by the step relation \<open>log_step\<close>, in any order and with cancellation at the
  output calls.

  \<^bold>\<open>Not modelled.\<close> The texts of the single log messages (they are arguments of \<open>P_LOG\<close> and
  \<open>F_LOG\<close>), and the calls of the macros in the models of the other functions, whose results
  do not depend on them in the default build; \<open>getopt_long\<close> (its results are the
  input of the parser); \<open>libiperf\<close>, \<open>libudt\<close> and \<open>libtpg\<close> themselves (vendored headers of
  prebuilt libraries; what the program calls of them are the parameters in \<open>Env\<close>).
\<close>

end
